(* ===== verification/Prelude.thy ===== *)
theory Prelude
  imports "HOL-Library.Code_Target_Numeral" Main "HOL-Library.AList" "HOL-Library.Sublist" "HOL-Library.Char_ord"
    "HOL-Library.List_Lexorder"
begin

text \<open>
  Shared vocabulary of the development: Go strings as byte lists with the operations of the
  packages \<open>strings\<close> and \<open>strconv\<close> that the code calls, Go maps with string keys as
  association lists, and the generic lemmas the component theories use. A Go string is a sequence
  of bytes and Isabelle's \<open>char\<close> is a byte, so \<open>length\<close> is Go's \<open>len\<close> and the
  ordering on strings (\<open>sort.Strings\<close>) is the bytewise lexicographic one.
\<close>

named_theorems gostr \<open>rewriting facts on Go strings and digits\<close>
named_theorems gomap \<open>rewriting facts on Go maps as association lists\<close>

type_synonym 'v gomap = "(string \<times> 'v) list"

section \<open>Characters and digits\<close>

definition byte_of :: "char \<Rightarrow> nat" where
  "byte_of c = of_char c"

definition is_digit :: "char \<Rightarrow> bool" where
  "is_digit c \<longleftrightarrow> 48 \<le> byte_of c \<and> byte_of c \<le> 57"

definition digit_val :: "char \<Rightarrow> nat" where
  "digit_val c = byte_of c - 48"

definition digit_char :: "nat \<Rightarrow> char" where
  "digit_char n = char_of (48 + n mod 10)"

lemma byte_of_digit_char [gostr]: "byte_of (digit_char n) = 48 + n mod 10"
proof -
  have "48 + n mod 10 < 256"
    by (rule less_trans [of _ "48 + 10"]) simp_all
  then show ?thesis
    by (simp add: byte_of_def digit_char_def)
qed

lemma is_digit_char [simp]: "is_digit (digit_char n)"
  by (simp add: is_digit_def gostr)

lemma digit_val_char [simp]: "digit_val (digit_char n) = n mod 10"
  by (simp add: digit_val_def gostr)

text \<open>\<open>pad k n\<close> is the \<open>k\<close>-digit decimal of \<open>n\<close> with leading zeros; \<open>num_of\<close> reads digits back.\<close>

fun pad :: "nat \<Rightarrow> nat \<Rightarrow> string" where
  "pad 0 n = []"
| "pad (Suc k) n = pad k (n div 10) @ [digit_char n]"

definition num_of :: "string \<Rightarrow> nat" where
  "num_of s = foldl (\<lambda>n c. 10 * n + digit_val c) 0 s"

lemma length_pad [simp]: "length (pad k n) = k"
  by (induction k arbitrary: n) auto

lemma pad_digits [simp]: "list_all is_digit (pad k n)"
  by (induction k arbitrary: n) auto

lemma num_of_snoc [simp]: "num_of (s @ [c]) = 10 * num_of s + digit_val c"
  by (simp add: num_of_def)

lemma num_of_Nil [simp]: "num_of [] = 0"
  by (simp add: num_of_def)

lemma num_of_pad: "n < 10 ^ k \<Longrightarrow> num_of (pad k n) = n"
proof (induction k arbitrary: n)
  case (Suc k)
  then have "n div 10 < 10 ^ k" by auto
  with Suc.IH show ?case by simp
qed simp

text \<open>\<open>strconv.Itoa\<close> / \<open>strconv.FormatInt(_, 10)\<close>.\<close>

fun utoa :: "nat \<Rightarrow> string" where
  "utoa n = (if n < 10 then [digit_char n] else utoa (n div 10) @ [digit_char n])"

declare utoa.simps [simp del]

definition itoa :: "int \<Rightarrow> string" where
  "itoa i = (if i < 0 then CHR ''-'' # utoa (nat (- i)) else utoa (nat i))"

lemma utoa_digits: "list_all is_digit (utoa n)"
proof (induction n rule: utoa.induct)
  case (1 n)
  then show ?case by (subst utoa.simps) auto
qed

lemma utoa_nonempty: "utoa n \<noteq> []"
  by (subst utoa.simps) simp

lemma num_of_utoa: "num_of (utoa n) = n"
proof (induction n rule: utoa.induct)
  case (1 n)
  show ?case
  proof (cases "n < 10")
    case True
    have "utoa n = [] @ [digit_char n]"
      using True by (subst utoa.simps) simp
    then show ?thesis using True by (simp only: num_of_snoc) simp
  next
    case False
    with 1 show ?thesis by (subst utoa.simps) simp
  qed
qed

text \<open>
  \<open>strconv.ParseInt(value, 10, 64)\<close> and \<open>strconv.Atoi\<close>: an optional sign, at least one
  digit, nothing else, and the value in the range of \<open>int64\<close>.
\<close>

definition int64_range :: "int \<Rightarrow> bool" where
  "int64_range i \<longleftrightarrow> - (2 ^ 63) \<le> i \<and> i < 2 ^ 63"

definition parse_digits :: "string \<Rightarrow> nat option" where
  "parse_digits s = (if s \<noteq> [] \<and> list_all is_digit s then Some (num_of s) else None)"

definition ParseInt :: "string \<Rightarrow> int option" where
  "ParseInt s =
     (let neg = (s \<noteq> [] \<and> hd s = CHR ''-'');
          body = (if s \<noteq> [] \<and> (hd s = CHR ''-'' \<or> hd s = CHR ''+'') then tl s else s)
      in case parse_digits body of
           None \<Rightarrow> None
         | Some n \<Rightarrow> (let v = (if neg then - int n else int n)
                      in if int64_range v then Some v else None))"

lemma ParseInt_itoa: "int64_range i \<Longrightarrow> ParseInt (itoa i) = Some i"
proof -
  assume r: "int64_range i"
  have d: "\<not> is_digit (CHR ''-'')" "\<not> is_digit (CHR ''+'')"
    by (simp_all add: is_digit_def byte_of_def)
  have p: "parse_digits (utoa n) = Some n" for n
    by (simp add: parse_digits_def utoa_digits utoa_nonempty num_of_utoa)
  have h: "hd (utoa n) \<noteq> CHR ''-''" "hd (utoa n) \<noteq> CHR ''+''" for n
  proof -
    have "is_digit (hd (utoa n))"
      using utoa_digits [of n] utoa_nonempty [of n] by (cases "utoa n") auto
    with d show "hd (utoa n) \<noteq> CHR ''-''" "hd (utoa n) \<noteq> CHR ''+''" by auto
  qed
  show ?thesis
    using r by (cases "i < 0") (simp_all add: ParseInt_def itoa_def p h utoa_nonempty Let_def)
qed

lemma ParseInt_range: "ParseInt s = Some i \<Longrightarrow> int64_range i"
  by (auto simp: ParseInt_def Let_def split: option.splits if_splits)

section \<open>The package strings\<close>

text \<open>Signed 64-bit arithmetic: the value an \<open>int64\<close> or a \<open>time.Duration\<close> keeps of a sum or product.\<close>

definition wrap64 :: "int \<Rightarrow> int" where
  "wrap64 n = (n + 2 ^ 63) mod 2 ^ 64 - 2 ^ 63"

lemma wrap64_id: "int64_range n \<Longrightarrow> wrap64 n = n"
  by (simp add: wrap64_def int64_range_def)

lemma wrap64_range: "int64_range (wrap64 n)"
  using pos_mod_bound [of "2 ^ 64 :: int" "n + 2 ^ 63"] by (simp add: wrap64_def int64_range_def)

text \<open>
  \<open>strings.TrimSpace\<close> removes leading and trailing Unicode white space. The byte encodings of
  the code points for which \<open>unicode.IsSpace\<close> holds are listed; a rune is dropped at the front
  when the string starts with its encoding, and at the end when it ends with it.
\<close>

definition space_runes :: "string list" where
  "space_runes =
     map (\<lambda>n. [char_of (n::nat)]) [9, 10, 11, 12, 13, 32]
     @ [[char_of (194::nat), char_of (133::nat)], [char_of (194::nat), char_of (160::nat)],
        [char_of (225::nat), char_of (154::nat), char_of (128::nat)]]
     @ map (\<lambda>n. [char_of (226::nat), char_of (128::nat), char_of (n::nat)])
         [128, 129, 130, 131, 132, 133, 134, 135, 136, 137, 138, 168, 169, 175]
     @ [[char_of (226::nat), char_of (129::nat), char_of (159::nat)],
        [char_of (227::nat), char_of (128::nat), char_of (128::nat)]]"

fun strip_prefix :: "string list \<Rightarrow> string \<Rightarrow> string option" where
  "strip_prefix [] s = None"
| "strip_prefix (r # rs) s = (if prefix r s then Some (drop (length r) s) else strip_prefix rs s)"

lemma strip_prefix_shorter:
  "strip_prefix rs s = Some s' \<Longrightarrow> [] \<notin> set rs \<Longrightarrow> length s' < length s"
proof (induction rs)
  case (Cons r rs)
  then show ?case
    by (cases r) (auto split: if_splits dest: prefix_length_le simp: diff_less_mono2)
qed simp

lemma space_runes_nonempty [simp]: "[] \<notin> set space_runes"
  by (simp add: space_runes_def)

function trim_with :: "string list \<Rightarrow> string \<Rightarrow> string" where
  "trim_with rs s =
     (if [] \<in> set rs then s
      else case strip_prefix rs s of None \<Rightarrow> s | Some s' \<Rightarrow> trim_with rs s')"
  by pat_completeness auto
termination
  by (relation "measure (\<lambda>(rs, s). length s)") (auto dest: strip_prefix_shorter)

declare trim_with.simps [simp del]

definition TrimSpace :: "string \<Rightarrow> string" where
  "TrimSpace s = rev (trim_with (map rev space_runes) (rev (trim_with space_runes s)))"

lemma trim_with_length: "length (trim_with rs s) \<le> length s"
proof (induction rs s rule: trim_with.induct)
  case (1 rs s)
  show ?case
  proof (cases "[] \<in> set rs \<or> strip_prefix rs s = None")
    case True
    then show ?thesis by (subst trim_with.simps) auto
  next
    case False
    then obtain s' where "[] \<notin> set rs" "strip_prefix rs s = Some s'" by auto
    then show ?thesis using 1 [of s'] strip_prefix_shorter [of rs s s'] by (subst trim_with.simps) simp
  qed
qed

lemma TrimSpace_length: "length (TrimSpace s) \<le> length s"
  using trim_with_length [of "map rev space_runes" "rev (trim_with space_runes s)"] trim_with_length [of space_runes s]
  by (simp add: TrimSpace_def)

text \<open>\<open>strings.TrimRight(s, cutset)\<close> for a cutset of ASCII characters.\<close>

definition TrimRight :: "string \<Rightarrow> string \<Rightarrow> string" where
  "TrimRight s cutset = rev (dropWhile (\<lambda>c. c \<in> set cutset) (rev s))"

text \<open>
  \<open>strings.ToLower\<close>: the ASCII letters, and the two runes outside ASCII whose lower case is an
  ASCII letter (the Kelvin sign and the dotted capital I). Every other byte of a non-ASCII rune is
  kept, since the lower case of such a rune is again outside ASCII: what the code does with the
  result is to search it for, or compare it with, ASCII text.
\<close>

definition lower_char :: "char \<Rightarrow> char" where
  "lower_char c = (if 65 \<le> byte_of c \<and> byte_of c \<le> 90 then char_of (byte_of c + 32) else c)"

fun ToLower :: "string \<Rightarrow> string" where
  "ToLower [] = []"
| "ToLower (a # s) =
     (if byte_of a = 196 \<and> take 1 s = [char_of (176::nat)] then CHR ''i'' # ToLower (drop 1 s)
      else if byte_of a = 226 \<and> take 2 s = [char_of (132::nat), char_of (170::nat)]
           then CHR ''k'' # ToLower (drop 2 s)
      else lower_char a # ToLower s)"

text \<open>
  \<open>strings.EqualFold\<close>, which compares under simple case folding: an ASCII letter folds with its other
  case, \<open>s\<close> also with the long s (U+017F) and \<open>k\<close> with the Kelvin sign (U+212A), while the dotted capital I
  folds with no other rune. The other bytes of non-ASCII runes are kept: wherever the code folds, one of the
  two texts is ASCII.
\<close>

fun fold_case :: "string \<Rightarrow> string" where
  "fold_case [] = []"
| "fold_case (a # s) =
     (if byte_of a = 197 \<and> take 1 s = [char_of (191::nat)] then CHR ''s'' # fold_case (drop 1 s)
      else if byte_of a = 226 \<and> take 2 s = [char_of (132::nat), char_of (170::nat)]
           then CHR ''k'' # fold_case (drop 2 s)
      else lower_char a # fold_case s)"

definition EqualFold :: "string \<Rightarrow> string \<Rightarrow> bool" where
  "EqualFold s t \<longleftrightarrow> fold_case s = fold_case t"

text \<open>\<open>strings.Contains(s, p)\<close>, \<open>strings.HasPrefix\<close> and \<open>strings.ContainsAny\<close>.\<close>

fun Contains :: "string \<Rightarrow> string \<Rightarrow> bool" where
  "Contains [] p = (p = [])"
| "Contains (c # s) p = (prefix p (c # s) \<or> Contains s p)"

lemma Contains_sublist: "Contains s p \<longleftrightarrow> sublist p s"
  by (induction s) (auto simp: sublist_Cons_right)

definition HasPrefix :: "string \<Rightarrow> string \<Rightarrow> bool" where
  "HasPrefix s p \<longleftrightarrow> prefix p s"

definition TrimPrefix :: "string \<Rightarrow> string \<Rightarrow> string" where
  "TrimPrefix s p = (if prefix p s then drop (length p) s else s)"

definition ContainsAny :: "string \<Rightarrow> string \<Rightarrow> bool" where
  "ContainsAny s chars \<longleftrightarrow> list_ex (\<lambda>c. c \<in> set chars) s"

text \<open>\<open>strings.Cut(s, sep)\<close> for a separator of one byte: the parts around the first one.\<close>

definition Cut :: "string \<Rightarrow> char \<Rightarrow> string \<times> string \<times> bool" where
  "Cut s c = (takeWhile (\<lambda>x. x \<noteq> c) s, tl (dropWhile (\<lambda>x. x \<noteq> c) s), c \<in> set s)"

lemma Cut_join: "c \<notin> set a \<Longrightarrow> Cut (a @ c # b) c = (a, b, True)"
  by (induction a) (auto simp: Cut_def)

section \<open>Go maps with string keys\<close>

text \<open>
  A \<open>map[string]T\<close> is an association list with distinct keys (\<open>AList.update\<close> writes,
  \<open>AList.delete\<close> is the builtin \<open>delete\<close>, \<open>map_of\<close> reads). Where the code ranges over
  a map its result never depends on the order, or the keys are sorted first.
\<close>

definition wf_map :: "'v gomap \<Rightarrow> bool" where
  "wf_map m \<longleftrightarrow> distinct (map fst m)"

definition sorted_keys :: "'v gomap \<Rightarrow> string list" where
  "sorted_keys m = sort (map fst m)"

lemma wf_map_Nil [simp]: "wf_map []"
  by (simp add: wf_map_def)

lemma wf_map_update [simp, intro]: "wf_map m \<Longrightarrow> wf_map (AList.update k v m)"
  by (simp add: wf_map_def distinct_update)

lemma wf_map_delete [simp, intro]: "wf_map m \<Longrightarrow> wf_map (AList.delete k m)"
  by (simp add: wf_map_def distinct_delete)

lemma map_of_update [gomap]: "map_of (AList.update k v m) k' = (if k' = k then Some v else map_of m k')"
  by (simp add: update_conv')

lemma map_of_delete [gomap]: "map_of (AList.delete k m) k' = (if k' = k then None else map_of m k')"
  by (simp add: delete_conv')

lemma wf_map_map_snd [simp]: "wf_map (map (\<lambda>(k, v). (k, f k v)) m) \<longleftrightarrow> wf_map m"
proof -
  have "map fst (map (\<lambda>(k, v). (k, f k v)) m) = map fst m"
    by (induction m) auto
  then show ?thesis by (simp only: wf_map_def)
qed

lemma map_of_map_snd: "map_of (map (\<lambda>(k, v). (k, f k v)) m) k = map_option (f k) (map_of m k)"
  by (induction m) auto

lemma map_of_SomeI: "wf_map m \<Longrightarrow> (k, v) \<in> set m \<Longrightarrow> map_of m k = Some v"
  by (simp add: wf_map_def)

section \<open>Tables\<close>

text \<open>
  A table is a list of rows. \<open>upd_rows\<close> is an \<open>UPDATE \<dots> WHERE\<close>, \<open>find\<close> a
  \<open>SELECT\<close> of one row by a key that the schema declares unique.
\<close>

definition upd_rows :: "('r \<Rightarrow> bool) \<Rightarrow> ('r \<Rightarrow> 'r) \<Rightarrow> 'r list \<Rightarrow> 'r list" where
  "upd_rows p f rs = map (\<lambda>r. if p r then f r else r) rs"

lemma length_upd_rows [simp]: "length (upd_rows p f rs) = length rs"
  by (simp add: upd_rows_def)

lemma set_upd_rows: "r \<in> set (upd_rows p f rs) \<longleftrightarrow> (\<exists>r0 \<in> set rs. r = (if p r0 then f r0 else r0))"
  by (auto simp: upd_rows_def)

lemma map_upd_rows [simp]: "(\<And>r. g (f r) = g r) \<Longrightarrow> map g (upd_rows p f rs) = map g rs"
  by (simp add: upd_rows_def)

lemma find_upd_rows_other:
  assumes "\<And>r. p r \<Longrightarrow> \<not> q r" and "\<And>r. p r \<Longrightarrow> \<not> q (f r)"
  shows "find q (upd_rows p f rs) = find q rs"
  using assms by (induction rs) (auto simp: upd_rows_def)

lemma find_upd_rows_same:
  assumes "\<And>r. p r \<Longrightarrow> q (f r) = q r" and "find q rs = Some r" and "p r"
  shows "find q (upd_rows p f rs) = Some (f r)"
  using assms by (induction rs) (auto simp: upd_rows_def split: if_splits)

lemma filter_upd_rows_other:
  assumes "\<And>r. p r \<Longrightarrow> \<not> q r" and "\<And>r. p r \<Longrightarrow> \<not> q (f r)"
  shows "filter q (upd_rows p f rs) = filter q rs"
  using assms by (induction rs) (auto simp: upd_rows_def)

lemma find_append: "find p (xs @ ys) = (case find p xs of None \<Rightarrow> find p ys | Some x \<Rightarrow> Some x)"
  by (induction xs) auto

lemma find_SomeD: "find p xs = Some x \<Longrightarrow> x \<in> set xs \<and> p x"
  by (metis find_Some_iff nth_mem)

end
