(* ===== verification/GoTime.thy ===== *)
theory GoTime
  imports Prelude
begin

text \<open>
  Instants of \<open>time.Time\<close> as integers (nanoseconds since 1970-01-01T00:00:00 UTC), the text
  form \<open>parallelRunISOString\<close> writes into the worker-state documents and the parser
  \<open>time.Parse(time.RFC3339Nano, _)\<close> that reads it back. The main result is the round trip: a
  timestamp of a four-digit year is read back truncated to the microsecond.
\<close>

named_theorems gotime \<open>facts on the calendar and the timestamp codec\<close>

type_synonym instant = int

abbreviation nanosecond :: int where "nanosecond \<equiv> 1"
abbreviation microsecond :: int where "microsecond \<equiv> 1000"
abbreviation second :: int where "second \<equiv> 1000000000"
abbreviation minute :: int where "minute \<equiv> 60000000000"
abbreviation hour :: int where "hour \<equiv> 3600000000000"
abbreviation day_ns :: int where "day_ns \<equiv> 86400000000000"

section \<open>The proleptic Gregorian calendar\<close>

definition leap :: "int \<Rightarrow> bool" where
  "leap y \<longleftrightarrow> y mod 4 = 0 \<and> (y mod 100 \<noteq> 0 \<or> y mod 400 = 0)"

definition month_lengths :: "bool \<Rightarrow> int list" where
  "month_lengths l = [31, if l then 29 else 28, 31, 30, 31, 30, 31, 31, 30, 31, 30, 31]"

text \<open>Days from 0001-01-01 to the first of January of a year.\<close>

definition days_before_year :: "int \<Rightarrow> int" where
  "days_before_year y = (let p = y - 1 in 365 * p + p div 4 - p div 100 + p div 400)"

text \<open>Year and day of the year of a day count: 400-, 100-, 4- and 1-year cycles.\<close>

definition year_yday :: "int \<Rightarrow> int \<times> int" where
  "year_yday d =
     (let n400 = d div 146097; d1 = d mod 146097;
          n100 = min (d1 div 36524) 3; d2 = d1 - n100 * 36524;
          n4 = d2 div 1461; d3 = d2 mod 1461;
          n1 = min (d3 div 365) 3
      in (400 * n400 + 100 * n100 + 4 * n4 + n1 + 1, d3 - 365 * n1))"

fun split_month :: "int \<Rightarrow> int \<Rightarrow> int list \<Rightarrow> int \<times> int" where
  "split_month m yd [] = (m, yd + 1)"
| "split_month m yd (l # ls) = (if yd < l then (m, yd + 1) else split_month (m + 1) (yd - l) ls)"

definition unix_day_offset :: int where
  "unix_day_offset = 719162"

definition civil :: "int \<Rightarrow> int \<times> int \<times> int" where
  "civil days = (let (y, yd) = year_yday (days + unix_day_offset);
                     (m, d) = split_month 1 yd (month_lengths (leap y)) in (y, m, d))"

definition days_of :: "int \<Rightarrow> int \<Rightarrow> int \<Rightarrow> int" where
  "days_of y m d = days_before_year y
     + sum_list (take (nat (m - 1)) (month_lengths (leap y))) + (d - 1) - unix_day_offset"

lemma min_div_bounds:
  fixes x k :: int
  assumes "n = min (x div k) 3" "0 \<le> x" "0 < k" "x \<le> 4 * k"
  shows "0 \<le> n" "n \<le> 3" "n * k \<le> x" "x \<le> n * k + k" "n < 3 \<Longrightarrow> x < n * k + k"
proof -
  define q r where "q = x div k" and "r = x mod k"
  have x: "x = q * k + r" by (simp add: q_def r_def)
  have r: "0 \<le> r" "r < k" using assms by (simp_all add: r_def)
  have q: "0 \<le> q" using assms by (simp add: q_def pos_imp_zdiv_nonneg_iff)
  have n: "n = min q 3" using assms by (simp add: q_def)
  show "0 \<le> n" "n \<le> 3" using n q by auto
  have "n = q \<or> (n = 3 \<and> 3 \<le> q)" using n by auto
  then show "n * k \<le> x" "x \<le> n * k + k" "n < 3 \<Longrightarrow> x < n * k + k"
    using x r assms mult_right_mono [of 3 q k] by (auto simp: add_increasing2)
qed

lemma cycle_bounds:
  fixes d :: int
  assumes d1: "d1 = d mod 146097" and n100: "n100 = min (d1 div 36524) 3"
    and d2: "d2 = d1 - n100 * 36524" and n4: "n4 = d2 div 1461" and d3: "d3 = d2 mod 1461"
    and n1: "n1 = min (d3 div 365) 3"
  shows "0 \<le> n100 \<and> n100 \<le> 3" "0 \<le> n4 \<and> n4 \<le> 24" "0 \<le> n1 \<and> n1 \<le> 3"
    "0 \<le> d3 - 365 * n1 \<and> d3 - 365 * n1 \<le> 365"
    "d3 - 365 * n1 = 365 \<Longrightarrow> n1 = 3 \<and> (n4 < 24 \<or> n100 = 3)"
    "d = 146097 * (d div 146097) + 36524 * n100 + 1461 * n4 + d3"
proof -
  have b1: "0 \<le> d1" "d1 < 146097" using d1 by simp_all
  have b100: "0 \<le> n100" "n100 \<le> 3" "n100 * 36524 \<le> d1" "n100 < 3 \<Longrightarrow> d1 < n100 * 36524 + 36524"
    using min_div_bounds [OF n100] b1 by simp_all
  then show a: "0 \<le> n100 \<and> n100 \<le> 3" by simp
  have b2: "0 \<le> d2" "d2 \<le> 36524" "n100 < 3 \<Longrightarrow> d2 < 36524"
    using b1 b100 d2 by linarith+
  have b4: "d2 = 1461 * n4 + d3" "0 \<le> d3" "d3 < 1461"
    unfolding n4 d3 by simp_all
  show b: "0 \<le> n4 \<and> n4 \<le> 24" using b4 b2 by linarith
  have e: "0 \<le> n1" "n1 \<le> 3" "365 * n1 \<le> d3" "d3 \<le> 365 * n1 + 365" "n1 < 3 \<Longrightarrow> d3 < 365 * n1 + 365"
    using min_div_bounds [OF n1] b4 by simp_all
  then show "0 \<le> n1 \<and> n1 \<le> 3" "0 \<le> d3 - 365 * n1 \<and> d3 - 365 * n1 \<le> 365" by simp_all
  show "n1 = 3 \<and> (n4 < 24 \<or> n100 = 3)" if "d3 - 365 * n1 = 365"
  proof -
    have "n1 = 3" using that e by linarith
    then show ?thesis using that b4 b2 a b by linarith
  qed
  show "d = 146097 * (d div 146097) + 36524 * n100 + 1461 * n4 + d3"
    using b4(1) d2 d1 mult_div_mod_eq [of 146097 d] by linarith
qed

lemma year_yday_cycles:
  assumes "year_yday d = (y, yd)"
  obtains b c e where "y = 400 * (d div 146097) + 100 * b + 4 * c + e + 1"
    "0 \<le> b" "b \<le> 3" "0 \<le> c" "c \<le> 24" "0 \<le> e" "e \<le> 3" "0 \<le> yd" "yd \<le> 365"
    "yd = 365 \<Longrightarrow> e = 3 \<and> (c < 24 \<or> b = 3)"
    "d = 146097 * (d div 146097) + 36524 * b + 1461 * c + 365 * e + yd"
proof -
  define d1 where "d1 = d mod 146097"
  define b where "b = min (d1 div 36524) 3"
  define d2 where "d2 = d1 - b * 36524"
  define c where "c = d2 div 1461"
  define d3 where "d3 = d2 mod 1461"
  define e where "e = min (d3 div 365) 3"
  have "year_yday d = (400 * (d div 146097) + 100 * b + 4 * c + e + 1, d3 - 365 * e)"
    unfolding year_yday_def Let_def e_def d3_def c_def d2_def b_def d1_def by (rule refl)
  then have y: "y = 400 * (d div 146097) + 100 * b + 4 * c + e + 1" and yd: "yd = d3 - 365 * e"
    using assms by simp_all
  note cb = cycle_bounds [OF d1_def b_def d2_def c_def d3_def e_def]
  show thesis
    by (rule that [OF y]) (use cb yd in simp_all)
qed

lemma year_yday_days: "year_yday d = (y, yd) \<Longrightarrow> days_before_year y + yd = d"
proof (elim year_yday_cycles)
  fix b c e
  assume y: "y = 400 * (d div 146097) + 100 * b + 4 * c + e + 1"
    and bnd: "0 \<le> b" "b \<le> 3" "0 \<le> c" "c \<le> 24" "0 \<le> e" "e \<le> 3"
    and dd: "d = 146097 * (d div 146097) + 36524 * b + 1461 * c + 365 * e + yd"
  define a where "a = d div 146097"
  let ?p = "400 * a + 100 * b + 4 * c + e"
  have q: "?p div 4 = 100 * a + 25 * b + c" "?p div 100 = 4 * a + b" "?p div 400 = a"
    using int_div_pos_eq [of ?p 4 "100 * a + 25 * b + c" e]
      int_div_pos_eq [of ?p 100 "4 * a + b" "4 * c + e"]
      int_div_pos_eq [of ?p 400 a "100 * b + 4 * c + e"] bnd by linarith+
  have p: "y - 1 = ?p" using y by (simp add: a_def)
  show "days_before_year y + yd = d"
    unfolding days_before_year_def Let_def p q using dd by (simp add: a_def)
qed

lemma year_yday_bounds:
  assumes "year_yday d = (y, yd)"
  shows "0 \<le> yd \<and> yd < (if leap y then 366 else 365)"
  using assms
proof (elim year_yday_cycles)
  fix b c e
  assume y: "y = 400 * (d div 146097) + 100 * b + 4 * c + e + 1"
    and bnd: "0 \<le> b" "b \<le> 3" "0 \<le> c" "c \<le> 24" "0 \<le> e" "e \<le> 3"
    and ydb: "0 \<le> yd" "yd \<le> 365" and full: "yd = 365 \<Longrightarrow> e = 3 \<and> (c < 24 \<or> b = 3)"
  have "leap y" if "yd = 365"
  proof -
    have e: "e = 3" and cb: "c < 24 \<or> b = 3" using full that by auto
    obtain a where yr: "y = 400 * a + 100 * b + 4 * c + 4" using y e by simp
    have "y mod 4 = 0" unfolding yr by simp
    moreover have "y mod 100 \<noteq> 0 \<or> y mod 400 = 0"
    proof (cases "c < 24")
      case True
      have "y mod 100 = 4 * c + 4"
        using int_mod_pos_eq [of y 100 "4 * a + b" "4 * c + 4"] yr True bnd by simp
      then show ?thesis using bnd by simp
    next
      case False
      then have "b = 3" "c = 24" using cb bnd by auto
      then have "y mod 400 = 0" unfolding yr by simp
      then show ?thesis by simp
    qed
    ultimately show ?thesis by (simp add: leap_def)
  qed
  then show "0 \<le> yd \<and> yd < (if leap y then 366 else 365)"
    using ydb by (cases "yd = 365") auto
qed

lemma split_month_days:
  assumes "split_month m yd ls = (m', d)" and "0 \<le> yd" and "\<forall>l \<in> set ls. 0 < l"
    and "yd < sum_list ls"
  shows "m \<le> m' \<and> m' < m + int (length ls) \<and> 1 \<le> d \<and> d \<le> ls ! nat (m' - m)
    \<and> sum_list (take (nat (m' - m)) ls) + (d - 1) = yd"
  using assms
proof (induction m yd ls rule: split_month.induct)
  case (2 m yd l ls)
  show ?case
  proof (cases "yd < l")
    case True
    with "2.prems" show ?thesis by auto
  next
    case False
    with "2.prems" have r: "m + 1 \<le> m'" "m' < m + 1 + int (length ls)" "1 \<le> d"
      "d \<le> ls ! nat (m' - (m + 1))"
      "sum_list (take (nat (m' - (m + 1))) ls) + (d - 1) = yd - l"
      using "2.IH" by auto
    have n: "nat (m' - m) = Suc (nat (m' - (m + 1)))" using r(1) by linarith
    show ?thesis using r by (simp add: n)
  qed
qed simp

lemma month_lengths_pos: "\<forall>l \<in> set (month_lengths b). 0 < l"
  by (simp add: month_lengths_def)

lemma month_lengths_sum: "sum_list (month_lengths b) = (if b then 366 else 365)"
  by (simp add: month_lengths_def)

lemma civil_props:
  assumes "civil days = (y, m, d)"
  shows "1 \<le> m" "m \<le> 12" "1 \<le> d" "d \<le> month_lengths (leap y) ! nat (m - 1)" "days_of y m d = days"
proof -
  obtain yd where y: "year_yday (days + unix_day_offset) = (y, yd)"
    and sm: "split_month 1 yd (month_lengths (leap y)) = (m, d)"
    using assms by (auto simp: civil_def split: prod.splits)
  have len: "length (month_lengths (leap y)) = 12" by (simp add: month_lengths_def)
  have "yd < sum_list (month_lengths (leap y))"
    using year_yday_bounds [OF y] by (simp add: month_lengths_sum)
  note s = split_month_days [OF sm conjunct1 [OF year_yday_bounds [OF y]] month_lengths_pos this]
  show "1 \<le> m" "m \<le> 12" "1 \<le> d" "d \<le> month_lengths (leap y) ! nat (m - 1)"
    using s len by auto
  show "days_of y m d = days"
    using s year_yday_days [OF y] by (simp add: days_of_def)
qed

section \<open>Formatting\<close>

text \<open>
  \<open>value.UTC().Format("2006-01-02T15:04:05.000000Z")\<close>: the date and time of day in UTC
  with six digits of fraction, the rest of the fraction cut off.
\<close>

definition year_text :: "int \<Rightarrow> string" where
  "year_text y = (if y < 0 then CHR ''-'' # pad 4 (nat (- y))
                  else if y < 10000 then pad 4 (nat y) else utoa (nat y))"

definition parallelRunISOString :: "instant \<Rightarrow> string" where
  "parallelRunISOString t =
     (let (y, m, d) = civil (t div day_ns); r = t mod day_ns; p2 = (\<lambda>n. pad 2 (nat n))
      in year_text y @ ''-'' @ p2 m @ ''-'' @ p2 d @ ''T'' @ p2 (r div hour) @ '':''
         @ p2 (r mod hour div minute) @ '':'' @ p2 (r mod minute div second) @ ''.''
         @ pad 6 (nat (r mod second div microsecond)) @ ''Z'')"

section \<open>Parsing\<close>

text \<open>
  \<open>time.Parse(time.RFC3339Nano, s)\<close>: fields of fixed width except the hour, which may have
  one digit; an optional fraction after a period or a comma, of which nine digits count; \<open>Z\<close>
  or an offset of at most 24 hours and 60 minutes; every field in its range.
\<close>

definition take_num :: "nat \<Rightarrow> string \<Rightarrow> (int \<times> string) option" where
  "take_num k s = (if k \<le> length s \<and> list_all is_digit (take k s)
                   then Some (int (num_of (take k s)), drop k s) else None)"

definition take_hour :: "string \<Rightarrow> (int \<times> string) option" where
  "take_hour s = (case take_num 2 s of Some r \<Rightarrow> Some r | None \<Rightarrow> take_num 1 s)"

definition expect :: "char \<Rightarrow> string \<Rightarrow> string option" where
  "expect c s = (case s of [] \<Rightarrow> None | x # xs \<Rightarrow> if x = c then Some xs else None)"

definition take_frac :: "string \<Rightarrow> int \<times> string" where
  "take_frac s =
     (case s of
        c # ds \<Rightarrow>
          (let digs = takeWhile is_digit ds; k = take 9 digs
           in if (c = CHR ''.'' \<or> c = CHR '','') \<and> digs \<noteq> []
              then (int (num_of k) * 10 ^ (9 - length k), dropWhile is_digit ds)
              else (0, s))
      | [] \<Rightarrow> (0, s))"

definition parse_zone :: "string \<Rightarrow> int option" where
  "parse_zone s =
     (case s of
        [] \<Rightarrow> None
      | c # r \<Rightarrow>
          if c = CHR ''Z'' then (if r = [] then Some 0 else None)
          else if c = CHR ''+'' \<or> c = CHR ''-'' then
            Option.bind (take_num 2 r) (\<lambda>(h, r1).
            Option.bind (expect (CHR '':'') r1) (\<lambda>r2.
            Option.bind (take_num 2 r2) (\<lambda>(m, r3).
              if r3 = [] \<and> h \<le> 24 \<and> m \<le> 60
              then Some ((if c = CHR ''-'' then - 1 else 1) * (h * hour + m * minute)) else None)))
          else None)"

definition instant_of :: "int \<Rightarrow> int \<Rightarrow> int \<Rightarrow> int \<Rightarrow> int \<Rightarrow> int \<Rightarrow> int \<Rightarrow> int \<Rightarrow> instant option" where
  "instant_of y mo d h mi sec ns zone =
     (if 1 \<le> mo \<and> mo \<le> 12 \<and> 1 \<le> d \<and> d \<le> month_lengths (leap y) ! nat (mo - 1)
         \<and> h < 24 \<and> mi < 60 \<and> sec < 60
      then Some (days_of y mo d * day_ns + h * hour + mi * minute + sec * second + ns - zone)
      else None)"

definition ParseRFC3339Nano :: "string \<Rightarrow> instant option" where
  "ParseRFC3339Nano s =
     Option.bind (take_num 4 s) (\<lambda>(y, s1).
     Option.bind (expect (CHR ''-'') s1) (\<lambda>s2.
     Option.bind (take_num 2 s2) (\<lambda>(mo, s3).
     Option.bind (expect (CHR ''-'') s3) (\<lambda>s4.
     Option.bind (take_num 2 s4) (\<lambda>(d, s5).
     Option.bind (expect (CHR ''T'') s5) (\<lambda>s6.
     Option.bind (take_hour s6) (\<lambda>(h, s7).
     Option.bind (expect (CHR '':'') s7) (\<lambda>s8.
     Option.bind (take_num 2 s8) (\<lambda>(mi, s9).
     Option.bind (expect (CHR '':'') s9) (\<lambda>s10.
     Option.bind (take_num 2 s10) (\<lambda>(sec, s11).
     (let (ns, s12) = take_frac s11
      in Option.bind (parse_zone s12) (\<lambda>zone. instant_of y mo d h mi sec ns zone)))))))))))))"

lemma take_num_pad [gotime]: "n < 10 ^ k \<Longrightarrow> take_num k (pad k n @ s) = Some (int n, s)"
  by (simp add: take_num_def num_of_pad)

lemma take_hour_pad [gotime]: "n < 100 \<Longrightarrow> take_hour (pad 2 n @ s) = Some (int n, s)"
  by (simp add: take_hour_def take_num_pad)

lemma expect_Cons [gotime]: "expect c (c # s) = Some s"
  by (simp add: expect_def)

lemma takeWhile_pad: "\<not> is_digit c \<Longrightarrow> takeWhile is_digit (pad k n @ c # s) = pad k n"
  "\<not> is_digit c \<Longrightarrow> dropWhile is_digit (pad k n @ c # s) = c # s"
  using pad_digits [of k n]
  by (simp_all add: list_all_iff)

lemma take_frac_pad [gotime]:
  "n < 10 ^ 6 \<Longrightarrow> take_frac (CHR ''.'' # pad 6 n @ ''Z'') = (int n * 1000, ''Z'')"
proof -
  assume n: "n < 10 ^ 6"
  have z: "\<not> is_digit (CHR ''Z'')" by (simp add: is_digit_def byte_of_def)
  have "pad 6 n \<noteq> []" by (metis length_pad list.size(3) zero_neq_numeral)
  then show ?thesis
    using n by (simp add: take_frac_def takeWhile_pad [OF z] num_of_pad Let_def)
qed

lemma parse_zone_Z [gotime]: "parse_zone ''Z'' = Some 0"
  by (simp add: parse_zone_def)

definition four_digit_year :: "instant \<Rightarrow> bool" where
  "four_digit_year t \<longleftrightarrow> (let y = fst (civil (t div day_ns)) in 0 \<le> y \<and> y < 10000)"

definition trunc_us :: "instant \<Rightarrow> instant" where
  "trunc_us t = t - t mod microsecond"

lemma div_bound:
  fixes x k :: int
  assumes "0 \<le> x" "x < n * k" "0 < k"
  shows "0 \<le> x div k \<and> x div k < n"
proof -
  have "x div k * k \<le> x" using assms(3) div_mult_mod_eq [of x k] pos_mod_sign [of k x] by linarith
  then have "x div k * k < n * k" using assms(2) by linarith
  then have "x div k < n" using assms(3) by (simp add: mult_less_cancel_right_pos)
  then show ?thesis using assms by (simp add: pos_imp_zdiv_nonneg_iff)
qed

lemma nested_parts:
  fixes t :: int
  shows "t = a + r \<Longrightarrow> r = b + s \<Longrightarrow> s = c + u \<Longrightarrow> u = d + v \<Longrightarrow> v = e + w \<Longrightarrow> a + b + c + d + e = t - w"
  by simp

lemma day_parts:
  fixes t :: int
  defines "r \<equiv> t mod day_ns"
  shows "r div hour < 24" "0 \<le> r div hour" "r mod hour div minute < 60" "0 \<le> r mod hour div minute"
    "r mod minute div second < 60" "0 \<le> r mod minute div second"
    "0 \<le> r mod second div microsecond" "r mod second div microsecond < 1000000"
    "t div day_ns * day_ns + r div hour * hour + r mod hour div minute * minute
      + r mod minute div second * second + r mod second div microsecond * 1000 = trunc_us t"
proof -
  have r: "0 \<le> r" "r < day_ns" by (simp_all add: r_def)
  show "r div hour < 24" "0 \<le> r div hour" "r mod hour div minute < 60" "0 \<le> r mod hour div minute"
    "r mod minute div second < 60" "0 \<le> r mod minute div second"
    "0 \<le> r mod second div microsecond" "r mod second div microsecond < 1000000"
    using div_bound [of r 24 hour] div_bound [of "r mod hour" 60 minute]
      div_bound [of "r mod minute" 60 second] div_bound [of "r mod second" 1000000 microsecond] r
    by simp_all
  have m: "r mod hour mod minute = r mod minute" "r mod minute mod second = r mod second"
    "r mod second mod microsecond = t mod microsecond"
    by (simp_all add: mod_mod_cancel r_def)
  have d: "x = x div k * k + x mod k" for x k :: int by simp
  show "t div day_ns * day_ns + r div hour * hour + r mod hour div minute * minute
      + r mod minute div second * second + r mod second div microsecond * 1000 = trunc_us t"
    unfolding trunc_us_def
    by (rule nested_parts [OF d [of t day_ns, folded r_def] d [of r hour]
          d [of "r mod hour" minute, unfolded m] d [of "r mod minute" second, unfolded m]
          d [of "r mod second" microsecond, unfolded m]])
qed

lemma month_lengths_le: "i < 12 \<Longrightarrow> month_lengths b ! i \<le> 31"
proof -
  assume "i < 12"
  then have "month_lengths b ! i \<in> set (month_lengths b)"
    by (intro nth_mem) (simp add: month_lengths_def)
  then show ?thesis by (auto simp: month_lengths_def split: if_splits)
qed

lemma ParseRFC3339Nano_fields:
  assumes "y < 10 ^ 4" "mo < 10 ^ 2" "d < 10 ^ 2" "h < 100" "mi < 10 ^ 2" "sec < 10 ^ 2" "us < 10 ^ 6"
  shows "ParseRFC3339Nano (pad 4 y @ ''-'' @ pad 2 mo @ ''-'' @ pad 2 d @ ''T'' @ pad 2 h @ '':''
           @ pad 2 mi @ '':'' @ pad 2 sec @ ''.'' @ pad 6 us @ ''Z'')
         = instant_of (int y) (int mo) (int d) (int h) (int mi) (int sec) (int us * 1000) 0"
  using assms by (simp add: ParseRFC3339Nano_def gotime)

text \<open>The codec's round trip: what was written is read back to the microsecond.\<close>

lemma ParseRFC3339Nano_ISO:
  assumes "four_digit_year t"
  shows "ParseRFC3339Nano (parallelRunISOString t) = Some (trunc_us t)"
proof -
  obtain y m d where c: "civil (t div day_ns) = (y, m, d)" by (metis prod_cases3)
  have y: "0 \<le> y" "y < 10000" using assms c by (simp_all add: four_digit_year_def)
  note cp = civil_props [OF c]
  have "month_lengths (leap y) ! nat (m - 1) \<le> 31"
    using cp(1,2) month_lengths_le [of "nat (m - 1)" "leap y"] by simp
  then have d: "d \<le> 31" using cp(4) by linarith
  have nats: "nat y < 10 ^ 4" "nat m < 10 ^ 2" "nat d < 10 ^ 2"
    using y cp(1-3) d by auto
  have yt: "year_text y = pad 4 (nat y)" using y by (simp add: year_text_def)
  define r where "r = t mod day_ns"
  define h where "h = r div hour"
  define mi where "mi = r mod hour div minute"
  define sec where "sec = r mod minute div second"
  define us where "us = r mod second div microsecond"
  note dp = day_parts [of t, folded r_def, folded h_def mi_def sec_def us_def]
  have iso: "parallelRunISOString t = pad 4 (nat y) @ ''-'' @ pad 2 (nat m) @ ''-'' @ pad 2 (nat d) @ ''T''
      @ pad 2 (nat h) @ '':'' @ pad 2 (nat mi) @ '':'' @ pad 2 (nat sec) @ ''.'' @ pad 6 (nat us) @ ''Z''"
    unfolding parallelRunISOString_def c h_def mi_def sec_def us_def r_def Let_def
    by (simp only: yt prod.case)
  have ints: "int (nat y) = y" "int (nat m) = m" "int (nat d) = d" "int (nat h) = h"
    "int (nat mi) = mi" "int (nat sec) = sec" "int (nat us) = us"
    using dp(2,4,6,7) y cp(1,3) by simp_all
  have "nat h < 100" "nat mi < 10 ^ 2" "nat sec < 10 ^ 2" "nat us < 10 ^ 6"
    using dp(1,3,5,8) by simp_all
  note f = ParseRFC3339Nano_fields [OF nats this, folded iso, unfolded ints]
  have "instant_of y m d h mi sec (us * 1000) 0 = Some (trunc_us t)"
    using cp dp(1,3,5) unfolding instant_of_def dp(9) [symmetric] by simp
  then show ?thesis by (simp only: f)
qed

lemma trunc_us_le: "trunc_us t \<le> t" and trunc_us_gt: "t - microsecond < trunc_us t"
  using pos_mod_bound [of microsecond t] pos_mod_sign [of microsecond t]
  by (simp_all add: trunc_us_def)

lemma trunc_us_add_seconds: "trunc_us (t + n * second) = trunc_us t + n * second"
proof -
  have "(t + n * second) mod microsecond = t mod microsecond"
    using mod_mult_self1 [of t "n * 1000000" microsecond] by (simp add: mult.commute)
  then show ?thesis by (simp add: trunc_us_def)
qed

end
