(* ===== verification/Json.thy ===== *)
theory Json
  imports Prelude
begin

text \<open>
  Values of \<open>encoding/json\<close> decoded into \<open>any\<close>, paths into them, and the two routines that
  keep credentials out of stored documents: \<open>auditlog.Redact\<close> (internal/auditlog/redact.go) and
  \<open>removeSensitiveMetadata\<close> (internal/browserauth/parallel_runs.go). Both satisfy one contract, the
  locale \<open>sanitizer\<close>, from which the path-wise specification of each follows.
\<close>

named_theorems json \<open>reading and writing JSON objects\<close>

section \<open>Values\<close>

text \<open>
  A number decoded into \<open>any\<close> is a \<open>float64\<close>. The integers of magnitude at most \<open>2 ^ 53\<close>,
  which a \<open>float64\<close> holds exactly, are \<open>JNum\<close>. Any other number is \<open>JFloat s i\<close>, where
  \<open>s\<close> is its text by \<open>strconv.FormatFloat(_, 'f', -1, 64)\<close> and \<open>i\<close> its \<open>int64\<close> value when
  it has one.
\<close>

datatype json =
    JNull
  | JBool bool
  | JNum int
  | JFloat string "int option"
  | JStr string
  | JArr "json list"
  | JObj "(string \<times> json) list"

type_synonym jmap = "json gomap"

text \<open>Reading a \<open>map[string]any\<close>: an absent key gives \<open>nil\<close>.\<close>

definition mget :: "jmap \<Rightarrow> string \<Rightarrow> json" where
  "mget m k = (case map_of m k of None \<Rightarrow> JNull | Some v \<Rightarrow> v)"

text \<open>The type assertions \<open>v.(string)\<close> and \<open>v.(map[string]any)\<close> in their two-value form.\<close>

definition as_string :: "json \<Rightarrow> string option" where
  "as_string v = (case v of JStr s \<Rightarrow> Some s | _ \<Rightarrow> None)"

definition as_map :: "json \<Rightarrow> jmap option" where
  "as_map v = (case v of JObj m \<Rightarrow> Some m | _ \<Rightarrow> None)"

definition str_or_empty :: "json \<Rightarrow> string" where
  "str_or_empty v = (case as_string v of None \<Rightarrow> [] | Some s \<Rightarrow> s)"

definition map_or_nil :: "json \<Rightarrow> jmap" where
  "map_or_nil v = (case as_map v of None \<Rightarrow> [] | Some m \<Rightarrow> m)"

lemma as_string_simps [simp]:
  "as_string (JStr s) = Some s" "as_string JNull = None" "as_string (JObj m) = None"
  "as_string (JArr xs) = None" "as_string (JNum n) = None" "as_string (JBool b) = None"
  by (simp_all add: as_string_def)

lemma as_map_simps [simp]:
  "as_map (JObj m) = Some m" "as_map JNull = None" "as_map (JStr s) = None"
  "as_map (JArr xs) = None" "as_map (JNum n) = None" "as_map (JBool b) = None"
  by (simp_all add: as_map_def)

lemma as_map_Some: "as_map v = Some m \<longleftrightarrow> v = JObj m"
  by (cases v) (auto simp: as_map_def)

lemma as_string_Some: "as_string v = Some s \<longleftrightarrow> v = JStr s"
  by (cases v) (auto simp: as_string_def)

lemma str_or_empty_simps [simp]: "str_or_empty (JStr s) = s" "str_or_empty JNull = []"
  by (simp_all add: str_or_empty_def)

lemma map_or_nil_simps [simp]: "map_or_nil (JObj m) = m" "map_or_nil JNull = []"
  by (simp_all add: map_or_nil_def)

lemma mget_update [json]: "mget (AList.update k v m) k' = (if k' = k then v else mget m k')"
  by (simp add: mget_def gomap)

lemma mget_delete [json]: "mget (AList.delete k m) k' = (if k' = k then JNull else mget m k')"
  by (simp add: mget_def gomap)

lemma mget_Nil [simp]: "mget [] k = JNull"
  by (simp add: mget_def)

lemma mget_Cons [simp]: "mget ((k, v) # m) k' = (if k' = k then v else mget m k')"
  by (simp add: mget_def)

text \<open>Decoded objects have distinct keys at every level.\<close>

fun wf_json :: "json \<Rightarrow> bool" where
  "wf_json (JArr xs) = (\<forall>x \<in> set xs. wf_json x)"
| "wf_json (JObj m) = (wf_map m \<and> (\<forall>kv \<in> set m. wf_json (snd kv)))"
| "wf_json _ = True"

section \<open>Paths\<close>

datatype jstep = Key string | Idx nat

fun jlookup :: "json \<Rightarrow> jstep list \<Rightarrow> json option" where
  "jlookup v [] = Some v"
| "jlookup (JObj m) (Key k # p) = (case map_of m k of None \<Rightarrow> None | Some v \<Rightarrow> jlookup v p)"
| "jlookup (JArr xs) (Idx i # p) = (if i < length xs then jlookup (xs ! i) p else None)"
| "jlookup _ _ = None"

section \<open>The contract of a sanitizer\<close>

text \<open>
  A sanitizer walks a document and treats the entries under sensitive keys in one of two ways:
  \<open>repl = Some r\<close> stores \<open>r\<close> in their place, \<open>repl = None\<close> drops them. Everything else is kept
  and walked.
\<close>

definition san_map :: "(string \<Rightarrow> bool) \<Rightarrow> json option \<Rightarrow> (json \<Rightarrow> json) \<Rightarrow> jmap \<Rightarrow> jmap" where
  "san_map sens repl f m =
     (case repl of
        Some r \<Rightarrow> map (\<lambda>(k, v). (k, if sens k then r else f v)) m
      | None \<Rightarrow> map (\<lambda>(k, v). (k, f v)) (filter (\<lambda>(k, v). \<not> sens k) m))"

lemma map_of_filter_key:
  "map_of (filter (\<lambda>(k, v). \<not> sens k) m) k = (if sens k then None else map_of m k)"
  by (induction m) auto

lemma map_of_san_map:
  "map_of (san_map sens repl f m) k =
     (if sens k then (case repl of None \<Rightarrow> None | Some r \<Rightarrow> map_option (\<lambda>_. r) (map_of m k))
      else map_option f (map_of m k))"
  by (cases repl)
    (simp_all add: san_map_def map_of_map_snd [where f = "\<lambda>k v. if sens k then _ else f v"]
      map_of_map_snd [where f = "\<lambda>k v. f v"] map_of_filter_key)

lemma wf_san_map: "wf_map m \<Longrightarrow> wf_map (san_map sens repl f m)"
proof (cases repl)
  case None
  assume "wf_map m"
  then have "wf_map (filter (\<lambda>(k, v). \<not> sens k) m)"
    by (simp add: wf_map_def distinct_map_filter)
  then show ?thesis by (simp add: None san_map_def wf_map_map_snd [where f = "\<lambda>k v. f v"])
qed (simp add: san_map_def)

fun key_steps :: "jstep list \<Rightarrow> string list" where
  "key_steps [] = []"
| "key_steps (Key k # p) = k # key_steps p"
| "key_steps (Idx i # p) = key_steps p"

lemma key_steps_append: "key_steps (p @ q) = key_steps p @ key_steps q"
  by (induction p rule: key_steps.induct) simp_all

locale sanitizer =
  fixes sens :: "string \<Rightarrow> bool"
    and repl :: "json option"
    and san :: "json \<Rightarrow> json"
  assumes san_obj: "san (JObj m) = JObj (san_map sens repl san m)"
    and san_arr: "san (JArr xs) = JArr (map san xs)"
    and san_leaf: "(\<nexists>m. v = JObj m) \<Longrightarrow> (\<nexists>xs. v = JArr xs) \<Longrightarrow> san v = v"
    and repl_leaf: "repl = Some r \<Longrightarrow> p \<noteq> [] \<Longrightarrow> jlookup r p = None"
begin

text \<open>Along a path without sensitive keys the document is kept, walked at the end of the path.\<close>

lemma lookup_plain:
  "\<forall>k \<in> set (key_steps p). \<not> sens k \<Longrightarrow> jlookup (san v) p = map_option san (jlookup v p)"
proof (induction v p rule: jlookup.induct)
  case (2 m k p)
  then show ?case
    by (auto simp: san_obj map_of_san_map split: option.splits)
next
  case (3 xs i p)
  then show ?case by (simp add: san_arr)
qed (auto simp: san_leaf san_obj san_arr)

text \<open>At a sensitive key the document holds the replacement, or nothing; below it there is nothing.\<close>

lemma lookup_sensitive:
  "\<forall>k \<in> set (key_steps p). \<not> sens k \<Longrightarrow> sens k \<Longrightarrow>
   jlookup (san v) (p @ [Key k]) =
     (case jlookup v (p @ [Key k]) of None \<Rightarrow> None | Some _ \<Rightarrow> repl)"
proof (induction v p rule: jlookup.induct)
  case (1 v)
  then show ?case
    by (cases v) (auto simp: san_obj san_arr san_leaf map_of_san_map split: option.splits)
next
  case (2 m k p)
  then show ?case
    by (auto simp: san_obj map_of_san_map split: option.splits)
next
  case (3 xs i p)
  then show ?case by (simp add: san_arr)
qed (auto simp: san_leaf san_obj san_arr)

lemma lookup_below:
  "\<exists>k \<in> set (key_steps p). sens k \<Longrightarrow> q \<noteq> [] \<Longrightarrow> jlookup (san v) (p @ q) = None"
proof (induction v p rule: jlookup.induct)
  case (2 m k p)
  show ?case
  proof (cases "sens k")
    case True
    have "p @ q \<noteq> []" using "2.prems" by simp
    then show ?thesis using True
      by (auto simp: san_obj map_of_san_map repl_leaf split: option.splits)
  next
    case False
    with 2 show ?thesis
      by (auto simp: san_obj map_of_san_map split: option.splits)
  qed
next
  case (3 xs i p)
  then show ?case by (simp add: san_arr)
qed (auto simp: san_leaf san_obj san_arr)

end

section \<open>Redaction of audit documents\<close>

definition sensitive_markers :: "string list" where
  "sensitive_markers = [''password'', ''passwd'', ''secret'', ''token'', ''apikey'',
     ''authorization'', ''cookie'', ''credential'', ''session'', ''recovery'']"

definition SensitiveKey :: "string \<Rightarrow> bool" where
  "SensitiveKey key =
     (let normalized = ToLower (filter (\<lambda>c. c \<noteq> CHR ''_'') key)
      in list_ex (\<lambda>marker. Contains normalized marker) sensitive_markers)"

definition redacted_text :: json where
  "redacted_text = JStr ''[REDACTED]''"

fun Redact :: "json \<Rightarrow> json" where
  "Redact (JObj m) = JObj (map (\<lambda>(key, child). (key, if SensitiveKey key then redacted_text else Redact child)) m)"
| "Redact (JArr xs) = JArr (map Redact xs)"
| "Redact v = v"

section \<open>Removal of sensitive metadata\<close>

definition metadata_markers :: "string list" where
  "metadata_markers = [''password'', ''passwd'', ''secret'', ''token'', ''apikey'', ''api_key'',
     ''authorization'', ''cookie'', ''credential'', ''session'']"

definition metadata_sensitive :: "string \<Rightarrow> bool" where
  "metadata_sensitive key = (let lower = ToLower key in list_ex (\<lambda>marker. Contains lower marker) metadata_markers)"

fun removeSensitiveMetadataValue :: "json \<Rightarrow> json" where
  "removeSensitiveMetadataValue (JObj m) =
     JObj (map (\<lambda>(key, value). (key, removeSensitiveMetadataValue value)) (filter (\<lambda>(key, value). \<not> metadata_sensitive key) m))"
| "removeSensitiveMetadataValue (JArr xs) = JArr (map removeSensitiveMetadataValue xs)"
| "removeSensitiveMetadataValue v = v"

definition removeSensitiveMetadata :: "jmap \<Rightarrow> jmap" where
  "removeSensitiveMetadata values =
     map (\<lambda>(key, value). (key, removeSensitiveMetadataValue value))
       (filter (\<lambda>(key, value). \<not> metadata_sensitive key) values)"

interpretation redact: sanitizer SensitiveKey "Some redacted_text" Redact
proof unfold_locales
  fix v :: json
  assume "\<nexists>m. v = JObj m" "\<nexists>xs. v = JArr xs"
  then show "Redact v = v" by (cases v) auto
next
  fix r :: json and p :: "jstep list"
  assume "Some redacted_text = Some r" "p \<noteq> []"
  then show "jlookup r p = None" by (cases p) (auto simp: redacted_text_def)
qed (simp_all add: san_map_def)

interpretation metadata: sanitizer metadata_sensitive None removeSensitiveMetadataValue
proof unfold_locales
  fix v :: json
  assume "\<nexists>m. v = JObj m" "\<nexists>xs. v = JArr xs"
  then show "removeSensitiveMetadataValue v = v" by (cases v) auto
qed (simp_all add: san_map_def)

lemma removeSensitiveMetadata_obj:
  "removeSensitiveMetadataValue (JObj m) = JObj (removeSensitiveMetadata m)"
  by (simp add: removeSensitiveMetadata_def)

end
