(* ===== verification/RunMetadata.thy ===== *)
theory RunMetadata
  imports Json
begin

text \<open>
  The input normalisation of schedule creation (internal/browserauth/parallel_runs.go): scalars,
  the run-metadata envelope of \<open>normalizeRunMetadata\<close> and the Cartesian expansion of
  \<open>matrixCombinations\<close>.
\<close>

section \<open>Scalars\<close>

fun metadataScalar :: "json \<Rightarrow> string \<times> bool" where
  "metadataScalar (JStr s) = (s, True)"
| "metadataScalar (JNum n) = (itoa n, True)"
| "metadataScalar (JFloat s i) = (s, True)"
| "metadataScalar (JBool b) = (if b then ''1'' else [], True)"
| "metadataScalar _ = ([], False)"

section \<open>The run envelope\<close>

definition run_fields :: "string list" where
  "run_fields = [''build'', ''commit'', ''branch'', ''repository'', ''initiator'', ''pipeline'']"

definition identity_fields :: "string list" where
  "identity_fields = [''provider'', ''issuer'', ''subject'', ''audience'']"

definition scalar_or_nil :: "json \<Rightarrow> json" where
  "scalar_or_nil value = (let (text, scalar) = metadataScalar value
                          in if \<not> scalar \<or> text = [] then JNull else JStr text)"

text \<open>One turn of the loop over the six run fields, on the pair of the maps \<open>run\<close> and \<open>clean\<close>.\<close>

definition run_field_step :: "string \<Rightarrow> jmap \<times> jmap \<Rightarrow> jmap \<times> jmap" where
  "run_field_step field = (\<lambda>(run, clean).
     let value = (if mget run field = JNull then mget clean field else mget run field)
     in (AList.update field (scalar_or_nil value) run, AList.delete field clean))"

definition normalizedIdentity :: "jmap \<Rightarrow> jmap" where
  "normalizedIdentity identity =
     fold (\<lambda>field acc. AList.update field (scalar_or_nil (mget identity field)) acc) identity_fields []"

definition normalizeRunMetadata :: "jmap \<Rightarrow> jmap" where
  "normalizeRunMetadata md =
     (let clean0 = removeSensitiveMetadata md;
          run0 = map_or_nil (mget clean0 ''run'');
          (run1, clean1) = fold run_field_step run_fields (run0, clean0);
          identity = (case as_map (mget run1 ''workloadIdentity'') of
                        Some m \<Rightarrow> m | None \<Rightarrow> map_or_nil (mget clean1 ''workloadIdentity''));
          run2 = AList.update ''workloadIdentity'' (JObj (normalizedIdentity identity)) run1;
          clean2 = AList.update ''run'' (JObj run2) clean1
      in AList.delete ''workloadIdentity'' clean2)"

text \<open>The shape that stored metadata promises.\<close>

definition text_or_nil :: "json \<Rightarrow> bool" where
  "text_or_nil v \<longleftrightarrow> v = JNull \<or> (\<exists>s. s \<noteq> [] \<and> v = JStr s)"

definition run_envelope :: "jmap \<Rightarrow> bool" where
  "run_envelope md \<longleftrightarrow>
     (\<exists>run identity. map_of md ''run'' = Some (JObj run)
        \<and> (\<forall>f \<in> set run_fields. \<exists>v. map_of run f = Some v \<and> text_or_nil v)
        \<and> map_of run ''workloadIdentity'' = Some (JObj identity)
        \<and> set (map fst identity) = set identity_fields
        \<and> (\<forall>v \<in> set (map snd identity). text_or_nil v))
     \<and> (\<forall>f \<in> set (''workloadIdentity'' # run_fields). map_of md f = None)"

lemma scalar_or_nil_text: "text_or_nil (scalar_or_nil v)"
  by (auto simp: scalar_or_nil_def text_or_nil_def split: prod.splits)

lemma fold_run_fields:
  assumes "fold run_field_step fs (run, clean) = (run', clean')"
  shows "map_of clean' k = (if k \<in> set fs then None else map_of clean k)"
    and "k \<notin> set fs \<Longrightarrow> map_of run' k = map_of run k"
    and "distinct fs \<Longrightarrow> k \<in> set fs \<Longrightarrow> map_of run' k =
           Some (scalar_or_nil (if mget run k = JNull then mget clean k else mget run k))"
proof -
  have "map_of clean' k = (if k \<in> set fs then None else map_of clean k)
      \<and> (k \<notin> set fs \<longrightarrow> map_of run' k = map_of run k)
      \<and> (distinct fs \<longrightarrow> k \<in> set fs \<longrightarrow> map_of run' k =
           Some (scalar_or_nil (if mget run k = JNull then mget clean k else mget run k)))"
    using assms
  proof (induction fs arbitrary: run clean)
    case (Cons f fs)
    obtain run1 clean1 where s: "run_field_step f (run, clean) = (run1, clean1)" by fastforce
    have run1: "run1 = AList.update f (scalar_or_nil (if mget run f = JNull then mget clean f else mget run f)) run"
      and clean1: "clean1 = AList.delete f clean"
      using s by (auto simp: run_field_step_def Let_def)
    have "fold run_field_step fs (run1, clean1) = (run', clean')" using Cons.prems s by simp
    note ih = Cons.IH [OF this]
    show ?case using ih by (auto simp: run1 clean1 gomap json)
  qed simp
  then show "map_of clean' k = (if k \<in> set fs then None else map_of clean k)"
    and "k \<notin> set fs \<Longrightarrow> map_of run' k = map_of run k"
    and "distinct fs \<Longrightarrow> k \<in> set fs \<Longrightarrow> map_of run' k =
           Some (scalar_or_nil (if mget run k = JNull then mget clean k else mget run k))"
    by auto
qed

lemma normalizedIdentity_eq:
  "normalizedIdentity m = map (\<lambda>f. (f, scalar_or_nil (mget m f))) identity_fields"
  by (simp add: normalizedIdentity_def identity_fields_def)

lemma run_fields_distinct: "distinct run_fields" "''workloadIdentity'' \<notin> set run_fields"
  "''run'' \<notin> set run_fields"
  by (simp_all add: run_fields_def)

lemma normalizeRunMetadata_envelope: "run_envelope (normalizeRunMetadata md)"
proof -
  define clean0 where "clean0 = removeSensitiveMetadata md"
  define run0 where "run0 = map_or_nil (mget clean0 ''run'')"
  obtain run1 clean1 where f: "fold run_field_step run_fields (run0, clean0) = (run1, clean1)"
    by fastforce
  define identity where "identity = (case as_map (mget run1 ''workloadIdentity'') of
      Some m \<Rightarrow> m | None \<Rightarrow> map_or_nil (mget clean1 ''workloadIdentity''))"
  define run2 where "run2 = AList.update ''workloadIdentity'' (JObj (normalizedIdentity identity)) run1"
  have n: "normalizeRunMetadata md = AList.delete ''workloadIdentity'' (AList.update ''run'' (JObj run2) clean1)"
    using f by (simp add: normalizeRunMetadata_def clean0_def run0_def identity_def run2_def Let_def)
  have r: "map_of (normalizeRunMetadata md) ''run'' = Some (JObj run2)"
    by (simp add: n gomap)
  have fs: "\<exists>v. map_of run2 g = Some v \<and> text_or_nil v" if "g \<in> set run_fields" for g
    using fold_run_fields(3) [OF f run_fields_distinct(1) that] that run_fields_distinct(2)
    by (auto simp: run2_def gomap scalar_or_nil_text)
  have i: "map_of run2 ''workloadIdentity'' = Some (JObj (normalizedIdentity identity))"
    by (simp add: run2_def gomap)
  have top: "map_of (normalizeRunMetadata md) g = None" if "g \<in> set (''workloadIdentity'' # run_fields)" for g
    using fold_run_fields(1) [OF f, of g] that run_fields_distinct(3) by (auto simp: n gomap)
  have idf: "set (map fst (normalizedIdentity identity)) = set identity_fields"
    "\<forall>v \<in> set (map snd (normalizedIdentity identity)). text_or_nil v"
    by (auto simp: normalizedIdentity_eq scalar_or_nil_text)
  show ?thesis
    unfolding run_envelope_def using r fs i top idf by blast
qed

section \<open>The launch matrix\<close>

type_synonym combination = "string gomap"

definition matrix_axes :: "(string \<times> string) list" where
  "matrix_axes = [(''platforms'', ''platform''), (''browsers'', ''browser''),
     (''devices'', ''device''), (''environments'', ''environment'')]"

text \<open>The distinct non-empty scalar texts of an axis, in the order of first occurrence.\<close>

fun unique_loop :: "json list \<Rightarrow> string list \<Rightarrow> string list" where
  "unique_loop [] unique = unique"
| "unique_loop (value # values) unique =
     (let (text0, scalar) = metadataScalar value; text = TrimSpace text0
      in if scalar \<and> text \<noteq> [] \<and> text \<notin> set unique then unique_loop values (unique @ [text])
         else unique_loop values unique)"

definition axis_values :: "(json list) gomap \<Rightarrow> string \<Rightarrow> json list" where
  "axis_values matrix input = (case map_of matrix input of None \<Rightarrow> [] | Some vs \<Rightarrow> vs)"

definition axis_unique :: "(json list) gomap \<Rightarrow> string \<Rightarrow> string list" where
  "axis_unique matrix input = unique_loop (axis_values matrix input) []"

definition extend_all :: "string \<Rightarrow> string list \<Rightarrow> combination list \<Rightarrow> combination list" where
  "extend_all output unique combinations =
     concat (map (\<lambda>c. map (\<lambda>v. AList.update output v c) unique) combinations)"

fun matrix_loop :: "(string \<times> string) list \<Rightarrow> (json list) gomap \<Rightarrow> combination list \<Rightarrow> nat
    \<Rightarrow> combination list \<times> bool" where
  "matrix_loop [] matrix combinations axisCount =
     (if axisCount = 0 then ([], False) else (combinations, False))"
| "matrix_loop ((input, output) # axes) matrix combinations axisCount =
     (if length (axis_values matrix input) > 16 then ([], True)
      else let unique = axis_unique matrix input
           in if unique = [] then matrix_loop axes matrix combinations axisCount
              else matrix_loop axes matrix (extend_all output unique combinations) (Suc axisCount))"

definition matrixCombinations :: "(json list) gomap \<Rightarrow> combination list \<times> bool" where
  "matrixCombinations matrix = matrix_loop matrix_axes matrix [[]] 0"

lemma unique_loop_distinct: "distinct u \<Longrightarrow> distinct (unique_loop vs u)"
  by (induction vs u rule: unique_loop.induct) (auto simp: Let_def split: prod.splits)

lemma unique_loop_nonempty: "[] \<notin> set u \<Longrightarrow> [] \<notin> set (unique_loop vs u)"
  by (induction vs u rule: unique_loop.induct) (auto simp: Let_def split: prod.splits)

lemma unique_loop_length: "length (unique_loop vs u) \<le> length vs + length u"
proof (induction vs arbitrary: u)
  case (Cons v vs)
  then show ?case
    by (auto simp: Let_def le_SucI split: prod.splits) (metis add_Suc_right length_append_singleton)
qed simp

text \<open>The axes that contribute: those with at least one usable value.\<close>

definition live_axes :: "(string \<times> string) list \<Rightarrow> (json list) gomap \<Rightarrow> (string \<times> string) list" where
  "live_axes axes matrix = filter (\<lambda>(i, out). axis_unique matrix i \<noteq> []) axes"

definition axes_ok :: "(string \<times> string) list \<Rightarrow> (json list) gomap \<Rightarrow> bool" where
  "axes_ok axes matrix \<longleftrightarrow> (\<forall>(i, out) \<in> set axes. length (axis_values matrix i) \<le> 16)"

text \<open>The specification: the combinations are the choices of one value per contributing axis.\<close>

fun choices :: "(string \<times> string) list \<Rightarrow> (json list) gomap \<Rightarrow> combination list" where
  "choices [] matrix = [[]]"
| "choices ((i, out) # axes) matrix =
     concat (map (\<lambda>v. map (\<lambda>c. (out, v) # c) (choices axes matrix)) (axis_unique matrix i))"

lemma extend_all_append:
  "\<forall>c \<in> set cs. out \<notin> set (map fst c) \<Longrightarrow>
   extend_all out us cs = concat (map (\<lambda>c. map (\<lambda>v. c @ [(out, v)]) us) cs)"
proof -
  have u: "out \<notin> set (map fst c) \<Longrightarrow> AList.update out v c = c @ [(out, v)]" for c :: combination and v
    by (induction c) auto
  assume "\<forall>c \<in> set cs. out \<notin> set (map fst c)"
  then show ?thesis
    unfolding extend_all_def by (intro arg_cong [of _ _ concat] map_cong refl) (auto simp: u)
qed

lemma concat_choices_assoc:
  fixes cs :: "combination list"
  shows "concat (map (\<lambda>c. map ((@) c) (concat (map (\<lambda>v. map (\<lambda>r. (out, v) # r) rs) us))) cs)
   = concat (map (\<lambda>c. map ((@) c) rs) (concat (map (\<lambda>c. map (\<lambda>v. c @ [(out, v)]) us) cs)))"
proof -
  have "(@) (c @ [x]) = (\<lambda>r. c @ x # r)" for c :: combination and x by (simp add: fun_eq_iff)
  then show ?thesis by (induction cs) (simp_all add: map_concat comp_def)
qed

lemma matrix_loop_choices:
  assumes "axes_ok axes matrix" and "distinct (map snd axes)"
    and "\<forall>c \<in> set cs. set (map fst c) \<inter> set (map snd axes) = {}"
  shows "matrix_loop axes matrix cs n =
     (if n = 0 \<and> live_axes axes matrix = [] then []
      else concat (map (\<lambda>c. map ((@) c) (choices (live_axes axes matrix) matrix)) cs), False)"
  using assms
proof (induction axes matrix cs n rule: matrix_loop.induct)
  case (1 matrix cs n)
  then show ?case by (simp add: live_axes_def)
next
  case (2 i out axes matrix cs n)
  let ?u = "axis_unique matrix i"
  have ok: "axes_ok axes matrix" and le: "\<not> length (axis_values matrix i) > 16"
    using "2.prems"(1) by (auto simp: axes_ok_def)
  have dis: "distinct (map snd axes)" using "2.prems"(2) by simp
  show ?case
  proof (cases "?u = []")
    case True
    have "\<forall>c \<in> set cs. set (map fst c) \<inter> set (map snd axes) = {}"
      using "2.prems"(3) by auto
    then show ?thesis
      using "2.IH"(1) [OF le refl True ok dis] True le by (simp add: live_axes_def)
  next
    case False
    have ext: "extend_all out ?u cs = concat (map (\<lambda>c. map (\<lambda>v. c @ [(out, v)]) ?u) cs)"
      using "2.prems"(3) by (intro extend_all_append) auto
    have "\<forall>c \<in> set (extend_all out ?u cs). set (map fst c) \<inter> set (map snd axes) = {}"
      using "2.prems"(2,3) by (auto simp: ext)
    then show ?thesis
      using "2.IH"(2) [OF le refl False ok dis] False le
      by (simp add: live_axes_def ext concat_choices_assoc)
  qed
qed

lemma axes_bad: "\<not> axes_ok axes matrix \<Longrightarrow> matrix_loop axes matrix cs n = ([], True)"
  by (induction axes matrix cs n rule: matrix_loop.induct) (auto simp: axes_ok_def Let_def)

lemma matrixCombinations_spec:
  "matrixCombinations matrix =
     (if \<not> axes_ok matrix_axes matrix then ([], True)
      else if live_axes matrix_axes matrix = [] then ([], False)
      else (choices (live_axes matrix_axes matrix) matrix, False))"
proof (cases "axes_ok matrix_axes matrix")
  case True
  have "distinct (map snd matrix_axes)" by (simp add: matrix_axes_def)
  moreover have "map ((@) []) xs = xs" for xs :: "combination list" by (simp add: map_idI)
  ultimately show ?thesis
    using True by (simp add: matrixCombinations_def matrix_loop_choices)
qed (simp add: matrixCombinations_def axes_bad)

lemma length_choices:
  "length (choices axes matrix) = prod_list (map (\<lambda>(i, out). length (axis_unique matrix i)) axes)"
  by (induction axes) (auto simp: length_concat comp_def sum_list_triv)

lemma distinct_prefixed:
  "distinct us \<Longrightarrow> distinct rs \<Longrightarrow> distinct (concat (map (\<lambda>v. map (\<lambda>c. (out, v) # c) rs) us))"
  by (induction us) (auto simp: distinct_map inj_on_def)

lemma distinct_choices: "distinct (choices axes matrix)"
proof (induction axes)
  case (Cons a axes)
  then show ?case
    by (cases a) (simp add: distinct_prefixed axis_unique_def unique_loop_distinct)
qed simp

lemma set_choices:
  "c \<in> set (choices axes matrix) \<longleftrightarrow>
     map fst c = map snd axes \<and> list_all2 (\<lambda>v (i, out). v \<in> set (axis_unique matrix i)) (map snd c) axes"
proof (induction axes arbitrary: c)
  case (Cons a axes)
  then show ?case
    by (cases a; cases c) (auto simp: image_iff)
qed simp

lemma axis_unique_le: "length (axis_values matrix i) \<le> 16 \<Longrightarrow> length (axis_unique matrix i) \<le> 16"
  using unique_loop_length [of "axis_values matrix i" "[]"] by (simp add: axis_unique_def)

end
