(* ===== verification/Store.thy ===== *)
theory Store
  imports GoTime RunMetadata
begin

text \<open>
  The database as the parallel-run repository sees it, the errors it returns and the environment of
  one request. A table is a list of rows; the columns hold what the SQL of
  internal/persistence/mysql reads and writes. A JSON column holds the document (\<open>None\<close> is SQL
  \<open>NULL\<close>).

  The environment collects what is outside the repository's code: which database statements fail
  (named by the operation label the code gives to \<open>safeDatabaseFailure\<close>), the bcrypt package, the
  bytes drawn from \<open>crypto/rand\<close>, the digest of a matrix combination, what a \<open>TIMESTAMP\<close>
  column keeps of an instant, and the request's address and correlation identifier. Every theorem
  holds for all of them unless it names a law as a hypothesis.
\<close>

section \<open>Errors\<close>

datatype err =
    ErrNotFound
  | ErrParallelRunTerminal
  | ErrParallelRunCancelling
  | ErrParallelRunConcurrency
  | ErrRunTokenInvalid
  | ErrAgentProofInvalid
  | AgentUnavailableError string string
  | ErrParallelWorkerMissing
  | ErrWorkerTokenInvalid
  | DatabaseFailure string
  | Failure string
  | Panic

section \<open>Rows\<close>

record schedule =
  s_id :: int
  s_tenant :: int
  s_project :: int
  s_testCycle :: int
  s_performedCycle :: "int option"
  s_key :: string
  s_status :: string
  s_requested :: int
  s_active :: int
  s_total :: int
  s_completed :: int
  s_failed :: int
  s_cancelled :: int
  s_aggregate :: "int option"
  s_workers :: "json option"
  s_summary :: "json option"
  s_metadata :: "json option"
  s_scheduledAt :: "instant option"
  s_startedAt :: "instant option"
  s_completedAt :: "instant option"
  s_cancelledAt :: "instant option"
  s_updatedAt :: "instant option"

record run_token =
  t_id :: int
  t_tenant :: int
  t_project :: int
  t_schedule :: int
  t_agent :: string
  t_tokenId :: string
  t_hash :: string
  t_expiresAt :: instant
  t_usedAt :: "instant option"
  t_revokedAt :: "instant option"

record agent =
  a_tenant :: int
  a_agentId :: string
  a_status :: string
  a_health :: string
  a_identity :: "json option"

record audit_event =
  e_actorUser :: "int option"
  e_actorTenant :: int
  e_activeTenant :: int
  e_project :: int
  e_action :: string
  e_target :: int
  e_before :: "json option"
  e_after :: "json option"
  e_result :: string
  e_sourceIp :: string
  e_correlation :: string

record project =
  p_id :: int
  p_tenant :: int

record test_cycle =
  c_id :: int
  c_project :: int
  c_tenant :: int
  c_config :: "json option"

record asset_version =
  v_id :: int
  v_tenant :: int
  v_type :: string
  v_asset :: int
  v_version :: int

record db =
  schedules :: "schedule list"
  run_tokens :: "run_token list"
  agents :: "agent list"
  audit_events :: "audit_event list"
  projects :: "project list"
  test_cycles :: "test_cycle list"
  asset_versions :: "asset_version list"
  next_schedule :: int
  next_token :: int

section \<open>The environment of a request\<close>

record env =
  db_fails :: "string \<Rightarrow> bool"
  bcrypt_generate :: "string \<Rightarrow> string option"
  bcrypt_matches :: "string \<Rightarrow> string \<Rightarrow> bool"
  rand_bytes :: "nat \<Rightarrow> nat list option"
  sha256_json :: "combination \<Rightarrow> nat list"
  column_time :: "instant \<Rightarrow> instant"
  source_ip :: string
  correlation_id :: string

text \<open>\<open>hex.EncodeToString\<close>.\<close>

definition hex_digit :: "nat \<Rightarrow> char" where
  "hex_digit n = (''0123456789abcdef'' ! (n mod 16))"

definition hex_encode :: "nat list \<Rightarrow> string" where
  "hex_encode bs = concat (map (\<lambda>b. [hex_digit (b div 16), hex_digit b]) bs)"

lemma length_hex_encode [simp]: "length (hex_encode bs) = 2 * length bs"
  by (induction bs) (simp_all add: hex_encode_def)

section \<open>The schedule row: what SELECT ... FOR UPDATE and UPDATE address\<close>

definition schedule_is :: "int \<Rightarrow> int \<Rightarrow> int \<Rightarrow> schedule \<Rightarrow> bool" where
  "schedule_is tenant project run s \<longleftrightarrow> s_id s = run \<and> s_tenant s = tenant \<and> s_project s = project"

definition find_schedule :: "int \<Rightarrow> int \<Rightarrow> int \<Rightarrow> db \<Rightarrow> schedule option" where
  "find_schedule tenant project run d = find (schedule_is tenant project run) (schedules d)"

definition update_schedule :: "int \<Rightarrow> int \<Rightarrow> int \<Rightarrow> (schedule \<Rightarrow> schedule) \<Rightarrow> db \<Rightarrow> db" where
  "update_schedule tenant project run f d =
     d\<lparr>schedules := upd_rows (schedule_is tenant project run) f (schedules d)\<rparr>"

text \<open>A write that keeps the three columns a row is addressed by.\<close>

definition keeps_key :: "(schedule \<Rightarrow> schedule) \<Rightarrow> bool" where
  "keeps_key f \<longleftrightarrow> (\<forall>s. s_id (f s) = s_id s \<and> s_tenant (f s) = s_tenant s \<and> s_project (f s) = s_project s)"

lemma find_schedule_update_same:
  assumes "find_schedule tenant project run d = Some s" and "keeps_key f"
  shows "find_schedule tenant project run (update_schedule tenant project run f d) = Some (f s)"
  using assms find_SomeD [of "schedule_is tenant project run" "schedules d" s]
  by (auto simp: find_schedule_def update_schedule_def keeps_key_def schedule_is_def
      intro!: find_upd_rows_same)

lemma find_schedule_update_other:
  assumes "(tenant', project', run') \<noteq> (tenant, project, run)" and "keeps_key f"
  shows "find_schedule tenant' project' run' (update_schedule tenant project run f d)
       = find_schedule tenant' project' run' d"
  using assms
  by (auto simp: find_schedule_def update_schedule_def keeps_key_def schedule_is_def
      intro!: find_upd_rows_other)

lemma find_schedule_key:
  "find_schedule tenant project run d = Some s \<Longrightarrow>
     s \<in> set (schedules d) \<and> s_id s = run \<and> s_tenant s = tenant \<and> s_project s = project"
  by (auto simp: find_schedule_def schedule_is_def dest: find_SomeD)

lemma update_schedule_others [simp]:
  "run_tokens (update_schedule a b c f d) = run_tokens d"
  "agents (update_schedule a b c f d) = agents d"
  "audit_events (update_schedule a b c f d) = audit_events d"
  "next_schedule (update_schedule a b c f d) = next_schedule d"
  "projects (update_schedule a b c f d) = projects d"
  by (simp_all add: update_schedule_def)

end
