(* ===== verification/WorkerStates.thy ===== *)
theory WorkerStates
  imports Store
begin

text \<open>
  The worker-state documents of a schedule (internal/persistence/mysql/browser_parallel_runs.go):
  decoding, lease expiry and the counters of \<open>recalculateParallelRunWorkers\<close>, and the outcome rule
  \<open>parallelRunWorkerOutcome\<close>. The lemmas show that the counters count the workers whatever order the
  map is ranged in, that recalculation is idempotent, and what the outcome rule decides.
\<close>

named_theorems workers \<open>facts on worker documents\<close>

section \<open>Decoding\<close>

text \<open>
  \<open>decodeParallelMap\<close> starts from an empty map and ignores a decoding error; the document
  \<open>null\<close> makes the map nil, which only a later write notices (\<open>decodesToNil\<close>).
\<close>

definition decodeParallelMap :: "json option \<Rightarrow> jmap" where
  "decodeParallelMap value = (case value of None \<Rightarrow> [] | Some v \<Rightarrow> map_or_nil v)"

definition decodesToNil :: "json option \<Rightarrow> bool" where
  "decodesToNil value \<longleftrightarrow> value = Some JNull"

definition decodeParallelJSON :: "json option \<Rightarrow> json \<Rightarrow> json" where
  "decodeParallelJSON value fallback = (case value of None \<Rightarrow> fallback | Some v \<Rightarrow> v)"

lemma decodeParallelMap_obj [simp]: "decodeParallelMap (Some (JObj m)) = m"
  by (simp add: decodeParallelMap_def)

section \<open>Lease expiry\<close>

text \<open>The status a worker is counted under: an absent or empty one counts as running.\<close>

definition effective_status :: "json \<Rightarrow> string" where
  "effective_status w =
     (let status = str_or_empty (mget (map_or_nil w) ''status'') in if status = [] then ''running'' else status)"

definition lease_expired :: "instant \<Rightarrow> json \<Rightarrow> bool" where
  "lease_expired now w =
     (case as_string (mget (map_or_nil w) ''leaseExpiresAt'') of
        None \<Rightarrow> False
      | Some expiry \<Rightarrow> (case ParseRFC3339Nano expiry of None \<Rightarrow> False | Some parsed \<Rightarrow> parsed < now))"

text \<open>The body of the loop for one worker: the document after it.\<close>

definition refresh_worker :: "instant \<Rightarrow> json \<Rightarrow> json" where
  "refresh_worker now w =
     (if effective_status w = ''running'' \<and> lease_expired now w
      then JObj (AList.update ''updatedAt'' (JStr (parallelRunISOString now))
                (AList.update ''lostAt'' (JStr (parallelRunISOString now))
                (AList.update ''status'' (JStr ''lost'') (map_or_nil w))))
      else w)"

section \<open>Counters\<close>

record counters =
  n_active :: int
  n_total :: int
  n_completed :: int
  n_failed :: int
  n_cancelled :: int
  n_lost :: int

definition count_status :: "string \<Rightarrow> counters \<Rightarrow> counters" where
  "count_status status c =
     (if status = ''running'' then c\<lparr>n_active := n_active c + 1\<rparr>
      else if status = ''completed'' then c\<lparr>n_completed := n_completed c + 1\<rparr>
      else if status = ''failed'' then c\<lparr>n_failed := n_failed c + 1\<rparr>
      else if status = ''cancelled'' then c\<lparr>n_cancelled := n_cancelled c + 1\<rparr>
      else if status = ''lost'' then c\<lparr>n_lost := n_lost c + 1\<rparr>
      else c)"

text \<open>
  \<open>recalculateParallelRunWorkers\<close>: the workers after the in-place changes, the counters and the
  summary, in the order of the sorted worker identifiers.
\<close>

definition recalculateParallelRunWorkers :: "jmap \<Rightarrow> instant \<Rightarrow> jmap \<times> counters \<times> json list" where
  "recalculateParallelRunWorkers ws now =
     (let ids = sorted_keys ws;
          ws' = map (\<lambda>(id, w). (id, refresh_worker now w)) ws;
          status = (\<lambda>id. effective_status (mget ws' id));
          zero = \<lparr>n_active = 0, n_total = int (length ids), n_completed = 0, n_failed = 0, n_cancelled = 0, n_lost = 0\<rparr>;
          cs = fold (\<lambda>id c. count_status (status id) c) ids zero;
          summary = map (\<lambda>id. JObj [(''workerId'', JStr id), (''status'', JStr (status id)),
                                    (''result'', mget (map_or_nil (mget ws' id)) ''result'')]) ids
      in (ws', cs, summary))"

definition parallelRunWorkerOutcome ::
  "string \<Rightarrow> int option \<Rightarrow> instant option \<Rightarrow> counters \<Rightarrow> instant \<Rightarrow> string \<times> int option \<times> instant option" where
  "parallelRunWorkerOutcome currentStatus aggregate completedAt c now =
     (if n_total c = 0 \<or> n_active c > 0 then (currentStatus, aggregate, completedAt)
      else let completedValue = (case completedAt of None \<Rightarrow> Some now | Some t \<Rightarrow> Some t)
           in if n_failed c > 0 then (''failed'', Some 2, completedValue)
              else if n_lost c > 0 then (''lost'', Some 4, completedValue)
              else if n_cancelled c > 0 \<and> n_completed c = 0 then (''cancelled'', Some 3, completedValue)
              else if n_cancelled c > 0 then (''failed'', Some 3, completedValue)
              else (''completed'', Some 1, completedValue))"

definition parallelRunTerminal :: "string \<Rightarrow> bool" where
  "parallelRunTerminal status \<longleftrightarrow>
     status = ''cancelled'' \<or> status = ''completed'' \<or> status = ''failed'' \<or> status = ''lost''"

section \<open>What the counters count\<close>

definition workers_with :: "string \<Rightarrow> jmap \<Rightarrow> int" where
  "workers_with status ws = int (length (filter (\<lambda>(id, w). effective_status w = status) ws))"

lemma count_status_fields:
  "n_active (count_status s c) = n_active c + (if s = ''running'' then 1 else 0)"
  "n_completed (count_status s c) = n_completed c + (if s = ''completed'' then 1 else 0)"
  "n_failed (count_status s c) = n_failed c + (if s = ''failed'' then 1 else 0)"
  "n_cancelled (count_status s c) = n_cancelled c + (if s = ''cancelled'' then 1 else 0)"
  "n_lost (count_status s c) = n_lost c + (if s = ''lost'' then 1 else 0)"
  "n_total (count_status s c) = n_total c"
  by (simp_all add: count_status_def)

lemma fold_count_status:
  "n_active (fold (\<lambda>x c. count_status (f x) c) xs c) = n_active c + int (length (filter (\<lambda>x. f x = ''running'') xs))"
  "n_completed (fold (\<lambda>x c. count_status (f x) c) xs c) = n_completed c + int (length (filter (\<lambda>x. f x = ''completed'') xs))"
  "n_failed (fold (\<lambda>x c. count_status (f x) c) xs c) = n_failed c + int (length (filter (\<lambda>x. f x = ''failed'') xs))"
  "n_cancelled (fold (\<lambda>x c. count_status (f x) c) xs c) = n_cancelled c + int (length (filter (\<lambda>x. f x = ''cancelled'') xs))"
  "n_lost (fold (\<lambda>x c. count_status (f x) c) xs c) = n_lost c + int (length (filter (\<lambda>x. f x = ''lost'') xs))"
  "n_total (fold (\<lambda>x c. count_status (f x) c) xs c) = n_total c"
  by (induction xs arbitrary: c) (simp_all add: count_status_fields)

lemma length_filter_sort: "length (filter P (sort xs)) = length (filter P xs)"
  by (simp add: filter_sort)

lemma filter_by_key:
  assumes "wf_map ws"
  shows "length (filter (\<lambda>id. P (mget ws id)) (sorted_keys ws)) = length (filter (\<lambda>(id, w). P w) ws)"
proof -
  have "mget ws (fst x) = snd x" if "x \<in> set ws" for x
    using that assms map_of_SomeI [of ws "fst x" "snd x"] by (simp add: mget_def)
  then have "filter (\<lambda>x. P (mget ws (fst x))) ws = filter (\<lambda>(id, w). P w) ws"
    by (intro filter_cong refl) (auto simp: case_prod_beta)
  then show ?thesis
    by (simp add: sorted_keys_def length_filter_sort filter_map comp_def)
qed

lemma sorted_keys_map_snd [simp]: "sorted_keys (map (\<lambda>(k, v). (k, f k v)) m) = sorted_keys m"
proof -
  have "map fst (map (\<lambda>(k, v). (k, f k v)) m) = map fst m" by (induction m) auto
  then show ?thesis by (simp only: sorted_keys_def)
qed

text \<open>The counters of a recalculation are the numbers of workers by status.\<close>

definition counts :: "jmap \<Rightarrow> counters" where
  "counts ws = \<lparr>n_active = workers_with ''running'' ws, n_total = int (length ws),
     n_completed = workers_with ''completed'' ws, n_failed = workers_with ''failed'' ws,
     n_cancelled = workers_with ''cancelled'' ws, n_lost = workers_with ''lost'' ws\<rparr>"

definition refresh :: "jmap \<Rightarrow> instant \<Rightarrow> jmap" where
  "refresh ws now = map (\<lambda>(id, w). (id, refresh_worker now w)) ws"

lemma refresh_wf [simp]: "wf_map (refresh ws now) \<longleftrightarrow> wf_map ws"
  by (simp add: refresh_def wf_map_map_snd [where f = "\<lambda>k v. refresh_worker now v"])

lemma sorted_keys_refresh [simp]: "sorted_keys (refresh ws now) = sorted_keys ws"
  by (simp add: refresh_def sorted_keys_map_snd [where f = "\<lambda>k v. refresh_worker now v"])

lemma map_of_refresh: "map_of (refresh ws now) k = map_option (refresh_worker now) (map_of ws k)"
  by (simp add: refresh_def map_of_map_snd [where f = "\<lambda>k v. refresh_worker now v"])

lemma mget_refresh: "mget (refresh ws now) k = refresh_worker now (mget ws k)"
  by (auto simp: mget_def map_of_refresh refresh_worker_def effective_status_def lease_expired_def
      split: option.splits)

lemma recalculate_workers [workers]: "fst (recalculateParallelRunWorkers ws now) = refresh ws now"
  by (simp add: recalculateParallelRunWorkers_def refresh_def Let_def)

lemma recalculate_counters [workers]:
  assumes "wf_map ws"
  shows "fst (snd (recalculateParallelRunWorkers ws now)) = counts (refresh ws now)"
proof -
  have c: "int (length (filter (\<lambda>id. effective_status (mget (refresh ws now) id) = st) (sorted_keys ws)))
      = workers_with st (refresh ws now)" for st
    using filter_by_key [of "refresh ws now" "\<lambda>w. effective_status w = st"] assms
    by (simp add: workers_with_def)
  have l: "length (sorted_keys ws) = length (refresh ws now)"
    by (simp add: sorted_keys_def refresh_def)
  show ?thesis
    unfolding recalculateParallelRunWorkers_def refresh_def [symmetric] Let_def counts_def
    by (intro counters.equality) (simp_all only: fold_count_status c l fst_conv snd_conv counters.simps, simp_all)
qed

lemma effective_status_refresh:
  "effective_status (refresh_worker now w) =
     (if effective_status w = ''running'' \<and> lease_expired now w then ''lost'' else effective_status w)"
  by (simp add: refresh_worker_def effective_status_def json)

lemma refresh_worker_idem [workers]: "refresh_worker now (refresh_worker now w) = refresh_worker now w"
  using effective_status_refresh [of now w] by (auto simp: refresh_worker_def [of now "refresh_worker now w"])
    (simp_all add: refresh_worker_def split: if_splits)

lemma refresh_idem: "refresh (refresh ws now) now = refresh ws now"
  by (induction ws) (auto simp: refresh_def refresh_worker_idem)

text \<open>A partition: a worker of a known status is counted exactly once.\<close>

definition known_status :: "string \<Rightarrow> bool" where
  "known_status s \<longleftrightarrow> s \<in> set [''running'', ''completed'', ''failed'', ''cancelled'', ''lost'']"

lemma counts_partition:
  assumes "\<forall>(id, w) \<in> set ws. known_status (effective_status w)"
  shows "n_total (counts ws) = n_active (counts ws) + n_completed (counts ws) + n_failed (counts ws)
     + n_cancelled (counts ws) + n_lost (counts ws)"
  using assms by (induction ws) (auto simp: counts_def workers_with_def known_status_def)

lemma counts_nonneg: "0 \<le> n_active (counts ws)" "0 \<le> n_total (counts ws)" "n_active (counts ws) \<le> n_total (counts ws)"
  by (simp_all add: counts_def workers_with_def)

section \<open>What the outcome rule decides\<close>

lemma outcome_cases:
  "parallelRunWorkerOutcome st agg cat c now = (st', agg', cat') \<Longrightarrow>
     (st', agg', cat') = (st, agg, cat) \<and> (n_total c = 0 \<or> 0 < n_active c)
     \<or> parallelRunTerminal st' \<and> cat' \<noteq> None \<and> n_total c \<noteq> 0 \<and> n_active c \<le> 0"
  by (auto simp: parallelRunWorkerOutcome_def parallelRunTerminal_def Let_def
      split: if_splits option.splits)

lemma outcome_terminal_current:
  "parallelRunTerminal st \<Longrightarrow> parallelRunTerminal (fst (parallelRunWorkerOutcome st agg cat c now))"
  by (auto simp: parallelRunWorkerOutcome_def parallelRunTerminal_def Let_def)

end
