(* ===== verification/ParallelRuns.thy ===== *)
theory ParallelRuns
  imports WorkerStates "HOL-Library.Product_Lexorder"
begin

text \<open>
  The parallel-run repository (internal/persistence/mysql/browser_parallel_runs.go): schedule
  creation and reads, worker claim, worker update, heartbeat, cancellation, and the run and worker
  tokens. Each operation returns its result (\<open>Inl\<close> an error) and the database after it; a
  transaction that ends in an error leaves the database as it was.
\<close>

section \<open>The API view of a schedule\<close>

record ParallelRun =
  ID :: int
  RunURL :: string
  IDProject :: int
  TestCycleID :: int
  PerformedTestCycleID :: "int option"
  IdempotencyKey :: string
  Status :: string
  RequestedConcurrency :: int
  ActiveWorkers :: int
  TotalWorkers :: int
  CompletedWorkers :: int
  FailedWorkers :: int
  CancelledWorkers :: int
  LostWorkers :: int
  AggregateStatus :: "int option"
  Metadata :: jmap
  ResultSummary :: json
  Workers :: "jmap list"
  ScheduledAt :: "instant option"
  StartedAt :: "instant option"
  CompletedAt :: "instant option"
  CancelledAt :: "instant option"
  WorkerToken :: string

definition worker_view :: "string \<Rightarrow> jmap \<Rightarrow> jmap" where
  "worker_view workerID worker =
     fold (\<lambda>(key, value) c. if key = ''workerTokenHash'' \<or> key = ''workerTokenExpiresAt'' then c
                            else AList.update key value c)
       worker [(''workerId'', JStr workerID)]"

definition scanParallelRun :: "schedule \<Rightarrow> ParallelRun" where
  "scanParallelRun s =
     (let ws = decodeParallelMap (s_workers s)
      in \<lparr>ID = s_id s,
          RunURL = ''/api/admin/projects/'' @ itoa (s_project s) @ ''/parallel-runs/'' @ itoa (s_id s),
          IDProject = s_project s, TestCycleID = s_testCycle s,
          PerformedTestCycleID = s_performedCycle s, IdempotencyKey = s_key s, Status = s_status s,
          RequestedConcurrency = s_requested s, ActiveWorkers = s_active s, TotalWorkers = s_total s,
          CompletedWorkers = s_completed s, FailedWorkers = s_failed s, CancelledWorkers = s_cancelled s,
          LostWorkers = int (length (filter (\<lambda>(id, w). mget (map_or_nil w) ''status'' = JStr ''lost'') ws)),
          AggregateStatus = s_aggregate s, Metadata = decodeParallelMap (s_metadata s),
          ResultSummary = decodeParallelJSON (s_summary s) (JArr []),
          Workers = List.map_filter (\<lambda>id. map_option (worker_view id) (as_map (mget ws id))) (sorted_keys ws),
          ScheduledAt = s_scheduledAt s, StartedAt = s_startedAt s, CompletedAt = s_completedAt s,
          CancelledAt = s_cancelledAt s, WorkerToken = []\<rparr>)"

definition getParallelRun :: "env \<Rightarrow> int \<Rightarrow> int \<Rightarrow> int \<Rightarrow> db \<Rightarrow> err + ParallelRun" where
  "getParallelRun e tenant project run d =
     (if db_fails e ''scan parallel run schedule'' then Inl (DatabaseFailure ''scan parallel run schedule'')
      else case find_schedule tenant project run d of
             None \<Rightarrow> Inl ErrNotFound | Some s \<Rightarrow> Inr (scanParallelRun s))"

definition ensureProject :: "env \<Rightarrow> int \<Rightarrow> int \<Rightarrow> db \<Rightarrow> err + unit" where
  "ensureProject e tenant project d =
     (if db_fails e ''check browser project ownership'' then Inl (DatabaseFailure ''check browser project ownership'')
      else if list_ex (\<lambda>p. p_id p = project \<and> p_tenant p = tenant) (projects d) then Inr () else Inl ErrNotFound)"

definition GetParallelRun :: "env \<Rightarrow> int \<Rightarrow> int \<Rightarrow> int \<Rightarrow> db \<Rightarrow> err + ParallelRun" where
  "GetParallelRun e tenant project run d =
     (case ensureProject e tenant project d of
        Inl x \<Rightarrow> Inl x | Inr _ \<Rightarrow> getParallelRun e tenant project run d)"

text \<open>\<open>fmt.Sprint\<close> of a decoded value, as \<open>parallelRunMatches\<close> compares it.\<close>

fun join :: "string \<Rightarrow> string list \<Rightarrow> string" where
  "join sep [] = []"
| "join sep [x] = x"
| "join sep (x # y # ys) = x @ sep @ join sep (y # ys)"

fun go_sprint :: "json \<Rightarrow> string" where
  "go_sprint JNull = ''<nil>''"
| "go_sprint (JBool b) = (if b then ''true'' else ''false'')"
| "go_sprint (JNum n) = itoa n"
| "go_sprint (JFloat s i) = s"
| "go_sprint (JStr s) = s"
| "go_sprint (JArr xs) = ''['' @ join '' '' (map go_sprint xs) @ '']''"
| "go_sprint (JObj m) =
     ''map['' @ join '' '' (map (\<lambda>(k, t). k @ '':'' @ t) (sort_key fst (map (\<lambda>(k, v). (k, go_sprint v)) m))) @ '']''"

definition parallelRunMatches :: "jmap \<Rightarrow> string gomap \<Rightarrow> bool" where
  "parallelRunMatches md filters =
     (let run = map_or_nil (mget md ''run'')
      in list_all (\<lambda>(field, expected). go_sprint (mget run field) = expected) filters)"

definition newest_first :: "schedule \<Rightarrow> int \<times> int" where
  "newest_first s = (case s_updatedAt s of None \<Rightarrow> (1, 0) | Some t \<Rightarrow> (0, - t))"

definition ListParallelRuns :: "env \<Rightarrow> int \<Rightarrow> int \<Rightarrow> string gomap \<Rightarrow> db \<Rightarrow> err + ParallelRun list" where
  "ListParallelRuns e tenant project filters d =
     (case ensureProject e tenant project d of
        Inl x \<Rightarrow> Inl x
      | Inr _ \<Rightarrow>
          let rows = take 50 (sort_key newest_first
                       (filter (\<lambda>s. s_tenant s = tenant \<and> s_project s = project) (schedules d)))
          in if db_fails e ''list parallel run schedules'' then Inl (DatabaseFailure ''list parallel run schedules'')
             else if rows \<noteq> [] \<and> db_fails e ''scan parallel run schedule''
             then Inl (DatabaseFailure ''scan parallel run schedule'')
             else if db_fails e ''read parallel run schedules'' then Inl (DatabaseFailure ''read parallel run schedules'')
             else Inr (filter (\<lambda>run. parallelRunMatches (Metadata run) filters) (map scanParallelRun rows)))"

section \<open>Creation\<close>

record ParallelRunCreate =
  pc_TenantID :: int
  pc_ProjectID :: int
  pc_TestCycleID :: int
  pc_IdempotencyKey :: string
  pc_RequestedConcurrency :: int
  pc_Metadata :: jmap
  pc_Now :: instant

text \<open>The integer value of a decoded number: \<open>typed == float64(int64(typed))\<close>.\<close>

fun integral :: "json \<Rightarrow> int option" where
  "integral (JNum n) = Some n"
| "integral (JFloat s i) = i"
| "integral _ = None"

definition reference_id :: "json \<Rightarrow> int" where
  "reference_id item =
     (case item of
        JObj m \<Rightarrow> (case integral (mget m ''id'') of
                     Some n \<Rightarrow> n
                   | None \<Rightarrow> (case integral (mget m ''assetId'') of Some n \<Rightarrow> n | None \<Rightarrow> 0))
      | _ \<Rightarrow> (case integral item of Some n \<Rightarrow> n | None \<Rightarrow> 0))"

fun reference_loop :: "json list \<Rightarrow> int list \<Rightarrow> int list" where
  "reference_loop [] result = result"
| "reference_loop (item # items) result =
     (let n = reference_id item
      in if n > 0 \<and> n \<notin> set result then reference_loop items (result @ [n]) else reference_loop items result)"

definition parallelReferenceIDs :: "json \<Rightarrow> int list" where
  "parallelReferenceIDs value = (case value of JArr items \<Rightarrow> reference_loop items [] | _ \<Rightarrow> [])"

definition latestParallelAssetVersion :: "int \<Rightarrow> string \<Rightarrow> int \<Rightarrow> db \<Rightarrow> json" where
  "latestParallelAssetVersion tenant assetType assetID d =
     (case sort_key (\<lambda>v. - v_version v)
             (filter (\<lambda>v. v_tenant v = tenant \<and> v_type v = assetType \<and> v_asset v = assetID) (asset_versions d)) of
        [] \<Rightarrow> JNull
      | v # _ \<Rightarrow> JObj [(''assetType'', JStr assetType), (''assetId'', JNum assetID),
                       (''version'', JNum (v_version v)), (''versionId'', JNum (v_id v))])"

definition snapshot_item :: "int \<Rightarrow> string \<Rightarrow> db \<Rightarrow> int \<Rightarrow> json" where
  "snapshot_item tenant assetType d assetID =
     (let version = latestParallelAssetVersion tenant assetType assetID d
      in if version = JNull
         then JObj [(''assetType'', JStr assetType), (''assetId'', JNum assetID), (''version'', JNull)] else version)"

definition parallelRunExecutionSnapshot :: "env \<Rightarrow> int \<Rightarrow> int \<Rightarrow> db \<Rightarrow> err + jmap" where
  "parallelRunExecutionSnapshot e tenant cycle d =
     (if db_fails e ''load parallel run execution snapshot''
      then Inl (DatabaseFailure ''load parallel run execution snapshot'')
      else case find (\<lambda>c. c_id c = cycle \<and> c_tenant c = tenant) (test_cycles d) of
             None \<Rightarrow> Inl ErrNotFound
           | Some c \<Rightarrow>
               if db_fails e ''load parallel run asset version''
               then Inl (DatabaseFailure ''load parallel run asset version'')
               else let config = decodeParallelMap (c_config c);
                        items = (\<lambda>key assetType. JArr (map (snapshot_item tenant assetType d)
                                                        (parallelReferenceIDs (mget config key))))
                    in Inr [(''schemaVersion'', JStr ''2026-07-28''),
                            (''testCycle'', latestParallelAssetVersion tenant ''test_cycle'' cycle d),
                            (''tests'', items ''tests'' ''test''),
                            (''steps'', items ''steps'' ''step''),
                            (''environments'', items ''environments'' ''environment'')])"

definition ensureParallelRunProjectAndCycle :: "env \<Rightarrow> ParallelRunCreate \<Rightarrow> db \<Rightarrow> err + unit" where
  "ensureParallelRunProjectAndCycle e input d =
     (if db_fails e ''lock parallel run project'' then Inl (DatabaseFailure ''lock parallel run project'')
      else if \<not> list_ex (\<lambda>p. p_id p = pc_ProjectID input \<and> p_tenant p = pc_TenantID input) (projects d)
      then Inl ErrNotFound
      else if db_fails e ''lock parallel run test cycle'' then Inl (DatabaseFailure ''lock parallel run test cycle'')
      else if \<not> list_ex (\<lambda>c. c_id c = pc_TestCycleID input \<and> c_project c = pc_ProjectID input
                            \<and> c_tenant c = pc_TenantID input) (test_cycles d)
      then Inl ErrNotFound else Inr ())"

text \<open>The digest is of the JSON text, in which \<open>encoding/json\<close> sorts the keys of a map.\<close>

definition canonical :: "combination \<Rightarrow> combination" where
  "canonical c = map (\<lambda>k. (k, the (map_of c k))) (sorted_keys c)"

definition parallelMatrixIdempotencyKey :: "env \<Rightarrow> string \<Rightarrow> combination \<Rightarrow> string" where
  "parallelMatrixIdempotencyKey e base c = base @ ''-'' @ hex_encode (take 8 (sha256_json e (canonical c)))"

definition combination_json :: "combination \<Rightarrow> json" where
  "combination_json c = JObj (map (\<lambda>(k, v). (k, JStr v)) c)"

definition run_metadata :: "ParallelRunCreate \<Rightarrow> jmap \<Rightarrow> nat \<Rightarrow> nat \<Rightarrow> combination option \<Rightarrow> jmap" where
  "run_metadata input snapshot index runs_total combination =
     (let md = AList.update ''executionSnapshot'' (JObj snapshot) (pc_Metadata input)
      in case combination of
           None \<Rightarrow> md
         | Some c \<Rightarrow> AList.update ''matrix'' (JObj [(''index'', JNum (int index)), (''total'', JNum (int runs_total)),
                                                (''combination'', combination_json c)]) md)"

definition run_key :: "env \<Rightarrow> ParallelRunCreate \<Rightarrow> combination option \<Rightarrow> string" where
  "run_key e input combination =
     (case combination of None \<Rightarrow> pc_IdempotencyKey input
      | Some c \<Rightarrow> parallelMatrixIdempotencyKey e (pc_IdempotencyKey input) c)"

definition new_schedule :: "env \<Rightarrow> ParallelRunCreate \<Rightarrow> string \<Rightarrow> jmap \<Rightarrow> int \<Rightarrow> schedule" where
  "new_schedule e input key md runID =
     \<lparr>s_id = runID, s_tenant = pc_TenantID input, s_project = pc_ProjectID input,
      s_testCycle = pc_TestCycleID input, s_performedCycle = None, s_key = key, s_status = ''queued'',
      s_requested = pc_RequestedConcurrency input, s_active = 0, s_total = 0, s_completed = 0,
      s_failed = 0, s_cancelled = 0, s_aggregate = None, s_workers = Some (JObj []),
      s_summary = Some (JObj []), s_metadata = Some (JObj md),
      s_scheduledAt = Some (column_time e (pc_Now input)), s_startedAt = None, s_completedAt = None,
      s_cancelledAt = None, s_updatedAt = Some (column_time e (pc_Now input))\<rparr>"

text \<open>
  \<open>INSERT \<dots> ON DUPLICATE KEY UPDATE id = LAST_INSERT_ID(id)\<close> under the unique key
  (customer, project, idempotency key): the identifier of the row with that key, old or new.
\<close>

definition has_key :: "int \<Rightarrow> int \<Rightarrow> string \<Rightarrow> schedule \<Rightarrow> bool" where
  "has_key tenant project key s \<longleftrightarrow> s_tenant s = tenant \<and> s_project s = project \<and> s_key s = key"

definition insert_schedule :: "env \<Rightarrow> ParallelRunCreate \<Rightarrow> string \<Rightarrow> jmap \<Rightarrow> db \<Rightarrow> int \<times> db" where
  "insert_schedule e input key md d =
     (case find (has_key (pc_TenantID input) (pc_ProjectID input) key) (schedules d) of
        Some s \<Rightarrow> (s_id s, d)
      | None \<Rightarrow> (next_schedule d,
                 d\<lparr>schedules := schedules d @ [new_schedule e input key md (next_schedule d)],
                   next_schedule := next_schedule d + 1\<rparr>))"

fun create_loop :: "env \<Rightarrow> ParallelRunCreate \<Rightarrow> jmap \<Rightarrow> nat \<Rightarrow> nat \<Rightarrow> combination option list \<Rightarrow> db
    \<Rightarrow> err + (ParallelRun list \<times> db)" where
  "create_loop e input snapshot index runs_total [] d = Inr ([], d)"
| "create_loop e input snapshot index runs_total (c # cs) d =
     (if db_fails e ''create parallel run schedule'' then Inl (DatabaseFailure ''create parallel run schedule'')
      else if db_fails e ''read parallel run schedule id'' then Inl (DatabaseFailure ''read parallel run schedule id'')
      else let (runID, d1) = insert_schedule e input (run_key e input c) (run_metadata input snapshot index runs_total c) d
           in case getParallelRun e (pc_TenantID input) (pc_ProjectID input) runID d1 of
                Inl x \<Rightarrow> Inl x
              | Inr run \<Rightarrow> (case create_loop e input snapshot (Suc index) runs_total cs d1 of
                            Inl x \<Rightarrow> Inl x | Inr (runs, d2) \<Rightarrow> Inr (run # runs, d2)))"

definition createParallelRuns :: "env \<Rightarrow> ParallelRunCreate \<Rightarrow> combination list option \<Rightarrow> db
    \<Rightarrow> (err + ParallelRun list) \<times> db" where
  "createParallelRuns e input combinations d =
     (if db_fails e ''start parallel run schedule transaction''
      then (Inl (DatabaseFailure ''start parallel run schedule transaction''), d)
      else case ensureParallelRunProjectAndCycle e input d of
        Inl x \<Rightarrow> (Inl x, d)
      | Inr _ \<Rightarrow> (case parallelRunExecutionSnapshot e (pc_TenantID input) (pc_TestCycleID input) d of
          Inl x \<Rightarrow> (Inl x, d)
        | Inr snapshot \<Rightarrow>
            let cs = (case combinations of None \<Rightarrow> [None] | Some l \<Rightarrow> map Some l)
            in (case create_loop e input snapshot 0 (length cs) cs d of
                  Inl x \<Rightarrow> (Inl x, d)
                | Inr (runs, d') \<Rightarrow>
                    if db_fails e ''commit parallel run schedules''
                    then (Inl (DatabaseFailure ''commit parallel run schedules''), d)
                    else (Inr runs, d'))))"

definition CreateParallelRun :: "env \<Rightarrow> ParallelRunCreate \<Rightarrow> db \<Rightarrow> (err + ParallelRun) \<times> db" where
  "CreateParallelRun e input d =
     (case createParallelRuns e input None d of
        (Inl x, d') \<Rightarrow> (Inl x, d')
      | (Inr (run # _), d') \<Rightarrow> (Inr run, d')
      | (Inr [], d') \<Rightarrow> (Inl Panic, d'))"

definition CreateParallelRunMatrix :: "env \<Rightarrow> ParallelRunCreate \<Rightarrow> combination list \<Rightarrow> db
    \<Rightarrow> (err + ParallelRun list) \<times> db" where
  "CreateParallelRunMatrix e input combinations d = createParallelRuns e input (Some combinations) d"

section \<open>Audit records\<close>

definition redacted_claim_values :: "string \<Rightarrow> json" where
  "redacted_claim_values agentID = JObj [(''agentId'', JStr agentID), (''tokenId'', JStr ''[REDACTED]''),
     (''token'', JStr ''[REDACTED]'')]"

record ParallelRunClaim =
  cl_TenantID :: int
  cl_ActorUserID :: "int option"
  cl_ActorTenantID :: int
  cl_ProjectID :: int
  cl_RunID :: int
  cl_WorkerID :: string
  cl_Capabilities :: "json list"
  cl_CapabilitiesSet :: bool
  cl_RunToken :: string
  cl_CertificateHash :: string
  cl_IssueWorkerToken :: bool
  cl_Now :: instant

definition recordParallelRunTokenAudit :: "env \<Rightarrow> ParallelRunClaim \<Rightarrow> string \<Rightarrow> string \<Rightarrow> db \<Rightarrow> (err + unit) \<times> db" where
  "recordParallelRunTokenAudit e input action result d =
     (if db_fails e ''record run token claim audit'' then (Inl (DatabaseFailure ''record run token claim audit''), d)
      else (Inr (), d\<lparr>audit_events := audit_events d @
        [\<lparr>e_actorUser = cl_ActorUserID input, e_actorTenant = cl_ActorTenantID input,
          e_activeTenant = cl_TenantID input, e_project = cl_ProjectID input, e_action = action,
          e_target = cl_RunID input, e_before = None, e_after = Some (redacted_claim_values (cl_WorkerID input)),
          e_result = result, e_sourceIp = source_ip e, e_correlation = correlation_id e\<rparr>]\<rparr>))"

definition recordParallelRunTokenLifecycleAudit ::
  "env \<Rightarrow> int \<Rightarrow> int \<Rightarrow> int \<Rightarrow> string \<Rightarrow> json option \<Rightarrow> json option \<Rightarrow> db \<Rightarrow> (err + unit) \<times> db" where
  "recordParallelRunTokenLifecycleAudit e tenant project run action beforeDoc afterDoc d =
     (if db_fails e ''record run token lifecycle audit''
      then (Inl (DatabaseFailure ''record run token lifecycle audit''), d)
      else (Inr (), d\<lparr>audit_events := audit_events d @
        [\<lparr>e_actorUser = None, e_actorTenant = tenant, e_activeTenant = tenant, e_project = project,
          e_action = action, e_target = run, e_before = beforeDoc, e_after = afterDoc,
          e_result = ''success'', e_sourceIp = source_ip e, e_correlation = correlation_id e\<rparr>]\<rparr>))"

section \<open>Run tokens\<close>

definition randomParallelRunTokenPart :: "env \<Rightarrow> nat \<Rightarrow> string option" where
  "randomParallelRunTokenPart e bytesCount = map_option hex_encode (rand_bytes e bytesCount)"

record RunTokenIssued =
  ti_Token :: string
  ti_ExpiresAt :: string
  ti_AgentID :: string

definition IssueParallelRunToken ::
  "env \<Rightarrow> int \<Rightarrow> int \<Rightarrow> int \<Rightarrow> string \<Rightarrow> instant \<Rightarrow> int \<Rightarrow> db \<Rightarrow> (err + RunTokenIssued) \<times> db" where
  "IssueParallelRunToken e tenant project run agentID now ttl d =
     (if db_fails e ''load parallel run for token issue''
      then (Inl (DatabaseFailure ''load parallel run for token issue''), d)
      else case find_schedule tenant project run d of
        None \<Rightarrow> (Inl ErrNotFound, d)
      | Some s \<Rightarrow> (case randomParallelRunTokenPart e 12 of
          None \<Rightarrow> (Inl (Failure ''run token identifier generation failed''), d)
        | Some tokenIDPart \<Rightarrow> (case randomParallelRunTokenPart e 32 of
            None \<Rightarrow> (Inl (Failure ''run token secret generation failed''), d)
          | Some secret \<Rightarrow>
              let tokenID = ''idrt_'' @ tokenIDPart
              in (case bcrypt_generate e secret of
                    None \<Rightarrow> (Inl (Failure ''run token hashing failed''), d)
                  | Some hash \<Rightarrow>
                      let expiresAt = now + ttl
                      in if db_fails e ''issue parallel run token''
                            \<or> list_ex (\<lambda>t. t_tokenId t = tokenID) (run_tokens d)
                         then (Inl (DatabaseFailure ''issue parallel run token''), d)
                         else let d1 = d\<lparr>run_tokens := run_tokens d @
                                [\<lparr>t_id = next_token d, t_tenant = tenant, t_project = project,
                                  t_schedule = s_id s, t_agent = agentID, t_tokenId = tokenID,
                                  t_hash = hash, t_expiresAt = column_time e expiresAt,
                                  t_usedAt = None, t_revokedAt = None\<rparr>],
                                next_token := next_token d + 1\<rparr>
                              in (case recordParallelRunTokenLifecycleAudit e tenant project run ''run_token.issue'' None
                                       (Some (JObj [(''agentId'', JStr agentID), (''tokenId'', JStr ''[REDACTED]''),
                                          (''token'', JStr ''[REDACTED]''),
                                          (''expiresAt'', JStr (parallelRunISOString expiresAt))])) d1 of
                                    (Inl x, d2) \<Rightarrow> (Inl x, d2)
                                  | (Inr _, d2) \<Rightarrow>
                                      (Inr \<lparr>ti_Token = tokenID @ ''.'' @ secret,
                                            ti_ExpiresAt = parallelRunISOString expiresAt,
                                            ti_AgentID = agentID\<rparr>, d2))))))"

definition RevokeParallelRunToken ::
  "env \<Rightarrow> int \<Rightarrow> int \<Rightarrow> int \<Rightarrow> string \<Rightarrow> instant \<Rightarrow> db \<Rightarrow> (err + (string \<times> string)) \<times> db" where
  "RevokeParallelRunToken e tenant project run tokenID now d =
     (if db_fails e ''start run token revocation transaction''
      then (Inl (DatabaseFailure ''start run token revocation transaction''), d)
      else if db_fails e ''lock parallel run token revocation''
      then (Inl (DatabaseFailure ''lock parallel run token revocation''), d)
      else case find (\<lambda>t. t_tokenId t = tokenID \<and> t_tenant t = tenant \<and> t_project t = project
                          \<and> t_schedule t = run) (run_tokens d) of
        None \<Rightarrow> (Inl ErrNotFound, d)
      | Some t \<Rightarrow>
          let beforeDoc = JObj [(''tokenId'', JStr ''[REDACTED]''),
                (''revokedAt'', case t_revokedAt t of None \<Rightarrow> JNull | Some r \<Rightarrow> JStr (parallelRunISOString r))];
              revokedAt = (case t_revokedAt t of None \<Rightarrow> now | Some r \<Rightarrow> r);
              d1 = (if t_revokedAt t = None
                    then d\<lparr>run_tokens := upd_rows (\<lambda>r. t_id r = t_id t \<and> t_revokedAt r = None)
                            (\<lambda>r. r\<lparr>t_revokedAt := Some (column_time e now)\<rparr>) (run_tokens d)\<rparr>
                    else d)
          in if t_revokedAt t = None \<and> db_fails e ''revoke parallel run token''
             then (Inl (DatabaseFailure ''revoke parallel run token''), d)
             else if db_fails e ''commit run token revocation''
             then (Inl (DatabaseFailure ''commit run token revocation''), d)
             else (case recordParallelRunTokenLifecycleAudit e tenant project run ''run_token.revoke'' (Some beforeDoc)
                        (Some (JObj [(''agentId'', JStr (t_agent t)), (''tokenId'', JStr ''[REDACTED]''),
                               (''revokedAt'', JStr (parallelRunISOString revokedAt))])) d1 of
                     (Inl x, d2) \<Rightarrow> (Inl x, d2)
                   | (Inr _, d2) \<Rightarrow> (Inr (tokenID, parallelRunISOString revokedAt), d2)))"

definition consumeParallelRunToken :: "env \<Rightarrow> ParallelRunClaim \<Rightarrow> db \<Rightarrow> (err + unit) \<times> db" where
  "consumeParallelRunToken e input d =
     (let (tokenID, secret, valid) = Cut (cl_RunToken input) (CHR ''.'')
      in if \<not> valid \<or> \<not> HasPrefix tokenID ''idrt_'' \<or> secret = [] then (Inl ErrRunTokenInvalid, d)
         else if db_fails e ''start run token consumption''
         then (Inl (DatabaseFailure ''start run token consumption''), d)
         else if db_fails e ''lock run token for claim''
         then (Inl (DatabaseFailure ''lock run token for claim''), d)
         else case find (\<lambda>t. t_tokenId t = tokenID \<and> t_tenant t = cl_TenantID input
                             \<and> t_project t = cl_ProjectID input \<and> t_schedule t = cl_RunID input
                             \<and> t_agent t = cl_WorkerID input) (run_tokens d) of
           None \<Rightarrow> (Inl ErrRunTokenInvalid, d)
         | Some t \<Rightarrow>
             if t_usedAt t \<noteq> None \<or> t_revokedAt t \<noteq> None \<or> \<not> t_expiresAt t > cl_Now input
                \<or> \<not> bcrypt_matches e (t_hash t) secret
             then (Inl ErrRunTokenInvalid, d)
             else if db_fails e ''consume run token for claim''
             then (Inl (DatabaseFailure ''consume run token for claim''), d)
             else let p = (\<lambda>r. t_id r = t_id t \<and> t_usedAt r = None \<and> t_revokedAt r = None)
                  in if length (filter p (run_tokens d)) \<noteq> 1 then (Inl ErrRunTokenInvalid, d)
                     else if db_fails e ''commit run token consumption''
                     then (Inl (DatabaseFailure ''commit run token consumption''), d)
                     else (Inr (), d\<lparr>run_tokens := upd_rows p
                            (\<lambda>r. r\<lparr>t_usedAt := Some (column_time e (cl_Now input))\<rparr>) (run_tokens d)\<rparr>))"

section \<open>Claiming a worker slot\<close>

definition validateParallelRunAgent :: "env \<Rightarrow> ParallelRunClaim \<Rightarrow> db \<Rightarrow> err + unit" where
  "validateParallelRunAgent e input d =
     (if db_fails e ''validate parallel run agent'' then Inl (DatabaseFailure ''validate parallel run agent'')
      else case find (\<lambda>a. a_tenant a = cl_TenantID input \<and> a_agentId a = cl_WorkerID input) (agents d) of
        None \<Rightarrow> Inr ()
      | Some a \<Rightarrow>
          let expected = str_or_empty (mget (decodeParallelMap (a_identity a)) ''certificateSha256'')
          in if expected \<noteq> [] \<and> ToLower expected \<noteq> ToLower (cl_CertificateHash input)
             then Inl ErrAgentProofInvalid
             else if a_status a \<noteq> ''approved'' \<or> a_health a = ''unhealthy''
             then Inl (AgentUnavailableError (a_status a) (a_health a))
             else Inr ())"

definition lease_default :: int where
  "lease_default = 120 * second"

text \<open>The document a claim writes for its worker: a new one, with what it keeps of an existing one.\<close>

definition claimed_worker :: "ParallelRunClaim \<Rightarrow> string \<Rightarrow> jmap option \<Rightarrow> jmap" where
  "claimed_worker input tokenHash existing =
     (let now = JStr (parallelRunISOString (cl_Now input));
          lease = JStr (parallelRunISOString (cl_Now input + lease_default));
          capabilities = (if cl_CapabilitiesSet input then JArr (cl_Capabilities input)
                          else case existing of
                                 Some m \<Rightarrow> if mget m ''capabilities'' \<noteq> JNull then mget m ''capabilities'' else JArr []
                               | None \<Rightarrow> JArr []);
          claimedAt = (case existing of
                         Some m \<Rightarrow> if mget m ''claimedAt'' \<noteq> JNull then mget m ''claimedAt'' else now
                       | None \<Rightarrow> now);
          result = (case existing of Some m \<Rightarrow> mget m ''result'' | None \<Rightarrow> JNull)
      in [(''workerId'', JStr (cl_WorkerID input)), (''status'', JStr ''running''),
          (''capabilities'', capabilities), (''claimedAt'', claimedAt), (''lastHeartbeatAt'', now),
          (''leaseExpiresAt'', lease), (''updatedAt'', now), (''result'', result)]
         @ (if cl_IssueWorkerToken input
            then [(''workerTokenHash'', JStr tokenHash), (''workerTokenExpiresAt'', lease)] else []))"

definition existing_worker :: "jmap \<Rightarrow> string \<Rightarrow> jmap option" where
  "existing_worker ws workerID = as_map (mget ws workerID)"

definition store_workers :: "jmap \<Rightarrow> counters \<Rightarrow> json list \<Rightarrow> schedule \<Rightarrow> schedule" where
  "store_workers ws c summary s =
     s\<lparr>s_workers := Some (JObj ws), s_summary := Some (JArr summary), s_active := n_active c,
       s_total := n_total c, s_completed := n_completed c, s_failed := n_failed c, s_cancelled := n_cancelled c\<rparr>"

definition claim_row :: "env \<Rightarrow> ParallelRunClaim \<Rightarrow> string \<Rightarrow> schedule \<Rightarrow> schedule" where
  "claim_row e input tokenHash s =
     (let ws = decodeParallelMap (s_workers s);
          ws1 = AList.update (cl_WorkerID input)
                  (JObj (claimed_worker input tokenHash (existing_worker ws (cl_WorkerID input)))) ws;
          (ws2, c, summary) = recalculateParallelRunWorkers ws1 (cl_Now input);
          now = column_time e (cl_Now input)
      in (store_workers ws2 c summary s)
           \<lparr>s_status := ''running'',
            s_startedAt := (case s_startedAt s of Some t \<Rightarrow> Some t | None \<Rightarrow> Some now),
            s_updatedAt := Some now\<rparr>)"

definition claim_guard :: "env \<Rightarrow> ParallelRunClaim \<Rightarrow> db \<Rightarrow> schedule \<Rightarrow> err + unit" where
  "claim_guard e input d s =
     (if parallelRunTerminal (s_status s) then Inl ErrParallelRunTerminal
      else if s_status s = ''cancelling'' then Inl ErrParallelRunCancelling
      else case validateParallelRunAgent e input d of
        Inl x \<Rightarrow> Inl x
      | Inr _ \<Rightarrow>
          if existing_worker (decodeParallelMap (s_workers s)) (cl_WorkerID input) = None
             \<and> s_active s \<ge> s_requested s
          then Inl ErrParallelRunConcurrency
          else if decodesToNil (s_workers s) then Inl Panic else Inr ())"

definition claim_transaction :: "env \<Rightarrow> ParallelRunClaim \<Rightarrow> string \<Rightarrow> string \<Rightarrow> db \<Rightarrow> (err + ParallelRun) \<times> db" where
  "claim_transaction e input workerToken tokenHash d =
     (if db_fails e ''start parallel run claim transaction''
      then (Inl (DatabaseFailure ''start parallel run claim transaction''), d)
      else if db_fails e ''lock parallel run worker claim''
      then (Inl (DatabaseFailure ''lock parallel run worker claim''), d)
      else case find_schedule (cl_TenantID input) (cl_ProjectID input) (cl_RunID input) d of
        None \<Rightarrow> (Inl ErrNotFound, d)
      | Some s \<Rightarrow> (case claim_guard e input d s of
          Inl x \<Rightarrow> (Inl x, d)
        | Inr _ \<Rightarrow>
            if db_fails e ''update parallel run worker claim''
            then (Inl (DatabaseFailure ''update parallel run worker claim''), d)
            else let d' = update_schedule (cl_TenantID input) (cl_ProjectID input) (cl_RunID input)
                            (claim_row e input tokenHash) d
                 in (case getParallelRun e (cl_TenantID input) (cl_ProjectID input) (cl_RunID input) d' of
                       Inl x \<Rightarrow> (Inl x, d)
                     | Inr run \<Rightarrow>
                         if db_fails e ''commit parallel run worker claim''
                         then (Inl (DatabaseFailure ''commit parallel run worker claim''), d)
                         else (Inr (run\<lparr>WorkerToken := workerToken\<rparr>), d'))))"

text \<open>The worker token a claim asks for, with the hash that is stored.\<close>

definition issue_worker_token :: "env \<Rightarrow> ParallelRunClaim \<Rightarrow> err + string \<times> string" where
  "issue_worker_token e input =
     (if cl_IssueWorkerToken input
      then (case randomParallelRunTokenPart e 32 of
              None \<Rightarrow> Inl (Failure ''worker token generation failed'')
            | Some secret \<Rightarrow>
                (case bcrypt_generate e (''idwt_'' @ secret) of
                   None \<Rightarrow> Inl (Failure ''worker token hashing failed'')
                 | Some hash \<Rightarrow> Inr (''idwt_'' @ secret, hash)))
      else Inr ([], []))"

definition ClaimParallelRun :: "env \<Rightarrow> ParallelRunClaim \<Rightarrow> db \<Rightarrow> (err + ParallelRun) \<times> db" where
  "ClaimParallelRun e input d =
     (case issue_worker_token e input of
        Inl x \<Rightarrow> (Inl x, d)
      | Inr (workerToken, tokenHash) \<Rightarrow>
          if cl_RunToken input \<noteq> []
          then (case consumeParallelRunToken e input d of
                  (Inl x, d1) \<Rightarrow>
                    (case recordParallelRunTokenAudit e input ''run_token.reject'' ''failure'' d1 of
                       (Inl auditErr, d2) \<Rightarrow> (Inl auditErr, d2)
                     | (Inr _, d2) \<Rightarrow> (Inl x, d2))
                | (Inr _, d1) \<Rightarrow>
                    (case recordParallelRunTokenAudit e input ''run_token.consume'' ''success'' d1 of
                       (Inl auditErr, d2) \<Rightarrow> (Inl auditErr, d2)
                     | (Inr _, d2) \<Rightarrow> claim_transaction e input workerToken tokenHash d2))
          else claim_transaction e input workerToken tokenHash d)"

section \<open>Worker updates, heartbeats and cancellation\<close>

record RunnerWorkerUpdate =
  up_TenantID :: int
  up_ProjectID :: int
  up_RunID :: int
  up_WorkerID :: string
  up_Status :: string
  up_Result :: json
  up_Now :: instant

definition updated_worker :: "RunnerWorkerUpdate \<Rightarrow> jmap \<Rightarrow> jmap" where
  "updated_worker input worker =
     (let w1 = AList.update ''status'' (JStr (up_Status input)) worker;
          w2 = AList.update ''updatedAt'' (JStr (parallelRunISOString (up_Now input))) w1
      in if up_Result input \<noteq> JNull then AList.update ''result'' (up_Result input) w2 else w2)"

definition update_row :: "env \<Rightarrow> RunnerWorkerUpdate \<Rightarrow> jmap \<Rightarrow> schedule \<Rightarrow> schedule" where
  "update_row e input worker s =
     (let ws1 = AList.update (up_WorkerID input) (JObj (updated_worker input worker)) (decodeParallelMap (s_workers s));
          (ws2, c, summary) = recalculateParallelRunWorkers ws1 (up_Now input)
      in (store_workers ws2 c summary s)\<lparr>s_updatedAt := Some (column_time e (up_Now input))\<rparr>)"

definition UpdateRunnerWorker :: "env \<Rightarrow> RunnerWorkerUpdate \<Rightarrow> db \<Rightarrow> (err + ParallelRun) \<times> db" where
  "UpdateRunnerWorker e input d =
     (if db_fails e ''start runner worker update'' then (Inl (DatabaseFailure ''start runner worker update''), d)
      else if db_fails e ''lock runner worker update'' then (Inl (DatabaseFailure ''lock runner worker update''), d)
      else case find_schedule (up_TenantID input) (up_ProjectID input) (up_RunID input) d of
        None \<Rightarrow> (Inl ErrNotFound, d)
      | Some s \<Rightarrow>
          if parallelRunTerminal (s_status s) then (Inl ErrParallelRunTerminal, d)
          else (case existing_worker (decodeParallelMap (s_workers s)) (up_WorkerID input) of
            None \<Rightarrow> (Inl ErrParallelWorkerMissing, d)
          | Some worker \<Rightarrow>
              if db_fails e ''update runner worker'' then (Inl (DatabaseFailure ''update runner worker''), d)
              else let d' = update_schedule (up_TenantID input) (up_ProjectID input) (up_RunID input)
                              (update_row e input worker) d
                   in (case getParallelRun e (up_TenantID input) (up_ProjectID input) (up_RunID input) d' of
                         Inl x \<Rightarrow> (Inl x, d)
                       | Inr run \<Rightarrow>
                           if db_fails e ''commit runner worker update''
                           then (Inl (DatabaseFailure ''commit runner worker update''), d)
                           else (Inr run, d'))))"

definition renewed_worker :: "instant \<Rightarrow> int \<Rightarrow> jmap \<Rightarrow> jmap" where
  "renewed_worker now leaseSeconds worker =
     AList.update ''updatedAt'' (JStr (parallelRunISOString now))
       (AList.update ''leaseExpiresAt'' (JStr (parallelRunISOString (now + leaseSeconds * second)))
         (AList.update ''lastHeartbeatAt'' (JStr (parallelRunISOString now)) worker))"

definition heartbeat_row :: "env \<Rightarrow> string \<Rightarrow> int \<Rightarrow> instant \<Rightarrow> schedule \<Rightarrow> schedule" where
  "heartbeat_row e workerID leaseSeconds now s =
     (let ws0 = fst (recalculateParallelRunWorkers (decodeParallelMap (s_workers s)) now);
          ws1 = (case existing_worker ws0 workerID of
                   None \<Rightarrow> ws0
                 | Some worker \<Rightarrow>
                     if str_or_empty (mget worker ''status'') = ''running''
                     then AList.update workerID (JObj (renewed_worker now leaseSeconds worker)) ws0 else ws0);
          (ws2, c, summary) = recalculateParallelRunWorkers ws1 now;
          (nextStatus, nextAggregate, nextCompletedAt) =
            parallelRunWorkerOutcome (s_status s) (s_aggregate s) (s_completedAt s) c (column_time e now)
      in (store_workers ws2 c summary s)
           \<lparr>s_status := nextStatus, s_aggregate := nextAggregate, s_completedAt := nextCompletedAt,
            s_updatedAt := Some (column_time e now)\<rparr>)"

record ParallelRunHeartbeat =
  hb_Run :: ParallelRun
  hb_WorkerStatus :: string

definition HeartbeatParallelRunWorker ::
  "env \<Rightarrow> int \<Rightarrow> int \<Rightarrow> int \<Rightarrow> string \<Rightarrow> int \<Rightarrow> instant \<Rightarrow> db \<Rightarrow> (err + ParallelRunHeartbeat) \<times> db" where
  "HeartbeatParallelRunWorker e tenant project run workerID leaseSeconds now d =
     (if db_fails e ''start parallel run heartbeat transaction''
      then (Inl (DatabaseFailure ''start parallel run heartbeat transaction''), d)
      else if db_fails e ''lock parallel run worker heartbeat''
      then (Inl (DatabaseFailure ''lock parallel run worker heartbeat''), d)
      else case find_schedule tenant project run d of
        None \<Rightarrow> (Inl ErrNotFound, d)
      | Some s \<Rightarrow>
          if parallelRunTerminal (s_status s) then (Inl ErrParallelRunTerminal, d)
          else (case existing_worker (fst (recalculateParallelRunWorkers (decodeParallelMap (s_workers s)) now)) workerID of
            None \<Rightarrow> (Inl ErrParallelWorkerMissing, d)
          | Some worker \<Rightarrow>
              let workerStatus = str_or_empty (mget worker ''status'')
              in if db_fails e ''update parallel run worker heartbeat''
                 then (Inl (DatabaseFailure ''update parallel run worker heartbeat''), d)
                 else let d' = update_schedule tenant project run (heartbeat_row e workerID leaseSeconds now) d
                      in (case getParallelRun e tenant project run d' of
                            Inl x \<Rightarrow> (Inl x, d)
                          | Inr r \<Rightarrow>
                              if db_fails e ''commit parallel run worker heartbeat''
                              then (Inl (DatabaseFailure ''commit parallel run worker heartbeat''), d)
                              else (Inr \<lparr>hb_Run = r,
                                         hb_WorkerStatus = (if workerStatus \<noteq> ''running'' then workerStatus else [])\<rparr>, d'))))"

definition cancel_worker :: "instant \<Rightarrow> json \<Rightarrow> json" where
  "cancel_worker now w =
     (if mget (map_or_nil w) ''status'' = JStr ''running''
      then JObj (AList.update ''updatedAt'' (JStr (parallelRunISOString now))
             (AList.update ''status'' (JStr ''cancelled'') (map_or_nil w)))
      else w)"

definition cancel_workers :: "instant \<Rightarrow> jmap \<Rightarrow> jmap" where
  "cancel_workers now ws = map (\<lambda>(id, w). (id, cancel_worker now w)) ws"

definition cancel_row :: "env \<Rightarrow> instant \<Rightarrow> schedule \<Rightarrow> schedule" where
  "cancel_row e now s =
     (let ws1 = cancel_workers now (decodeParallelMap (s_workers s));
          (ws2, c, summary) = recalculateParallelRunWorkers ws1 now;
          (nextStatus, nextAggregate, nextCompletedAt) =
            parallelRunWorkerOutcome ''cancelled'' (Some 3) (Some (column_time e now)) c (column_time e now)
      in (store_workers ws2 c summary s)
           \<lparr>s_workers := Some (if decodesToNil (s_workers s) then JNull else JObj ws2),
            s_status := nextStatus, s_aggregate := nextAggregate,
            s_cancelledAt := Some (column_time e now), s_completedAt := nextCompletedAt,
            s_updatedAt := Some (column_time e now)\<rparr>)"

definition CancelParallelRun :: "env \<Rightarrow> int \<Rightarrow> int \<Rightarrow> int \<Rightarrow> instant \<Rightarrow> db \<Rightarrow> (err + ParallelRun) \<times> db" where
  "CancelParallelRun e tenant project run now d =
     (if db_fails e ''start parallel run cancellation transaction''
      then (Inl (DatabaseFailure ''start parallel run cancellation transaction''), d)
      else if db_fails e ''lock parallel run cancellation''
      then (Inl (DatabaseFailure ''lock parallel run cancellation''), d)
      else case find_schedule tenant project run d of
        None \<Rightarrow> (Inl ErrNotFound, d)
      | Some s \<Rightarrow>
          if parallelRunTerminal (s_status s) then (Inl ErrParallelRunTerminal, d)
          else if db_fails e ''update parallel run cancellation''
          then (Inl (DatabaseFailure ''update parallel run cancellation''), d)
          else let d' = update_schedule tenant project run (cancel_row e now) d
               in (case getParallelRun e tenant project run d' of
                     Inl x \<Rightarrow> (Inl x, d)
                   | Inr r \<Rightarrow>
                       if db_fails e ''commit parallel run cancellation''
                       then (Inl (DatabaseFailure ''commit parallel run cancellation''), d)
                       else (Inr r, d')))"

section \<open>Worker tokens\<close>

definition ValidateWorkerToken ::
  "env \<Rightarrow> int \<Rightarrow> int \<Rightarrow> int \<Rightarrow> string \<Rightarrow> string \<Rightarrow> instant \<Rightarrow> db \<Rightarrow> err + unit" where
  "ValidateWorkerToken e tenant project run workerID tok now d =
     (if tok = [] then Inl ErrWorkerTokenInvalid
      else if db_fails e ''load parallel run worker token'' then Inl (DatabaseFailure ''load parallel run worker token'')
      else case find_schedule tenant project run d of
        None \<Rightarrow> Inl ErrWorkerTokenInvalid
      | Some s \<Rightarrow> (case existing_worker (decodeParallelMap (s_workers s)) workerID of
          None \<Rightarrow> Inl ErrWorkerTokenInvalid
        | Some worker \<Rightarrow>
            let hash = str_or_empty (mget worker ''workerTokenHash'');
                expires = str_or_empty (mget worker ''workerTokenExpiresAt'')
            in (case ParseRFC3339Nano expires of
                  None \<Rightarrow> Inl ErrWorkerTokenInvalid
                | Some expiresAt \<Rightarrow>
                    if hash = [] \<or> \<not> expiresAt > now \<or> \<not> bcrypt_matches e hash tok
                    then Inl ErrWorkerTokenInvalid else Inr ())))"

end
