(* ===== verification/ParallelRunProps.thy ===== *)
theory ParallelRunProps
  imports ParallelRuns
begin

text \<open>
  Invariants and behaviour of the parallel-run repository. Each operation is first characterised by
  what it does to the database (the \<open>_effect\<close> lemmas); the step relation \<open>run_step\<close> then makes one
  step of each repository call, by any caller in any environment, and the invariants hold in every
  state that these steps reach.
\<close>

named_theorems row_defs \<open>the row functions of the operations\<close>

lemmas row_function_defs [row_defs] =
  claim_row_def update_row_def heartbeat_row_def cancel_row_def store_workers_def

section \<open>Well-formed schedules\<close>

text \<open>
  The worker document is an object with distinct keys and the counter columns are the numbers of
  workers by status.
\<close>

definition counters_agree :: "jmap \<Rightarrow> schedule \<Rightarrow> bool" where
  "counters_agree ws s \<longleftrightarrow> s_active s = n_active (counts ws) \<and> s_total s = n_total (counts ws)
     \<and> s_completed s = n_completed (counts ws) \<and> s_failed s = n_failed (counts ws)
     \<and> s_cancelled s = n_cancelled (counts ws)"

definition schedule_ok :: "schedule \<Rightarrow> bool" where
  "schedule_ok s \<longleftrightarrow> (\<exists>ws. s_workers s = Some (JObj ws) \<and> wf_map ws \<and> counters_agree ws s)"

lemma store_workers_ok:
  assumes "wf_map ws"
  shows "schedule_ok (store_workers (fst (recalculateParallelRunWorkers ws now))
           (fst (snd (recalculateParallelRunWorkers ws now))) summary s)"
  using assms by (simp add: schedule_ok_def store_workers_def counters_agree_def workers)

text \<open>The columns outside the worker document do not matter to \<open>schedule_ok\<close>.\<close>

lemma schedule_ok_cong:
  assumes "schedule_ok s" "s_workers s' = s_workers s" "s_active s' = s_active s" "s_total s' = s_total s"
    "s_completed s' = s_completed s" "s_failed s' = s_failed s" "s_cancelled s' = s_cancelled s"
  shows "schedule_ok s'"
  using assms by (auto simp: schedule_ok_def counters_agree_def)

lemma schedule_ok_wf: "schedule_ok s \<Longrightarrow> wf_map (decodeParallelMap (s_workers s))"
  by (auto simp: schedule_ok_def)

lemma schedule_ok_not_nil: "schedule_ok s \<Longrightarrow> \<not> decodesToNil (s_workers s)"
  by (auto simp: schedule_ok_def decodesToNil_def)

lemma claim_row_ok: "schedule_ok s \<Longrightarrow> schedule_ok (claim_row e input h s)"
  unfolding claim_row_def Let_def case_prod_beta
  by (rule schedule_ok_cong [OF store_workers_ok]) (auto simp: store_workers_def dest: schedule_ok_wf)

lemma update_row_ok: "schedule_ok s \<Longrightarrow> schedule_ok (update_row e input w s)"
  unfolding update_row_def Let_def case_prod_beta
  by (rule schedule_ok_cong [OF store_workers_ok]) (auto simp: store_workers_def dest: schedule_ok_wf)

lemma heartbeat_row_ok: "schedule_ok s \<Longrightarrow> schedule_ok (heartbeat_row e wid lease now s)"
  unfolding heartbeat_row_def Let_def case_prod_beta
  by (rule schedule_ok_cong [OF store_workers_ok])
    (auto simp: store_workers_def workers dest: schedule_ok_wf split: option.splits)

lemma wf_cancel_workers [simp]: "wf_map (cancel_workers now ws) \<longleftrightarrow> wf_map ws"
  by (simp add: cancel_workers_def wf_map_map_snd [where f = "\<lambda>k v. cancel_worker now v"])

lemma cancel_row_ok: "schedule_ok s \<Longrightarrow> schedule_ok (cancel_row e now s)"
  unfolding cancel_row_def Let_def case_prod_beta
  by (rule schedule_ok_cong [OF store_workers_ok])
    (auto simp: store_workers_def dest: schedule_ok_wf schedule_ok_not_nil)

lemma row_keys [simp]:
  "keeps_key (claim_row e input h)" "keeps_key (update_row e uinput w)"
  "keeps_key (heartbeat_row e wid lease now)" "keeps_key (cancel_row e now)"
  by (simp_all add: keeps_key_def row_defs Let_def case_prod_beta)

lemma row_unique_key [simp]:
  "s_key (claim_row e input h s) = s_key s" "s_key (update_row e uinput w s) = s_key s"
  "s_key (heartbeat_row e wid lease now s) = s_key s" "s_key (cancel_row e now s) = s_key s"
  by (simp_all add: row_defs Let_def case_prod_beta)

text \<open>
  The type of a schedule row: the statuses and aggregate codes the code writes, the limits the
  handlers enforce on what they create, and a completion time exactly on the terminal rows.
\<close>

definition schedule_typed :: "schedule \<Rightarrow> bool" where
  "schedule_typed s \<longleftrightarrow> (s_status s = ''queued'' \<or> s_status s = ''running'' \<or> parallelRunTerminal (s_status s))
     \<and> (s_completedAt s = None \<longleftrightarrow> \<not> parallelRunTerminal (s_status s))
     \<and> (s_aggregate s = None \<longleftrightarrow> \<not> parallelRunTerminal (s_status s))
     \<and> s_aggregate s \<in> {None, Some 1, Some 2, Some 3, Some 4}
     \<and> 1 \<le> s_requested s \<and> s_requested s \<le> 32 \<and> s_key s \<noteq> [] \<and> length (s_key s) \<le> 128"

lemma outcome_typed:
  "parallelRunWorkerOutcome st a t c now = (st', a', t') \<Longrightarrow>
     (st', a', t') = (st, a, t) \<or> parallelRunTerminal st' \<and> t' \<noteq> None \<and> a' \<in> {Some 1, Some 2, Some 3, Some 4}"
  by (auto simp: parallelRunWorkerOutcome_def parallelRunTerminal_def Let_def split: if_splits option.splits)

lemma row_typed:
  assumes "\<not> parallelRunTerminal (s_status s)" "schedule_typed s"
  shows "schedule_typed (claim_row e input h s)" "schedule_typed (update_row e uinput w s)"
    "schedule_typed (heartbeat_row e wid lease now s)" "schedule_typed (cancel_row e now s)"
proof -
  show "schedule_typed (claim_row e input h s)"
    using assms by (simp add: row_defs Let_def case_prod_beta schedule_typed_def parallelRunTerminal_def)
  show "schedule_typed (update_row e uinput w s)"
    using assms by (simp add: row_defs Let_def case_prod_beta schedule_typed_def)
  show "schedule_typed (heartbeat_row e wid lease now s)"
    using assms by (auto simp: row_defs Let_def schedule_typed_def dest!: outcome_typed split: prod.splits)
  show "schedule_typed (cancel_row e now s)"
    using assms by (auto simp: row_defs Let_def schedule_typed_def parallelRunTerminal_def dest!: outcome_typed split: prod.splits)
qed

section \<open>What each operation does to the database\<close>

lemma getParallelRun_update:
  assumes "find_schedule t p r d = Some s" "keeps_key f"
  shows "getParallelRun e t p r (update_schedule t p r f d) =
    (if db_fails e ''scan parallel run schedule'' then Inl (DatabaseFailure ''scan parallel run schedule'')
     else Inr (scanParallelRun (f s)))"
  using assms by (simp add: getParallelRun_def find_schedule_update_same)

lemma UpdateRunnerWorker_effect:
  assumes "UpdateRunnerWorker e i d = (res, d')"
  shows "(d' = d \<and> (\<exists>x. res = Inl x)) \<or>
    (\<exists>s w. find_schedule (up_TenantID i) (up_ProjectID i) (up_RunID i) d = Some s
       \<and> \<not> parallelRunTerminal (s_status s)
       \<and> existing_worker (decodeParallelMap (s_workers s)) (up_WorkerID i) = Some w
       \<and> d' = update_schedule (up_TenantID i) (up_ProjectID i) (up_RunID i) (update_row e i w) d
       \<and> res = Inr (scanParallelRun (update_row e i w s)))"
  using assms
  by (auto simp: UpdateRunnerWorker_def Let_def getParallelRun_update
      split: if_splits option.splits sum.splits)

lemma HeartbeatParallelRunWorker_effect:
  assumes "HeartbeatParallelRunWorker e t p r wid lease now d = (res, d')"
  shows "(d' = d \<and> (\<exists>x. res = Inl x)) \<or>
    (\<exists>s w. find_schedule t p r d = Some s \<and> \<not> parallelRunTerminal (s_status s)
       \<and> existing_worker (refresh (decodeParallelMap (s_workers s)) now) wid = Some w
       \<and> d' = update_schedule t p r (heartbeat_row e wid lease now) d
       \<and> res = Inr \<lparr>hb_Run = scanParallelRun (heartbeat_row e wid lease now s),
                    hb_WorkerStatus = (if str_or_empty (mget w ''status'') \<noteq> ''running''
                                       then str_or_empty (mget w ''status'') else [])\<rparr>)"
  using assms
  by (auto simp: HeartbeatParallelRunWorker_def Let_def getParallelRun_update workers
      split: if_splits option.splits sum.splits)

lemma CancelParallelRun_effect:
  assumes "CancelParallelRun e t p r now d = (res, d')"
  shows "(d' = d \<and> (\<exists>x. res = Inl x)) \<or>
    (\<exists>s. find_schedule t p r d = Some s \<and> \<not> parallelRunTerminal (s_status s)
       \<and> d' = update_schedule t p r (cancel_row e now) d
       \<and> res = Inr (scanParallelRun (cancel_row e now s)))"
  using assms
  by (auto simp: CancelParallelRun_def Let_def getParallelRun_update
      split: if_splits option.splits sum.splits)

lemma claim_transaction_effect:
  assumes "claim_transaction e i tok h d = (res, d')"
  shows "(d' = d \<and> (\<exists>x. res = Inl x)) \<or>
    (\<exists>s. find_schedule (cl_TenantID i) (cl_ProjectID i) (cl_RunID i) d = Some s
       \<and> claim_guard e i d s = Inr ()
       \<and> d' = update_schedule (cl_TenantID i) (cl_ProjectID i) (cl_RunID i) (claim_row e i h) d
       \<and> res = Inr ((scanParallelRun (claim_row e i h s))\<lparr>WorkerToken := tok\<rparr>))"
  using assms
  by (auto simp: claim_transaction_def Let_def getParallelRun_update
      split: if_splits option.splits sum.splits)

lemma claim_guard_Inr:
  "claim_guard e i d s = Inr () \<Longrightarrow> \<not> parallelRunTerminal (s_status s) \<and> s_status s \<noteq> ''cancelling''
     \<and> validateParallelRunAgent e i d = Inr ()
     \<and> (existing_worker (decodeParallelMap (s_workers s)) (cl_WorkerID i) = None \<longrightarrow> s_active s < s_requested s)
     \<and> \<not> decodesToNil (s_workers s)"
  by (auto simp: claim_guard_def split: if_splits sum.splits)

text \<open>The tokens and audits around a claim leave the schedules alone.\<close>

lemma consume_schedules [simp]: "schedules (snd (consumeParallelRunToken e i d)) = schedules d"
  by (auto simp: consumeParallelRunToken_def Let_def split: prod.splits option.splits)

lemma audit_schedules [simp]: "schedules (snd (recordParallelRunTokenAudit e i a r d)) = schedules d"
  "run_tokens (snd (recordParallelRunTokenAudit e i a r d)) = run_tokens d"
  by (simp_all add: recordParallelRunTokenAudit_def)

lemma lifecycle_audit_schedules [simp]:
  "schedules (snd (recordParallelRunTokenLifecycleAudit e t p r a b c d)) = schedules d"
  "run_tokens (snd (recordParallelRunTokenLifecycleAudit e t p r a b c d)) = run_tokens d"
  by (simp_all add: recordParallelRunTokenLifecycleAudit_def)

lemma claim_guard_agents: "agents d0 = agents d \<Longrightarrow> claim_guard e i d0 s = claim_guard e i d s"
  by (simp add: claim_guard_def validateParallelRunAgent_def)

lemma consume_agents [simp]: "agents (snd (consumeParallelRunToken e i d)) = agents d"
  by (auto simp: consumeParallelRunToken_def Let_def split: prod.splits option.splits)

lemma audit_agents [simp]: "agents (snd (recordParallelRunTokenAudit e i a r d)) = agents d"
  by (simp add: recordParallelRunTokenAudit_def)

text \<open>The worker token of a claim and the hash stored for it.\<close>

definition issued_pair :: "env \<Rightarrow> ParallelRunClaim \<Rightarrow> string \<Rightarrow> string \<Rightarrow> bool" where
  "issued_pair e i tok h \<longleftrightarrow>
     (if cl_IssueWorkerToken i
      then \<exists>secret. randomParallelRunTokenPart e 32 = Some secret \<and> tok = ''idwt_'' @ secret
             \<and> bcrypt_generate e tok = Some h
      else tok = [] \<and> h = [])"

lemma issue_worker_token_pair: "issue_worker_token e i = Inr (tok, h) \<Longrightarrow> issued_pair e i tok h"
  by (auto simp: issue_worker_token_def issued_pair_def split: if_splits option.splits)

lemma ClaimParallelRun_phases:
  assumes "ClaimParallelRun e i d = (res, d')"
  obtains (failed) "schedules d' = schedules d" "\<exists>x. res = Inl x"
  | (plain) tok h where "cl_RunToken i = []" "issued_pair e i tok h" "claim_transaction e i tok h d = (res, d')"
  | (token) tok h d1 d2 where "cl_RunToken i \<noteq> []" "issued_pair e i tok h"
      "consumeParallelRunToken e i d = (Inr (), d1)"
      "recordParallelRunTokenAudit e i ''run_token.consume'' ''success'' d1 = (Inr (), d2)"
      "claim_transaction e i tok h d2 = (res, d')"
proof (cases "issue_worker_token e i")
  case (Inl x)
  with assms show thesis by (intro failed) (auto simp: ClaimParallelRun_def)
next
  case (Inr pair)
  obtain tok h where pair: "pair = (tok, h)" by fastforce
  have issued: "issued_pair e i tok h" using Inr pair by (simp add: issue_worker_token_pair)
  have claim: "ClaimParallelRun e i d =
      (if cl_RunToken i \<noteq> []
       then (case consumeParallelRunToken e i d of
               (Inl x, d1) \<Rightarrow> (case recordParallelRunTokenAudit e i ''run_token.reject'' ''failure'' d1 of
                   (Inl auditErr, d2) \<Rightarrow> (Inl auditErr, d2) | (Inr _, d2) \<Rightarrow> (Inl x, d2))
             | (Inr _, d1) \<Rightarrow> (case recordParallelRunTokenAudit e i ''run_token.consume'' ''success'' d1 of
                   (Inl auditErr, d2) \<Rightarrow> (Inl auditErr, d2)
                 | (Inr _, d2) \<Rightarrow> claim_transaction e i tok h d2))
       else claim_transaction e i tok h d)"
    using Inr pair by (simp add: ClaimParallelRun_def)
  obtain c d1 where c: "consumeParallelRunToken e i d = (c, d1)" by fastforce
  have d1: "schedules d1 = schedules d" using consume_schedules [of e i d] c by simp
  show thesis
  proof (cases "cl_RunToken i = []")
    case True
    with assms claim show thesis by (intro plain [OF _ issued]) simp_all
  next
    case run_token: False
    show thesis
    proof (cases c)
      case (Inl x)
      obtain a d2 where a: "recordParallelRunTokenAudit e i ''run_token.reject'' ''failure'' d1 = (a, d2)" by fastforce
      have "schedules d2 = schedules d1" using audit_schedules(1) [of e i _ _ d1] a by (metis snd_conv)
      then show thesis using assms claim run_token Inl c a d1
        by (intro failed) (auto split: sum.splits)
    next
      case ok: (Inr u)
      obtain a d2 where a: "recordParallelRunTokenAudit e i ''run_token.consume'' ''success'' d1 = (a, d2)" by fastforce
      have d2: "schedules d2 = schedules d1" using audit_schedules(1) [of e i _ _ d1] a by (metis snd_conv)
      show thesis
      proof (cases a)
        case (Inl x)
        then show thesis using assms claim run_token ok c a d1 d2 by (intro failed) auto
      next
        case (Inr v)
        then show thesis using assms claim run_token ok c a
          by (intro token [OF run_token issued, of d1 d2]) simp_all
      qed
    qed
  qed
qed

lemma ClaimParallelRun_effect:
  assumes "ClaimParallelRun e i d = (res, d')"
  shows "(schedules d' = schedules d \<and> (\<exists>x. res = Inl x)) \<or>
    (\<exists>s tok h. find_schedule (cl_TenantID i) (cl_ProjectID i) (cl_RunID i) d = Some s
       \<and> claim_guard e i d s = Inr () \<and> issued_pair e i tok h
       \<and> schedules d' = upd_rows (schedule_is (cl_TenantID i) (cl_ProjectID i) (cl_RunID i)) (claim_row e i h) (schedules d)
       \<and> res = Inr ((scanParallelRun (claim_row e i h s))\<lparr>WorkerToken := tok\<rparr>))"
  using assms
proof (cases rule: ClaimParallelRun_phases)
  case (plain tok h)
  from claim_transaction_effect [OF plain(3)] plain(2) show ?thesis
    unfolding update_schedule_def by (elim disjE exE conjE) (simp, intro disjI2 exI conjI, simp_all)
next
  case (token tok h d1 d2)
  have e: "schedules d2 = schedules d" "agents d2 = agents d"
    using consume_schedules [of e i d] consume_agents [of e i d] token(3)
      audit_schedules(1) [of e i "''run_token.consume''" "''success''" d1]
      audit_agents [of e i "''run_token.consume''" "''success''" d1] token(4) by simp_all
  from claim_transaction_effect [OF token(5)] token(2) claim_guard_agents [OF e(2)] show ?thesis
    unfolding update_schedule_def find_schedule_def e
    by (elim disjE exE conjE) (simp add: e, intro disjI2 exI conjI, simp_all add: e)
qed auto

section \<open>The step relation\<close>

text \<open>
  The label of a step is the tenant the call is made for. A claim runs two transactions, the token's
  and the schedule's; \<open>consume\<close> and \<open>claim_tx\<close> let other calls come between them.
\<close>

inductive run_step :: "int \<Rightarrow> db \<Rightarrow> db \<Rightarrow> bool" where
  create: "run_step (pc_TenantID pinput) d (snd (createParallelRuns e pinput cs d))"
| claim: "run_step (cl_TenantID cinput) d (snd (ClaimParallelRun e cinput d))"
| consume: "run_step (cl_TenantID cinput) d (snd (consumeParallelRunToken e cinput d))"
| claim_tx: "run_step (cl_TenantID cinput) d (snd (claim_transaction e cinput tok h d))"
| update: "run_step (up_TenantID uinput) d (snd (UpdateRunnerWorker e uinput d))"
| heartbeat: "run_step t d (snd (HeartbeatParallelRunWorker e t p r wid lease now d))"
| cancel: "run_step t d (snd (CancelParallelRun e t p r now d))"
| issue: "run_step t d (snd (IssueParallelRunToken e t p r agent now ttl d))"
| revoke: "run_step t d (snd (RevokeParallelRunToken e t p r tokenID now d))"

inductive run_steps :: "db \<Rightarrow> db \<Rightarrow> bool" where
  none: "run_steps d d"
| more: "run_steps d d' \<Longrightarrow> run_step t d' d'' \<Longrightarrow> run_steps d d''"

text \<open>A database before the first schedule and the first token, with any other content.\<close>

definition fresh_db :: "db \<Rightarrow> bool" where
  "fresh_db d \<longleftrightarrow> schedules d = [] \<and> run_tokens d = []"

inductive reachable :: "db \<Rightarrow> bool" where
  start: "fresh_db d \<Longrightarrow> reachable d"
| step: "reachable d \<Longrightarrow> run_step t d d' \<Longrightarrow> reachable d'"

definition uniq_key :: "schedule \<Rightarrow> int \<times> int \<times> string" where
  "uniq_key s = (s_tenant s, s_project s, s_key s)"

definition schedules_ok :: "db \<Rightarrow> bool" where
  "schedules_ok d \<longleftrightarrow> list_all schedule_ok (schedules d)
     \<and> list_all (\<lambda>s. s_id s < next_schedule d) (schedules d)
     \<and> distinct (map s_id (schedules d)) \<and> distinct (map uniq_key (schedules d))"

definition tokens_ok :: "db \<Rightarrow> bool" where
  "tokens_ok d \<longleftrightarrow> list_all (\<lambda>t. t_id t < next_token d) (run_tokens d)
     \<and> distinct (map t_id (run_tokens d)) \<and> distinct (map t_tokenId (run_tokens d))"

text \<open>Every change of the schedules is one of these three.\<close>

definition row_write :: "(schedule \<Rightarrow> schedule) \<Rightarrow> bool" where
  "row_write f \<longleftrightarrow> keeps_key f \<and> (\<forall>s. s_key (f s) = s_key s) \<and> (\<forall>s. schedule_ok s \<longrightarrow> schedule_ok (f s))
     \<and> (\<forall>s. \<not> parallelRunTerminal (s_status s) \<longrightarrow> schedule_typed s \<longrightarrow> schedule_typed (f s))"

lemma row_writes [simp]:
  "row_write (claim_row e i h)" "row_write (update_row e u w)"
  "row_write (heartbeat_row e wid lease now)" "row_write (cancel_row e now)"
  by (simp_all add: row_write_def claim_row_ok update_row_ok heartbeat_row_ok cancel_row_ok row_typed)

lemma upd_rows_ok:
  assumes "row_write f"
  shows "list_all schedule_ok rs \<Longrightarrow> list_all schedule_ok (upd_rows p f rs)"
    and "list_all (\<lambda>s. s_id s < n) (upd_rows p f rs) = list_all (\<lambda>s. s_id s < n) rs"
    and "map s_id (upd_rows p f rs) = map s_id rs" and "map uniq_key (upd_rows p f rs) = map uniq_key rs"
proof -
  show ids: "map s_id (upd_rows p f rs) = map s_id rs"
    using assms by (intro map_upd_rows) (simp add: row_write_def keeps_key_def)
  show "map uniq_key (upd_rows p f rs) = map uniq_key rs"
    using assms by (intro map_upd_rows) (simp add: row_write_def keeps_key_def uniq_key_def)
  show "list_all schedule_ok rs \<Longrightarrow> list_all schedule_ok (upd_rows p f rs)"
    using assms by (auto simp: row_write_def list_all_iff set_upd_rows)
  have "list_all (\<lambda>s. s_id s < n) xs = list_all (\<lambda>i. i < n) (map s_id xs)" for xs
    by (simp add: list_all_iff)
  then show "list_all (\<lambda>s. s_id s < n) (upd_rows p f rs) = list_all (\<lambda>s. s_id s < n) rs"
    using ids by metis
qed

lemma schedules_ok_cong:
  "schedules d' = schedules d \<Longrightarrow> next_schedule d' = next_schedule d \<Longrightarrow> schedules_ok d' = schedules_ok d"
  by (simp add: schedules_ok_def)

lemma schedules_ok_write:
  assumes "schedules_ok d" "row_write f" "schedules d' = upd_rows q f (schedules d)" "next_schedule d' = next_schedule d"
  shows "schedules_ok d'"
  using assms upd_rows_ok [OF assms(2)] by (simp add: schedules_ok_def)

lemma insert_schedule_ok:
  assumes "schedules_ok d"
  shows "schedules_ok (snd (insert_schedule e input key md d))"
proof (cases "find (has_key (pc_TenantID input) (pc_ProjectID input) key) (schedules d)")
  case None
  let ?s = "new_schedule e input key md (next_schedule d)"
  have new: "schedule_ok ?s" by (auto simp: schedule_ok_def new_schedule_def counters_agree_def counts_def workers_with_def)
  have ids: "\<forall>s \<in> set (schedules d). s_id s < next_schedule d"
    using assms by (simp add: schedules_ok_def list_all_iff)
  have "uniq_key ?s \<notin> uniq_key ` set (schedules d)"
    using None by (auto simp: find_None_iff has_key_def uniq_key_def new_schedule_def)
  moreover have "s_id ?s \<notin> s_id ` set (schedules d)" using ids by (auto simp: new_schedule_def)
  moreover have "list_all (\<lambda>s. s_id s < next_schedule d + 1) (schedules d)"
    using ids by (auto simp: list_all_iff)
  ultimately show ?thesis
    using assms None new by (simp add: insert_schedule_def schedules_ok_def) (simp add: new_schedule_def)
qed (use assms in \<open>simp add: insert_schedule_def\<close>)

lemma insert_schedule_tokens [simp]:
  "run_tokens (snd (insert_schedule e input key md d)) = run_tokens d"
  "next_token (snd (insert_schedule e input key md d)) = next_token d"
  "audit_events (snd (insert_schedule e input key md d)) = audit_events d"
  by (simp_all add: insert_schedule_def split: option.splits)

text \<open>An induction principle for the loop of a creation: what every insertion keeps, the loop keeps.\<close>

lemma create_loop_keeps:
  assumes "create_loop e input snap k n cs d = Inr (runs, d')" and "P d"
    and keeps: "\<And>c md d. c \<in> set cs \<Longrightarrow> P d \<Longrightarrow> P (snd (insert_schedule e input (run_key e input c) md d))"
  shows "P d'"
  using assms
proof (induction cs arbitrary: k d runs)
  case (Cons c cs)
  obtain runID d1 where ins: "insert_schedule e input (run_key e input c) (run_metadata input snap k n c) d = (runID, d1)"
    by fastforce
  have "P d1" using Cons.prems(3) [OF _ Cons.prems(2), of c "run_metadata input snap k n c"] ins by simp
  moreover obtain runs2 where "create_loop e input snap (Suc k) n cs d1 = Inr (runs2, d')"
    using Cons.prems(1) ins by (auto split: if_splits sum.splits prod.splits)
  ultimately show ?case using Cons.IH [of "Suc k" d1 runs2] Cons.prems(3) by simp
qed simp

lemma createParallelRuns_keeps_keys:
  assumes "P d" and keeps: "\<And>c md d. c \<in> (case cs of None \<Rightarrow> {None} | Some l \<Rightarrow> Some ` set l) \<Longrightarrow> P d
      \<Longrightarrow> P (snd (insert_schedule e input (run_key e input c) md d))"
  shows "P (snd (createParallelRuns e input cs d))"
proof -
  have "P d'" if "create_loop e input snap k n (case cs of None \<Rightarrow> [None] | Some l \<Rightarrow> map Some l) d = Inr (runs, d')"
    for snap k n runs d'
    using create_loop_keeps [OF that, where P = P] assms by (cases cs) auto
  then show ?thesis
    using assms(1) by (simp add: createParallelRuns_def Let_def split: sum.split prod.split)
qed

lemma createParallelRuns_keeps:
  assumes "P d" and keeps: "\<And>key md d. P d \<Longrightarrow> P (snd (insert_schedule e input key md d))"
  shows "P (snd (createParallelRuns e input cs d))"
  by (rule createParallelRuns_keeps_keys [where P = P, OF assms(1)]) (rule keeps)

section \<open>What a step changes\<close>

text \<open>A write to the row of a schedule that is not terminal.\<close>

definition live_write :: "int \<Rightarrow> db \<Rightarrow> db \<Rightarrow> bool" where
  "live_write t d d' \<longleftrightarrow> next_schedule d' = next_schedule d \<and>
     (\<exists>p r f s. find_schedule t p r d = Some s \<and> \<not> parallelRunTerminal (s_status s) \<and> row_write f
        \<and> schedules d' = upd_rows (schedule_is t p r) f (schedules d))"

definition no_write :: "db \<Rightarrow> db \<Rightarrow> bool" where
  "no_write d d' \<longleftrightarrow> schedules d' = schedules d \<and> next_schedule d' = next_schedule d"

lemma live_writeI:
  "\<lbrakk>find_schedule t p r d = Some s; \<not> parallelRunTerminal (s_status s); row_write f;
    schedules d' = upd_rows (schedule_is t p r) f (schedules d); next_schedule d' = next_schedule d\<rbrakk>
   \<Longrightarrow> live_write t d d'"
  unfolding live_write_def by blast

lemma update_schedule_live:
  "\<lbrakk>find_schedule t p r d = Some s; \<not> parallelRunTerminal (s_status s); row_write f\<rbrakk>
   \<Longrightarrow> live_write t d (update_schedule t p r f d)"
  by (rule live_writeI) (auto simp: update_schedule_def)

lemma token_next_schedule [simp]:
  "next_schedule (snd (consumeParallelRunToken e i d)) = next_schedule d"
  "next_schedule (snd (recordParallelRunTokenAudit e i a r d)) = next_schedule d"
  "next_schedule (snd (recordParallelRunTokenLifecycleAudit e t p run a b c d)) = next_schedule d"
  by (auto simp: consumeParallelRunToken_def recordParallelRunTokenAudit_def
      recordParallelRunTokenLifecycleAudit_def Let_def split: prod.splits option.splits)

lemma claim_transaction_next [simp]: "next_schedule (snd (claim_transaction e i tok h d)) = next_schedule d"
  by (auto simp: claim_transaction_def Let_def split: option.splits sum.splits)

lemma ClaimParallelRun_next [simp]: "next_schedule (snd (ClaimParallelRun e i d)) = next_schedule d"
proof -
  have a: "next_schedule d2 = next_schedule d1"
    if "recordParallelRunTokenAudit e i act r d1 = (x, d2)" for act r d1 x d2
    using token_next_schedule(2) [of e i act r d1] that by simp
  have c: "next_schedule d1 = next_schedule d" if "consumeParallelRunToken e i d = (x, d1)" for x d1
    using token_next_schedule(1) [of e i d] that by simp
  show ?thesis
    by (cases "issue_worker_token e i"; cases "consumeParallelRunToken e i d"; cases "fst (consumeParallelRunToken e i d)")
      (auto simp: ClaimParallelRun_def dest!: a c split: sum.split prod.split)
qed

lemma IssueParallelRunToken_schedules [simp]: "no_write d (snd (IssueParallelRunToken e t p r a now ttl d))"
  using lifecycle_audit_schedules token_next_schedule(3)
  by (auto simp: IssueParallelRunToken_def no_write_def Let_def recordParallelRunTokenLifecycleAudit_def
      split: option.splits)

lemma RevokeParallelRunToken_schedules [simp]: "no_write d (snd (RevokeParallelRunToken e t p r tid now d))"
  by (auto simp: RevokeParallelRunToken_def no_write_def Let_def recordParallelRunTokenLifecycleAudit_def
      split: option.splits)

definition row_change :: "int \<Rightarrow> db \<Rightarrow> db \<Rightarrow> bool" where
  "row_change t d d' \<longleftrightarrow> no_write d d' \<or> live_write t d d'"

lemma row_change_refl [simp]: "row_change t d d"
  by (simp add: row_change_def no_write_def)

lemma row_change_update:
  "\<lbrakk>find_schedule t p r d = Some s; \<not> parallelRunTerminal (s_status s); row_write f\<rbrakk>
   \<Longrightarrow> row_change t d (update_schedule t p r f d)"
  by (simp add: row_change_def update_schedule_live)

lemma ClaimParallelRun_writes: "row_change (cl_TenantID i) d (snd (ClaimParallelRun e i d))"
proof -
  have "ClaimParallelRun e i d = (fst (ClaimParallelRun e i d), snd (ClaimParallelRun e i d))" by simp
  from ClaimParallelRun_effect [OF this] show ?thesis
  proof (elim disjE exE conjE)
    assume "schedules (snd (ClaimParallelRun e i d)) = schedules d"
    then show ?thesis by (simp add: no_write_def row_change_def)
  next
    fix s tok h
    assume *: "find_schedule (cl_TenantID i) (cl_ProjectID i) (cl_RunID i) d = Some s"
      "claim_guard e i d s = Inr ()"
      "schedules (snd (ClaimParallelRun e i d)) = upd_rows (schedule_is (cl_TenantID i) (cl_ProjectID i) (cl_RunID i))
         (claim_row e i h) (schedules d)"
    have "\<not> parallelRunTerminal (s_status s)" using claim_guard_Inr [OF *(2)] by simp
    from live_writeI [OF *(1) this row_writes(1) *(3)] show ?thesis by (simp add: row_change_def)
  qed
qed

lemma claim_transaction_writes: "row_change (cl_TenantID i) d (snd (claim_transaction e i tok h d))"
proof -
  have "claim_transaction e i tok h d = (fst (claim_transaction e i tok h d), snd (claim_transaction e i tok h d))" by simp
  from claim_transaction_effect [OF this] show ?thesis
    by (metis claim_guard_Inr row_change_refl row_writes(1) row_change_update)
qed

lemma UpdateRunnerWorker_writes: "row_change (up_TenantID u) d (snd (UpdateRunnerWorker e u d))"
proof -
  have "UpdateRunnerWorker e u d = (fst (UpdateRunnerWorker e u d), snd (UpdateRunnerWorker e u d))" by simp
  from UpdateRunnerWorker_effect [OF this] show ?thesis
    by (metis row_change_refl row_writes(2) row_change_update)
qed

lemma HeartbeatParallelRunWorker_writes: "row_change t d (snd (HeartbeatParallelRunWorker e t p r wid lease now d))"
proof -
  have "HeartbeatParallelRunWorker e t p r wid lease now d
      = (fst (HeartbeatParallelRunWorker e t p r wid lease now d), snd (HeartbeatParallelRunWorker e t p r wid lease now d))" by simp
  from HeartbeatParallelRunWorker_effect [OF this] show ?thesis
    by (metis row_change_refl row_writes(3) row_change_update)
qed

lemma CancelParallelRun_writes: "row_change t d (snd (CancelParallelRun e t p r now d))"
proof -
  have "CancelParallelRun e t p r now d = (fst (CancelParallelRun e t p r now d), snd (CancelParallelRun e t p r now d))" by simp
  from CancelParallelRun_effect [OF this] show ?thesis
    by (metis row_change_refl row_writes(4) row_change_update)
qed

lemmas operation_writes = ClaimParallelRun_writes claim_transaction_writes UpdateRunnerWorker_writes
  HeartbeatParallelRunWorker_writes CancelParallelRun_writes

lemma run_step_schedules:
  assumes "run_step t d d'"
  shows "no_write d d' \<or> live_write t d d' \<or> (\<exists>e input cs. t = pc_TenantID input \<and> d' = snd (createParallelRuns e input cs d))"
  using assms
proof cases
  case (create pinput e cs)
  then show ?thesis by blast
next
  case (consume cinput e)
  then show ?thesis by (simp add: no_write_def)
qed (use operation_writes [unfolded row_change_def] in \<open>metis IssueParallelRunToken_schedules RevokeParallelRunToken_schedules\<close>)+

lemma run_step_schedules_ok:
  assumes "run_step t d d'" "schedules_ok d"
  shows "schedules_ok d'"
  using run_step_schedules [OF assms(1)]
proof (elim disjE exE)
  assume "live_write t d d'"
  then show ?thesis using schedules_ok_write [OF assms(2)] unfolding live_write_def by blast
next
  fix e input cs assume "t = pc_TenantID input \<and> d' = snd (createParallelRuns e input cs d)"
  then show ?thesis
    using createParallelRuns_keeps [where P = schedules_ok, OF assms(2) insert_schedule_ok] by simp
next
  assume "no_write d d'"
  then show ?thesis using assms(2) schedules_ok_cong [of d' d] by (simp add: no_write_def)
qed

text \<open>Only a creation can bring a row that is not of the type.\<close>

definition schedules_typed :: "db \<Rightarrow> bool" where
  "schedules_typed d \<longleftrightarrow> list_all schedule_typed (schedules d)"

lemma live_write_typed:
  assumes "live_write t d d'" "schedules_ok d" "schedules_typed d"
  shows "schedules_typed d'"
proof -
  obtain p r f s where w: "find_schedule t p r d = Some s" "\<not> parallelRunTerminal (s_status s)" "row_write f"
    "schedules d' = upd_rows (schedule_is t p r) f (schedules d)"
    using assms(1) unfolding live_write_def by blast
  have "x = s" if "x \<in> set (schedules d)" "schedule_is t p r x" for x
    using that find_SomeD [OF w(1) [unfolded find_schedule_def]] assms(2)
    by (auto simp: schedules_ok_def schedule_is_def distinct_map dest: inj_onD)
  then show ?thesis
    using w assms(3) by (auto simp: schedules_typed_def list_all_iff set_upd_rows row_write_def)
qed

lemma row_change_typed: "row_change t d d' \<Longrightarrow> schedules_ok d \<Longrightarrow> schedules_typed d \<Longrightarrow> schedules_typed d'"
  by (auto simp: row_change_def no_write_def schedules_typed_def intro: live_write_typed [unfolded schedules_typed_def])

lemma reachable_schedules_ok: "reachable d \<Longrightarrow> schedules_ok d"
proof (induction rule: reachable.induct)
  case (start d)
  then show ?case by (simp add: fresh_db_def schedules_ok_def)
qed (rule run_step_schedules_ok)

end
