(* ===== verification/RunFixtures.thy ===== *)
theory RunFixtures
  imports ParallelRuns
begin

text \<open>
  A concrete environment, database and requests, on which the theorems about parallel runs are
  instantiated: bcrypt is a tagged copy, the random bytes are constant, no statement fails.
\<close>

definition env0 :: env where
  "env0 = \<lparr>db_fails = (\<lambda>_. False), bcrypt_generate = (\<lambda>s. Some (''h'' @ s)),
     bcrypt_matches = (\<lambda>h s. h = ''h'' @ s), rand_bytes = (\<lambda>n. Some (replicate n 7)),
     sha256_json = (\<lambda>c. replicate 32 (length c)), column_time = (\<lambda>t. t),
     source_ip = ''192.0.2.1'', correlation_id = ''corr''\<rparr>"

definition db0 :: db where
  "db0 = \<lparr>schedules = [], run_tokens = [], agents = [], audit_events = [],
     projects = [\<lparr>p_id = 1, p_tenant = 7\<rparr>],
     test_cycles = [\<lparr>c_id = 2, c_project = 1, c_tenant = 7, c_config = None\<rparr>],
     asset_versions = [], next_schedule = 1, next_token = 1\<rparr>"

definition create0 :: ParallelRunCreate where
  "create0 = \<lparr>pc_TenantID = 7, pc_ProjectID = 1, pc_TestCycleID = 2, pc_IdempotencyKey = ''k'',
     pc_RequestedConcurrency = 1, pc_Metadata = [], pc_Now = 0\<rparr>"

definition claim0 :: "string \<Rightarrow> string \<Rightarrow> instant \<Rightarrow> ParallelRunClaim" where
  "claim0 worker tok now = \<lparr>cl_TenantID = 7, cl_ActorUserID = Some 3, cl_ActorTenantID = 7, cl_ProjectID = 1,
     cl_RunID = 1, cl_WorkerID = worker, cl_Capabilities = [], cl_CapabilitiesSet = False,
     cl_RunToken = tok, cl_CertificateHash = [], cl_IssueWorkerToken = True, cl_Now = now\<rparr>"

lemma claim0_token [simp]: "cl_RunToken (claim0 worker tok now) = tok"
  by (simp add: claim0_def)

text \<open>One queued schedule; then a run token for agent \<open>a\<close>; then a claim without a token.\<close>

definition db1 :: db where
  "db1 = snd (createParallelRuns env0 create0 None db0)"

definition db2 :: db where
  "db2 = snd (IssueParallelRunToken env0 7 1 1 ''a'' 0 (600 * second) db1)"

definition token0 :: string where
  "token0 = (case fst (IssueParallelRunToken env0 7 1 1 ''a'' 0 (600 * second) db1) of
     Inr t \<Rightarrow> ti_Token t | Inl _ \<Rightarrow> [])"

definition db3 :: db where
  "db3 = snd (ClaimParallelRun env0 (claim0 ''a'' [] 0) db1)"

text \<open>The queued schedule after its cancellation.\<close>

definition db4 :: db where
  "db4 = snd (CancelParallelRun env0 7 1 1 5 db1)"

end
