(* ===== verification/RunSafety.thy ===== *)
theory RunSafety
  imports ParallelRunProps RunFixtures
begin

text \<open>
  Safety of the parallel-run repository in every state its calls reach: the counters, the terminal
  states, the separation of tenants, and the single use of a run token.
\<close>

section \<open>Schedules over many steps\<close>

lemma find_insert_schedule:
  "find_schedule a b c d = Some s \<Longrightarrow> find_schedule a b c (snd (insert_schedule e input key md d)) = Some s"
  by (auto simp: insert_schedule_def find_schedule_def find_append split: option.splits)

lemma run_step_terminal:
  assumes "run_step t d d'" "find_schedule a b c d = Some s" "parallelRunTerminal (s_status s)"
  shows "find_schedule a b c d' = Some s"
  using run_step_schedules [OF assms(1)]
proof (elim disjE exE conjE)
  assume "no_write d d'"
  then show ?thesis using assms(2) by (simp add: no_write_def find_schedule_def)
next
  assume "live_write t d d'"
  then obtain p r f s' where w: "find_schedule t p r d = Some s'" "\<not> parallelRunTerminal (s_status s')"
    "row_write f" "schedules d' = upd_rows (schedule_is t p r) f (schedules d)"
    unfolding live_write_def by blast
  have "(a, b, c) \<noteq> (t, p, r)" using w assms by auto
  then show ?thesis
    using find_schedule_update_other [of a b c t p r f d] w assms(2)
    by (simp add: row_write_def find_schedule_def update_schedule_def)
next
  fix e input cs assume "d' = snd (createParallelRuns e input cs d)"
  then show ?thesis
    using createParallelRuns_keeps [where P = "\<lambda>d. find_schedule a b c d = Some s", OF assms(2)]
      find_insert_schedule by metis
qed

text \<open>The rows of a tenant, as every read selects them.\<close>

definition tenant_rows :: "int \<Rightarrow> db \<Rightarrow> schedule list" where
  "tenant_rows u d = filter (\<lambda>s. s_tenant s = u) (schedules d)"

lemma insert_schedule_tenant:
  "u \<noteq> pc_TenantID input \<Longrightarrow> tenant_rows u (snd (insert_schedule e input key md d)) = tenant_rows u d"
  by (auto simp: insert_schedule_def tenant_rows_def new_schedule_def split: option.splits)

lemma run_step_other_tenant:
  assumes "run_step t d d'" "u \<noteq> t"
  shows "tenant_rows u d' = tenant_rows u d"
  using run_step_schedules [OF assms(1)]
proof (elim disjE exE conjE)
  assume "live_write t d d'"
  then obtain p r f where "row_write f" "schedules d' = upd_rows (schedule_is t p r) f (schedules d)"
    unfolding live_write_def by blast
  then show ?thesis using assms(2)
    filter_upd_rows_other [of "schedule_is t p r" "\<lambda>s. s_tenant s = u" f "schedules d"]
    by (simp add: tenant_rows_def row_write_def keeps_key_def schedule_is_def)
next
  fix e input cs assume "t = pc_TenantID input" "d' = snd (createParallelRuns e input cs d)"
  then show ?thesis
    using createParallelRuns_keeps [where P = "\<lambda>x. tenant_rows u x = tenant_rows u d"]
      insert_schedule_tenant assms(2) by metis
qed (simp add: no_write_def tenant_rows_def)

section \<open>Run tokens over many steps\<close>

text \<open>A token row may become used and may become revoked, once each; nothing else of it changes.\<close>

definition token_advance :: "run_token \<Rightarrow> run_token \<Rightarrow> bool" where
  "token_advance r r' \<longleftrightarrow> (\<exists>u v. r' = r\<lparr>t_usedAt := u, t_revokedAt := v\<rparr>
     \<and> (t_usedAt r \<noteq> None \<longrightarrow> u = t_usedAt r) \<and> (t_revokedAt r \<noteq> None \<longrightarrow> v = t_revokedAt r))"

definition new_token_rows :: "int \<Rightarrow> db \<Rightarrow> run_token list \<Rightarrow> bool" where
  "new_token_rows t d new \<longleftrightarrow> new = [] \<or> (\<exists>row. new = [row] \<and> t_tenant row = t
     \<and> t_id row = next_token d \<and> (\<forall>r \<in> set (run_tokens d). t_tokenId r \<noteq> t_tokenId row))"

definition token_change :: "int \<Rightarrow> db \<Rightarrow> db \<Rightarrow> bool" where
  "token_change t d d' \<longleftrightarrow> (\<exists>g new. run_tokens d' = map g (run_tokens d) @ new
     \<and> (\<forall>r. token_advance r (g r))
     \<and> (\<forall>r \<in> set (run_tokens d). t_tenant r \<noteq> t \<longrightarrow> g r = r)
     \<and> new_token_rows t d new \<and> next_token d' = next_token d + int (length new))"

lemma token_advance_refl [simp]: "token_advance r r"
  unfolding token_advance_def by (rule exI [of _ "t_usedAt r"], rule exI [of _ "t_revokedAt r"]) simp

lemma advance_used: "t_usedAt r = None \<Longrightarrow> token_advance r (r\<lparr>t_usedAt := x\<rparr>)"
  unfolding token_advance_def by (rule exI [of _ x], rule exI [of _ "t_revokedAt r"]) simp

lemma advance_revoked: "t_revokedAt r = None \<Longrightarrow> token_advance r (r\<lparr>t_revokedAt := x\<rparr>)"
  unfolding token_advance_def by (rule exI [of _ "t_usedAt r"], rule exI [of _ x]) simp

lemma token_change_same:
  "run_tokens d' = run_tokens d \<Longrightarrow> next_token d' = next_token d \<Longrightarrow> token_change t d d'"
  unfolding token_change_def new_token_rows_def
  by (rule exI [of _ id], rule exI [of _ "[]"]) simp

lemma token_change_upd:
  assumes "run_tokens d' = upd_rows p f (run_tokens d)" "next_token d' = next_token d"
    and "\<And>r. p r \<Longrightarrow> token_advance r (f r)"
    and "\<And>r. r \<in> set (run_tokens d) \<Longrightarrow> p r \<Longrightarrow> t_tenant r = t"
  shows "token_change t d d'"
  unfolding token_change_def new_token_rows_def
  by (rule exI [of _ "\<lambda>r. if p r then f r else r"], rule exI [of _ "[]"])
    (use assms in \<open>auto simp: upd_rows_def\<close>)

lemma tokens_ok_inj: "tokens_ok d \<Longrightarrow> r \<in> set (run_tokens d) \<Longrightarrow> r' \<in> set (run_tokens d) \<Longrightarrow> t_id r = t_id r' \<Longrightarrow> r = r'"
  by (auto simp: tokens_ok_def distinct_map inj_on_def)

lemma consume_tokens:
  assumes "tokens_ok d"
  shows "token_change (cl_TenantID i) d (snd (consumeParallelRunToken e i d))"
proof -
  obtain tokenID secret valid where cut: "Cut (cl_RunToken i) (CHR ''.'') = (tokenID, secret, valid)"
    by (cases "Cut (cl_RunToken i) (CHR ''.'')") auto
  let ?q = "\<lambda>t. t_tokenId t = tokenID \<and> t_tenant t = cl_TenantID i \<and> t_project t = cl_ProjectID i
    \<and> t_schedule t = cl_RunID i \<and> t_agent t = cl_WorkerID i"
  have upd: "token_change (cl_TenantID i) d (d\<lparr>run_tokens := upd_rows
      (\<lambda>r. t_id r = t_id t \<and> t_usedAt r = None \<and> t_revokedAt r = None) (\<lambda>r. r\<lparr>t_usedAt := x\<rparr>) (run_tokens d)\<rparr>)"
    if "find ?q (run_tokens d) = Some t" for t x
    using find_SomeD [OF that] tokens_ok_inj [OF assms]
    by (intro token_change_upd [where p = "\<lambda>r. t_id r = t_id t \<and> t_usedAt r = None \<and> t_revokedAt r = None"
          and f = "\<lambda>r. r\<lparr>t_usedAt := x\<rparr>"]) (simp_all add: advance_used, metis)
  show ?thesis
    unfolding consumeParallelRunToken_def cut Let_def
    by (auto simp: token_change_same upd split: option.split)
qed

lemma claim_transaction_tokens [simp]:
  "run_tokens (snd (claim_transaction e i tok h d)) = run_tokens d"
  "next_token (snd (claim_transaction e i tok h d)) = next_token d"
  by (auto simp: claim_transaction_def Let_def update_schedule_def split: option.splits sum.splits)

lemma audit_tokens [simp]:
  "next_token (snd (recordParallelRunTokenAudit e i a r d)) = next_token d"
  "next_token (snd (recordParallelRunTokenLifecycleAudit e t p run a b c d)) = next_token d"
  by (simp_all add: recordParallelRunTokenAudit_def recordParallelRunTokenLifecycleAudit_def)

lemma token_change_cong:
  "token_change t d d1 \<Longrightarrow> run_tokens d2 = run_tokens d1 \<Longrightarrow> next_token d2 = next_token d1 \<Longrightarrow> token_change t d d2"
  by (simp add: token_change_def)

lemma ClaimParallelRun_tokens:
  assumes "tokens_ok d"
  shows "token_change (cl_TenantID i) d (snd (ClaimParallelRun e i d))"
proof (cases "cl_RunToken i = [] \<or> (\<exists>x. issue_worker_token e i = Inl x)")
  case True
  then show ?thesis
    by (auto simp: ClaimParallelRun_def intro!: token_change_same split: sum.split)
next
  case False
  have "run_tokens (snd (ClaimParallelRun e i d)) = run_tokens (snd (consumeParallelRunToken e i d))
      \<and> next_token (snd (ClaimParallelRun e i d)) = next_token (snd (consumeParallelRunToken e i d))"
    using False audit_schedules(2) [of e i] audit_tokens(1) [of e i]
    by (auto simp: ClaimParallelRun_def recordParallelRunTokenAudit_def split: sum.split prod.split)
  with consume_tokens [OF assms] show ?thesis by (blast intro: token_change_cong)
qed

lemma IssueParallelRunToken_tokens: "token_change t d (snd (IssueParallelRunToken e t p r a now ttl d))"
proof (cases "run_tokens (snd (IssueParallelRunToken e t p r a now ttl d)) = run_tokens d
    \<and> next_token (snd (IssueParallelRunToken e t p r a now ttl d)) = next_token d")
  case False
  then obtain row where "run_tokens (snd (IssueParallelRunToken e t p r a now ttl d)) = run_tokens d @ [row]"
    "t_tenant row = t" "t_id row = next_token d" "(\<forall>r \<in> set (run_tokens d). t_tokenId r \<noteq> t_tokenId row)"
    "next_token (snd (IssueParallelRunToken e t p r a now ttl d)) = next_token d + 1"
    by (auto simp: IssueParallelRunToken_def Let_def recordParallelRunTokenLifecycleAudit_def list_ex_iff
        split: if_splits option.splits)
  then show ?thesis unfolding token_change_def new_token_rows_def
    by (intro exI [of _ id] exI [of _ "[row]"]) auto
qed (simp add: token_change_same)

lemma RevokeParallelRunToken_tokens:
  assumes "tokens_ok d"
  shows "token_change t d (snd (RevokeParallelRunToken e t p r tid now d))"
proof -
  have upd: "token_change t d (d\<lparr>run_tokens := upd_rows (\<lambda>r. t_id r = t_id k \<and> t_revokedAt r = None)
      (\<lambda>r. r\<lparr>t_revokedAt := x\<rparr>) (run_tokens d), audit_events := y\<rparr>)"
    if "find (\<lambda>x. t_tokenId x = tid \<and> t_tenant x = t \<and> t_project x = p \<and> t_schedule x = r) (run_tokens d) = Some k"
    for k x y
    using find_SomeD [OF that] tokens_ok_inj [OF assms]
    by (intro token_change_upd [where p = "\<lambda>r. t_id r = t_id k \<and> t_revokedAt r = None"
          and f = "\<lambda>r. r\<lparr>t_revokedAt := x\<rparr>"]) (simp_all add: advance_revoked, metis)
  have same: "token_change t d (d\<lparr>run_tokens := upd_rows (\<lambda>r. t_id r = t_id k \<and> t_revokedAt r = None)
      (\<lambda>r. r\<lparr>t_revokedAt := x\<rparr>) (run_tokens d)\<rparr>)"
    if "find (\<lambda>x. t_tokenId x = tid \<and> t_tenant x = t \<and> t_project x = p \<and> t_schedule x = r) (run_tokens d) = Some k"
    for k x
    using upd [OF that, where x = x and y = "audit_events d"] by simp
  show ?thesis
    unfolding RevokeParallelRunToken_def Let_def recordParallelRunTokenLifecycleAudit_def
    by (auto simp: upd same intro!: token_change_same split: option.split)
qed

lemma run_step_tokens:
  assumes "run_step t d d'" "tokens_ok d"
  shows "token_change t d d'"
  using assms(1)
proof cases
  case (create e pinput cs)
  have "run_tokens d' = run_tokens d \<and> next_token d' = next_token d"
    unfolding create
    by (rule createParallelRuns_keeps [where P = "\<lambda>x. run_tokens x = run_tokens d \<and> next_token x = next_token d"]) simp_all
  then show ?thesis by (simp add: token_change_same)
next
  case (update u e)
  then show ?thesis by (auto simp: UpdateRunnerWorker_def Let_def update_schedule_def
        intro!: token_change_same split: option.splits sum.splits)
next
  case (heartbeat e p r wid lease now)
  then show ?thesis by (auto simp: HeartbeatParallelRunWorker_def Let_def update_schedule_def
        intro!: token_change_same split: option.splits sum.splits)
next
  case (cancel e p r now)
  then show ?thesis by (auto simp: CancelParallelRun_def Let_def update_schedule_def
        intro!: token_change_same split: option.splits sum.splits)
next
  case (claim_tx cinput e tok h)
  then show ?thesis by (auto intro: token_change_same)
qed (simp_all add: assms ClaimParallelRun_tokens consume_tokens IssueParallelRunToken_tokens
      RevokeParallelRunToken_tokens)

lemma token_change_ok:
  assumes "tokens_ok d" "token_change t d d'"
  shows "tokens_ok d'"
proof -
  obtain g new where g: "run_tokens d' = map g (run_tokens d) @ new" "\<And>r. token_advance r (g r)"
    "new_token_rows t d new" "next_token d' = next_token d + int (length new)"
    using assms(2) unfolding token_change_def by blast
  have key: "t_id (g r) = t_id r" "t_tokenId (g r) = t_tokenId r" for r
    using g(2) [of r] by (auto simp: token_advance_def)
  have ids: "map t_id (map g xs) = map t_id xs" "map t_tokenId (map g xs) = map t_tokenId xs"
    "list_all (\<lambda>t. t_id t < n) (map g xs) = list_all (\<lambda>t. t_id t < n) xs" for n xs
    by (simp_all add: key list_all_iff)
  show ?thesis
    using assms(1) g(3,4) unfolding tokens_ok_def g(1) map_append list_all_append distinct_append ids
    by (auto simp: new_token_rows_def list_all_iff)
qed

lemma reachable_tokens_ok: "reachable d \<Longrightarrow> tokens_ok d"
proof (induction rule: reachable.induct)
  case (start d)
  then show ?case by (simp add: fresh_db_def tokens_ok_def)
next
  case (step d t d')
  then show ?case using token_change_ok run_step_tokens by blast
qed

lemma reachable_steps: "run_steps d d' \<Longrightarrow> reachable d \<Longrightarrow> reachable d'"
  by (induction rule: run_steps.induct) (auto intro: reachable.step)

text \<open>A token identifier that exists and of which every row is used or revoked.\<close>

definition dead :: "string \<Rightarrow> db \<Rightarrow> bool" where
  "dead tid d \<longleftrightarrow> (\<exists>r \<in> set (run_tokens d). t_tokenId r = tid)
     \<and> (\<forall>r \<in> set (run_tokens d). t_tokenId r = tid \<longrightarrow> t_usedAt r \<noteq> None \<or> t_revokedAt r \<noteq> None)"

lemma token_change_dead:
  assumes "token_change t d d'" "dead tid d"
  shows "dead tid d'"
proof -
  obtain g new where g: "run_tokens d' = map g (run_tokens d) @ new" "\<And>r. token_advance r (g r)"
    "new_token_rows t d new" using assms(1) unfolding token_change_def by blast
  have adv: "t_tokenId (g r) = t_tokenId r"
    "t_usedAt r \<noteq> None \<or> t_revokedAt r \<noteq> None \<Longrightarrow> t_usedAt (g r) \<noteq> None \<or> t_revokedAt (g r) \<noteq> None" for r
    using g(2) [of r] by (auto simp: token_advance_def)
  have "\<forall>r \<in> set new. t_tokenId r \<noteq> tid"
    using assms(2) g(3) by (auto simp: new_token_rows_def dead_def)
  moreover obtain r where "r \<in> set (run_tokens d)" "t_tokenId r = tid"
    using assms(2) by (auto simp: dead_def)
  then have "g r \<in> set (run_tokens d')" "t_tokenId (g r) = tid" using g(1) adv(1) by auto
  moreover have "t_usedAt (g r) \<noteq> None \<or> t_revokedAt (g r) \<noteq> None"
    if "r \<in> set (run_tokens d)" "t_tokenId (g r) = tid" for r
    using that assms(2) adv unfolding dead_def by metis
  ultimately show ?thesis unfolding dead_def g(1) by auto
qed

lemma run_steps_dead: "run_steps d d' \<Longrightarrow> reachable d \<Longrightarrow> dead tid d \<Longrightarrow> dead tid d'"
proof (induction rule: run_steps.induct)
  case (more d d' t d'')
  then show ?case using token_change_dead run_step_tokens reachable_tokens_ok reachable_steps by blast
qed

lemma dead_consume:
  assumes "dead (fst (Cut (cl_RunToken i) (CHR ''.''))) d"
  shows "\<exists>x. consumeParallelRunToken e i d = (Inl x, d)"
proof -
  obtain tokenID secret valid where cut: "Cut (cl_RunToken i) (CHR ''.'') = (tokenID, secret, valid)"
    by (cases "Cut (cl_RunToken i) (CHR ''.'')") auto
  have "t_usedAt t \<noteq> None \<or> t_revokedAt t \<noteq> None"
    if "find (\<lambda>t. t_tokenId t = tokenID \<and> t_tenant t = cl_TenantID i \<and> t_project t = cl_ProjectID i
          \<and> t_schedule t = cl_RunID i \<and> t_agent t = cl_WorkerID i) (run_tokens d) = Some t" for t
    using assms find_SomeD [OF that] by (auto simp: dead_def cut)
  then show ?thesis
    unfolding consumeParallelRunToken_def cut Let_def by (auto split: option.split)
qed

lemma dead_claim:
  assumes "dead (fst (Cut (cl_RunToken i) (CHR ''.''))) d" "cl_RunToken i \<noteq> []"
  shows "\<exists>x. fst (ClaimParallelRun e i d) = Inl x" "schedules (snd (ClaimParallelRun e i d)) = schedules d"
proof -
  obtain x where "consumeParallelRunToken e i d = (Inl x, d)" using dead_consume [OF assms(1)] by blast
  then have "(\<exists>x. fst (ClaimParallelRun e i d) = Inl x) \<and> schedules (snd (ClaimParallelRun e i d)) = schedules d"
    using assms(2)
    by (auto simp: ClaimParallelRun_def recordParallelRunTokenAudit_def split: sum.split prod.split)
  then show "\<exists>x. fst (ClaimParallelRun e i d) = Inl x" "schedules (snd (ClaimParallelRun e i d)) = schedules d"
    by blast+
qed

lemma upd_rows_dead:
  assumes "t \<in> set (run_tokens d)" "t_tokenId t = tid"
    and "\<And>r. t_tokenId (f r) = t_tokenId r"
    and "\<And>r. r \<in> set (run_tokens d) \<Longrightarrow> t_tokenId r = tid \<Longrightarrow> p r \<and> (t_usedAt (f r) \<noteq> None \<or> t_revokedAt (f r) \<noteq> None)"
  shows "dead tid (d\<lparr>run_tokens := upd_rows p f (run_tokens d)\<rparr>)"
  unfolding dead_def
proof
  have "f t \<in> set (upd_rows p f (run_tokens d))" using assms by (auto simp: upd_rows_def)
  then show "\<exists>r\<in>set (run_tokens (d\<lparr>run_tokens := upd_rows p f (run_tokens d)\<rparr>)). t_tokenId r = tid"
    using assms by auto
next
  show "\<forall>r\<in>set (run_tokens (d\<lparr>run_tokens := upd_rows p f (run_tokens d)\<rparr>)).
      t_tokenId r = tid \<longrightarrow> t_usedAt r \<noteq> None \<or> t_revokedAt r \<noteq> None"
    by (simp add: Ball_def set_upd_rows del: not_None_eq) (metis assms(3,4))
qed

text \<open>What a consumption that succeeds has checked and changed.\<close>

lemma consume_success:
  assumes "consumeParallelRunToken e i d = (Inr (), d1)"
  obtains t tokenID secret where "Cut (cl_RunToken i) (CHR ''.'') = (tokenID, secret, True)" "HasPrefix tokenID ''idrt_''"
    "t \<in> set (run_tokens d)" "t_tokenId t = tokenID" "t_tenant t = cl_TenantID i" "t_project t = cl_ProjectID i"
    "t_schedule t = cl_RunID i" "t_agent t = cl_WorkerID i" "t_usedAt t = None" "t_revokedAt t = None"
    "cl_Now i < t_expiresAt t" "bcrypt_matches e (t_hash t) secret"
    "d1 = d\<lparr>run_tokens := upd_rows (\<lambda>r. t_id r = t_id t \<and> t_usedAt r = None \<and> t_revokedAt r = None)
       (\<lambda>r. r\<lparr>t_usedAt := Some (column_time e (cl_Now i))\<rparr>) (run_tokens d)\<rparr>"
proof -
  obtain tokenID secret valid where cut: "Cut (cl_RunToken i) (CHR ''.'') = (tokenID, secret, valid)"
    by (cases "Cut (cl_RunToken i) (CHR ''.'')") auto
  show thesis
    using assms that [of tokenID secret] unfolding consumeParallelRunToken_def cut Let_def
    by (auto split: if_splits option.splits dest!: find_SomeD)
qed

lemma consume_dead:
  assumes "tokens_ok d" "consumeParallelRunToken e i d = (Inr (), d1)"
  shows "dead (fst (Cut (cl_RunToken i) (CHR ''.''))) d1" "fst (Cut (cl_RunToken i) (CHR ''.'')) \<noteq> []"
proof -
  from consume_success [OF assms(2)] obtain t tokenID secret where
    c: "Cut (cl_RunToken i) (CHR ''.'') = (tokenID, secret, True)" "HasPrefix tokenID ''idrt_''"
    "t \<in> set (run_tokens d)" "t_tokenId t = tokenID" "t_usedAt t = None" "t_revokedAt t = None"
    "d1 = d\<lparr>run_tokens := upd_rows (\<lambda>r. t_id r = t_id t \<and> t_usedAt r = None \<and> t_revokedAt r = None)
       (\<lambda>r. r\<lparr>t_usedAt := Some (column_time e (cl_Now i))\<rparr>) (run_tokens d)\<rparr>" by blast
  have "r = t" if "r \<in> set (run_tokens d)" "t_tokenId r = tokenID" for r
    using that assms(1) c(3,4) inj_onD [of t_tokenId "set (run_tokens d)" r t]
    by (simp add: tokens_ok_def distinct_map)
  then show "dead (fst (Cut (cl_RunToken i) (CHR ''.''))) d1"
    unfolding c(1,7) fst_conv
    by (intro upd_rows_dead [OF c(3,4)]) (use c(5,6) in auto)
  show "fst (Cut (cl_RunToken i) (CHR ''.'')) \<noteq> []" using c(1,2) by (auto simp: HasPrefix_def)
qed

lemma Cut_Nil [simp]: "fst (Cut [] c) = []"
  by (simp add: Cut_def)

lemma revoke_dead:
  assumes "tokens_ok d" "RevokeParallelRunToken e t p r tid now d = (Inr x, d1)"
  shows "dead tid d1"
proof -
  let ?q = "\<lambda>x. t_tokenId x = tid \<and> t_tenant x = t \<and> t_project x = p \<and> t_schedule x = r"
  obtain k where k: "find ?q (run_tokens d) = Some k"
    and d1: "run_tokens d1 = (if t_revokedAt k = None
      then upd_rows (\<lambda>r. t_id r = t_id k \<and> t_revokedAt r = None)
             (\<lambda>r. r\<lparr>t_revokedAt := Some (column_time e now)\<rparr>) (run_tokens d) else run_tokens d)"
    using assms(2)
    by (auto simp: RevokeParallelRunToken_def Let_def recordParallelRunTokenLifecycleAudit_def
        split: if_splits option.splits)
  have mem: "k \<in> set (run_tokens d)" "t_tokenId k = tid" using find_SomeD [OF k] by auto
  have uniq: "r = k" if "r \<in> set (run_tokens d)" "t_tokenId r = tid" for r
    using that assms(1) mem inj_onD [of t_tokenId "set (run_tokens d)" r k] by (simp add: tokens_ok_def distinct_map)
  show ?thesis
  proof (cases "t_revokedAt k")
    case None
    have "dead tid (d\<lparr>run_tokens := upd_rows (\<lambda>r. t_id r = t_id k \<and> t_revokedAt r = None)
        (\<lambda>r. r\<lparr>t_revokedAt := Some (column_time e now)\<rparr>) (run_tokens d)\<rparr>)"
    proof (rule upd_rows_dead [OF mem])
      fix r assume "r \<in> set (run_tokens d)" "t_tokenId r = tid"
      then have "r = k" by (rule uniq)
      then show "(t_id r = t_id k \<and> t_revokedAt r = None) \<and> (t_usedAt (r\<lparr>t_revokedAt := Some (column_time e now)\<rparr>) \<noteq> None
          \<or> t_revokedAt (r\<lparr>t_revokedAt := Some (column_time e now)\<rparr>) \<noteq> None)" using None by simp
    qed simp
    then show ?thesis using None d1 by (simp add: dead_def)
  next
    case (Some z)
    then have "run_tokens d1 = run_tokens d" using d1 by simp
    then show ?thesis unfolding dead_def using mem uniq Some by (metis option.distinct(1))
  qed
qed

section \<open>Safety properties\<close>

text \<open>
  C5. In every reachable database the worker document of every schedule is an object with distinct
  worker identifiers, the counter columns are exactly the numbers of workers by status, and no two
  schedules share an identifier or a (tenant, project, idempotency key).
\<close>

theorem reachable_counters:
  assumes "reachable d"
  shows "(\<forall>s \<in> set (schedules d). \<exists>ws. s_workers s = Some (JObj ws) \<and> wf_map ws
           \<and> s_active s = workers_with ''running'' ws \<and> s_total s = int (length ws)
           \<and> s_completed s = workers_with ''completed'' ws \<and> s_failed s = workers_with ''failed'' ws
           \<and> s_cancelled s = workers_with ''cancelled'' ws)
         \<and> distinct (map s_id (schedules d))
         \<and> distinct (map (\<lambda>s. (s_tenant s, s_project s, s_key s)) (schedules d))"
  using reachable_schedules_ok [OF assms]
  by (auto simp: schedules_ok_def list_all_iff schedule_ok_def counters_agree_def counts_def
      uniq_key_def [abs_def])

lemma reachable_db1: "reachable db1"
  using reachable.step [OF reachable.start [of db0] run_step.create [of create0 db0 env0 None]]
  by (simp add: fresh_db_def db0_def db1_def)

lemma reachable_db2: "reachable db2"
  using reachable.step [OF reachable_db1 run_step.issue] by (simp add: db2_def)

lemma reachable_db3: "reachable db3"
  using reachable.step [OF reachable_db1 run_step.claim] by (simp add: db3_def)

theorem reachable_counters_witness:
  "reachable db3 \<and> map s_active (schedules db3) = [1] \<and> distinct (map s_id (schedules db3))"
proof -
  have "map s_active (schedules db3) = [1]" by code_simp
  then show ?thesis using reachable_counters [OF reachable_db3] reachable_db3 by simp
qed

text \<open>
  C6. A terminal schedule is final: whatever calls follow, by whatever callers, its row, status,
  counters, result and times included, stays as it is.
\<close>

theorem terminal_absorbing:
  assumes "run_steps d d'" "find_schedule a b c d = Some s" "parallelRunTerminal (s_status s)"
  shows "find_schedule a b c d' = Some s"
  using assms by (induction rule: run_steps.induct) (auto intro: run_step_terminal)

theorem terminal_absorbing_witness:
  "map_option s_status (find_schedule 7 1 1 db4) = Some ''cancelled''
   \<and> find_schedule 7 1 1 (snd (ClaimParallelRun env0 (claim0 ''a'' [] 9) db4)) = find_schedule 7 1 1 db4"
proof -
  have c: "map_option s_status (find_schedule 7 1 1 db4) = Some ''cancelled''" by code_simp
  then obtain s where s: "find_schedule 7 1 1 db4 = Some s" "parallelRunTerminal (s_status s)"
    by (auto simp: parallelRunTerminal_def)
  have "run_steps db4 (snd (ClaimParallelRun env0 (claim0 ''a'' [] 9) db4))"
    by (rule run_steps.more [OF run_steps.none run_step.claim])
  from terminal_absorbing [OF this s] s c show ?thesis by simp
qed

text \<open>
  C1. Tenants are separate: a call made for one tenant changes neither the schedules nor the run
  tokens of another.
\<close>

theorem tenant_isolation:
  assumes "reachable d" "run_step t d d'" "u \<noteq> t"
  shows "filter (\<lambda>s. s_tenant s = u) (schedules d') = filter (\<lambda>s. s_tenant s = u) (schedules d)
       \<and> filter (\<lambda>r. t_tenant r = u) (run_tokens d') = filter (\<lambda>r. t_tenant r = u) (run_tokens d)"
proof
  show "filter (\<lambda>s. s_tenant s = u) (schedules d') = filter (\<lambda>s. s_tenant s = u) (schedules d)"
    using run_step_other_tenant [OF assms(2,3)] by (simp add: tenant_rows_def)
  obtain g new where g: "run_tokens d' = map g (run_tokens d) @ new" "\<And>r. token_advance r (g r)"
    "\<And>r. r \<in> set (run_tokens d) \<Longrightarrow> t_tenant r \<noteq> t \<Longrightarrow> g r = r" "new_token_rows t d new"
    using run_step_tokens [OF assms(2) reachable_tokens_ok [OF assms(1)]] unfolding token_change_def by blast
  have "filter (\<lambda>r. t_tenant r = u) (map g rs) = filter (\<lambda>r. t_tenant r = u) rs" if "set rs \<subseteq> set (run_tokens d)" for rs
    using that
  proof (induction rs)
    case (Cons r rs)
    have "t_tenant (g r) = t_tenant r" using g(2) [of r] by (auto simp: token_advance_def)
    then show ?case using Cons g(3) [of r] assms(3) by auto
  qed simp
  then show "filter (\<lambda>r. t_tenant r = u) (run_tokens d') = filter (\<lambda>r. t_tenant r = u) (run_tokens d)"
    using g(1,4) assms(3) by (auto simp: new_token_rows_def)
qed

theorem tenant_isolation_witness:
  "reachable db1 \<and> filter (\<lambda>s. s_tenant s = 8) (schedules (snd (CancelParallelRun env0 7 1 1 5 db1)))
     = filter (\<lambda>s. s_tenant s = 8) (schedules db1)"
  using tenant_isolation [OF reachable_db1 run_step.cancel, of 8 7 env0 1 1 5] reachable_db1 by simp

text \<open>
  C4. A run token admits one claim: after it has been consumed, and whatever calls come in between,
  every claim that presents the same token identifier fails and changes no schedule.
\<close>

theorem run_token_single_use:
  assumes "reachable d" "consumeParallelRunToken e i d = (Inr (), d1)" "run_steps d1 d2"
    and "fst (Cut (cl_RunToken j) (CHR ''.'')) = fst (Cut (cl_RunToken i) (CHR ''.''))"
  shows "(\<exists>x. fst (ClaimParallelRun e' j d2) = Inl x) \<and> schedules (snd (ClaimParallelRun e' j d2)) = schedules d2"
proof -
  have ok: "tokens_ok d" using assms(1) by (rule reachable_tokens_ok)
  have "reachable d1" using reachable.step [OF assms(1) run_step.consume [of i d e]] assms(2) by simp
  then have "dead (fst (Cut (cl_RunToken j) (CHR ''.''))) d2"
    using run_steps_dead [OF assms(3)] consume_dead(1) [OF ok assms(2)] assms(4) by simp
  moreover have "cl_RunToken j \<noteq> []" using consume_dead(2) [OF ok assms(2)] assms(4) by auto
  ultimately show ?thesis using dead_claim by blast
qed

theorem run_token_single_use_witness:
  "fst (consumeParallelRunToken env0 (claim0 ''a'' token0 0) db2) = Inr ()
   \<and> (\<exists>x. fst (ClaimParallelRun env0 (claim0 ''a'' token0 1)
            (snd (consumeParallelRunToken env0 (claim0 ''a'' token0 0) db2))) = Inl x)"
proof -
  have c: "fst (consumeParallelRunToken env0 (claim0 ''a'' token0 0) db2) = Inr ()" by code_simp
  then have *: "consumeParallelRunToken env0 (claim0 ''a'' token0 0) db2
      = (Inr (), snd (consumeParallelRunToken env0 (claim0 ''a'' token0 0) db2))" by (simp add: prod_eq_iff)
  show ?thesis
    using run_token_single_use [OF reachable_db2 * run_steps.none, where j = "claim0 ''a'' token0 1" and e' = env0] c
    by simp
qed

text \<open>
  Revocation is final: after a revocation that succeeds, and whatever calls come in between,
  every claim that presents a run token with the revoked identifier fails and changes no schedule.
\<close>

lemma revoked_token_rejected:
  assumes "reachable d" "RevokeParallelRunToken e t p r tid now d = (Inr x, d1)" "run_steps d1 d2"
    and "cl_RunToken j \<noteq> []" "fst (Cut (cl_RunToken j) (CHR ''.'')) = tid"
  shows "(\<exists>x. fst (ClaimParallelRun e' j d2) = Inl x) \<and> schedules (snd (ClaimParallelRun e' j d2)) = schedules d2"
proof -
  have "reachable d1" using reachable.step [OF assms(1) run_step.revoke [of t d e p r tid now]] assms(2) by simp
  then have "dead tid d2"
    using run_steps_dead [OF assms(3)] revoke_dead [OF reachable_tokens_ok [OF assms(1)] assms(2)] by blast
  then show ?thesis using dead_claim assms(4,5) by blast
qed

lemma revoked_token_rejected_witness:
  "\<exists>x. fst (ClaimParallelRun env0 (claim0 ''a'' token0 1)
     (snd (RevokeParallelRunToken env0 7 1 1 (fst (Cut token0 (CHR ''.''))) 0 db2))) = Inl x"
proof -
  let ?r = "RevokeParallelRunToken env0 7 1 1 (fst (Cut token0 (CHR ''.''))) 0 db2"
  have r: "\<not> isl (fst ?r)" by code_simp
  have t: "token0 \<noteq> []" by code_simp
  from r obtain y where "?r = (Inr y, snd ?r)" by (metis isl_def obj_sumE prod.collapse)
  from revoked_token_rejected [OF reachable_db2 this run_steps.none, where j = "claim0 ''a'' token0 1" and e' = env0] t
  show ?thesis by simp
qed

end
