(* ===== verification/RunBehaviour.thy ===== *)
theory RunBehaviour
  imports RunSafety
begin

text \<open>
  The behaviour of single calls of the parallel-run repository: admission of workers, cancellation,
  leases and heartbeats, the run and worker tokens, idempotent creation, and what a read shows.
\<close>

section \<open>Admission of workers\<close>

lemma workers_with_update: "workers_with st (AList.update k v ws) \<le> workers_with st ws + 1"
  by (induction ws) (auto simp: workers_with_def)

lemma workers_with_refresh: "workers_with ''running'' (refresh ws now) \<le> workers_with ''running'' ws"
  by (induction ws) (auto simp: workers_with_def refresh_def effective_status_refresh)

lemma reachable_schedule_ok: "reachable d \<Longrightarrow> find_schedule t p r d = Some s \<Longrightarrow> schedule_ok s"
  using reachable_schedules_ok find_schedule_key by (fastforce simp: schedules_ok_def list_all_iff)

lemma claim_row_active:
  assumes "schedule_ok s"
  shows "s_active (claim_row e i h s) \<le> s_active s + 1" "s_requested (claim_row e i h s) = s_requested s"
proof -
  obtain ws where ws: "s_workers s = Some (JObj ws)" "wf_map ws" "counters_agree ws s"
    using assms by (auto simp: schedule_ok_def)
  let ?ws1 = "AList.update (cl_WorkerID i) (JObj (claimed_worker i h (existing_worker ws (cl_WorkerID i)))) ws"
  have "s_active (claim_row e i h s) = workers_with ''running'' (refresh ?ws1 (cl_Now i))"
    using ws by (simp add: claim_row_def Let_def case_prod_beta store_workers_def workers counts_def)
  also have "\<dots> \<le> workers_with ''running'' ws + 1"
    using workers_with_refresh workers_with_update order_trans by blast
  finally show "s_active (claim_row e i h s) \<le> s_active s + 1"
    using ws(3) by (simp add: counters_agree_def counts_def)
  show "s_requested (claim_row e i h s) = s_requested s"
    by (simp add: claim_row_def Let_def case_prod_beta store_workers_def)
qed

text \<open>
  C21. A worker that has not claimed before is admitted only below the limit: after its claim the run
  has at most \<open>requestedConcurrency\<close> active workers, and the run was neither terminal nor cancelling.
\<close>

theorem claim_within_limit:
  assumes "reachable d" "ClaimParallelRun e i d = (Inr run, d')"
    and "find_schedule (cl_TenantID i) (cl_ProjectID i) (cl_RunID i) d = Some s"
    and "existing_worker (decodeParallelMap (s_workers s)) (cl_WorkerID i) = None"
  shows "ActiveWorkers run \<le> RequestedConcurrency run \<and> Status run = ''running''
    \<and> \<not> parallelRunTerminal (s_status s) \<and> s_status s \<noteq> ''cancelling''"
proof -
  obtain tok h where g: "claim_guard e i d s = Inr ()"
    and run: "run = (scanParallelRun (claim_row e i h s))\<lparr>WorkerToken := tok\<rparr>"
    using ClaimParallelRun_effect [OF assms(2)] assms(3) by auto
  have "s_active s < s_requested s" using claim_guard_Inr [OF g] assms(4) by simp
  moreover have "s_active (claim_row e i h s) \<le> s_active s + 1"
    "s_requested (claim_row e i h s) = s_requested s"
    using claim_row_active [OF reachable_schedule_ok [OF assms(1,3)]] by auto
  moreover have "s_status (claim_row e i h s) = ''running''"
    by (simp add: claim_row_def Let_def case_prod_beta)
  ultimately show ?thesis using claim_guard_Inr [OF g] by (simp add: run scanParallelRun_def Let_def)
qed

theorem claim_within_limit_witness:
  "map_option (\<lambda>s. existing_worker (decodeParallelMap (s_workers s)) ''a'') (find_schedule 7 1 1 db1) = Some None
   \<and> (\<exists>run d'. ClaimParallelRun env0 (claim0 ''a'' [] 0) db1 = (Inr run, d') \<and> ActiveWorkers run \<le> RequestedConcurrency run)"
proof -
  have "map_option (\<lambda>s. existing_worker (decodeParallelMap (s_workers s)) ''a'') (find_schedule 7 1 1 db1) = Some None"
    by code_simp
  moreover have "\<not> isl (fst (ClaimParallelRun env0 (claim0 ''a'' [] 0) db1))" by code_simp
  then obtain run d' where "ClaimParallelRun env0 (claim0 ''a'' [] 0) db1 = (Inr run, d')"
    by (metis isl_def obj_sumE prod.collapse)
  ultimately show ?thesis
    using claim_within_limit [OF reachable_db1, of env0 "claim0 ''a'' [] 0" run d']
    by (auto simp: claim0_def)
qed

text \<open>Worker \<open>a\<close> claims and completes, worker \<open>b\<close> takes the freed slot, \<open>a\<close> claims again.\<close>

definition update0 :: "string \<Rightarrow> string \<Rightarrow> instant \<Rightarrow> RunnerWorkerUpdate" where
  "update0 worker status now = \<lparr>up_TenantID = 7, up_ProjectID = 1, up_RunID = 1, up_WorkerID = worker,
     up_Status = status, up_Result = JNull, up_Now = now\<rparr>"

definition db5 :: db where
  "db5 = snd (ClaimParallelRun env0 (claim0 ''b'' [] 2)
           (snd (UpdateRunnerWorker env0 (update0 ''a'' ''completed'' 1) db3)))"

lemma reachable_db5: "reachable db5"
  unfolding db5_def
  by (intro reachable.step [OF reachable.step [OF reachable_db3 run_step.update] run_step.claim])

text \<open>
  The limit is not an invariant: it is not checked for a worker that has claimed before, so a
  worker that completed can claim again while its slot is taken, and the run then has more active
  workers than \<open>requestedConcurrency\<close>.
\<close>

lemma reclaim_exceeds_limit:
  "\<exists>d e i run d'. reachable d \<and> ClaimParallelRun e i d = (Inr run, d')
     \<and> RequestedConcurrency run < ActiveWorkers run"
proof -
  let ?c = "ClaimParallelRun env0 (claim0 ''a'' [] 3) db5"
  have "case fst ?c of Inr run \<Rightarrow> RequestedConcurrency run < ActiveWorkers run | Inl _ \<Rightarrow> False"
    by code_simp
  then obtain run where "fst ?c = Inr run" "RequestedConcurrency run < ActiveWorkers run"
    by (cases "fst ?c") auto
  then show ?thesis using reachable_db5 by (metis prod.collapse)
qed

section \<open>Cancellation\<close>

lemma scanParallelRun_columns:
  "Status (scanParallelRun s) = s_status s" "CancelledAt (scanParallelRun s) = s_cancelledAt s"
  "ActiveWorkers (scanParallelRun s) = s_active s" "RequestedConcurrency (scanParallelRun s) = s_requested s"
  "TotalWorkers (scanParallelRun s) = s_total s" "ID (scanParallelRun s) = s_id s"
  by (simp_all add: scanParallelRun_def Let_def)

lemma cancel_row_terminal: "parallelRunTerminal (s_status (cancel_row e now s))"
  using outcome_terminal_current [of "''cancelled''"]
  by (auto simp: cancel_row_def Let_def case_prod_beta parallelRunTerminal_def)

lemma cancel_worker_status: "mget (map_or_nil (cancel_worker now w)) ''status'' \<noteq> JStr ''running''"
  by (simp add: cancel_worker_def json)

lemma refresh_worker_status:
  "mget (map_or_nil w) ''status'' \<noteq> JStr ''running'' \<Longrightarrow>
   mget (map_or_nil (refresh_worker now w)) ''status'' \<noteq> JStr ''running''"
  by (simp add: refresh_worker_def json)

text \<open>
  C29. Cancelling a run that is not terminal always ends it: the call succeeds when the database does,
  the stored status is terminal, the cancellation time is set and no worker document is left with
  status \<open>running\<close>; a run that is terminal is refused and the database stays as it was.
\<close>

theorem cancel_ends_run:
  assumes "\<And>l. \<not> db_fails e l" "reachable d" "find_schedule t p r d = Some s"
  shows "if parallelRunTerminal (s_status s) then CancelParallelRun e t p r now d = (Inl ErrParallelRunTerminal, d)
    else \<exists>run d' s' ws. CancelParallelRun e t p r now d = (Inr run, d') \<and> find_schedule t p r d' = Some s'
      \<and> run = scanParallelRun s' \<and> parallelRunTerminal (Status run) \<and> CancelledAt run = Some (column_time e now)
      \<and> s_workers s' = Some (JObj ws) \<and> (\<forall>(id, w) \<in> set ws. mget (map_or_nil w) ''status'' \<noteq> JStr ''running'')"
proof (cases "parallelRunTerminal (s_status s)")
  case True
  then show ?thesis using assms by (simp add: CancelParallelRun_def)
next
  case False
  let ?s = "cancel_row e now s" and ?d = "update_schedule t p r (cancel_row e now) d"
  obtain ws0 where ws0: "s_workers s = Some (JObj ws0)"
    using reachable_schedule_ok [OF assms(2,3)] by (auto simp: schedule_ok_def)
  let ?ws = "refresh (cancel_workers now ws0) now"
  have call: "CancelParallelRun e t p r now d = (Inr (scanParallelRun ?s), ?d)"
    using assms(1,3) False by (simp add: CancelParallelRun_def getParallelRun_update)
  have find: "find_schedule t p r ?d = Some ?s" using assms(3) by (simp add: find_schedule_update_same)
  have workers: "s_workers ?s = Some (JObj ?ws)"
    using ws0 by (simp add: cancel_row_def Let_def case_prod_beta decodesToNil_def workers)
  have at: "s_cancelledAt ?s = Some (column_time e now)"
    by (simp add: cancel_row_def Let_def case_prod_beta)
  have idle: "mget (map_or_nil w) ''status'' \<noteq> JStr ''running''" if "(id, w) \<in> set ?ws" for id w
    using that refresh_worker_status [OF cancel_worker_status] by (auto simp: refresh_def cancel_workers_def)
  have "parallelRunTerminal (Status (scanParallelRun ?s))" "CancelledAt (scanParallelRun ?s) = Some (column_time e now)"
    using cancel_row_terminal at by (simp_all add: scanParallelRun_columns)
  then have "CancelParallelRun e t p r now d = (Inr (scanParallelRun ?s), ?d) \<and> find_schedule t p r ?d = Some ?s
      \<and> scanParallelRun ?s = scanParallelRun ?s \<and> parallelRunTerminal (Status (scanParallelRun ?s))
      \<and> CancelledAt (scanParallelRun ?s) = Some (column_time e now) \<and> s_workers ?s = Some (JObj ?ws)
      \<and> (\<forall>(id, w) \<in> set ?ws. mget (map_or_nil w) ''status'' \<noteq> JStr ''running'')"
    using call find workers idle by blast
  then show ?thesis using False by (simp only: if_False) blast
qed

theorem cancel_ends_run_witness:
  "\<exists>run d'. CancelParallelRun env0 7 1 1 5 db1 = (Inr run, d') \<and> parallelRunTerminal (Status run)"
proof -
  have "map_option (\<lambda>s. parallelRunTerminal (s_status s)) (find_schedule 7 1 1 db1) = Some False" by code_simp
  then obtain s where "find_schedule 7 1 1 db1 = Some s" "\<not> parallelRunTerminal (s_status s)" by auto
  moreover have "\<not> db_fails env0 l" for l by (simp add: env0_def)
  ultimately show ?thesis using cancel_ends_run [OF _ reachable_db1, of env0 7 1 1 s 5] by auto
qed

section \<open>What a read shows\<close>

lemma map_of_view:
  assumes "wf_map w"
  shows "map_of (worker_view wid w) k =
    (if k = ''workerTokenHash'' \<or> k = ''workerTokenExpiresAt'' then None
     else case map_of w k of Some v \<Rightarrow> Some v | None \<Rightarrow> if k = ''workerId'' then Some (JStr wid) else None)"
proof -
  have "map_of (fold (\<lambda>(key, value) c. if key = ''workerTokenHash'' \<or> key = ''workerTokenExpiresAt'' then c
      else AList.update key value c) w c) k =
    (if k = ''workerTokenHash'' \<or> k = ''workerTokenExpiresAt'' then map_of c k
     else case map_of w k of None \<Rightarrow> map_of c k | Some v \<Rightarrow> Some v)" for c
    using assms
  proof (induction w arbitrary: c)
    case (Cons p w)
    have "wf_map w" "map_of w (fst p) = None"
      using Cons.prems by (auto simp: wf_map_def map_of_eq_None_iff)
    then show ?case using Cons.IH by (cases p) (auto simp: gomap split: option.splits)
  qed simp
  then show ?thesis by (auto simp: worker_view_def split: option.splits)
qed

text \<open>
  A read shows every field of every worker document except the hash and the expiry of its worker
  token, which no worker of the result has.
\<close>

lemma scan_hides_worker_token:
  assumes "s_workers s = Some (JObj ws)" "wf_map ws" "map_of ws wid = Some (JObj w)" "wf_map w"
  shows "\<exists>v \<in> set (Workers (scanParallelRun s)). \<forall>k. map_of v k =
    (if k = ''workerTokenHash'' \<or> k = ''workerTokenExpiresAt'' then None
     else case map_of w k of Some x \<Rightarrow> Some x | None \<Rightarrow> if k = ''workerId'' then Some (JStr wid) else None)"
proof
  show "\<forall>k. map_of (worker_view wid w) k = (if k = ''workerTokenHash'' \<or> k = ''workerTokenExpiresAt'' then None
     else case map_of w k of Some x \<Rightarrow> Some x | None \<Rightarrow> if k = ''workerId'' then Some (JStr wid) else None)"
    using map_of_view [OF assms(4)] by blast
  have "wid \<in> set (sorted_keys ws)"
    using map_of_SomeD [OF assms(3)] by (force simp: sorted_keys_def)
  moreover have "mget ws wid = JObj w" using assms(3) by (simp add: mget_def)
  ultimately show "worker_view wid w \<in> set (Workers (scanParallelRun s))"
    using assms(1) by (force simp: scanParallelRun_def Let_def List.map_filter_def image_iff)
qed

lemma scan_hides_worker_token_witness:
  "\<exists>v \<in> set (Workers (scanParallelRun ((new_schedule env0 create0 ''k'' [] 1)\<lparr>s_workers :=
       Some (JObj [(''a'', JObj [(''status'', JStr ''running''), (''workerTokenHash'', JStr ''h'')])])\<rparr>))).
     map_of v ''workerTokenHash'' = None \<and> map_of v ''status'' = Some (JStr ''running'')"
proof -
  let ?w = "[(''status'', JStr ''running''), (''workerTokenHash'', JStr ''h'')]"
  let ?s = "(new_schedule env0 create0 ''k'' [] 1)\<lparr>s_workers := Some (JObj [(''a'', JObj ?w)])\<rparr>"
  obtain v where "v \<in> set (Workers (scanParallelRun ?s))" "\<forall>k. map_of v k =
    (if k = ''workerTokenHash'' \<or> k = ''workerTokenExpiresAt'' then None
     else case map_of ?w k of Some x \<Rightarrow> Some x | None \<Rightarrow> if k = ''workerId'' then Some (JStr ''a'') else None)"
    using scan_hides_worker_token [of ?s "[(''a'', JObj ?w)]" "''a''" ?w] by (auto simp: wf_map_def)
  then show ?thesis by (intro bexI [of _ v]) simp_all
qed

section \<open>Idempotent creation\<close>

definition row_ids :: "db \<Rightarrow> (int \<times> int \<times> int \<times> string) list" where
  "row_ids d = map (\<lambda>s. (s_id s, uniq_key s)) (schedules d)"

lemma insert_schedule_ids: "\<exists>new. row_ids (snd (insert_schedule e input key md d)) = row_ids d @ new"
  by (auto simp: insert_schedule_def row_ids_def split: option.splits)

lemma run_step_ids:
  assumes "run_step t d d'"
  shows "\<exists>new. row_ids d' = row_ids d @ new"
  using run_step_schedules [OF assms]
proof (elim disjE exE conjE)
  assume "live_write t d d'"
  then obtain p r f where f: "row_write f" "schedules d' = upd_rows (schedule_is t p r) f (schedules d)"
    unfolding live_write_def by blast
  have "row_ids d' = row_ids d" unfolding row_ids_def f(2)
    using f(1) by (intro map_upd_rows) (simp add: row_write_def keeps_key_def uniq_key_def)
  then show ?thesis by simp
next
  fix e input cs assume "d' = snd (createParallelRuns e input cs d)"
  moreover have "\<exists>new. row_ids (snd (createParallelRuns e input cs d)) = row_ids d @ new"
  proof (rule createParallelRuns_keeps [where P = "\<lambda>x. \<exists>new. row_ids x = row_ids d @ new"])
    fix key md x assume "\<exists>new. row_ids x = row_ids d @ new"
    then show "\<exists>new. row_ids (snd (insert_schedule e input key md x)) = row_ids d @ new"
      using insert_schedule_ids [of e input key md x] by auto
  qed simp
  ultimately show ?thesis by simp
qed (simp add: no_write_def row_ids_def)

lemma run_steps_ids: "run_steps d d' \<Longrightarrow> \<exists>new. row_ids d' = row_ids d @ new"
proof (induction rule: run_steps.induct)
  case (more d d' t d'')
  then show ?case using run_step_ids [OF more.hyps(2)] by auto
qed simp

text \<open>What a creation that succeeds returns: the row that has the key, which it inserted if it was missing.\<close>

lemma CreateParallelRun_effect:
  assumes "CreateParallelRun e i d = (Inr run, d1)"
  obtains md where "d1 = snd (insert_schedule e i (pc_IdempotencyKey i) md d)"
    "ID run = fst (insert_schedule e i (pc_IdempotencyKey i) md d)"
proof -
  obtain runs where "createParallelRuns e i None d = (Inr (run # runs), d1)"
    using assms by (auto simp: CreateParallelRun_def split: prod.splits sum.splits list.splits)
  then obtain snap where loop: "create_loop e i snap 0 1 [None] d = Inr (run # runs, d1)"
    by (auto simp: createParallelRuns_def Let_def simp del: create_loop.simps split: if_splits sum.splits prod.splits)
  let ?md = "run_metadata i snap 0 1 None"
  obtain n d' where ins: "insert_schedule e i (pc_IdempotencyKey i) ?md d = (n, d')" by fastforce
  have "getParallelRun e (pc_TenantID i) (pc_ProjectID i) n d' = Inr run" "d' = d1"
    using loop ins by (auto simp: run_key_def split: if_splits sum.splits prod.splits)
  moreover have "ID run = n" if "getParallelRun e a b n d' = Inr run" for a b
    using that find_schedule_key by (auto simp: getParallelRun_def scanParallelRun_def Let_def split: if_splits option.splits)
  ultimately show thesis using that [of ?md] ins by auto
qed

lemma insert_schedule_has:
  "(fst (insert_schedule e i key md d), pc_TenantID i, pc_ProjectID i, key) \<in> set (row_ids (snd (insert_schedule e i key md d)))"
  by (auto simp: insert_schedule_def row_ids_def uniq_key_def new_schedule_def has_key_def dest!: find_SomeD
      split: option.splits intro!: image_eqI)

lemma insert_schedule_old:
  assumes "schedules_ok d" "(n, pc_TenantID i, pc_ProjectID i, key) \<in> set (row_ids d)"
  shows "insert_schedule e i key md d = (n, d)"
proof -
  obtain s where s: "s \<in> set (schedules d)" "s_id s = n" "uniq_key s = (pc_TenantID i, pc_ProjectID i, key)"
    using assms(2) by (auto simp: row_ids_def)
  have "\<not> find (has_key (pc_TenantID i) (pc_ProjectID i) key) (schedules d) = None"
    using s by (auto simp: find_None_iff has_key_def uniq_key_def)
  then obtain s' where s': "find (has_key (pc_TenantID i) (pc_ProjectID i) key) (schedules d) = Some s'" by blast
  have "uniq_key s' = uniq_key s" "s' \<in> set (schedules d)"
    using find_SomeD [OF s'] s(3) by (auto simp: has_key_def uniq_key_def)
  moreover have "inj_on uniq_key (set (schedules d))"
    using assms(1) by (simp add: schedules_ok_def distinct_map)
  ultimately have "s' = s" using s(1) inj_onD [of uniq_key _ s' s] by blast
  then show ?thesis using s' s(2) by (simp add: insert_schedule_def)
qed

text \<open>
  Creation is idempotent: whatever calls come in between, a second creation with the same tenant,
  project and idempotency key returns the run of the first one and leaves the database as it is.
\<close>

lemma create_idempotent:
  assumes "reachable d" "CreateParallelRun e i d = (Inr run, d1)" "run_steps d1 d2"
    and "CreateParallelRun e' j d2 = (Inr run', d3)"
    and "pc_TenantID j = pc_TenantID i" "pc_ProjectID j = pc_ProjectID i" "pc_IdempotencyKey j = pc_IdempotencyKey i"
  shows "ID run' = ID run \<and> d3 = d2"
proof -
  have "d1 = snd (createParallelRuns e i None d)"
    using assms(2) by (auto simp: CreateParallelRun_def split: prod.splits sum.splits list.splits)
  then have "reachable d1" using reachable.step [OF assms(1) run_step.create] by simp
  then have ok: "schedules_ok d2" using reachable_steps [OF assms(3)] reachable_schedules_ok by blast
  obtain md where "d1 = snd (insert_schedule e i (pc_IdempotencyKey i) md d)"
    "ID run = fst (insert_schedule e i (pc_IdempotencyKey i) md d)" using assms(2) by (rule CreateParallelRun_effect)
  then have "(ID run, pc_TenantID i, pc_ProjectID i, pc_IdempotencyKey i) \<in> set (row_ids d1)"
    using insert_schedule_has by simp
  then have old: "(ID run, pc_TenantID j, pc_ProjectID j, pc_IdempotencyKey j) \<in> set (row_ids d2)"
    using run_steps_ids [OF assms(3)] assms(5-7) by auto
  obtain md' where "d3 = snd (insert_schedule e' j (pc_IdempotencyKey j) md' d2)"
    "ID run' = fst (insert_schedule e' j (pc_IdempotencyKey j) md' d2)" using assms(4) by (rule CreateParallelRun_effect)
  then show ?thesis using insert_schedule_old [OF ok old] by simp
qed

lemma reachable_db0: "reachable db0"
  by (rule reachable.start) (simp add: fresh_db_def db0_def)

lemma create_idempotent_witness:
  "\<exists>run run' d1 d3. CreateParallelRun env0 create0 db0 = (Inr run, d1)
     \<and> CreateParallelRun env0 (create0\<lparr>pc_Now := 9\<rparr>) d1 = (Inr run', d3) \<and> ID run' = ID run"
proof -
  let ?c = "CreateParallelRun env0 create0 db0"
  let ?c' = "CreateParallelRun env0 (create0\<lparr>pc_Now := 9\<rparr>) (snd ?c)"
  have "\<not> isl (fst ?c)" by code_simp
  then obtain run where 1: "?c = (Inr run, snd ?c)" by (metis isl_def obj_sumE prod.collapse)
  have "\<not> isl (fst ?c')" by code_simp
  then obtain run' where 2: "?c' = (Inr run', snd ?c')" by (metis isl_def obj_sumE prod.collapse)
  from create_idempotent [OF reachable_db0 1 run_steps.none 2] 1 2 show ?thesis by auto
qed

end
