(* ===== verification/RunLeases.thy ===== *)
theory RunLeases
  imports RunBehaviour
begin

text \<open>
  Leases and tokens over time: a run token that was issued can be consumed until it expires, a worker
  token is valid for 120 seconds after its claim and no heartbeat changes that, and a heartbeat renews
  a live lease and loses an expired one.
\<close>

section \<open>Run tokens: issue, then consume\<close>

text \<open>What the code relies on of \<open>golang.org/x/crypto/bcrypt\<close> and \<open>crypto/rand\<close>.\<close>

definition bcrypt_law :: "env \<Rightarrow> bool" where
  "bcrypt_law e \<longleftrightarrow> (\<forall>s h. bcrypt_generate e s = Some h \<longrightarrow> h \<noteq> [] \<and> bcrypt_matches e h s)"

definition rand_law :: "env \<Rightarrow> bool" where
  "rand_law e \<longleftrightarrow> (\<forall>n bs. rand_bytes e n = Some bs \<longrightarrow> length bs = n)"

lemma hex_digit_dot: "hex_digit n \<noteq> CHR ''.''"
proof -
  have "\<forall>k \<in> {..<16}. ''0123456789abcdef'' ! k \<noteq> CHR ''.''"
    by (simp add: lessThan_nat_numeral lessThan_Suc nth_Cons')
  then show ?thesis by (simp add: hex_digit_def)
qed

lemma hex_encode_dot: "CHR ''.'' \<notin> set (hex_encode bs)"
  by (auto simp: hex_encode_def hex_digit_dot hex_digit_dot [symmetric])

lemma random_part_length:
  "rand_law e \<Longrightarrow> randomParallelRunTokenPart e n = Some s \<Longrightarrow> length s = 2 * n"
  by (auto simp: randomParallelRunTokenPart_def rand_law_def)

lemma random_part_dot: "randomParallelRunTokenPart e n = Some s \<Longrightarrow> CHR ''.'' \<notin> set s"
  by (auto simp: randomParallelRunTokenPart_def hex_encode_dot)

text \<open>What an issue that succeeds stores and returns.\<close>

lemma IssueParallelRunToken_effect:
  assumes "IssueParallelRunToken e t p r agent now ttl d = (Inr tok, d1)"
  obtains part secret hash row where "randomParallelRunTokenPart e 12 = Some part"
    "randomParallelRunTokenPart e 32 = Some secret" "bcrypt_generate e secret = Some hash"
    "ti_Token tok = (''idrt_'' @ part) @ ''.'' @ secret"
    "row = \<lparr>t_id = next_token d, t_tenant = t, t_project = p, t_schedule = r, t_agent = agent,
       t_tokenId = ''idrt_'' @ part, t_hash = hash, t_expiresAt = column_time e (now + ttl),
       t_usedAt = None, t_revokedAt = None\<rparr>"
    "run_tokens d1 = run_tokens d @ [row]" "\<forall>x \<in> set (run_tokens d). t_tokenId x \<noteq> ''idrt_'' @ part"
  using assms find_schedule_key [of t p r d]
  by (auto simp: IssueParallelRunToken_def Let_def recordParallelRunTokenLifecycleAudit_def list_ex_iff
      split: if_splits option.splits)

text \<open>
  A run token that was issued is accepted: a claim for the same run, by the agent it was issued
  to, before the stored expiry, consumes it (bcrypt accepts what it hashed, the random source fills
  its buffer, and the database answers).
\<close>

lemma issued_token_consumed:
  assumes "reachable d" "IssueParallelRunToken e t p r agent now ttl d = (Inr tok, d1)"
    and "bcrypt_law e" "rand_law e" "\<And>l. \<not> db_fails e l"
    and "cl_RunToken i = ti_Token tok" "cl_TenantID i = t" "cl_ProjectID i = p" "cl_RunID i = r" "cl_WorkerID i = agent"
    and "cl_Now i < column_time e (now + ttl)"
  shows "fst (consumeParallelRunToken e i d1) = Inr ()"
proof -
  from IssueParallelRunToken_effect [OF assms(2)] obtain part secret hash row where
    k: "randomParallelRunTokenPart e 12 = Some part" "randomParallelRunTokenPart e 32 = Some secret"
    "bcrypt_generate e secret = Some hash" "ti_Token tok = (''idrt_'' @ part) @ ''.'' @ secret"
    "row = \<lparr>t_id = next_token d, t_tenant = t, t_project = p, t_schedule = r, t_agent = agent,
       t_tokenId = ''idrt_'' @ part, t_hash = hash, t_expiresAt = column_time e (now + ttl),
       t_usedAt = None, t_revokedAt = None\<rparr>"
    "run_tokens d1 = run_tokens d @ [row]" "\<forall>x \<in> set (run_tokens d). t_tokenId x \<noteq> ''idrt_'' @ part" by blast
  have cut: "Cut (cl_RunToken i) (CHR ''.'') = (''idrt_'' @ part, secret, True)"
    using Cut_join [of "CHR ''.''" "''idrt_'' @ part" secret] random_part_dot [OF k(1)] assms(6) k(4) by simp
  have secret: "secret \<noteq> []" using random_part_length [OF assms(4) k(2)] by auto
  let ?q = "\<lambda>x. t_tokenId x = ''idrt_'' @ part \<and> t_tenant x = cl_TenantID i
    \<and> t_project x = cl_ProjectID i \<and> t_schedule x = cl_RunID i \<and> t_agent x = cl_WorkerID i"
  have "find ?q (run_tokens d) = None" using k(7) by (auto simp: find_None_iff)
  moreover have "?q row" using assms(7-10) by (simp add: k(5))
  ultimately have find: "find ?q (run_tokens d @ [row]) = Some row" by (simp add: find_append)
  have ids: "\<forall>x \<in> set (run_tokens d). t_id x \<noteq> next_token d"
    using reachable_tokens_ok [OF assms(1)] by (auto simp: tokens_ok_def list_all_iff)
  then have count: "filter (\<lambda>x. t_id x = next_token d \<and> t_usedAt x = None \<and> t_revokedAt x = None) (run_tokens d) = []"
    by (auto simp: filter_empty_conv)
  have ok: "bcrypt_matches e hash secret" using assms(3) k(3) by (simp add: bcrypt_law_def)
  show ?thesis
    unfolding consumeParallelRunToken_def cut Let_def k(6) case_prod_conv find
    using secret assms(5,11) ok count by (simp add: k(5) HasPrefix_def)
qed

lemma issued_token_consumed_witness:
  "fst (consumeParallelRunToken env0 (claim0 ''a'' token0 5) db2) = Inr ()"
proof -
  let ?i = "IssueParallelRunToken env0 7 1 1 ''a'' 0 (600 * second) db1"
  have "\<not> isl (fst ?i)" by code_simp
  then obtain tok where t: "?i = (Inr tok, snd ?i)" by (metis isl_def obj_sumE prod.collapse)
  have laws: "bcrypt_law env0" "rand_law env0" "\<And>l. \<not> db_fails env0 l"
    by (simp_all add: env0_def bcrypt_law_def rand_law_def)
  have "token0 = ti_Token tok" unfolding token0_def using t by (metis fst_conv sum.simps(6))
  then show ?thesis
    unfolding db2_def
    by (intro issued_token_consumed [OF reachable_db1 t laws]) (simp_all add: claim0_def env0_def)
qed

section \<open>Worker tokens\<close>

text \<open>A lease that ends at least a second from now has not expired.\<close>

lemma fresh_lease:
  assumes "four_digit_year (now + n * second)" "1 \<le> n"
    and "mget (map_or_nil w) ''leaseExpiresAt'' = JStr (parallelRunISOString (now + n * second))"
  shows "refresh_worker now w = w"
proof -
  have "now \<le> trunc_us (now + n * second)"
  proof -
    have "n * second \<ge> 1 * second" using assms(2) by (intro mult_right_mono) auto
    moreover have "trunc_us (now + n * second) = trunc_us now + n * second" by (rule trunc_us_add_seconds)
    moreover have "now - microsecond < trunc_us now" by (rule trunc_us_gt)
    ultimately show ?thesis by simp
  qed
  then have "\<not> lease_expired now w"
    using assms(3) ParseRFC3339Nano_ISO [OF assms(1)] by (simp add: lease_expired_def)
  then show ?thesis by (simp add: refresh_worker_def)
qed

lemma mget_claimed:
  "mget (claimed_worker i h ex) ''leaseExpiresAt'' = JStr (parallelRunISOString (cl_Now i + lease_default))"
  "cl_IssueWorkerToken i \<Longrightarrow> mget (claimed_worker i h ex) ''workerTokenHash'' = JStr h"
  "cl_IssueWorkerToken i \<Longrightarrow>
     mget (claimed_worker i h ex) ''workerTokenExpiresAt'' = JStr (parallelRunISOString (cl_Now i + lease_default))"
  by (simp_all add: claimed_worker_def Let_def)

lemma claim_row_worker:
  assumes "four_digit_year (cl_Now i + lease_default)"
  shows "\<exists>ex. existing_worker (decodeParallelMap (s_workers (claim_row e i h s))) (cl_WorkerID i)
    = Some (claimed_worker i h ex)"
proof -
  let ?w = "claimed_worker i h (existing_worker (decodeParallelMap (s_workers s)) (cl_WorkerID i))"
  have "refresh_worker (cl_Now i) (JObj ?w) = JObj ?w"
    using assms by (intro fresh_lease [of _ 120]) (simp_all add: mget_claimed lease_default_def)
  then show ?thesis
    by (auto simp: claim_row_def Let_def case_prod_beta store_workers_def workers existing_worker_def mget_refresh json)
qed

lemma find_schedule_upd:
  assumes "find_schedule t p r d = Some s" "keeps_key f" "schedules d' = upd_rows (schedule_is t p r) f (schedules d)"
  shows "find_schedule t p r d' = Some (f s)"
  using find_schedule_update_same [OF assms(1,2)] assms(3) by (simp add: find_schedule_def update_schedule_def)

text \<open>
  The worker token a claim returns is valid for its worker for exactly 120 seconds, to the
  microsecond that is stored, and is refused from then on.
\<close>

lemma worker_token_lifetime:
  assumes "ClaimParallelRun e i d = (Inr run, d1)" "cl_IssueWorkerToken i"
    and "bcrypt_law e" "\<And>l. \<not> db_fails e l" "four_digit_year (cl_Now i + lease_default)"
  shows "ValidateWorkerToken e (cl_TenantID i) (cl_ProjectID i) (cl_RunID i) (cl_WorkerID i) (WorkerToken run) now d1
    = (if now < trunc_us (cl_Now i + lease_default) then Inr () else Inl ErrWorkerTokenInvalid)"
proof -
  obtain s tok h where c: "find_schedule (cl_TenantID i) (cl_ProjectID i) (cl_RunID i) d = Some s"
    "issued_pair e i tok h"
    "schedules d1 = upd_rows (schedule_is (cl_TenantID i) (cl_ProjectID i) (cl_RunID i)) (claim_row e i h) (schedules d)"
    "WorkerToken run = tok"
    using ClaimParallelRun_effect [OF assms(1)] by auto
  have find: "find_schedule (cl_TenantID i) (cl_ProjectID i) (cl_RunID i) d1 = Some (claim_row e i h s)"
    using find_schedule_upd [OF c(1) _ c(3)] by simp
  have tok: "tok \<noteq> []" "h \<noteq> []" "bcrypt_matches e h tok"
    using c(2) assms(2,3) by (auto simp: issued_pair_def bcrypt_law_def)
  obtain ex where "existing_worker (decodeParallelMap (s_workers (claim_row e i h s))) (cl_WorkerID i)
    = Some (claimed_worker i h ex)" using claim_row_worker [OF assms(5)] by blast
  then show ?thesis
    using find tok assms(2,4) ParseRFC3339Nano_ISO [OF assms(5)] c(4)
    by (simp add: ValidateWorkerToken_def mget_claimed)
qed

lemma worker_token_lifetime_witness:
  "\<exists>run. fst (ClaimParallelRun env0 (claim0 ''a'' [] 0) db1) = Inr run
     \<and> ValidateWorkerToken env0 7 1 1 ''a'' (WorkerToken run) 5 db3 = Inr ()
     \<and> ValidateWorkerToken env0 7 1 1 ''a'' (WorkerToken run) (120 * second) db3 = Inl ErrWorkerTokenInvalid"
proof -
  let ?c = "ClaimParallelRun env0 (claim0 ''a'' [] 0) db1"
  have "\<not> isl (fst ?c)" by code_simp
  then obtain run where t: "?c = (Inr run, snd ?c)" by (metis isl_def obj_sumE prod.collapse)
  have y: "four_digit_year (cl_Now (claim0 ''a'' [] 0) + lease_default)" by code_simp
  have laws: "bcrypt_law env0" "\<And>l. \<not> db_fails env0 l" by (simp_all add: env0_def bcrypt_law_def)
  have issue: "cl_IssueWorkerToken (claim0 ''a'' [] 0)" by (simp add: claim0_def)
  have us: "trunc_us (cl_Now (claim0 ''a'' [] 0) + lease_default) = 120 * second" by code_simp
  have v: "ValidateWorkerToken env0 7 1 1 ''a'' (WorkerToken run) now db3
      = (if now < 120 * second then Inr () else Inl ErrWorkerTokenInvalid)" for now
    using worker_token_lifetime [OF t issue laws y, of now] unfolding us by (simp add: db3_def claim0_def)
  have "fst ?c = Inr run" using t by (metis fst_conv)
  then show ?thesis using v [of 5] v [of "120 * second"] by auto
qed

section \<open>Heartbeats\<close>

text \<open>What the validation of a worker token reads of a worker document.\<close>

definition token_view :: "json \<Rightarrow> (json \<times> json) option" where
  "token_view w = map_option (\<lambda>m. (mget m ''workerTokenHash'', mget m ''workerTokenExpiresAt'')) (as_map w)"

lemma lease_expired_map: "lease_expired now w \<Longrightarrow> \<exists>m. w = JObj m"
  by (cases w) (auto simp: lease_expired_def map_or_nil_def as_map_def)

lemma token_view_refresh [simp]: "token_view (refresh_worker now w) = token_view w"
  using lease_expired_map [of now w] by (auto simp: refresh_worker_def token_view_def json)

lemma token_view_renewed: "token_view (JObj (renewed_worker now lease m)) = token_view (JObj m)"
  by (simp add: token_view_def renewed_worker_def json)

lemma existing_worker_Some: "existing_worker ws wid = Some m \<longleftrightarrow> mget ws wid = JObj m"
  by (simp add: existing_worker_def as_map_Some)

lemma heartbeat_row_workers:
  "decodeParallelMap (s_workers (heartbeat_row e wid lease now s)) =
     (let ws = refresh (decodeParallelMap (s_workers s)) now
      in refresh (case existing_worker ws wid of None \<Rightarrow> ws
                  | Some m \<Rightarrow> if str_or_empty (mget m ''status'') = ''running''
                             then AList.update wid (JObj (renewed_worker now lease m)) ws else ws) now)"
  by (simp add: heartbeat_row_def Let_def case_prod_beta store_workers_def workers)

lemma heartbeat_token_view:
  "token_view (mget (decodeParallelMap (s_workers (heartbeat_row e wid lease now s))) wid') =
   token_view (mget (decodeParallelMap (s_workers s)) wid')"
proof -
  let ?ws = "refresh (decodeParallelMap (s_workers s)) now"
  have "token_view (mget (AList.update wid (JObj (renewed_worker now lease m)) ?ws) wid') = token_view (mget ?ws wid')"
    if "existing_worker ?ws wid = Some m" for m
    using that by (auto simp: json token_view_renewed existing_worker_Some)
  then show ?thesis
    by (auto simp: heartbeat_row_workers Let_def mget_refresh split: option.split)
qed

lemma ValidateWorkerToken_view:
  assumes "map_option (\<lambda>s. token_view (mget (decodeParallelMap (s_workers s)) wid)) (find_schedule t p r d')
    = map_option (\<lambda>s. token_view (mget (decodeParallelMap (s_workers s)) wid)) (find_schedule t p r d)"
  shows "ValidateWorkerToken e t p r wid tok now d' = ValidateWorkerToken e t p r wid tok now d"
  using assms
  by (auto simp: ValidateWorkerToken_def token_view_def existing_worker_def Let_def split: option.splits)

text \<open>
  A heartbeat renews the lease only: whether a worker token is accepted, for any worker of any
  run at any time, is the same after it as before, so a token is not extended past its 120 seconds.
\<close>

lemma heartbeat_keeps_worker_tokens:
  "ValidateWorkerToken e' t' p' r' wid' tok now' (snd (HeartbeatParallelRunWorker e t p r wid lease now d))
   = ValidateWorkerToken e' t' p' r' wid' tok now' d"
proof -
  let ?d = "snd (HeartbeatParallelRunWorker e t p r wid lease now d)"
  have "?d = d \<or> (\<exists>s. find_schedule t p r d = Some s
      \<and> ?d = update_schedule t p r (heartbeat_row e wid lease now) d)"
    using HeartbeatParallelRunWorker_effect [OF prod.collapse [symmetric]] by blast
  then show ?thesis
  proof (elim disjE exE conjE)
    fix s assume s: "find_schedule t p r d = Some s" "?d = update_schedule t p r (heartbeat_row e wid lease now) d"
    show ?thesis
    proof (cases "(t', p', r') = (t, p, r)")
      case True
      then show ?thesis
        using s find_schedule_update_same [OF s(1) row_keys(3)]
        by (intro ValidateWorkerToken_view) (simp add: heartbeat_token_view)
    next
      case False
      then show ?thesis
        using s find_schedule_update_other [OF False row_keys(3)] by (intro ValidateWorkerToken_view) simp
    qed
  qed simp
qed

lemma lease_expired_iso:
  assumes "mget (map_or_nil w) ''leaseExpiresAt'' = JStr (parallelRunISOString L)" "four_digit_year L"
  shows "lease_expired now w \<longleftrightarrow> trunc_us L < now"
  using assms ParseRFC3339Nano_ISO [OF assms(2)] by (simp add: lease_expired_def)

text \<open>
  A heartbeat of a running worker whose stored lease has not passed renews it to \<open>leaseSeconds\<close>
  from now; one that comes after the lease (a lease that ends exactly now has not passed) marks the
  worker lost, leaves the lease as it was and reports \<open>lost\<close>.
\<close>

lemma heartbeat_lease:
  assumes "HeartbeatParallelRunWorker e t p r wid lease now d = (Inr hb, d')" "find_schedule t p r d = Some s"
    and "existing_worker (decodeParallelMap (s_workers s)) wid = Some w" "mget w ''status'' = JStr ''running''"
    and "mget w ''leaseExpiresAt'' = JStr (parallelRunISOString L)" "four_digit_year L"
    and "1 \<le> lease" "four_digit_year (now + lease * second)"
  shows "\<exists>s' w'. find_schedule t p r d' = Some s' \<and> existing_worker (decodeParallelMap (s_workers s')) wid = Some w'
    \<and> (if trunc_us L < now
       then mget w' ''status'' = JStr ''lost'' \<and> mget w' ''leaseExpiresAt'' = mget w ''leaseExpiresAt'' \<and> hb_WorkerStatus hb = ''lost''
       else mget w' ''status'' = JStr ''running'' \<and> hb_WorkerStatus hb = []
         \<and> mget w' ''leaseExpiresAt'' = JStr (parallelRunISOString (now + lease * second)))"
proof -
  let ?ws = "decodeParallelMap (s_workers s)"
  obtain w1 where d': "d' = update_schedule t p r (heartbeat_row e wid lease now) d"
    and w1: "existing_worker (refresh ?ws now) wid = Some w1"
    and hb: "hb_WorkerStatus hb = (if str_or_empty (mget w1 ''status'') \<noteq> ''running'' then str_or_empty (mget w1 ''status'') else [])"
    using HeartbeatParallelRunWorker_effect [OF assms(1)] assms(2) by auto
  have get: "mget ?ws wid = JObj w" using assms(3) by (simp add: existing_worker_Some)
  have find: "find_schedule t p r d' = Some (heartbeat_row e wid lease now s)"
    unfolding d' using find_schedule_update_same [OF assms(2)] by simp
  have ref: "JObj w1 = refresh_worker now (JObj w)" using w1 get by (simp add: existing_worker_Some mget_refresh)
  have run: "effective_status (JObj w) = ''running''" using assms(4) by (simp add: effective_status_def)
  show ?thesis
  proof (cases "trunc_us L < now")
    case True
    then have "lease_expired now (JObj w)" using lease_expired_iso [of "JObj w" L] assms(5,6) by simp
    then have w1eq: "mget w1 ''status'' = JStr ''lost''" "mget w1 ''leaseExpiresAt'' = mget w ''leaseExpiresAt''"
      using ref run by (auto simp: refresh_worker_def json)
    have "existing_worker (decodeParallelMap (s_workers (heartbeat_row e wid lease now s))) wid = Some w1"
      using w1 w1eq by (simp add: heartbeat_row_workers existing_worker_Some mget_refresh refresh_idem
          flip: existing_worker_Some)
    then show ?thesis using True find w1eq hb by simp
  next
    case False
    then have "w1 = w" using ref lease_expired_iso [of "JObj w" L] assms(5,6) by (simp add: refresh_worker_def)
    let ?w2 = "renewed_worker now lease w"
    have "refresh_worker now (JObj ?w2) = JObj ?w2"
      using assms(7,8) by (intro fresh_lease [of _ lease]) (simp_all add: renewed_worker_def json)
    then have "existing_worker (decodeParallelMap (s_workers (heartbeat_row e wid lease now s))) wid = Some ?w2"
      using w1 \<open>w1 = w\<close> assms(4) by (simp add: heartbeat_row_workers) (simp add: existing_worker_Some mget_refresh json)
    moreover have "mget ?w2 ''status'' = JStr ''running''"
      "mget ?w2 ''leaseExpiresAt'' = JStr (parallelRunISOString (now + lease * second))"
      using assms(4) by (simp_all add: renewed_worker_def json)
    ultimately show ?thesis using False find hb \<open>w1 = w\<close> assms(4) by simp
  qed
qed

lemma heartbeat_lease_witness:
  "\<exists>hb s' w'. fst (HeartbeatParallelRunWorker env0 7 1 1 ''a'' 60 5 db3) = Inr hb
     \<and> find_schedule 7 1 1 (snd (HeartbeatParallelRunWorker env0 7 1 1 ''a'' 60 5 db3)) = Some s'
     \<and> existing_worker (decodeParallelMap (s_workers s')) ''a'' = Some w'
     \<and> mget w' ''leaseExpiresAt'' = JStr (parallelRunISOString (5 + 60 * second))"
proof -
  let ?h = "HeartbeatParallelRunWorker env0 7 1 1 ''a'' 60 5 db3"
  have "\<not> isl (fst ?h)" by code_simp
  then obtain hb where h: "?h = (Inr hb, snd ?h)" by (metis isl_def obj_sumE prod.collapse)
  have "map_option (\<lambda>s. map_option (\<lambda>w. (mget w ''status'', mget w ''leaseExpiresAt''))
      (existing_worker (decodeParallelMap (s_workers s)) ''a'')) (find_schedule 7 1 1 db3)
    = Some (Some (JStr ''running'', JStr (parallelRunISOString (120 * second))))" by code_simp
  then obtain s w where w: "find_schedule 7 1 1 db3 = Some s"
    "existing_worker (decodeParallelMap (s_workers s)) ''a'' = Some w" "mget w ''status'' = JStr ''running''"
    "mget w ''leaseExpiresAt'' = JStr (parallelRunISOString (120 * second))" by auto
  have y: "four_digit_year (120 * second)" "four_digit_year (5 + 60 * second)" "\<not> trunc_us (120 * second) < 5"
    by code_simp+
  have "fst ?h = Inr hb" using h by (metis fst_conv)
  then show ?thesis using heartbeat_lease [OF h w y(1) _ y(2)] y(3) by auto
qed

section \<open>The outcome of a run\<close>

lemma counts_update_nonempty: "ws \<noteq> [] \<Longrightarrow> n_total (counts ws) \<noteq> 0"
  by (simp add: counts_def)

text \<open>The columns a heartbeat writes, in terms of the worker document it stores.\<close>

lemma heartbeat_row_columns:
  assumes "schedule_ok s" "existing_worker (refresh (decodeParallelMap (s_workers s)) now) wid = Some w"
  obtains ws where "s_workers (heartbeat_row e wid lease now s) = Some (JObj ws)" "ws \<noteq> []" "wf_map ws"
    "counters_agree ws (heartbeat_row e wid lease now s)"
    "(s_status (heartbeat_row e wid lease now s), s_aggregate (heartbeat_row e wid lease now s),
      s_completedAt (heartbeat_row e wid lease now s)) =
     parallelRunWorkerOutcome (s_status s) (s_aggregate s) (s_completedAt s) (counts ws) (column_time e now)"
proof -
  let ?r = "heartbeat_row e wid lease now s"
  let ?ws0 = "refresh (decodeParallelMap (s_workers s)) now"
  let ?ws1 = "case existing_worker ?ws0 wid of None \<Rightarrow> ?ws0
    | Some m \<Rightarrow> if str_or_empty (mget m ''status'') = ''running''
               then AList.update wid (JObj (renewed_worker now lease m)) ?ws0 else ?ws0"
  have wf: "wf_map ?ws0" using schedule_ok_wf [OF assms(1)] by simp
  then have wf1: "wf_map ?ws1" by (simp split: option.split)
  have "map_of ?ws0 wid \<noteq> None" using assms(2) by (auto simp: existing_worker_Some mget_def split: option.splits)
  then have "?ws0 \<noteq> []" by auto
  then have ne: "?ws1 \<noteq> []" using assms(2) update_nonempty [of wid] by auto
  have "s_workers ?r = Some (JObj (refresh ?ws1 now))" "counters_agree (refresh ?ws1 now) ?r"
    "(s_status ?r, s_aggregate ?r, s_completedAt ?r) =
     parallelRunWorkerOutcome (s_status s) (s_aggregate s) (s_completedAt s) (counts (refresh ?ws1 now)) (column_time e now)"
    using wf1 by (simp_all add: heartbeat_row_def Let_def case_prod_beta store_workers_def workers counters_agree_def)
  then show thesis using that [of "refresh ?ws1 now"] ne wf1 by (simp add: refresh_def)
qed

lemma workers_with_zero: "workers_with st ws = 0 \<longleftrightarrow> (\<forall>(k, w) \<in> set ws. effective_status w \<noteq> st)"
  by (auto simp: workers_with_def filter_empty_conv)

lemma workers_with_nonneg: "0 \<le> workers_with st ws"
  by (simp add: workers_with_def)

lemma outcome_completed:
  assumes "\<forall>(k, w) \<in> set ws. known_status (effective_status w)" "n_active (counts ws) = 0" "ws \<noteq> []"
    and "parallelRunWorkerOutcome st agg cat (counts ws) now = (st', agg', cat')"
  shows "st' = ''completed'' \<longleftrightarrow> (\<forall>(k, w) \<in> set ws. effective_status w = ''completed'')"
proof -
  have none: "(\<forall>(k, w) \<in> set ws. effective_status w = ''completed'') \<longleftrightarrow>
      workers_with ''failed'' ws = 0 \<and> workers_with ''lost'' ws = 0 \<and> workers_with ''cancelled'' ws = 0"
    using assms(1,2) unfolding counts_def counters.simps workers_with_zero known_status_def by fastforce
  have "st' = ''completed'' \<longleftrightarrow>
      workers_with ''failed'' ws = 0 \<and> workers_with ''lost'' ws = 0 \<and> workers_with ''cancelled'' ws = 0"
    using assms(2-4) workers_with_nonneg [of "''failed''" ws] workers_with_nonneg [of "''lost''" ws]
      workers_with_nonneg [of "''cancelled''" ws]
    by (auto simp: parallelRunWorkerOutcome_def counts_def Let_def split: if_splits)
  with none show ?thesis by simp
qed

text \<open>
  C27. Runs converge on heartbeats: after one, the run keeps its status while a worker is active, and
  is terminal as soon as none is. When every worker has one of the five statuses, a run that ends is
  \<open>completed\<close> exactly when all of its workers are.
\<close>

theorem heartbeat_converges:
  assumes "reachable d" "HeartbeatParallelRunWorker e t p r wid lease now d = (Inr hb, d')"
    and "find_schedule t p r d = Some s"
  shows "(0 < ActiveWorkers (hb_Run hb) \<longrightarrow> Status (hb_Run hb) = s_status s)
    \<and> (ActiveWorkers (hb_Run hb) = 0 \<longrightarrow> parallelRunTerminal (Status (hb_Run hb)))
    \<and> (\<exists>s' ws. find_schedule t p r d' = Some s' \<and> s_workers s' = Some (JObj ws)
        \<and> ((\<forall>(id, w) \<in> set ws. known_status (effective_status w)) \<and> ActiveWorkers (hb_Run hb) = 0 \<longrightarrow>
            (Status (hb_Run hb) = ''completed'') = (\<forall>(id, w) \<in> set ws. effective_status w = ''completed'')))"
proof -
  let ?r = "heartbeat_row e wid lease now s"
  obtain w where w: "existing_worker (refresh (decodeParallelMap (s_workers s)) now) wid = Some w"
    and d': "d' = update_schedule t p r (heartbeat_row e wid lease now) d" and hb: "hb_Run hb = scanParallelRun ?r"
    using HeartbeatParallelRunWorker_effect [OF assms(2)] assms(3) by auto
  obtain ws where ws: "s_workers ?r = Some (JObj ws)" "ws \<noteq> []" "counters_agree ws ?r"
    "(s_status ?r, s_aggregate ?r, s_completedAt ?r) =
     parallelRunWorkerOutcome (s_status s) (s_aggregate s) (s_completedAt s) (counts ws) (column_time e now)"
    using heartbeat_row_columns [OF reachable_schedule_ok [OF assms(1,3)] w, of e lease] by metis
  have find: "find_schedule t p r d' = Some ?r" unfolding d' using find_schedule_update_same [OF assms(3)] by simp
  have act: "ActiveWorkers (hb_Run hb) = n_active (counts ws)" "Status (hb_Run hb) = s_status ?r"
    using ws(3) by (simp_all add: hb scanParallelRun_columns counters_agree_def)
  note out = outcome_cases [OF ws(4) [symmetric]] counts_update_nonempty [OF ws(2)]
  have fin: "(s_status ?r = ''completed'') = (\<forall>(id, w) \<in> set ws. effective_status w = ''completed'')"
    if known: "\<forall>(id, w) \<in> set ws. known_status (effective_status w)" and idle: "n_active (counts ws) = 0"
    using outcome_completed [OF known idle ws(2) ws(4) [symmetric]] by blast
  show ?thesis using out act find ws(1) fin by auto
qed

theorem heartbeat_converges_witness:
  "\<exists>hb. fst (HeartbeatParallelRunWorker env0 7 1 1 ''a'' 60 5
           (snd (UpdateRunnerWorker env0 (update0 ''a'' ''completed'' 1) db3))) = Inr hb
     \<and> ActiveWorkers (hb_Run hb) = 0 \<and> parallelRunTerminal (Status (hb_Run hb))"
proof -
  let ?d = "snd (UpdateRunnerWorker env0 (update0 ''a'' ''completed'' 1) db3)"
  let ?h = "HeartbeatParallelRunWorker env0 7 1 1 ''a'' 60 5 ?d"
  have "case fst ?h of Inr hb \<Rightarrow> ActiveWorkers (hb_Run hb) = 0 | Inl _ \<Rightarrow> False" by code_simp
  then obtain hb where hb: "fst ?h = Inr hb" "ActiveWorkers (hb_Run hb) = 0" by (cases "fst ?h") auto
  then have h: "?h = (Inr hb, snd ?h)" by (metis prod.collapse)
  have "find_schedule 7 1 1 ?d \<noteq> None" by code_simp
  then obtain s where s: "find_schedule 7 1 1 ?d = Some s" by blast
  from heartbeat_converges [OF reachable.step [OF reachable_db3 run_step.update] h s] hb show ?thesis by auto
qed

end
