(* ===== verification/MetadataProps.thy ===== *)
theory MetadataProps
  imports RunMetadata GoTime
begin

text \<open>
  Properties of the data that enters and leaves a run: redaction of audit documents, the metadata of
  a run, the matrix of combinations, and the text form of instants.
\<close>

section \<open>Redaction\<close>

text \<open>
  Redaction works path by path: along a path of keys that are not sensitive the redacted document
  has exactly the (redacted) values of the original, at a sensitive key it has the text
  \<open>[REDACTED]\<close> when the original has anything there, and below a sensitive key it has nothing.
\<close>

lemma redact_paths:
  "(\<forall>k \<in> set (key_steps p). \<not> SensitiveKey k) \<longrightarrow>
     jlookup (Redact v) p = map_option Redact (jlookup v p)
     \<and> (SensitiveKey k \<longrightarrow> jlookup (Redact v) (p @ [Key k]) =
          (if jlookup v (p @ [Key k]) = None then None else Some (JStr ''[REDACTED]''))
        \<and> (q \<noteq> [] \<longrightarrow> jlookup (Redact v) (p @ Key k # q) = None))"
proof (intro impI conjI)
  assume p: "\<forall>k \<in> set (key_steps p). \<not> SensitiveKey k"
  then show "jlookup (Redact v) p = map_option Redact (jlookup v p)" by (rule redact.lookup_plain)
  assume k: "SensitiveKey k"
  from redact.lookup_sensitive [OF p k, of v]
  show "jlookup (Redact v) (p @ [Key k]) =
      (if jlookup v (p @ [Key k]) = None then None else Some (JStr ''[REDACTED]''))"
    by (auto simp: redacted_text_def split: option.splits)
  assume "q \<noteq> []"
  then show "jlookup (Redact v) (p @ Key k # q) = None"
    using redact.lookup_below [of "p @ [Key k]" q v] k by (simp add: key_steps_append)
qed

lemma redact_paths_witness:
  "jlookup (Redact (JObj [(''auth'', JObj [(''API_key'', JStr ''x''), (''user'', JStr ''u'')])])) [Key ''auth'', Key ''API_key'']
     = Some (JStr ''[REDACTED]'')"
  using redact_paths [of "[Key ''auth'']" "JObj [(''auth'', JObj [(''API_key'', JStr ''x''), (''user'', JStr ''u'')])]" "''API_key''" "[]"]
  by (simp, code_simp)

section \<open>Run metadata\<close>

text \<open>A document with no sensitive key at any depth.\<close>

fun no_sensitive :: "json \<Rightarrow> bool" where
  "no_sensitive (JObj m) = (\<forall>kv \<in> set m. \<not> metadata_sensitive (fst kv) \<and> no_sensitive (snd kv))"
| "no_sensitive (JArr xs) = (\<forall>x \<in> set xs. no_sensitive x)"
| "no_sensitive _ = True"

lemma no_sensitive_value: "no_sensitive (removeSensitiveMetadataValue v)"
  by (induction v rule: removeSensitiveMetadataValue.induct) auto

lemma no_sensitive_lookup:
  "no_sensitive v \<Longrightarrow> \<exists>k \<in> set (key_steps p). metadata_sensitive k \<Longrightarrow> jlookup v p = None"
proof (induction v p rule: jlookup.induct)
  case (2 m k p)
  then show ?case
  proof (cases "map_of m k")
    case (Some v)
    then have "\<not> metadata_sensitive k" "no_sensitive v" using 2(2) map_of_SomeD [OF Some] by force+
    then show ?thesis using 2 Some by simp
  qed simp
qed auto

lemma update_set: "set (AList.update k v m) \<subseteq> insert (k, v) (set m)"
  by (induction m) auto

lemma delete_set: "set (AList.delete k m) \<subseteq> set m"
  by (auto simp: AList.delete_eq)

lemma no_sensitive_update:
  "no_sensitive (JObj m) \<Longrightarrow> \<not> metadata_sensitive k \<Longrightarrow> no_sensitive v \<Longrightarrow> no_sensitive (JObj (AList.update k v m))"
  using update_set [of k v m] by auto

lemma no_sensitive_delete: "no_sensitive (JObj m) \<Longrightarrow> no_sensitive (JObj (AList.delete k m))"
  using delete_set [of k m] by auto

lemma no_sensitive_scalar: "no_sensitive (scalar_or_nil v)"
  by (auto simp: scalar_or_nil_def Let_def split: prod.splits)

lemma no_sensitive_get: "no_sensitive (JObj m) \<Longrightarrow> no_sensitive (JObj (map_or_nil (mget m k)))"
proof (cases "mget m k")
  case (JObj x)
  assume "no_sensitive (JObj m)"
  moreover have "(k, JObj x) \<in> set m" using JObj by (auto simp: mget_def dest: map_of_SomeD split: option.splits)
  ultimately have "no_sensitive (JObj x)" by (auto simp del: no_sensitive.simps simp: no_sensitive.simps(1) [of m])
  then show ?thesis using JObj by simp
qed (simp_all add: map_or_nil_def as_map_def)

lemma field_names_plain: "\<forall>f \<in> set (''run'' # ''workloadIdentity'' # run_fields @ identity_fields). \<not> metadata_sensitive f"
  by code_simp

lemma fold_run_fields_plain:
  "fold run_field_step fs (run, clean) = (run', clean') \<Longrightarrow> \<forall>f \<in> set fs. \<not> metadata_sensitive f \<Longrightarrow>
   no_sensitive (JObj run) \<Longrightarrow> no_sensitive (JObj clean) \<Longrightarrow> no_sensitive (JObj run') \<and> no_sensitive (JObj clean')"
proof (induction fs arbitrary: run clean)
  case (Cons f fs)
  show ?case
    by (rule Cons.IH [of "AList.update f (scalar_or_nil (if mget run f = JNull then mget clean f else mget run f)) run"
          "AList.delete f clean"])
      (use Cons.prems in \<open>simp_all add: run_field_step_def no_sensitive_update no_sensitive_delete no_sensitive_scalar
          del: no_sensitive.simps\<close>)
qed simp

lemma fold_identity_plain:
  "\<forall>f \<in> set fs. \<not> metadata_sensitive f \<Longrightarrow> no_sensitive (JObj acc) \<Longrightarrow>
   no_sensitive (JObj (fold (\<lambda>field acc. AList.update field (scalar_or_nil (mget identity field)) acc) fs acc))"
  by (induction fs arbitrary: acc) (simp_all add: no_sensitive_update no_sensitive_scalar del: no_sensitive.simps)

lemma normalizeRunMetadata_plain: "no_sensitive (JObj (normalizeRunMetadata md))"
proof -
  let ?clean0 = "removeSensitiveMetadata md"
  obtain run1 clean1 where f: "fold run_field_step run_fields (map_or_nil (mget ?clean0 ''run''), ?clean0) = (run1, clean1)"
    by fastforce
  have plain: "\<forall>f \<in> set run_fields. \<not> metadata_sensitive f" "\<forall>f \<in> set identity_fields. \<not> metadata_sensitive f"
    "\<not> metadata_sensitive ''run''" "\<not> metadata_sensitive ''workloadIdentity''"
    using field_names_plain by auto
  have c0: "no_sensitive (JObj ?clean0)"
    using no_sensitive_value [of "JObj md"] unfolding removeSensitiveMetadata_obj .
  have rc: "no_sensitive (JObj run1)" "no_sensitive (JObj clean1)"
    using fold_run_fields_plain [OF f plain(1) no_sensitive_get [OF c0] c0] by blast+
  have id: "no_sensitive (JObj (normalizedIdentity i))" for i
    unfolding normalizedIdentity_def by (rule fold_identity_plain [OF plain(2)]) simp
  show ?thesis
    unfolding normalizeRunMetadata_def Let_def f case_prod_conv
    by (intro no_sensitive_delete no_sensitive_update rc id plain)
qed

text \<open>
  The metadata stored with a run has the promised envelope (the six run fields and the four
  identity fields, each a non-empty text or null, under \<open>run\<close> and nowhere else at the top), and no
  sensitive key at any depth.
\<close>

lemma normalized_metadata:
  "run_envelope (normalizeRunMetadata md)
   \<and> ((\<exists>k \<in> set (key_steps p). metadata_sensitive k) \<longrightarrow> jlookup (JObj (normalizeRunMetadata md)) p = None)"
  using normalizeRunMetadata_envelope no_sensitive_lookup [OF normalizeRunMetadata_plain] by blast

lemma normalized_metadata_witness:
  "jlookup (JObj (normalizeRunMetadata [(''ci'', JObj [(''apiToken'', JStr ''x'')])])) [Key ''ci'', Key ''apiToken''] = None"
proof -
  have "metadata_sensitive ''apiToken''" by code_simp
  then show ?thesis
    using normalized_metadata [of "[(''ci'', JObj [(''apiToken'', JStr ''x'')])]" "[Key ''ci'', Key ''apiToken'']"] by simp
qed

text \<open>
  Removal of sensitive metadata keeps everything else: along a path of keys that are not
  sensitive the cleaned document has exactly the (cleaned) values of the original.
\<close>

lemma metadata_kept:
  "\<forall>k \<in> set (key_steps p). \<not> metadata_sensitive k \<Longrightarrow>
   jlookup (JObj (removeSensitiveMetadata md)) p = map_option removeSensitiveMetadataValue (jlookup (JObj md) p)"
  using metadata.lookup_plain [of p "JObj md"] unfolding removeSensitiveMetadata_obj by blast

section \<open>The launch matrix\<close>

lemma matrix_loops:
  "case matrixCombinations matrix of (cs, invalid) \<Rightarrow>
     (invalid \<longleftrightarrow> (\<exists>(i, out) \<in> set matrix_axes. 16 < length (axis_values matrix i)))
     \<and> (invalid \<longrightarrow> cs = []) \<and> distinct cs \<and> length cs \<le> 16 ^ 4
     \<and> (cs = [] \<longleftrightarrow> invalid \<or> live_axes matrix_axes matrix = [])
     \<and> (cs \<noteq> [] \<longrightarrow> (\<forall>c. c \<in> set cs \<longleftrightarrow> map fst c = map snd (live_axes matrix_axes matrix)
          \<and> list_all2 (\<lambda>v (i, out). v \<in> set (axis_unique matrix i)) (map snd c) (live_axes matrix_axes matrix)))"
proof (cases "axes_ok matrix_axes matrix")
  case True
  let ?l = "live_axes matrix_axes matrix"
  have bound: "length (axis_unique matrix i) \<le> 16 \<and> length (axis_unique matrix i) \<ge> 1" if "(i, out) \<in> set ?l" for i out
    using that True axis_unique_le [of matrix i]
    by (auto simp: live_axes_def axes_ok_def Suc_le_eq)
  have "prod_list (map (\<lambda>(i, out). length (axis_unique matrix i)) ls) \<le> 16 ^ length ls
      \<and> prod_list (map (\<lambda>(i, out). length (axis_unique matrix i)) ls) \<ge> 1" if "set ls \<subseteq> set ?l" for ls
    using that
  proof (induction ls)
    case (Cons a ls)
    obtain i out where a: "a = (i, out)" by fastforce
    have "length (axis_unique matrix i) \<le> 16" "1 \<le> length (axis_unique matrix i)" using bound [of i out] Cons.prems a by auto
    then show ?case using Cons a mult_le_mono [of "length (axis_unique matrix i)" 16 _ "16 ^ length ls"] by auto
  qed simp
  from this [OF order_refl] have len: "length (choices ?l matrix) \<le> 16 ^ length ?l" "choices ?l matrix \<noteq> []"
    by (auto simp: length_choices simp flip: length_greater_0_conv)
  have "length ?l \<le> 4" unfolding live_axes_def by (rule order_trans [OF length_filter_le]) (simp add: matrix_axes_def)
  then have "length (choices ?l matrix) \<le> 16 ^ 4"
    using len(1) power_increasing [of "length ?l" 4 "16 :: nat"] by linarith
  then show ?thesis
    using True len(2) distinct_choices set_choices [of _ ?l matrix]
    by (auto simp: matrixCombinations_spec axes_ok_def)
next
  case False
  then have "\<exists>(i, out) \<in> set matrix_axes. 16 < length (axis_values matrix i)"
    by (auto simp: axes_ok_def not_le) force
  then show ?thesis using False by (simp add: matrixCombinations_spec)
qed

text \<open>
  The texts that an axis offers, independently of the loops: the trimmed texts of its strings, numbers and
  booleans (true is written 1, false is empty) that are not empty.
\<close>

definition axis_texts :: "(json list) gomap \<Rightarrow> string \<Rightarrow> string set" where
  "axis_texts matrix i = {v. v \<noteq> [] \<and> (\<exists>vs x. map_of matrix i = Some vs \<and> x \<in> set vs
     \<and> (case x of JStr s \<Rightarrow> v = TrimSpace s | JNum n \<Rightarrow> v = TrimSpace (itoa n) | JFloat s _ \<Rightarrow> v = TrimSpace s
        | JBool b \<Rightarrow> b \<and> v = ''1'' | _ \<Rightarrow> False))}"

lemma unique_loop_set: "set (unique_loop vs u) = set u \<union> {v. v \<noteq> [] \<and> (\<exists>x \<in> set vs. snd (metadataScalar x) \<and> v = TrimSpace (fst (metadataScalar x)))}"
proof (induction vs arbitrary: u)
  case (Cons x vs)
  obtain t scalar where x: "metadataScalar x = (t, scalar)" by fastforce
  show ?case using Cons [of "u @ [TrimSpace t]"] Cons [of u] by (auto simp: x Let_def)
qed simp

lemma scalar_text:
  "v \<noteq> [] \<Longrightarrow> (snd (metadataScalar x) \<and> v = TrimSpace (fst (metadataScalar x))) \<longleftrightarrow>
     (case x of JStr s \<Rightarrow> v = TrimSpace s | JNum n \<Rightarrow> v = TrimSpace (itoa n) | JFloat s _ \<Rightarrow> v = TrimSpace s | JBool b \<Rightarrow> b \<and> v = ''1'' | _ \<Rightarrow> False)"
proof -
  have "TrimSpace ''1'' = ''1''" "TrimSpace [] = []" by code_simp+
  then show "v \<noteq> [] \<Longrightarrow> ?thesis" by (cases x) auto
qed

lemma axis_unique_texts: "set (axis_unique matrix i) = axis_texts matrix i"
proof -
  have "v \<in> set (axis_unique matrix i) \<longleftrightarrow> v \<noteq> [] \<and> (\<exists>vs x. map_of matrix i = Some vs \<and> x \<in> set vs
      \<and> (snd (metadataScalar x) \<and> v = TrimSpace (fst (metadataScalar x))))" for v
    by (cases "map_of matrix i") (auto simp: axis_unique_def unique_loop_set axis_values_def)
  also have "\<dots> v \<longleftrightarrow> v \<in> axis_texts matrix i" for v unfolding axis_texts_def mem_Collect_eq using scalar_text by blast
  finally show ?thesis by blast
qed

text \<open>
  C36. The matrix of a launch is the cartesian product of its axes. A matrix with more than 16 values
  on an axis is refused; otherwise the combinations are, without repetition, exactly the maps that
  choose one of the distinct non-empty texts of every axis that has any, in the order platforms, browsers,
  devices, environments, at most \<open>16 ^ 4\<close> of them, and there are none when no axis has such a text.
\<close>

theorem matrix_product:
  "let axes = [(''platforms'', ''platform''), (''browsers'', ''browser''), (''devices'', ''device''), (''environments'', ''environment'')];
       live = filter (\<lambda>(i, out). axis_texts matrix i \<noteq> {}) axes
   in case matrixCombinations matrix of (cs, invalid) \<Rightarrow>
     (invalid \<longleftrightarrow> (\<exists>(i, out) \<in> set axes. \<exists>vs. map_of matrix i = Some vs \<and> 16 < length vs))
     \<and> (invalid \<longrightarrow> cs = []) \<and> distinct cs \<and> length cs \<le> 16 ^ 4
     \<and> (cs = [] \<longleftrightarrow> invalid \<or> live = [])
     \<and> (cs \<noteq> [] \<longrightarrow> (\<forall>c. c \<in> set cs \<longleftrightarrow> map fst c = map snd live
          \<and> list_all2 (\<lambda>v (i, out). v \<in> axis_texts matrix i) (map snd c) live))"
proof -
  have live: "filter (\<lambda>(i, out). axis_texts matrix i \<noteq> {}) matrix_axes = live_axes matrix_axes matrix"
    by (simp add: live_axes_def flip: axis_unique_texts)
  have many: "(\<exists>vs. map_of matrix i = Some vs \<and> 16 < length vs) \<longleftrightarrow> 16 < length (axis_values matrix i)" for i
    by (simp add: axis_values_def split: option.split)
  show ?thesis using matrix_loops [of matrix] unfolding Let_def matrix_axes_def [symmetric] live many unfolding axis_unique_texts .
qed

theorem matrix_product_witness:
  "length (fst (matrixCombinations [(''browsers'', [JStr ''a'', JStr ''b'', JStr ''a'']), (''devices'', [JStr ''d''])])) \<le> 16 ^ 4
   \<and> length (fst (matrixCombinations [(''browsers'', [JStr ''a'', JStr ''b'', JStr ''a'']), (''devices'', [JStr ''d''])])) = 2"
proof -
  have "length (fst (matrixCombinations [(''browsers'', [JStr ''a'', JStr ''b'', JStr ''a'']), (''devices'', [JStr ''d''])])) = 2"
    by code_simp
  then show ?thesis
    using matrix_product [of "[(''browsers'', [JStr ''a'', JStr ''b'', JStr ''a'']), (''devices'', [JStr ''d''])]"]
    unfolding Let_def case_prod_beta by blast
qed

section \<open>Instants as text\<close>

text \<open>
  An instant of a year with four digits that is written with \<open>parallelRunISOString\<close> is read back
  by \<open>time.Parse\<close> with \<open>RFC3339Nano\<close>, to the microsecond and never later than it was.
\<close>

lemma iso_round_trip:
  "four_digit_year t \<Longrightarrow> \<exists>u. ParseRFC3339Nano (parallelRunISOString t) = Some u \<and> u \<le> t \<and> t - u < microsecond"
  using ParseRFC3339Nano_ISO [of t] trunc_us_le [of t] trunc_us_gt [of t] by auto

lemma iso_round_trip_witness:
  "\<exists>u. ParseRFC3339Nano (parallelRunISOString 1234567890) = Some u \<and> u \<le> 1234567890"
proof -
  have "four_digit_year 1234567890" by code_simp
  from iso_round_trip [OF this] show ?thesis by blast
qed

end
