(* ===== verification/Http.thy ===== *)
theory Http
  imports Store
begin

text \<open>
  What the handlers of internal/browserauth share: the request as they read it, the decoding of its
  JSON body into a Go struct, the reply they write, and the helpers of admin.go and handler.go for
  path identifiers and error replies.
\<close>

named_theorems http \<open>requests and replies\<close>

section \<open>Requests and replies\<close>

text \<open>
  The body as a \<open>json.Decoder\<close> finds it: nothing (\<open>io.EOF\<close>), no JSON value, a document, or a
  document that does not end within the 16 KiB \<open>decodeJSON\<close> reads. The entries of an object are in
  the order of the document.
\<close>

datatype body = BEOF | BBad | BDoc json | BLong json

record http_request =
  rq_cookie :: "string option"
  rq_tenant :: "int option"
  rq_keys :: "string list"
  rq_path :: "string \<Rightarrow> string"
  rq_header :: "string \<Rightarrow> string"
  rq_query :: "string \<Rightarrow> string"
  rq_body :: body
  rq_sourceIP :: string

text \<open>
  \<open>Message\<close> is \<open>writeJSON\<close> of a map literal, \<open>Value\<close> of a Go value of type \<open>'v\<close>;
  \<open>NoReply\<close> is a handler that returns without writing, which net/http answers with status 200 and
  no content.
\<close>

datatype 'v reply = NoReply | Message int jmap | Value int 'v

fun http_status :: "'v reply \<Rightarrow> int" where
  "http_status NoReply = 200"
| "http_status (Message status _) = status"
| "http_status (Value status _) = status"

definition unauthorized :: "'v reply" where
  "unauthorized = Message 401 [(''message'', JStr ''Unauthenticated.'')]"

definition forbidden :: "'v reply" where
  "forbidden = Message 403 [(''message'', JStr ''This action is unauthorized.'')]"

definition notFound :: "'v reply" where
  "notFound = Message 404 [(''message'', JStr ''Not found.'')]"

definition internalError :: "'v reply" where
  "internalError = Message 500 [(''message'', JStr ''The request could not be completed.'')]"

definition validationErrors :: "(string \<times> string) list \<Rightarrow> 'v reply" where
  "validationErrors errs = Message 422 [(''message'', JStr ''The given data was invalid.''),
     (''errors'', JObj (map (\<lambda>(field, message). (field, JArr [JStr message])) errs))]"

definition validationError :: "string \<Rightarrow> string \<Rightarrow> 'v reply" where
  "validationError field message = validationErrors [(field, message)]"

definition message_reply :: "int \<Rightarrow> string \<Rightarrow> 'v reply" where
  "message_reply status text = Message status [(''message'', JStr text)]"

lemma http_statuses [http, simp]:
  "http_status unauthorized = 401" "http_status forbidden = 403" "http_status notFound = 404"
  "http_status internalError = 500" "http_status (validationErrors fs) = 422"
  "http_status (validationError f m) = 422" "http_status (message_reply s m) = s"
  by (simp_all add: unauthorized_def forbidden_def notFound_def internalError_def validationErrors_def
      validationError_def message_reply_def)

section \<open>Path identifiers\<close>

definition parsePathID :: "string \<Rightarrow> int option" where
  "parsePathID value = (case ParseInt value of None \<Rightarrow> None | Some n \<Rightarrow> if n \<le> 0 then None else Some n)"

definition pathNotFound :: "'v reply" where
  "pathNotFound = message_reply 404 ''Not Found''"

text \<open>\<open>strconv.ParseInt\<close> with its error ignored: zero for text that is no number, the nearest \<open>int64\<close> outside the range.\<close>

definition path_number :: "string \<Rightarrow> int" where
  "path_number s =
     (case ParseInt s of
        Some n \<Rightarrow> n
      | None \<Rightarrow>
          let neg = (s \<noteq> [] \<and> hd s = CHR ''-''); body = (if s \<noteq> [] \<and> (hd s = CHR ''-'' \<or> hd s = CHR ''+'') then tl s else s)
          in if parse_digits body = None then 0 else if neg then - (2 ^ 63) else 2 ^ 63 - 1)"

definition parseAssetVersionPath :: "http_request \<Rightarrow> string \<Rightarrow> 'v reply + int \<times> int" where
  "parseAssetVersionPath request versionName =
     (case parsePathID (rq_path request ''idProject'') of
        None \<Rightarrow> Inl pathNotFound
      | Some projectID \<Rightarrow> (case parsePathID (rq_path request versionName) of
          None \<Rightarrow> Inl pathNotFound
        | Some versionID \<Rightarrow> Inr (projectID, versionID)))"

lemma parsePathID_pos: "parsePathID s = Some n \<Longrightarrow> 0 < n \<and> int64_range n"
  by (auto simp: parsePathID_def split: option.splits if_splits dest: ParseInt_range)

lemma parsePathID_itoa: "0 < n \<Longrightarrow> int64_range n \<Longrightarrow> parsePathID (itoa n) = Some n"
  by (simp add: parsePathID_def ParseInt_itoa)

section \<open>Decoding a body into a struct\<close>

text \<open>The Go type of a field, as far as decoding distinguishes it. A time is text that \<open>time.Parse\<close> reads.\<close>

datatype kind = KInt | KStr | KAny | KMap | KIntPtr | KStrPtr | KRaw | KArr | KMatrix | KBool | KBoolPtr | KStrs | KTime | KTimePtr

fun check_kind :: "kind \<Rightarrow> json \<Rightarrow> bool" where
  "check_kind KInt v = (case v of JNum n \<Rightarrow> int64_range n | JNull \<Rightarrow> True | _ \<Rightarrow> False)"
| "check_kind KIntPtr v = (case v of JNum n \<Rightarrow> int64_range n | JNull \<Rightarrow> True | _ \<Rightarrow> False)"
| "check_kind KStr v = (case v of JStr _ \<Rightarrow> True | JNull \<Rightarrow> True | _ \<Rightarrow> False)"
| "check_kind KStrPtr v = (case v of JStr _ \<Rightarrow> True | JNull \<Rightarrow> True | _ \<Rightarrow> False)"
| "check_kind KMap v = (case v of JObj _ \<Rightarrow> True | JNull \<Rightarrow> True | _ \<Rightarrow> False)"
| "check_kind KArr v = (case v of JArr _ \<Rightarrow> True | JNull \<Rightarrow> True | _ \<Rightarrow> False)"
| "check_kind KMatrix v = (case v of
       JObj m \<Rightarrow> list_all (\<lambda>(k, x). case x of JArr _ \<Rightarrow> True | JNull \<Rightarrow> True | _ \<Rightarrow> False) m
     | JNull \<Rightarrow> True | _ \<Rightarrow> False)"
| "check_kind KBool v = (case v of JBool _ \<Rightarrow> True | JNull \<Rightarrow> True | _ \<Rightarrow> False)"
| "check_kind KBoolPtr v = (case v of JBool _ \<Rightarrow> True | JNull \<Rightarrow> True | _ \<Rightarrow> False)"
| "check_kind KStrs v = (case v of
       JArr xs \<Rightarrow> list_all (\<lambda>x. case x of JStr _ \<Rightarrow> True | JNull \<Rightarrow> True | _ \<Rightarrow> False) xs
     | JNull \<Rightarrow> True | _ \<Rightarrow> False)"
| "check_kind KTime v = (case v of JStr s \<Rightarrow> ParseRFC3339Nano s \<noteq> None | JNull \<Rightarrow> True | _ \<Rightarrow> False)"
| "check_kind KTimePtr v = (case v of JStr s \<Rightarrow> ParseRFC3339Nano s \<noteq> None | JNull \<Rightarrow> True | _ \<Rightarrow> False)"
| "check_kind KAny v = True"
| "check_kind KRaw v = True"

type_synonym field_types = "(string \<times> kind) list"
type_synonym decoded = "string \<rightharpoonup> json"

text \<open>A key addresses the field of that name, or else the first that differs only in case.\<close>

definition field_for :: "field_types \<Rightarrow> string \<Rightarrow> (string \<times> kind) option" where
  "field_for fs key =
     (case find (\<lambda>f. fst f = key) fs of Some f \<Rightarrow> Some f | None \<Rightarrow> find (\<lambda>f. EqualFold (fst f) key) fs)"

definition decode_entry :: "field_types \<Rightarrow> bool \<Rightarrow> string \<times> json \<Rightarrow> decoded option \<Rightarrow> decoded option" where
  "decode_entry fs strict = (\<lambda>(key, value) acc.
     case acc of None \<Rightarrow> None
     | Some d \<Rightarrow> (case field_for fs key of
         None \<Rightarrow> if strict then None else Some d
       | Some (name, kind) \<Rightarrow>
           if \<not> check_kind kind value then None
           else if value = JNull \<and> (kind = KInt \<or> kind = KStr \<or> kind = KBool \<or> kind = KTime) then Some d
           else Some (d(name \<mapsto> value))))"

definition decode_struct :: "field_types \<Rightarrow> bool \<Rightarrow> json \<Rightarrow> decoded option" where
  "decode_struct fs strict v =
     (case v of
        JObj m \<Rightarrow> fold (decode_entry fs strict) m (Some Map.empty)
      | JNull \<Rightarrow> Some Map.empty
      | _ \<Rightarrow> None)"

text \<open>\<open>decodeJSON\<close>: the limit and \<open>DisallowUnknownFields\<close>; \<open>None\<close> is an error.\<close>

definition decodeJSON :: "http_request \<Rightarrow> field_types \<Rightarrow> decoded option" where
  "decodeJSON request fs = (case rq_body request of BDoc v \<Rightarrow> decode_struct fs True v | _ \<Rightarrow> None)"

text \<open>A plain \<open>json.NewDecoder(request.Body).Decode\<close>.\<close>

definition decodePlain :: "http_request \<Rightarrow> field_types \<Rightarrow> decoded option" where
  "decodePlain request fs =
     (case rq_body request of BDoc v \<Rightarrow> decode_struct fs False v | BLong v \<Rightarrow> decode_struct fs False v | _ \<Rightarrow> None)"

definition get_int :: "decoded \<Rightarrow> string \<Rightarrow> int" where
  "get_int d name = (case d name of Some (JNum n) \<Rightarrow> n | _ \<Rightarrow> 0)"

definition get_str :: "decoded \<Rightarrow> string \<Rightarrow> string" where
  "get_str d name = (case d name of Some (JStr s) \<Rightarrow> s | _ \<Rightarrow> [])"

definition get_any :: "decoded \<Rightarrow> string \<Rightarrow> json" where
  "get_any d name = (case d name of Some v \<Rightarrow> v | None \<Rightarrow> JNull)"

definition get_intptr :: "decoded \<Rightarrow> string \<Rightarrow> int option" where
  "get_intptr d name = (case d name of Some (JNum n) \<Rightarrow> Some n | _ \<Rightarrow> None)"

definition get_map :: "decoded \<Rightarrow> string \<Rightarrow> jmap" where
  "get_map d name = (case d name of Some (JObj m) \<Rightarrow> m | _ \<Rightarrow> [])"

definition get_arr :: "decoded \<Rightarrow> string \<Rightarrow> json list option" where
  "get_arr d name = (case d name of Some (JArr xs) \<Rightarrow> Some xs | _ \<Rightarrow> None)"

definition get_bool :: "decoded \<Rightarrow> string \<Rightarrow> bool" where
  "get_bool d name = (d name = Some (JBool True))"

definition get_boolptr :: "decoded \<Rightarrow> string \<Rightarrow> bool option" where
  "get_boolptr d name = (case d name of Some (JBool b) \<Rightarrow> Some b | _ \<Rightarrow> None)"

text \<open>A \<open>[]string\<close>, where a null element is the empty string; a \<open>time.Time\<close>, \<open>None\<close> when it is absent.\<close>

definition get_strs :: "decoded \<Rightarrow> string \<Rightarrow> string list option" where
  "get_strs d name = (case d name of Some (JArr xs) \<Rightarrow> Some (map (\<lambda>x. case x of JStr s \<Rightarrow> s | _ \<Rightarrow> []) xs) | _ \<Rightarrow> None)"

definition get_time :: "decoded \<Rightarrow> string \<Rightarrow> instant option" where
  "get_time d name = (case d name of Some (JStr s) \<Rightarrow> ParseRFC3339Nano s | _ \<Rightarrow> None)"

text \<open>A \<open>map[string][]any\<close>: \<open>None\<close> is nil, a null axis is empty.\<close>

definition get_matrix :: "decoded \<Rightarrow> string \<Rightarrow> (json list) gomap option" where
  "get_matrix d name = (case d name of
     Some (JObj m) \<Rightarrow> Some (map (\<lambda>(k, v). (k, case v of JArr xs \<Rightarrow> xs | _ \<Rightarrow> [])) m) | _ \<Rightarrow> None)"

lemma decode_entries_range:
  assumes "fold (decode_entry fs strict) m (Some d0) = Some d" "d name = Some v" "d0 name \<noteq> Some v"
  shows "\<exists>kind. (name, kind) \<in> set fs \<and> check_kind kind v"
  using assms
proof (induction m arbitrary: d0)
  case (Cons kv m)
  obtain d1 where d1: "decode_entry fs strict kv (Some d0) = Some d1"
    using Cons.prems(1) by (cases "decode_entry fs strict kv (Some d0)")
      (auto, induction m, auto simp: decode_entry_def split: prod.splits)
  show ?case
  proof (cases "d1 name = Some v")
    case True
    then show ?thesis using d1 Cons.prems(3)
      by (auto simp: decode_entry_def field_for_def split: prod.splits option.splits if_splits dest!: find_SomeD)
  next
    case False
    then show ?thesis using Cons.IH [of d1] Cons.prems d1 by simp
  qed
qed simp

lemma get_int_range:
  assumes "decode_struct fs strict v = Some d"
  shows "int64_range (get_int d name) \<or> (\<exists>kind. (name, kind) \<in> set fs \<and> kind \<noteq> KInt \<and> kind \<noteq> KIntPtr)"
proof (cases "d name")
  case (Some x)
  then obtain kind where "(name, kind) \<in> set fs" "check_kind kind x"
    using assms decode_entries_range [of fs strict _ Map.empty d name x]
    by (auto simp: decode_struct_def split: json.splits)
  then show ?thesis using Some
    by (cases kind; cases x) (auto simp: get_int_def int64_range_def)
qed (simp add: get_int_def int64_range_def)

end
