(* ===== verification/Sessions.thy ===== *)
theory Sessions
  imports Http
begin

text \<open>
  Browser sessions: the session calls of internal/persistence/mysql/browser_auth.go (\<open>FindByEmail\<close>,
  \<open>Create\<close>, \<open>Delete\<close>, \<open>Get\<close>, \<open>CustomerExists\<close>, \<open>SwitchTenant\<close>, \<open>RecordTenantSwitch\<close>) and the
  handlers of internal/browserauth/handler.go that log in and out, resolve the session of a request and
  switch the active tenant.
\<close>

section \<open>Tables and environment\<close>

record user_row =
  ur_id :: int
  ur_tenant :: int
  ur_name :: string
  ur_email :: string
  ur_role :: int
  ur_password :: string
  ur_status :: string

record session_row =
  sn_idHash :: string
  sn_userId :: int
  sn_tenant :: int
  sn_csrfHash :: string
  sn_active :: "int option"
  sn_reason :: "string option"
  sn_impersonationExpires :: "instant option"
  sn_expiresAt :: instant

record auth_audit =
  au_actorUser :: int
  au_actorTenant :: int
  au_activeTenant :: int
  au_target :: string
  au_before :: json
  au_after :: json
  au_sourceIp :: string
  au_correlation :: string

record auth_db =
  users :: "user_row list"
  sessions :: "session_row list"
  customers :: "int list"
  switch_audits :: "auth_audit list"

record auth_env =
  ae_fails :: "string \<Rightarrow> bool"
  ae_draw :: "nat \<Rightarrow> nat list option"
  ae_sha256 :: "string \<Rightarrow> nat list"
  ae_bcrypt :: "string \<Rightarrow> string \<Rightarrow> bool"
  ae_column_time :: "instant \<Rightarrow> instant"
  ae_clock :: "nat \<Rightarrow> instant"

record User =
  us_ID :: int
  us_TenantID :: int
  us_ActiveTenantID :: int
  us_Name :: string
  us_Email :: string
  us_Role :: int
  us_PasswordHash :: string
  us_Status :: string
  us_ImpersonationReason :: "string option"
  us_ImpersonationExpiresAt :: "instant option"

text \<open>The k-th token drawn in a request, and the hash under which a token is stored.\<close>

definition randomToken :: "auth_env \<Rightarrow> nat \<Rightarrow> string option" where
  "randomToken e k = map_option hex_encode (ae_draw e k)"

definition tokenHash :: "auth_env \<Rightarrow> string \<Rightarrow> string" where
  "tokenHash e value = hex_encode (ae_sha256 e value)"

section \<open>The session repository\<close>

definition user_of_row :: "user_row \<Rightarrow> User" where
  "user_of_row u = \<lparr>us_ID = ur_id u, us_TenantID = ur_tenant u, us_ActiveTenantID = 0, us_Name = ur_name u,
     us_Email = ur_email u, us_Role = ur_role u, us_PasswordHash = ur_password u, us_Status = ur_status u,
     us_ImpersonationReason = None, us_ImpersonationExpiresAt = None\<rparr>"

definition FindByEmail :: "auth_env \<Rightarrow> string \<Rightarrow> auth_db \<Rightarrow> err + User" where
  "FindByEmail e email d =
     (if ae_fails e ''find browser user'' then Inl (DatabaseFailure ''find browser user'')
      else case find (\<lambda>u. ur_email u = email) (users d) of
             None \<Rightarrow> Inl ErrNotFound | Some u \<Rightarrow> Inr (user_of_row u))"

definition Create :: "auth_env \<Rightarrow> string \<Rightarrow> int \<Rightarrow> int \<Rightarrow> string \<Rightarrow> instant \<Rightarrow> auth_db \<Rightarrow> (err + unit) \<times> auth_db" where
  "Create e sessionID userID tenantID csrf expiresAt d =
     (if ae_fails e ''create browser session'' \<or> list_ex (\<lambda>s. sn_idHash s = tokenHash e sessionID) (sessions d)
      then (Inl (DatabaseFailure ''create browser session''), d)
      else (Inr (), d\<lparr>sessions := sessions d @
             [\<lparr>sn_idHash = tokenHash e sessionID, sn_userId = userID, sn_tenant = tenantID,
               sn_csrfHash = tokenHash e csrf, sn_active = None, sn_reason = None,
               sn_impersonationExpires = None, sn_expiresAt = ae_column_time e expiresAt\<rparr>]\<rparr>))"

definition Delete :: "auth_env \<Rightarrow> string \<Rightarrow> auth_db \<Rightarrow> (err + unit) \<times> auth_db" where
  "Delete e sessionID d =
     (if ae_fails e ''delete browser session'' then (Inl (DatabaseFailure ''delete browser session''), d)
      else let d' = d\<lparr>sessions := filter (\<lambda>s. sn_idHash s \<noteq> tokenHash e sessionID) (sessions d)\<rparr>
           in if ae_fails e ''count deleted browser session''
              then (Inl (DatabaseFailure ''count deleted browser session''), d')
              else if list_ex (\<lambda>s. sn_idHash s = tokenHash e sessionID) (sessions d) then (Inr (), d')
              else (Inl ErrNotFound, d'))"

text \<open>The join of \<open>Get\<close>: a live session and an active user of the session's own tenant.\<close>

definition session_user :: "auth_db \<Rightarrow> session_row \<Rightarrow> user_row option" where
  "session_user d s = find (\<lambda>u. ur_id u = sn_userId s \<and> ur_tenant u = sn_tenant s \<and> ur_status u = ''active'') (users d)"

definition Get :: "auth_env \<Rightarrow> string \<Rightarrow> instant \<Rightarrow> auth_db \<Rightarrow> err + User" where
  "Get e sessionID now d =
     (if ae_fails e ''load browser session'' then Inl (DatabaseFailure ''load browser session'')
      else case find (\<lambda>s. sn_idHash s = tokenHash e sessionID \<and> sn_expiresAt s > now \<and> session_user d s \<noteq> None) (sessions d) of
        None \<Rightarrow> Inl ErrNotFound
      | Some s \<Rightarrow> (case session_user d s of
          None \<Rightarrow> Inl ErrNotFound
        | Some u \<Rightarrow> Inr ((user_of_row u)\<lparr>us_ActiveTenantID := (case sn_active s of Some t \<Rightarrow> t | None \<Rightarrow> sn_tenant s),
             us_ImpersonationReason := sn_reason s, us_ImpersonationExpiresAt := sn_impersonationExpires s\<rparr>)))"

definition CustomerExists :: "auth_env \<Rightarrow> int \<Rightarrow> auth_db \<Rightarrow> err + bool" where
  "CustomerExists e customerID d =
     (if ae_fails e ''lookup browser target customer'' then Inl (DatabaseFailure ''lookup browser target customer'')
      else Inr (customerID \<in> set (customers d)))"

record TenantSwitch =
  tsw_SessionID :: string
  tsw_UserID :: int
  tsw_ActorTenant :: int
  tsw_ActiveTenant :: int
  tsw_Reason :: string
  tsw_ExpiresAt :: instant
  tsw_Now :: instant

definition switch_addresses :: "auth_env \<Rightarrow> TenantSwitch \<Rightarrow> session_row \<Rightarrow> bool" where
  "switch_addresses e sw s \<longleftrightarrow> sn_idHash s = tokenHash e (tsw_SessionID sw) \<and> sn_userId s = tsw_UserID sw
     \<and> sn_tenant s = tsw_ActorTenant sw \<and> sn_expiresAt s > tsw_Now sw"

definition SwitchTenant :: "auth_env \<Rightarrow> TenantSwitch \<Rightarrow> auth_db \<Rightarrow> (err + unit) \<times> auth_db" where
  "SwitchTenant e sw d =
     (if ae_fails e ''switch browser tenant'' then (Inl (DatabaseFailure ''switch browser tenant''), d)
      else let d' = d\<lparr>sessions := upd_rows (switch_addresses e sw)
                       (\<lambda>s. s\<lparr>sn_active := Some (tsw_ActiveTenant sw), sn_reason := Some (tsw_Reason sw),
                              sn_impersonationExpires := Some (ae_column_time e (tsw_ExpiresAt sw))\<rparr>) (sessions d)\<rparr>
           in if ae_fails e ''count browser tenant switch''
              then (Inl (DatabaseFailure ''count browser tenant switch''), d')
              else if list_ex (switch_addresses e sw) (sessions d) then (Inr (), d')
              else (Inl ErrNotFound, d'))"

definition RecordTenantSwitch :: "auth_env \<Rightarrow> auth_audit \<Rightarrow> auth_db \<Rightarrow> (err + unit) \<times> auth_db" where
  "RecordTenantSwitch e event d =
     (if ae_fails e ''record tenant switch audit'' then (Inl (DatabaseFailure ''record tenant switch audit''), d)
      else (Inr (), d\<lparr>switch_audits := switch_audits d @
             [event\<lparr>au_before := Redact (au_before event), au_after := Redact (au_after event)\<rparr>]\<rparr>))"

section \<open>The session of a request\<close>

record cookie =
  ck_Name :: string
  ck_Value :: string
  ck_MaxAge :: int
  ck_HttpOnly :: bool

definition sessionCookieName :: string where "sessionCookieName = ''idelium_session''"

definition csrfCookieName :: string where "csrfCookieName = ''XSRF-TOKEN''"

definition expireCookie :: "string \<Rightarrow> bool \<Rightarrow> cookie" where
  "expireCookie name httpOnly = \<lparr>ck_Name = name, ck_Value = [], ck_MaxAge = -1, ck_HttpOnly = httpOnly\<rparr>"

definition expired_cookies :: "cookie list" where
  "expired_cookies = [expireCookie sessionCookieName True, expireCookie csrfCookieName False]"

text \<open>What a handler sends: cookies and a reply.\<close>

type_synonym 'v sent = "cookie list \<times> 'v reply"

definition authenticatedSession :: "auth_env \<Rightarrow> http_request \<Rightarrow> auth_db \<Rightarrow> 'v sent + User \<times> string" where
  "authenticatedSession e request d =
     (case rq_cookie request of
        None \<Rightarrow> Inl ([], unauthorized)
      | Some value \<Rightarrow>
          if value = [] then Inl ([], unauthorized)
          else (case Get e value (ae_clock e 0) d of
                  Inl x \<Rightarrow> if x = ErrNotFound then Inl (expired_cookies, unauthorized) else Inl ([], internalError)
                | Inr user \<Rightarrow> Inr (user, value)))"

definition authenticatedUser :: "auth_env \<Rightarrow> http_request \<Rightarrow> auth_db \<Rightarrow> 'v sent + User" where
  "authenticatedUser e request d = (case authenticatedSession e request d of Inl s \<Rightarrow> Inl s | Inr (user, _) \<Rightarrow> Inr user)"

definition ActiveTenant :: "User \<Rightarrow> int" where
  "ActiveTenant u = (if us_ActiveTenantID u > 0 then us_ActiveTenantID u else us_TenantID u)"

definition AuthenticateRequest :: "auth_env \<Rightarrow> http_request \<Rightarrow> instant \<Rightarrow> auth_db \<Rightarrow> User option" where
  "AuthenticateRequest e request now d =
     (case rq_cookie request of
        None \<Rightarrow> None
      | Some value \<Rightarrow> if value = [] then None
          else (case Get e value now d of Inl _ \<Rightarrow> None | Inr user \<Rightarrow> if us_Status user \<noteq> ''active'' then None else Some user))"

section \<open>Log in and log out\<close>

definition session_cookie :: "string \<Rightarrow> cookie" where
  "session_cookie value = \<lparr>ck_Name = sessionCookieName, ck_Value = value, ck_MaxAge = 7200, ck_HttpOnly = True\<rparr>"

definition csrf_cookie :: "string \<Rightarrow> cookie" where
  "csrf_cookie value = \<lparr>ck_Name = csrfCookieName, ck_Value = value, ck_MaxAge = 7200, ck_HttpOnly = False\<rparr>"

definition CSRF :: "auth_env \<Rightarrow> unit sent" where
  "CSRF e = (case randomToken e 0 of None \<Rightarrow> ([], internalError) | Some tok \<Rightarrow> ([csrf_cookie tok], Value 204 ()))"

definition invalidLogin :: "'v reply" where
  "invalidLogin = message_reply 401 ''Invalid login details''"

definition login_fields :: field_types where
  "login_fields = [(''email'', KStr), (''password'', KStr), (''token'', KStrPtr)]"

definition identity_json :: "User \<Rightarrow> jmap" where
  "identity_json u = [(''id'', JNum (us_ID u)), (''name'', JStr (us_Name u)), (''email'', JStr (us_Email u)),
     (''role'', JNum (us_Role u))]"

definition Login :: "auth_env \<Rightarrow> http_request \<Rightarrow> auth_db \<Rightarrow> unit sent \<times> auth_db" where
  "Login e request d =
     (case decodeJSON request login_fields of
        None \<Rightarrow> (([], invalidLogin), d)
      | Some body \<Rightarrow>
          if TrimSpace (get_str body ''email'') = [] \<or> get_str body ''password'' = [] then (([], invalidLogin), d)
          else (case FindByEmail e (TrimSpace (get_str body ''email'')) d of
            Inl _ \<Rightarrow> (([], invalidLogin), d)
          | Inr user \<Rightarrow>
              if us_Status user \<noteq> ''active'' \<or> \<not> ae_bcrypt e (us_PasswordHash user) (get_str body ''password'')
              then (([], invalidLogin), d)
              else (case randomToken e 0 of
                None \<Rightarrow> (([], internalError), d)
              | Some sessionID \<Rightarrow> (case randomToken e 1 of
                  None \<Rightarrow> (([], internalError), d)
                | Some csrfToken \<Rightarrow>
                    (case Create e sessionID (us_ID user) (us_TenantID user) csrfToken (ae_clock e 0 + 120 * minute) d of
                       (Inl _, d') \<Rightarrow> (([], internalError), d')
                     | (Inr _, d') \<Rightarrow>
                         (([session_cookie sessionID, csrf_cookie csrfToken],
                           Message 200 [(''authenticated'', JBool True), (''user'', JObj (identity_json user))]), d'))))))"

definition Logout :: "auth_env \<Rightarrow> http_request \<Rightarrow> auth_db \<Rightarrow> unit sent \<times> auth_db" where
  "Logout e request d =
     (case rq_cookie request of
        None \<Rightarrow> (([], unauthorized), d)
      | Some value \<Rightarrow>
          if value = [] then (([], unauthorized), d)
          else (case Delete e value d of
                  (Inl x, d') \<Rightarrow> if x \<noteq> ErrNotFound then (([], internalError), d')
                                else ((expired_cookies, Value 204 ()), d')
                | (Inr _, d') \<Rightarrow> ((expired_cookies, Value 204 ()), d')))"

definition CurrentUser :: "auth_env \<Rightarrow> http_request \<Rightarrow> auth_db \<Rightarrow> unit sent" where
  "CurrentUser e request d =
     (case authenticatedUser e request d of Inl s \<Rightarrow> s | Inr user \<Rightarrow> ([], Message 200 (identity_json user)))"

section \<open>Roles\<close>

definition capabilitiesForRole :: "int \<Rightarrow> string list" where
  "capabilitiesForRole role =
     (if role = 1 then [''tenant.switch'', ''accounts.manage'', ''account.role.assign'', ''customers.manage'',
        ''api_keys.manage'', ''agents.manage'', ''agents.read'', ''audit_events.read'', ''artifacts.manage'',
        ''artifacts.read'', ''integrations.manage'', ''integrations.read'', ''identity.manage'', ''identity.read'',
        ''projects.manage'', ''projects.read'', ''resources.manage'', ''resources.read'', ''runs.launch'', ''profile.manage'']
      else if role = 2 then [''accounts.manage'', ''account.role.assign'', ''api_keys.manage'', ''agents.manage'',
        ''agents.read'', ''audit_events.read'', ''artifacts.manage'', ''artifacts.read'', ''integrations.manage'',
        ''integrations.read'', ''identity.manage'', ''identity.read'', ''projects.manage'', ''resources.manage'',
        ''resources.read'', ''runs.launch'', ''profile.manage'']
      else if role = 3 then [''artifacts.read'', ''agents.read'', ''integrations.read'', ''identity.read'',
        ''projects.read'', ''resources.read'', ''runs.launch'', ''profile.manage'']
      else [])"

definition Capabilities :: "auth_env \<Rightarrow> http_request \<Rightarrow> auth_db \<Rightarrow> unit sent" where
  "Capabilities e request d =
     (case authenticatedUser e request d of Inl s \<Rightarrow> s
      | Inr user \<Rightarrow> ([], Message 200 [(''version'', JStr ''2026-07-28''),
          (''capabilities'', JArr (map JStr (capabilitiesForRole (us_Role user))))]))"

record sidebarItem =
  sb_Icon :: string
  sb_Name :: string
  sb_Link :: string
  sb_Class :: string
  sb_IsActiveEmptyDB :: bool

definition sidebarForRole :: "int \<Rightarrow> sidebarItem list" where
  "sidebarForRole role =
     (let item = (\<lambda>icon name cls empty. \<lparr>sb_Icon = icon, sb_Name = name, sb_Link = name, sb_Class = cls, sb_IsActiveEmptyDB = empty\<rparr>)
      in [item ''vials'' ''testsperformed'' [] False, item ''rocket'' ''testlauncher'' [] False,
          item ''sync'' ''testcycles'' [] False, item ''vial'' ''tests'' [] False,
          item ''shoe-prints'' ''steps'' ''fa-rotate-270'' False, item ''plug'' ''plugins'' [] False,
          item ''leaf'' ''environments'' [] False, item ''project-diagram'' ''projects'' [] True]
         @ (if role < 3 then [item ''users'' ''account'' [] True, item ''key'' ''apikey'' [] True] else [])
         @ (if role = 1 then [item ''building'' ''costumers'' [] True, item ''laptop'' ''platforms'' [] True] else []))"

definition Sidebar :: "auth_env \<Rightarrow> http_request \<Rightarrow> auth_db \<Rightarrow> sidebarItem list sent" where
  "Sidebar e request d =
     (case authenticatedUser e request d of Inl s \<Rightarrow> s | Inr user \<Rightarrow> ([], Value 200 (sidebarForRole (us_Role user))))"

section \<open>Switching the tenant\<close>

text \<open>\<open>Format(time.RFC3339)\<close> of a UTC time, and \<open>time.Parse\<close> with \<open>2006-01-02 15:04:05\<close>,
  where the space stands for any number of spaces.\<close>

definition formatRFC3339 :: "instant \<Rightarrow> string" where
  "formatRFC3339 t =
     (let (y, m, d) = civil (t div day_ns); r = t mod day_ns; p2 = (\<lambda>n. pad 2 (nat n))
      in year_text y @ ''-'' @ p2 m @ ''-'' @ p2 d @ ''T'' @ p2 (r div hour) @ '':''
         @ p2 (r mod hour div minute) @ '':'' @ p2 (r mod minute div second) @ ''Z'')"

definition parseDateTime :: "string \<Rightarrow> instant option" where
  "parseDateTime s =
     Option.bind (take_num 4 s) (\<lambda>(y, s1).
     Option.bind (expect (CHR ''-'') s1) (\<lambda>s2.
     Option.bind (take_num 2 s2) (\<lambda>(mo, s3).
     Option.bind (expect (CHR ''-'') s3) (\<lambda>s4.
     Option.bind (take_num 2 s4) (\<lambda>(d, s5).
     Option.bind (expect (CHR '' '') s5) (\<lambda>s6.
     Option.bind (take_hour (dropWhile (\<lambda>c. c = CHR '' '') s6)) (\<lambda>(h, s7).
     Option.bind (expect (CHR '':'') s7) (\<lambda>s8.
     Option.bind (take_num 2 s8) (\<lambda>(mi, s9).
     Option.bind (expect (CHR '':'') s9) (\<lambda>s10.
     Option.bind (take_num 2 s10) (\<lambda>(sec, s11).
     (let (ns, s12) = take_frac s11
      in if s12 = [] then instant_of y mo d h mi sec ns 0 else None))))))))))))"

definition parseFutureTime :: "string \<Rightarrow> instant \<Rightarrow> instant option" where
  "parseFutureTime value now =
     (case (case ParseRFC3339Nano value of Some t \<Rightarrow> Some t | None \<Rightarrow> parseDateTime value) of
        None \<Rightarrow> None | Some parsed \<Rightarrow> if parsed > now then Some parsed else None)"

definition correlationID :: "auth_env \<Rightarrow> nat \<Rightarrow> http_request \<Rightarrow> string" where
  "correlationID e k request =
     (if rq_header request ''X-Correlation-ID'' \<noteq> [] then rq_header request ''X-Correlation-ID''
      else case randomToken e k of
        None \<Rightarrow> ''00000000-0000-4000-8000-000000000000''
      | Some t \<Rightarrow> take 8 t @ ''-'' @ take 4 (drop 8 t) @ ''-4'' @ take 3 (drop 13 t) @ ''-8'' @ take 3 (drop 17 t)
                 @ ''-'' @ take 12 (drop 20 t))"

definition tenantContext :: "User \<Rightarrow> json" where
  "tenantContext u = JObj [(''actorUserId'', JNum (us_ID u)), (''actorTenantId'', JNum (us_TenantID u)),
     (''activeTenantId'', JNum (ActiveTenant u)), (''impersonating'', JBool (ActiveTenant u \<noteq> us_TenantID u)),
     (''impersonationReason'', case us_ImpersonationReason u of None \<Rightarrow> JNull | Some r \<Rightarrow> JStr r),
     (''impersonationExpiresAt'', case us_ImpersonationExpiresAt u of None \<Rightarrow> JNull | Some t \<Rightarrow> JStr (formatRFC3339 t))]"

definition tenantNotFound :: "'v reply" where
  "tenantNotFound = Message 404 [(''message'', JStr ''Tenant was not found.''),
     (''error'', JObj [(''code'', JStr ''TENANT_NOT_FOUND'')])]"

text \<open>The writes of a switch: the session row, then the audit event.\<close>

definition perform_switch ::
  "auth_env \<Rightarrow> http_request \<Rightarrow> User \<Rightarrow> string \<Rightarrow> int \<Rightarrow> string \<Rightarrow> string \<Rightarrow> instant \<Rightarrow> auth_db \<Rightarrow> unit sent \<times> auth_db" where
  "perform_switch e request user sessionID target reason expiresText expiresAt d =
     (case SwitchTenant e \<lparr>tsw_SessionID = sessionID, tsw_UserID = us_ID user, tsw_ActorTenant = us_TenantID user,
             tsw_ActiveTenant = target, tsw_Reason = reason, tsw_ExpiresAt = expiresAt, tsw_Now = ae_clock e 1\<rparr> d of
        (Inl _, d1) \<Rightarrow> (([], internalError), d1)
      | (Inr _, d1) \<Rightarrow>
          (case RecordTenantSwitch e \<lparr>au_actorUser = us_ID user, au_actorTenant = us_TenantID user,
               au_activeTenant = target, au_target = itoa target,
               au_before = JObj [(''activeTenantId'', JNum (ActiveTenant user))],
               au_after = JObj [(''activeTenantId'', JNum target), (''sessionToken'', JStr ''[REDACTED]''),
                 (''reason'', JStr reason), (''expiresAt'', JStr expiresText)],
               au_sourceIp = rq_sourceIP request, au_correlation = correlationID e 0 request\<rparr> d1 of
             (Inl _, d2) \<Rightarrow> (([], internalError), d2)
           | (Inr _, d2) \<Rightarrow>
               (([], Message 200 [(''tenantContext'', tenantContext
                  (user\<lparr>us_ActiveTenantID := target, us_ImpersonationReason := Some reason,
                        us_ImpersonationExpiresAt := Some expiresAt\<rparr>))]), d2)))"

definition ChangeCustomer :: "auth_env \<Rightarrow> http_request \<Rightarrow> auth_db \<Rightarrow> unit sent \<times> auth_db" where
  "ChangeCustomer e request d =
     (case authenticatedSession e request d of
        Inl s \<Rightarrow> (s, d)
      | Inr (user, sessionID) \<Rightarrow>
          if us_Role user \<noteq> 1 then (([], forbidden), d)
          else (case parsePathID (rq_path request ''idCostumer'') of
            None \<Rightarrow> (([], tenantNotFound), d)
          | Some target \<Rightarrow> (case decodeJSON request [(''reason'', KStr), (''expiresAt'', KStr)] of
              None \<Rightarrow> (([], validationError ''reason'' ''The reason field is required.''), d)
            | Some body \<Rightarrow>
                let now = ae_clock e 1;
                    reasonText = (if TrimSpace (get_str body ''reason'') = [] then ''customer-switch'' else get_str body ''reason'');
                    expiresText = (if TrimSpace (get_str body ''expiresAt'') = [] then formatRFC3339 (now + hour)
                                   else get_str body ''expiresAt'')
                in (case parseFutureTime expiresText now of
                      None \<Rightarrow> (([], validationError ''expiresAt'' ''The expires at must be a date after now.''), d)
                    | Some expiresAt \<Rightarrow> (case CustomerExists e target d of
                        Inl _ \<Rightarrow> (([], internalError), d)
                      | Inr exists \<Rightarrow>
                          if \<not> exists then (([], tenantNotFound), d)
                          else perform_switch e request user sessionID target (TrimSpace reasonText) expiresText expiresAt d)))))"

end
