(* ===== verification/SessionProps.thy ===== *)
theory SessionProps
  imports Sessions
begin

text \<open>
  Properties of browser sessions: a log-in gives a session that authenticates its user until it
  expires, a log-out ends it, and only a superadministrator's session changes its tenant.
\<close>

text \<open>Users have distinct identifiers and sessions distinct hashes (the keys of the tables).\<close>

definition auth_ok :: "auth_db \<Rightarrow> bool" where
  "auth_ok d \<longleftrightarrow> distinct (map ur_id (users d)) \<and> distinct (map sn_idHash (sessions d))"

lemma Create_ok: "auth_ok d \<Longrightarrow> auth_ok (snd (Create e a b c f g d))"
  by (auto simp: Create_def auth_ok_def list_ex_iff)

lemma Delete_ok: "auth_ok d \<Longrightarrow> auth_ok (snd (Delete e s d))"
  by (auto simp: Delete_def Let_def auth_ok_def distinct_map inj_on_def)

lemma SwitchTenant_ok: "auth_ok d \<Longrightarrow> auth_ok (snd (SwitchTenant e sw d))"
  by (auto simp: SwitchTenant_def Let_def auth_ok_def)

lemma find_unique:
  assumes "distinct (map f xs)" "x \<in> set xs" "p x" "\<And>y. p y \<Longrightarrow> f y = f x"
  shows "find p xs = Some x"
proof -
  have "find p xs \<noteq> None" using assms(2,3) by (auto simp: find_None_iff)
  then obtain y where y: "find p xs = Some y" by blast
  then have "y \<in> set xs" "f y = f x" using find_SomeD [OF y] assms(4) by auto
  then have "y = x" using assms(1,2) by (auto simp: distinct_map inj_on_def)
  then show ?thesis using y by simp
qed

text \<open>What \<open>Get\<close> returns, by the stored row.\<close>

lemma Get_row:
  assumes "auth_ok d" "s \<in> set (sessions d)" "sn_idHash s = tokenHash e sid" "\<not> ae_fails e ''load browser session''"
  shows "Get e sid now d =
    (if sn_expiresAt s > now
     then (case session_user d s of None \<Rightarrow> Inl ErrNotFound
           | Some u \<Rightarrow> Inr ((user_of_row u)\<lparr>us_ActiveTenantID := (case sn_active s of Some t \<Rightarrow> t | None \<Rightarrow> sn_tenant s),
                us_ImpersonationReason := sn_reason s, us_ImpersonationExpiresAt := sn_impersonationExpires s\<rparr>))
     else Inl ErrNotFound)"
proof -
  let ?p = "\<lambda>s. sn_idHash s = tokenHash e sid \<and> sn_expiresAt s > now \<and> session_user d s \<noteq> None"
  have uniq: "r = s" if "r \<in> set (sessions d)" "sn_idHash r = tokenHash e sid" for r
    using that assms(1-3) by (auto simp: auth_ok_def distinct_map inj_on_def)
  have "find ?p (sessions d) = (if ?p s then Some s else None)"
  proof (cases "?p s")
    case True
    then show ?thesis using find_unique [of sn_idHash "sessions d" s ?p] assms(1-3) by (simp add: auth_ok_def)
  next
    case False
    have "find ?p (sessions d) = None" unfolding find_None_iff using False uniq by blast
    then show ?thesis using False by simp
  qed
  then show ?thesis using assms(3,4) by (auto simp: Get_def split: option.split)
qed

lemma Get_none: "\<forall>s \<in> set (sessions d). sn_idHash s \<noteq> tokenHash e sid \<Longrightarrow> \<exists>x. Get e sid now d = Inl x"
  by (auto simp: Get_def find_None_iff [THEN iffD2] split: option.split dest: find_SomeD)

text \<open>
  A request of a live session, in terms of the tables: its cookie names a session row that has not expired at
  the given time, and the user of that row is active, belongs to the tenant of the row and acts for the tenant
  that the row has chosen, or else its own.
\<close>

definition live_session :: "auth_env \<Rightarrow> http_request \<Rightarrow> instant \<Rightarrow> auth_db \<Rightarrow> User \<Rightarrow> bool" where
  "live_session e request now d user \<longleftrightarrow> (\<exists>sid s u. rq_cookie request = Some sid \<and> s \<in> set (sessions d)
     \<and> sn_idHash s = hex_encode (ae_sha256 e sid) \<and> now < sn_expiresAt s \<and> u \<in> set (users d) \<and> ur_id u = sn_userId s
     \<and> ur_tenant u = sn_tenant s \<and> ur_status u = ''active'' \<and> us_ID user = ur_id u \<and> us_TenantID user = ur_tenant u
     \<and> us_Role user = ur_role u \<and> us_ActiveTenantID user = (case sn_active s of Some t \<Rightarrow> t | None \<Rightarrow> sn_tenant s))"

lemma Get_live:
  assumes "Get e sid now d = Inr user" "rq_cookie request = Some sid"
  shows "live_session e request now d user"
proof -
  obtain s u where f: "find (\<lambda>s. sn_idHash s = tokenHash e sid \<and> sn_expiresAt s > now \<and> session_user d s \<noteq> None) (sessions d) = Some s"
    "session_user d s = Some u" "user = (user_of_row u)\<lparr>us_ActiveTenantID := (case sn_active s of Some t \<Rightarrow> t | None \<Rightarrow> sn_tenant s),
       us_ImpersonationReason := sn_reason s, us_ImpersonationExpiresAt := sn_impersonationExpires s\<rparr>"
    using assms(1) by (auto simp: Get_def split: if_splits option.splits)
  note s = find_SomeD [OF f(1)] and u = find_SomeD [OF f(2) [unfolded session_user_def]]
  show ?thesis unfolding live_session_def
    by (rule exI [of _ sid], rule exI [of _ s], rule exI [of _ u]) (use s u assms(2) f(3) in \<open>simp add: tokenHash_def user_of_row_def\<close>)
qed

lemma AuthenticateRequest_live: "AuthenticateRequest e request now d = Some user \<Longrightarrow> live_session e request now d user"
  by (auto simp: AuthenticateRequest_def split: option.splits if_splits sum.splits intro: Get_live)

text \<open>What a log-in that succeeds has checked and stored.\<close>

lemma Login_success:
  assumes "Login e request d = ((cks, Message 200 m), d')"
  obtains body u sid csrf where "decodeJSON request login_fields = Some body"
    "find (\<lambda>u. ur_email u = TrimSpace (get_str body ''email'')) (users d) = Some u"
    "ur_status u = ''active''" "ae_bcrypt e (ur_password u) (get_str body ''password'')" "get_str body ''password'' \<noteq> []"
    "randomToken e 0 = Some sid" "cks = [session_cookie sid, csrf_cookie csrf]"
    "Create e sid (ur_id u) (ur_tenant u) csrf (ae_clock e 0 + 120 * minute) d = (Inr (), d')"
  using assms
  by (auto simp: Login_def FindByEmail_def invalidLogin_def internalError_def message_reply_def user_of_row_def
      split: option.splits if_splits sum.splits prod.splits)

text \<open>
  C31. A log-in gives a session: in a table without two users of one number or two sessions of one hash, and
  when sessions can be read, then if it answers 200 the request names the e-mail address of an active
  user and carries a password that matches the user's hash, the session cookie it sets authenticates exactly
  that user, under the user's own tenant, until the stored expiry 120 minutes later, and nobody afterwards;
  every other answer leaves the sessions as they were.
\<close>

theorem login_session:
  assumes "auth_ok d" "Login e request d = ((cks, reply), d')" "\<not> ae_fails e ''load browser session''"
  shows "if http_status reply = 200
    then \<exists>u sid body. u \<in> set (users d) \<and> ur_status u = ''active'' \<and> decodeJSON request login_fields = Some body
        \<and> ur_email u = TrimSpace (get_str body ''email'') \<and> ae_bcrypt e (ur_password u) (get_str body ''password'') \<and> session_cookie sid \<in> set cks
        \<and> (\<forall>now. Get e sid now d' =
            (if now < ae_column_time e (ae_clock e 0 + 120 * minute)
             then Inr ((user_of_row u)\<lparr>us_ActiveTenantID := ur_tenant u\<rparr>) else Inl ErrNotFound))
    else sessions d' = sessions d"
proof (cases "http_status reply = 200")
  case True
  then obtain m where m: "reply = Message 200 m"
    using assms(2) by (auto simp: Login_def invalidLogin_def internalError_def message_reply_def
        split: option.splits if_splits sum.splits prod.splits)
  from Login_success [OF assms(2) [unfolded m]] obtain body u sid csrf where l:
    "decodeJSON request login_fields = Some body"
    "find (\<lambda>u. ur_email u = TrimSpace (get_str body ''email'')) (users d) = Some u"
    "ur_status u = ''active''" "ae_bcrypt e (ur_password u) (get_str body ''password'')"
    "cks = [session_cookie sid, csrf_cookie csrf]"
    "Create e sid (ur_id u) (ur_tenant u) csrf (ae_clock e 0 + 120 * minute) d = (Inr (), d')" by metis
  let ?s = "\<lparr>sn_idHash = tokenHash e sid, sn_userId = ur_id u, sn_tenant = ur_tenant u,
               sn_csrfHash = tokenHash e csrf, sn_active = None, sn_reason = None,
               sn_impersonationExpires = None, sn_expiresAt = ae_column_time e (ae_clock e 0 + 120 * minute)\<rparr>"
  have d': "d' = d\<lparr>sessions := sessions d @ [?s]\<rparr>" using l(6) by (auto simp: Create_def split: if_splits)
  have ok: "auth_ok d'" using Create_ok [OF assms(1)] l(6) by (metis snd_conv)
  have u: "u \<in> set (users d)" using find_SomeD [OF l(2)] by simp
  have "session_user d' ?s = Some u"
    unfolding session_user_def using u l(3) assms(1) d' by (intro find_unique [of ur_id]) (auto simp: auth_ok_def)
  then have "Get e sid now d' = (if now < ae_column_time e (ae_clock e 0 + 120 * minute)
      then Inr ((user_of_row u)\<lparr>us_ActiveTenantID := ur_tenant u\<rparr>) else Inl ErrNotFound)" for now
    using Get_row [OF ok, of ?s e sid now] assms(3) d' by (simp add: user_of_row_def)
  then have "u \<in> set (users d) \<and> ur_status u = ''active'' \<and> decodeJSON request login_fields = Some body
        \<and> ur_email u = TrimSpace (get_str body ''email'') \<and> ae_bcrypt e (ur_password u) (get_str body ''password'') \<and> session_cookie sid \<in> set cks
        \<and> (\<forall>now. Get e sid now d' =
            (if now < ae_column_time e (ae_clock e 0 + 120 * minute)
             then Inr ((user_of_row u)\<lparr>us_ActiveTenantID := ur_tenant u\<rparr>) else Inl ErrNotFound))"
    using u l find_SomeD [OF l(2)] by simp
  then show ?thesis unfolding True by (simp only: if_True simp_thms) blast
next
  case False
  then show ?thesis using assms(2)
    by (auto simp: Login_def Create_def split: option.splits if_splits sum.splits prod.splits)
qed

text \<open>Fixtures: one superadministrator of tenant 1, two tenants, and a request that logs in.\<close>

definition aenv0 :: auth_env where
  "aenv0 = \<lparr>ae_fails = (\<lambda>_. False), ae_draw = (\<lambda>k. Some (replicate 32 k)), ae_sha256 = map of_char,
     ae_bcrypt = (\<lambda>h p. h = p), ae_column_time = (\<lambda>t. t), ae_clock = (\<lambda>_. 0)\<rparr>"

definition adb0 :: auth_db where
  "adb0 = \<lparr>users = [\<lparr>ur_id = 5, ur_tenant = 1, ur_name = ''n'', ur_email = ''m'', ur_role = 1,
       ur_password = ''p'', ur_status = ''active''\<rparr>], sessions = [], customers = [1, 2], switch_audits = []\<rparr>"

definition request0 :: http_request where
  "request0 = \<lparr>rq_cookie = None, rq_tenant = None, rq_keys = [], rq_path = (\<lambda>_. ''2''), rq_header = (\<lambda>_. []), rq_query = (\<lambda>_. []),
     rq_body = BDoc (JObj [(''email'', JStr ''m''), (''password'', JStr ''p'')]), rq_sourceIP = []\<rparr>"

definition adb1 :: auth_db where
  "adb1 = snd (Login aenv0 request0 adb0)"

definition sid0 :: string where
  "sid0 = hex_encode (replicate 32 0)"

lemma auth_ok_adb0: "auth_ok adb0"
  by (simp add: adb0_def auth_ok_def)

theorem login_session_witness:
  "http_status (snd (fst (Login aenv0 request0 adb0))) = 200 \<and> (\<exists>sid u. Get aenv0 sid 5 adb1 = Inr u)"
proof -
  have s: "http_status (snd (fst (Login aenv0 request0 adb0))) = 200" by code_simp
  have l: "Login aenv0 request0 adb0 = ((fst (fst (Login aenv0 request0 adb0)), snd (fst (Login aenv0 request0 adb0))), adb1)"
    by (simp add: adb1_def)
  have "\<not> ae_fails aenv0 ''load browser session''" "5 < ae_column_time aenv0 (ae_clock aenv0 0 + 120 * minute)"
    by (simp_all add: aenv0_def)
  with login_session [OF auth_ok_adb0 l] s obtain sid u where
    "\<forall>now. Get aenv0 sid now adb1 = (if now < ae_column_time aenv0 (ae_clock aenv0 0 + 120 * minute)
       then Inr ((user_of_row u)\<lparr>us_ActiveTenantID := ur_tenant u\<rparr>) else Inl ErrNotFound)" by auto
  then have "Get aenv0 sid 5 adb1 = Inr ((user_of_row u)\<lparr>us_ActiveTenantID := ur_tenant u\<rparr>)"
    using \<open>5 < ae_column_time aenv0 (ae_clock aenv0 0 + 120 * minute)\<close> by simp
  then show ?thesis using s by blast
qed

text \<open>
  A log-out ends the session: when it answers 204, no later request with that cookie is
  authenticated, at any time, and the sessions of other cookies are untouched.
\<close>

lemma logout_ends_session:
  assumes "Logout e request d = ((cks, Value 204 ()), d')"
  shows "\<exists>sid. rq_cookie request = Some sid \<and> cks = expired_cookies \<and> (\<forall>now. \<exists>x. Get e sid now d' = Inl x)
    \<and> sessions d' = filter (\<lambda>s. sn_idHash s \<noteq> tokenHash e sid) (sessions d)"
proof -
  obtain sid where sid: "rq_cookie request = Some sid" "cks = expired_cookies"
    "sessions d' = filter (\<lambda>s. sn_idHash s \<noteq> tokenHash e sid) (sessions d)"
    using assms by (auto simp: Logout_def Delete_def Let_def unauthorized_def internalError_def
        split: option.splits if_splits sum.splits prod.splits)
  then show ?thesis using Get_none [of d' e sid] by auto
qed

lemma logout_ends_session_witness:
  "\<exists>x. Get aenv0 sid0 0 (snd (Logout aenv0 (request0\<lparr>rq_cookie := Some sid0\<rparr>) adb1)) = Inl x"
proof -
  let ?l = "Logout aenv0 (request0\<lparr>rq_cookie := Some sid0\<rparr>) adb1"
  have "snd (fst ?l) = Value 204 ()" by code_simp
  then have "?l = ((fst (fst ?l), Value 204 ()), snd ?l)" by (metis prod.collapse)
  from logout_ends_session [OF this] show ?thesis by (auto simp: request0_def)
qed

section \<open>Switching the tenant\<close>

lemma authenticatedSession_Get:
  assumes "authenticatedSession e request d = Inr (user, sid)"
  shows "Get e sid (ae_clock e 0) d = Inr user"
  using assms by (auto simp: authenticatedSession_def split: option.splits if_splits sum.splits)

lemma perform_switch_sessions:
  assumes "perform_switch e request user sid target reason expiresText expiresAt d = (sent, d')" "sessions d' \<noteq> sessions d"
  shows "sessions d' = upd_rows (\<lambda>s. sn_idHash s = tokenHash e sid \<and> sn_userId s = us_ID user
            \<and> sn_tenant s = us_TenantID user \<and> sn_expiresAt s > ae_clock e 1)
          (\<lambda>s. s\<lparr>sn_active := Some target, sn_reason := Some reason,
             sn_impersonationExpires := Some (ae_column_time e expiresAt)\<rparr>) (sessions d)"
  using assms
  by (auto simp: perform_switch_def SwitchTenant_def RecordTenantSwitch_def switch_addresses_def [abs_def] Let_def
      split: if_splits)

text \<open>
  C30. Only a superadministrator switches to another tenant: a request to change the customer that changes
  the session table is one of a live session of a user of role 1, names an existing customer, and changes
  nothing but the active tenant, reason and expiry of the session row that its own cookie names; the new
  active tenant is that customer, and the expiry that is stored is in the future.
\<close>

theorem tenant_switch_guard:
  assumes "ChangeCustomer e request d = (sent, d')" "sessions d' \<noteq> sessions d"
  shows "\<exists>user sid target reason expires. rq_cookie request = Some sid \<and> live_session e request (ae_clock e 0) d user \<and> us_Role user = 1
    \<and> parsePathID (rq_path request ''idCostumer'') = Some target \<and> target \<in> set (customers d) \<and> ae_clock e 1 < expires
    \<and> sessions d' = upd_rows (\<lambda>s. sn_idHash s = hex_encode (ae_sha256 e sid) \<and> sn_userId s = us_ID user
            \<and> sn_tenant s = us_TenantID user \<and> sn_expiresAt s > ae_clock e 1)
          (\<lambda>s. s\<lparr>sn_active := Some target, sn_reason := Some reason, sn_impersonationExpires := Some (ae_column_time e expires)\<rparr>) (sessions d)"
proof -
  obtain user sid where a: "authenticatedSession e request d = (Inr (user, sid) :: unit sent + User \<times> string)"
    using assms by (auto simp: ChangeCustomer_def split: sum.splits)
  then have cookie: "rq_cookie request = Some sid" by (auto simp: authenticatedSession_def split: option.splits if_splits sum.splits)
  have future: "parseFutureTime v now = Some t \<Longrightarrow> now < t" for v now t
    by (auto simp: parseFutureTime_def split: option.splits if_splits)
  have "\<exists>target reason expiresText expiresAt. us_Role user = 1
      \<and> parsePathID (rq_path request ''idCostumer'') = Some target \<and> target \<in> set (customers d) \<and> ae_clock e 1 < expiresAt
      \<and> perform_switch e request user sid target reason expiresText expiresAt d = (sent, d')"
    using assms a future
    by (simp add: ChangeCustomer_def CustomerExists_def Let_def split: option.splits if_splits) blast+
  then obtain target reason expiresText expiresAt where t: "us_Role user = 1"
    "parsePathID (rq_path request ''idCostumer'') = Some target" "target \<in> set (customers d)" "ae_clock e 1 < expiresAt"
    "perform_switch e request user sid target reason expiresText expiresAt d = (sent, d')" by blast
  have "sessions d' = upd_rows (\<lambda>s. sn_idHash s = hex_encode (ae_sha256 e sid) \<and> sn_userId s = us_ID user
            \<and> sn_tenant s = us_TenantID user \<and> sn_expiresAt s > ae_clock e 1)
          (\<lambda>s. s\<lparr>sn_active := Some target, sn_reason := Some reason,
             sn_impersonationExpires := Some (ae_column_time e expiresAt)\<rparr>) (sessions d)"
    using perform_switch_sessions [OF t(5) assms(2)] unfolding tokenHash_def .
  then show ?thesis using Get_live [OF authenticatedSession_Get [OF a] cookie] cookie t(1-4) by blast
qed

definition switch_request :: http_request where
  "switch_request = request0\<lparr>rq_cookie := Some sid0, rq_body := BDoc (JObj [(''expiresAt'', JStr ''1970-01-01T02:00:00Z'')])\<rparr>"

definition user0 :: User where
  "user0 = (user_of_row (hd (users adb0)))\<lparr>us_ActiveTenantID := 1\<rparr>"

theorem tenant_switch_guard_witness:
  "\<exists>user. live_session aenv0 switch_request 0 adb1 user \<and> us_Role user = 1"
proof -
  let ?c = "ChangeCustomer aenv0 switch_request adb1"
  have auth: "authenticatedSession aenv0 switch_request adb1 = (Inr (user0, sid0) :: unit sent + User \<times> string)" by code_simp
  have role: "us_Role user0 = 1" by code_simp
  have target: "parsePathID (rq_path switch_request ''idCostumer'') = Some 2" by code_simp
  have customer: "CustomerExists aenv0 2 adb1 = Inr True" by code_simp
  have time: "parseFutureTime ''1970-01-01T02:00:00Z'' (ae_clock aenv0 1) = Some (2 * hour)" by code_simp
  have body: "decodeJSON switch_request [(''reason'', KStr), (''expiresAt'', KStr)]
      = Some [''expiresAt'' \<mapsto> JStr ''1970-01-01T02:00:00Z'']"
    by (simp add: decodeJSON_def switch_request_def decode_struct_def decode_entry_def field_for_def)
  have txts: "get_str [''expiresAt'' \<mapsto> JStr ''1970-01-01T02:00:00Z''] ''expiresAt'' = ''1970-01-01T02:00:00Z''"
    "TrimSpace ''1970-01-01T02:00:00Z'' \<noteq> []" by (simp add: get_str_def, code_simp)
  have "?c = perform_switch aenv0 switch_request user0 sid0 2 (TrimSpace (if TrimSpace (get_str [''expiresAt'' \<mapsto>
      JStr ''1970-01-01T02:00:00Z''] ''reason'') = [] then ''customer-switch''
      else get_str [''expiresAt'' \<mapsto> JStr ''1970-01-01T02:00:00Z''] ''reason'')) ''1970-01-01T02:00:00Z'' (2 * hour) adb1"
    unfolding ChangeCustomer_def auth target body using role customer time txts by (simp add: Let_def)
  moreover have "map sn_active (sessions (snd (perform_switch aenv0 switch_request user0 sid0 2 reason ''1970-01-01T02:00:00Z''
      (2 * hour) adb1))) \<noteq> map sn_active (sessions adb1)" for reason by code_simp
  ultimately have "sessions (snd ?c) \<noteq> sessions adb1" by metis
  from tenant_switch_guard [OF prod.collapse [symmetric] this] show ?thesis by (auto simp: aenv0_def)
qed

lemma switched_row:
  assumes "auth_ok d" "SwitchTenant e sw d = (Inr (), d')"
  obtains s where "s \<in> set (sessions d')" "sn_idHash s = tokenHash e (tsw_SessionID sw)" "sn_userId s = tsw_UserID sw"
    "sn_tenant s = tsw_ActorTenant sw" "sn_active s = Some (tsw_ActiveTenant sw)"
    "sn_impersonationExpires s = Some (ae_column_time e (tsw_ExpiresAt sw))" "tsw_Now sw < sn_expiresAt s" "users d' = users d"
  using assms
  by (fastforce simp: SwitchTenant_def Let_def list_ex_iff switch_addresses_def set_upd_rows split: if_splits)

text \<open>
  The expiry of a switch is stored and shown but never applied: after a switch, every request
  with the session's cookie, for as long as the session itself lives, acts for the target tenant,
  also when the expiry of the switch has passed.
\<close>

lemma switch_outlives_expiry:
  assumes "auth_ok d" "SwitchTenant e sw d = (Inr (), d')" "0 < tsw_ActiveTenant sw"
    and "\<not> ae_fails e ''load browser session''"
    and "Get e (tsw_SessionID sw) now d' = Inr user"
  shows "ActiveTenant user = tsw_ActiveTenant sw
    \<and> us_ImpersonationExpiresAt user = Some (ae_column_time e (tsw_ExpiresAt sw))"
proof -
  obtain s where s: "s \<in> set (sessions d')" "sn_idHash s = tokenHash e (tsw_SessionID sw)"
    "sn_active s = Some (tsw_ActiveTenant sw)" "sn_impersonationExpires s = Some (ae_column_time e (tsw_ExpiresAt sw))"
    using switched_row [OF assms(1,2)] by metis
  have "auth_ok d'" using SwitchTenant_ok [OF assms(1), of e sw] assms(2) by simp
  from Get_row [OF this s(1,2) assms(4), of now] assms(3,5) s(3,4) show ?thesis
    by (auto simp: ActiveTenant_def user_of_row_def split: if_splits option.splits)
qed

text \<open>A switch of the fixture's session that expires at one second.\<close>

definition switch0 :: TenantSwitch where
  "switch0 = \<lparr>tsw_SessionID = sid0, tsw_UserID = 5, tsw_ActorTenant = 1, tsw_ActiveTenant = 2,
     tsw_Reason = ''r'', tsw_ExpiresAt = second, tsw_Now = 0\<rparr>"

lemma switch_outlives_expiry_witness:
  "\<exists>user. Get aenv0 sid0 (60 * second) (snd (SwitchTenant aenv0 switch0 adb1)) = Inr user
     \<and> ActiveTenant user = 2 \<and> us_ImpersonationExpiresAt user = Some second"
proof -
  let ?d = "snd (SwitchTenant aenv0 switch0 adb1)"
  have ok: "auth_ok adb1" using auth_ok_adb0 by code_simp
  have "fst (SwitchTenant aenv0 switch0 adb1) = Inr ()" by code_simp
  then have sw: "SwitchTenant aenv0 switch0 adb1 = (Inr (), ?d)" by (metis prod.collapse)
  have "\<not> isl (Get aenv0 sid0 (60 * second) ?d)" by code_simp
  then obtain user where g: "Get aenv0 (tsw_SessionID switch0) (60 * second) ?d = Inr user"
    by (metis isl_def obj_sumE switch0_def TenantSwitch.select_convs(1))
  from switch_outlives_expiry [OF ok sw _ _ g] show ?thesis using g by (auto simp: switch0_def aenv0_def)
qed

end
