(* ===== verification/RunHandlers.thy ===== *)
theory RunHandlers
  imports ParallelRuns Sessions
begin

text \<open>
  The HTTP handlers of parallel runs (internal/browserauth/parallel_runs.go): the browser surface
  authenticates a session, the API-key surface takes the tenant that the key middleware put into the
  request, and the runner surface takes its identifiers from the body. Each handler returns what it
  sends and the state after it.
\<close>

section \<open>Configuration, state and values\<close>

record run_handler =
  rh_requireToken :: bool
  rh_tokenTTL :: int
  rh_clock :: "nat \<Rightarrow> instant"

text \<open>\<open>NewHandler\<close>: the two environment variables it reads. A lifetime is a \<open>time.Duration\<close> of 64 bits.\<close>

definition NewHandler :: "(string \<Rightarrow> string) \<Rightarrow> (nat \<Rightarrow> instant) \<Rightarrow> run_handler" where
  "NewHandler getenv clock =
     \<lparr>rh_requireToken = (\<not> EqualFold (TrimSpace (getenv ''IDELIUM_RUN_TOKEN_REQUIRED_FOR_CLAIM'')) ''false''),
      rh_tokenTTL = (case ParseInt (getenv ''IDELIUM_RUN_TOKEN_TTL_SECONDS'') of
                       Some seconds \<Rightarrow> if seconds > 0 then wrap64 (seconds * second) else 300 * second
                     | None \<Rightarrow> 300 * second),
      rh_clock = clock\<rparr>"

record app =
  ap_runs :: db
  ap_auth :: auth_db

datatype run_value =
    VRun ParallelRun
  | VRuns "ParallelRun list"
  | VResults ParallelRun
  | VInactive ParallelRun string
  | VIssued RunTokenIssued
  | VRevoked "string \<times> string"
  | VMatrix "ParallelRun list" nat nat

type_synonym run_reply = "run_value reply"

definition terminalReply :: run_reply where
  "terminalReply = message_reply 422 ''Parallel run is already terminal.''"

definition cancellingReply :: run_reply where
  "cancellingReply = message_reply 409 ''Parallel run is cancelling.''"

section \<open>The three surfaces\<close>

definition session_surface :: "auth_env \<Rightarrow> http_request \<Rightarrow> (User \<Rightarrow> db \<Rightarrow> run_reply \<times> db) \<Rightarrow> app \<Rightarrow> run_value sent \<times> app" where
  "session_surface ae request f a =
     (case authenticatedUser ae request (ap_auth a) of
        Inl s \<Rightarrow> (s, a)
      | Inr user \<Rightarrow> (case f user (ap_runs a) of (reply, d) \<Rightarrow> (([], reply), a\<lparr>ap_runs := d\<rparr>)))"

definition key_surface :: "http_request \<Rightarrow> (int \<Rightarrow> db \<Rightarrow> run_reply \<times> db) \<Rightarrow> db \<Rightarrow> run_reply \<times> db" where
  "key_surface request f d = (case rq_tenant request of None \<Rightarrow> (unauthorized, d) | Some tenant \<Rightarrow> f tenant d)"

section \<open>Reads\<close>

definition read_run :: "env \<Rightarrow> (ParallelRun \<Rightarrow> run_value) \<Rightarrow> http_request \<Rightarrow> int \<Rightarrow> db \<Rightarrow> run_reply \<times> db" where
  "read_run e view request tenant d =
     (case parseAssetVersionPath request ''parallelRun'' of
        Inl reply \<Rightarrow> (reply, d)
      | Inr (projectID, runID) \<Rightarrow>
          (case GetParallelRun e tenant projectID runID d of
             Inl x \<Rightarrow> (if x = ErrNotFound then notFound else internalError, d)
           | Inr run \<Rightarrow> (Value 200 (view run), d)))"

definition results :: "env \<Rightarrow> http_request \<Rightarrow> int \<Rightarrow> db \<Rightarrow> run_reply \<times> db" where
  "results e = read_run e VResults"

definition showParallelRun :: "env \<Rightarrow> http_request \<Rightarrow> int \<Rightarrow> db \<Rightarrow> run_reply \<times> db" where
  "showParallelRun e = read_run e VRun"

definition list_filters :: "http_request \<Rightarrow> string gomap" where
  "list_filters request =
     filter (\<lambda>(field, value). value \<noteq> []) (map (\<lambda>field. (field, rq_query request field)) run_fields)"

definition listParallelRuns :: "env \<Rightarrow> http_request \<Rightarrow> int \<Rightarrow> db \<Rightarrow> run_reply \<times> db" where
  "listParallelRuns e request tenant d =
     (case parsePathID (rq_path request ''idProject'') of
        None \<Rightarrow> (notFound, d)
      | Some projectID \<Rightarrow>
          (case ListParallelRuns e tenant projectID (list_filters request) d of
             Inl x \<Rightarrow> (if x = ErrNotFound then notFound else internalError, d)
           | Inr runs \<Rightarrow> (Value 200 (VRuns runs), d)))"

section \<open>Creation\<close>

definition maxMatrixRuns :: nat where "maxMatrixRuns = 64"

definition create_fields :: field_types where
  "create_fields = [(''testCycleId'', KInt), (''idempotencyKey'', KStr), (''requestedConcurrency'', KInt),
     (''metadata'', KMap), (''matrix'', KMatrix)]"

definition writeParallelRun :: "err + ParallelRun \<Rightarrow> run_reply" where
  "writeParallelRun result =
     (case result of
        Inl x \<Rightarrow> if x = ErrNotFound then notFound else internalError
      | Inr run \<Rightarrow> Value 201 (VRun run))"

definition launch_matrix :: "env \<Rightarrow> ParallelRunCreate \<Rightarrow> (json list) gomap option \<Rightarrow> db \<Rightarrow> run_reply \<times> db" where
  "launch_matrix e input matrix d =
     (case matrix of
        None \<Rightarrow> (validationError ''matrix'' ''The matrix field must be present.'', d)
      | Some axes \<Rightarrow>
          (case matrixCombinations axes of (combinations, invalid) \<Rightarrow>
             if invalid then (validationError ''matrix'' ''The matrix axes must contain no more than 16 values.'', d)
             else if combinations = [] then (message_reply 422 ''At least one matrix axis value is required.'', d)
             else if length combinations > maxMatrixRuns
             then (Message 422 [(''message'', JStr ''Matrix launch exceeds the maximum number of generated runs.''),
                     (''maximumRuns'', JNum (int maxMatrixRuns)), (''requestedRuns'', JNum (int (length combinations)))], d)
             else (case CreateParallelRunMatrix e input combinations d of
                     (Inl x, d') \<Rightarrow> (if x = ErrNotFound then notFound else internalError, d')
                   | (Inr runs, d') \<Rightarrow> (Value 201 (VMatrix runs (length combinations) (length runs)), d'))))"

definition createParallelRun :: "env \<Rightarrow> run_handler \<Rightarrow> bool \<Rightarrow> http_request \<Rightarrow> int \<Rightarrow> db \<Rightarrow> run_reply \<times> db" where
  "createParallelRun e h matrix request tenant d =
     (case parsePathID (rq_path request ''idProject'') of
        None \<Rightarrow> (notFound, d)
      | Some projectID \<Rightarrow> (case decodeJSON request create_fields of
          None \<Rightarrow> (NoReply, d)
        | Some body \<Rightarrow>
            let keyLimit = (if matrix then 96 else 128);
                key = get_str body ''idempotencyKey'';
                concurrency = (if get_int body ''requestedConcurrency'' = 0 then 1 else get_int body ''requestedConcurrency'')
            in if get_int body ''testCycleId'' < 1 \<or> TrimSpace key = [] \<or> length key > keyLimit
               then (validationErrors [(''testCycleId'', ''The test cycle id field is required.''),
                       (''idempotencyKey'', ''The idempotency key field is invalid.'')], d)
               else if concurrency < 1 \<or> concurrency > 32
               then (validationError ''requestedConcurrency'' ''The requested concurrency field must be between 1 and 32.'', d)
               else let input = \<lparr>pc_TenantID = tenant, pc_ProjectID = projectID, pc_TestCycleID = get_int body ''testCycleId'',
                          pc_IdempotencyKey = TrimSpace key, pc_RequestedConcurrency = concurrency,
                          pc_Metadata = normalizeRunMetadata (get_map body ''metadata''), pc_Now = rh_clock h 0\<rparr>
                    in if \<not> matrix
                       then (case CreateParallelRun e input d of (result, d') \<Rightarrow> (writeParallelRun result, d'))
                       else launch_matrix e input (get_matrix body ''matrix'') d))"

section \<open>Claims\<close>

definition tokenRequiredReply :: run_reply where
  "tokenRequiredReply = message_reply 401 ''A short-lived run token is required to claim a worker slot.''"

definition claim_error :: "err \<Rightarrow> run_reply" where
  "claim_error x =
     (case x of
        ErrNotFound \<Rightarrow> notFound
      | ErrRunTokenInvalid \<Rightarrow> validationError ''runToken'' ''The run token is invalid, expired, used, or not bound to this agent.''
      | ErrAgentProofInvalid \<Rightarrow> message_reply 401 ''Agent identity proof is invalid for this run ownership request.''
      | AgentUnavailableError status health \<Rightarrow>
          Message 409 [(''message'', JStr ''Agent is not approved and healthy for new run ownership.''),
            (''agentStatus'', JStr status), (''agentHealth'', JStr health)]
      | ErrParallelRunConcurrency \<Rightarrow> message_reply 409 ''Concurrency limit reached.''
      | ErrParallelRunCancelling \<Rightarrow> cancellingReply
      | ErrParallelRunTerminal \<Rightarrow> terminalReply
      | _ \<Rightarrow> internalError)"

text \<open>
  The capabilities of a claim: absent, an array, or (\<open>Inl\<close>) anything else, \<open>null\<close> included.
\<close>

definition raw_capabilities :: "decoded \<Rightarrow> unit + json list option" where
  "raw_capabilities body = (case body ''capabilities'' of
     None \<Rightarrow> Inr None | Some (JArr xs) \<Rightarrow> Inr (Some xs) | Some _ \<Rightarrow> Inl ())"

definition claimParallelRun :: "env \<Rightarrow> run_handler \<Rightarrow> http_request \<Rightarrow> int \<Rightarrow> User option \<Rightarrow> db \<Rightarrow> run_reply \<times> db" where
  "claimParallelRun e h request tenant actor d =
     (case parseAssetVersionPath request ''parallelRun'' of
        Inl reply \<Rightarrow> (reply, d)
      | Inr (projectID, runID) \<Rightarrow> (case decodeJSON request [(''workerId'', KStr), (''capabilities'', KRaw)] of
          None \<Rightarrow> (NoReply, d)
        | Some body \<Rightarrow>
            let workerID = TrimSpace (get_str body ''workerId''); runToken = rq_header request ''Idelium-Run-Token''
            in if workerID = [] \<or> length workerID > 128
               then (validationError ''workerId'' ''The worker id field is invalid.'', d)
               else if rh_requireToken h \<and> runToken = [] then (tokenRequiredReply, d)
               else (case raw_capabilities body of
                 Inl _ \<Rightarrow> (validationError ''capabilities'' ''The capabilities field must be an array.'', d)
               | Inr capabilities \<Rightarrow>
                   (case ClaimParallelRun e
                      \<lparr>cl_TenantID = tenant, cl_ActorUserID = map_option us_ID actor,
                       cl_ActorTenantID = (case actor of None \<Rightarrow> tenant | Some u \<Rightarrow> us_TenantID u),
                       cl_ProjectID = projectID, cl_RunID = runID, cl_WorkerID = workerID,
                       cl_Capabilities = (case capabilities of None \<Rightarrow> [] | Some xs \<Rightarrow> xs),
                       cl_CapabilitiesSet = (capabilities \<noteq> None), cl_RunToken = runToken,
                       cl_CertificateHash = rq_header request ''Idelium-Agent-Cert-Sha256'',
                       cl_IssueWorkerToken = False, cl_Now = rh_clock h 0\<rparr> d of
                      (Inl x, d') \<Rightarrow> (claim_error x, d')
                    | (Inr run, d') \<Rightarrow> (Value 200 (VRun run), d')))))"

section \<open>Worker updates, heartbeats and cancellation\<close>

definition validWorkerStatus :: "string \<Rightarrow> bool" where
  "validWorkerStatus s \<longleftrightarrow> s = ''running'' \<or> s = ''completed'' \<or> s = ''failed'' \<or> s = ''cancelled'' \<or> s = ''lost''"

definition invalidStatusReply :: run_reply where
  "invalidStatusReply = validationError ''status'' ''The worker status is invalid.''"

definition updateWorker :: "env \<Rightarrow> run_handler \<Rightarrow> http_request \<Rightarrow> int \<Rightarrow> db \<Rightarrow> run_reply \<times> db" where
  "updateWorker e h request tenant d =
     (case parseAssetVersionPath request ''parallelRun'' of
        Inl reply \<Rightarrow> (reply, d)
      | Inr (projectID, runID) \<Rightarrow>
          let workerID = TrimSpace (rq_path request ''workerId'')
          in if workerID = [] \<or> length workerID > 128 then (notFound, d)
             else (case decodeJSON request [(''status'', KStr), (''result'', KAny)] of
               None \<Rightarrow> (invalidStatusReply, d)
             | Some body \<Rightarrow>
                 if \<not> validWorkerStatus (get_str body ''status'') then (invalidStatusReply, d)
                 else (case UpdateRunnerWorker e \<lparr>up_TenantID = tenant, up_ProjectID = projectID, up_RunID = runID,
                         up_WorkerID = workerID, up_Status = get_str body ''status'', up_Result = get_any body ''result'',
                         up_Now = rh_clock h 0\<rparr> d of
                   (Inl x, d') \<Rightarrow>
                     ((if x = ErrNotFound \<or> x = ErrParallelWorkerMissing then notFound
                       else if x = ErrParallelRunTerminal then terminalReply
                       else if x = ErrParallelRunCancelling then cancellingReply
                       else internalError), d')
                 | (Inr run, d') \<Rightarrow> (Value 200 (VRun run), d'))))"

definition heartbeat_reply :: "ParallelRunHeartbeat \<Rightarrow> run_reply" where
  "heartbeat_reply hb =
     (if hb_WorkerStatus hb \<noteq> [] then Value 409 (VInactive (hb_Run hb) (hb_WorkerStatus hb))
      else Value 200 (VRun (hb_Run hb)))"

text \<open>The lease asked for: an absent body counts as an empty one; \<open>None\<close> is an error of the decoder.\<close>

definition asked_lease :: "http_request \<Rightarrow> int option" where
  "asked_lease request =
     (if rq_body request = BEOF then Some 120
      else case decodeJSON request [(''leaseSeconds'', KIntPtr)] of
             None \<Rightarrow> None
           | Some body \<Rightarrow> Some (case get_intptr body ''leaseSeconds'' of None \<Rightarrow> 120 | Some n \<Rightarrow> n))"

definition leaseRangeReply :: run_reply where
  "leaseRangeReply = validationError ''leaseSeconds'' ''The lease seconds field must be between 15 and 3600.''"

definition heartbeatParallelRunWorker :: "env \<Rightarrow> run_handler \<Rightarrow> http_request \<Rightarrow> int \<Rightarrow> db \<Rightarrow> run_reply \<times> db" where
  "heartbeatParallelRunWorker e h request tenant d =
     (case parseAssetVersionPath request ''parallelRun'' of
        Inl reply \<Rightarrow> (reply, d)
      | Inr (projectID, runID) \<Rightarrow>
          let workerID = rq_path request ''workerId''
          in if workerID = [] \<or> length workerID > 128 then (notFound, d)
             else (case asked_lease request of
               None \<Rightarrow> (validationError ''leaseSeconds'' ''The lease seconds field must be an integer.'', d)
             | Some leaseSeconds \<Rightarrow>
                 if leaseSeconds < 15 \<or> leaseSeconds > 3600 then (leaseRangeReply, d)
                 else (case HeartbeatParallelRunWorker e tenant projectID runID workerID leaseSeconds (rh_clock h 0) d of
                   (Inl x, d') \<Rightarrow>
                     ((if x = ErrParallelWorkerMissing then message_reply 404 ''Worker has not claimed this run.''
                       else if x = ErrNotFound then notFound
                       else if x = ErrParallelRunTerminal then terminalReply
                       else internalError), d')
                 | (Inr hb, d') \<Rightarrow> (heartbeat_reply hb, d'))))"

definition cancelParallelRun :: "env \<Rightarrow> run_handler \<Rightarrow> http_request \<Rightarrow> int \<Rightarrow> db \<Rightarrow> run_reply \<times> db" where
  "cancelParallelRun e h request tenant d =
     (case parseAssetVersionPath request ''parallelRun'' of
        Inl reply \<Rightarrow> (reply, d)
      | Inr (projectID, runID) \<Rightarrow>
          (case CancelParallelRun e tenant projectID runID (rh_clock h 0) d of
             (Inl x, d') \<Rightarrow>
               ((if x = ErrNotFound then notFound else if x = ErrParallelRunTerminal then terminalReply else internalError), d')
           | (Inr run, d') \<Rightarrow> (Value 200 (VRun run), d')))"

section \<open>The browser surface\<close>

definition Results :: "auth_env \<Rightarrow> env \<Rightarrow> http_request \<Rightarrow> app \<Rightarrow> run_value sent \<times> app" where
  "Results ae e request = session_surface ae request (\<lambda>user. results e request (ActiveTenant user))"

definition UpdateParallelRunWorker :: "auth_env \<Rightarrow> env \<Rightarrow> run_handler \<Rightarrow> http_request \<Rightarrow> app \<Rightarrow> run_value sent \<times> app" where
  "UpdateParallelRunWorker ae e h request = session_surface ae request (\<lambda>user. updateWorker e h request (ActiveTenant user))"

definition ParallelRuns :: "auth_env \<Rightarrow> env \<Rightarrow> http_request \<Rightarrow> app \<Rightarrow> run_value sent \<times> app" where
  "ParallelRuns ae e request = session_surface ae request (\<lambda>user. listParallelRuns e request (ActiveTenant user))"

definition BrowserCreateParallelRun :: "auth_env \<Rightarrow> env \<Rightarrow> run_handler \<Rightarrow> http_request \<Rightarrow> app \<Rightarrow> run_value sent \<times> app" where
  "BrowserCreateParallelRun ae e h request =
     session_surface ae request (\<lambda>user. createParallelRun e h False request (ActiveTenant user))"

definition BrowserCreateParallelRunMatrix :: "auth_env \<Rightarrow> env \<Rightarrow> run_handler \<Rightarrow> http_request \<Rightarrow> app \<Rightarrow> run_value sent \<times> app" where
  "BrowserCreateParallelRunMatrix ae e h request =
     session_surface ae request (\<lambda>user. createParallelRun e h True request (ActiveTenant user))"

definition ShowParallelRun :: "auth_env \<Rightarrow> env \<Rightarrow> http_request \<Rightarrow> app \<Rightarrow> run_value sent \<times> app" where
  "ShowParallelRun ae e request = session_surface ae request (\<lambda>user. showParallelRun e request (ActiveTenant user))"

definition BrowserClaimParallelRun :: "auth_env \<Rightarrow> env \<Rightarrow> run_handler \<Rightarrow> http_request \<Rightarrow> app \<Rightarrow> run_value sent \<times> app" where
  "BrowserClaimParallelRun ae e h request =
     session_surface ae request (\<lambda>user. claimParallelRun e h request (ActiveTenant user) (Some user))"

definition BrowserHeartbeatParallelRunWorker :: "auth_env \<Rightarrow> env \<Rightarrow> run_handler \<Rightarrow> http_request \<Rightarrow> app \<Rightarrow> run_value sent \<times> app" where
  "BrowserHeartbeatParallelRunWorker ae e h request =
     session_surface ae request (\<lambda>user. heartbeatParallelRunWorker e h request (ActiveTenant user))"

definition BrowserCancelParallelRun :: "auth_env \<Rightarrow> env \<Rightarrow> run_handler \<Rightarrow> http_request \<Rightarrow> app \<Rightarrow> run_value sent \<times> app" where
  "BrowserCancelParallelRun ae e h request =
     session_surface ae request (\<lambda>user. cancelParallelRun e h request (ActiveTenant user))"

section \<open>The API-key surface\<close>

definition CLResults :: "env \<Rightarrow> http_request \<Rightarrow> db \<Rightarrow> run_reply \<times> db" where
  "CLResults e request = key_surface request (results e request)"

definition CLUpdateParallelRunWorker :: "env \<Rightarrow> run_handler \<Rightarrow> http_request \<Rightarrow> db \<Rightarrow> run_reply \<times> db" where
  "CLUpdateParallelRunWorker e h request = key_surface request (updateWorker e h request)"

definition CLParallelRuns :: "env \<Rightarrow> http_request \<Rightarrow> db \<Rightarrow> run_reply \<times> db" where
  "CLParallelRuns e request = key_surface request (listParallelRuns e request)"

definition CLCreateParallelRun :: "env \<Rightarrow> run_handler \<Rightarrow> http_request \<Rightarrow> db \<Rightarrow> run_reply \<times> db" where
  "CLCreateParallelRun e h request = key_surface request (createParallelRun e h False request)"

definition CLCreateParallelRunMatrix :: "env \<Rightarrow> run_handler \<Rightarrow> http_request \<Rightarrow> db \<Rightarrow> run_reply \<times> db" where
  "CLCreateParallelRunMatrix e h request = key_surface request (createParallelRun e h True request)"

definition CLShowParallelRun :: "env \<Rightarrow> http_request \<Rightarrow> db \<Rightarrow> run_reply \<times> db" where
  "CLShowParallelRun e request = key_surface request (showParallelRun e request)"

definition CLClaimParallelRun :: "env \<Rightarrow> run_handler \<Rightarrow> http_request \<Rightarrow> db \<Rightarrow> run_reply \<times> db" where
  "CLClaimParallelRun e h request = key_surface request (\<lambda>tenant. claimParallelRun e h request tenant None)"

definition CLHeartbeatParallelRunWorker :: "env \<Rightarrow> run_handler \<Rightarrow> http_request \<Rightarrow> db \<Rightarrow> run_reply \<times> db" where
  "CLHeartbeatParallelRunWorker e h request = key_surface request (heartbeatParallelRunWorker e h request)"

definition CLCancelParallelRun :: "env \<Rightarrow> run_handler \<Rightarrow> http_request \<Rightarrow> db \<Rightarrow> run_reply \<times> db" where
  "CLCancelParallelRun e h request = key_surface request (cancelParallelRun e h request)"

definition issue_run_token :: "env \<Rightarrow> run_handler \<Rightarrow> http_request \<Rightarrow> int \<Rightarrow> db \<Rightarrow> run_reply \<times> db" where
  "issue_run_token e h request tenant d =
     (case parseAssetVersionPath request ''parallelRun'' of
       Inl reply \<Rightarrow> (reply, d)
     | Inr (projectID, runID) \<Rightarrow>
         let invalid = validationError ''agentId'' ''The agent id field is invalid.''
         in (case decodeJSON request [(''agentId'', KStr)] of
               None \<Rightarrow> (invalid, d)
             | Some body \<Rightarrow>
                 let agentID = TrimSpace (get_str body ''agentId'')
                 in if agentID = [] \<or> length agentID > 128 then (invalid, d)
                    else (case IssueParallelRunToken e tenant projectID runID agentID (rh_clock h 0) (rh_tokenTTL h) d of
                      (Inl x, d') \<Rightarrow> (if x = ErrNotFound then notFound else internalError, d')
                    | (Inr issued, d') \<Rightarrow> (Value 201 (VIssued issued), d'))))"

definition CLIssueParallelRunToken :: "env \<Rightarrow> run_handler \<Rightarrow> http_request \<Rightarrow> db \<Rightarrow> run_reply \<times> db" where
  "CLIssueParallelRunToken e h request = key_surface request (issue_run_token e h request)"

definition revoke_run_token :: "env \<Rightarrow> run_handler \<Rightarrow> http_request \<Rightarrow> int \<Rightarrow> db \<Rightarrow> run_reply \<times> db" where
  "revoke_run_token e h request tenant d =
     (case parseAssetVersionPath request ''parallelRun'' of
       Inl reply \<Rightarrow> (reply, d)
     | Inr (projectID, runID) \<Rightarrow>
         let tokenID = rq_path request ''tokenId''
         in if tokenID = [] \<or> length tokenID > 64 then (notFound, d)
            else (case RevokeParallelRunToken e tenant projectID runID tokenID (rh_clock h 0) d of
              (Inl x, d') \<Rightarrow> (if x = ErrNotFound then notFound else internalError, d')
            | (Inr revoked, d') \<Rightarrow> (Value 200 (VRevoked revoked), d')))"

definition CLRevokeParallelRunToken :: "env \<Rightarrow> run_handler \<Rightarrow> http_request \<Rightarrow> db \<Rightarrow> run_reply \<times> db" where
  "CLRevokeParallelRunToken e h request = key_surface request (revoke_run_token e h request)"

section \<open>The runner surface\<close>

definition runner_fields :: field_types where
  "runner_fields = [(''idProject'', KInt), (''parallelRun'', KInt), (''workerId'', KStr)]"

definition runner_ids_invalid :: "decoded \<Rightarrow> bool" where
  "runner_ids_invalid body \<longleftrightarrow> get_int body ''idProject'' < 1 \<or> get_int body ''parallelRun'' < 1
     \<or> TrimSpace (get_str body ''workerId'') = []"

definition invalidWorkerReply :: run_reply where
  "invalidWorkerReply = validationError ''workerId'' ''The worker id field is invalid.''"

definition runner_claim :: "env \<Rightarrow> run_handler \<Rightarrow> http_request \<Rightarrow> int \<Rightarrow> db \<Rightarrow> run_reply \<times> db" where
  "runner_claim e h request tenant d =
     (case decodeJSON request (runner_fields @ [(''capabilities'', KArr)]) of
       None \<Rightarrow> (invalidWorkerReply, d)
     | Some body \<Rightarrow>
         if runner_ids_invalid body \<or> length (get_str body ''workerId'') > 128 then (invalidWorkerReply, d)
         else let runToken = rq_header request ''Idelium-Run-Token''; capabilities = get_arr body ''capabilities''
              in if rh_requireToken h \<and> runToken = [] then (tokenRequiredReply, d)
                 else (case ClaimParallelRun e
                      \<lparr>cl_TenantID = tenant, cl_ActorUserID = None, cl_ActorTenantID = 0,
                       cl_ProjectID = get_int body ''idProject'', cl_RunID = get_int body ''parallelRun'',
                       cl_WorkerID = TrimSpace (get_str body ''workerId''),
                       cl_Capabilities = (case capabilities of None \<Rightarrow> [] | Some xs \<Rightarrow> xs),
                       cl_CapabilitiesSet = (capabilities \<noteq> None), cl_RunToken = runToken,
                       cl_CertificateHash = rq_header request ''Idelium-Agent-Cert-Sha256'',
                       cl_IssueWorkerToken = True, cl_Now = rh_clock h 0\<rparr> d of
                   (Inl x, d') \<Rightarrow>
                     ((if x = ErrRunTokenInvalid
                       then message_reply 401 ''The run token is invalid, expired, used, or not bound to this agent.''
                       else internalError), d')
                 | (Inr run, d') \<Rightarrow> (Value 200 (VRun run), d')))"

definition RunnerClaim :: "env \<Rightarrow> run_handler \<Rightarrow> http_request \<Rightarrow> db \<Rightarrow> run_reply \<times> db" where
  "RunnerClaim e h request = key_surface request (runner_claim e h request)"

text \<open>The check of the worker token; \<open>Inl\<close> is the reply that refuses it.\<close>

definition validateWorkerToken :: "env \<Rightarrow> instant \<Rightarrow> http_request \<Rightarrow> int \<Rightarrow> int \<Rightarrow> int \<Rightarrow> string \<Rightarrow> db \<Rightarrow> run_reply + unit" where
  "validateWorkerToken e now request tenant projectID runID workerID d =
     (case ValidateWorkerToken e tenant projectID runID workerID (rq_header request ''Idelium-Worker-Token'') now d of
        Inl x \<Rightarrow> Inl (if x = ErrWorkerTokenInvalid
                     then message_reply 401 ''Worker token is invalid, expired, or not bound to this worker.''
                     else internalError)
      | Inr _ \<Rightarrow> Inr ())"

definition runner_heartbeat :: "env \<Rightarrow> run_handler \<Rightarrow> http_request \<Rightarrow> int \<Rightarrow> db \<Rightarrow> run_reply \<times> db" where
  "runner_heartbeat e h request tenant d =
     (case decodeJSON request (runner_fields @ [(''leaseSeconds'', KInt)]) of
       None \<Rightarrow> (invalidWorkerReply, d)
     | Some body \<Rightarrow>
         if runner_ids_invalid body then (invalidWorkerReply, d)
         else let projectID = get_int body ''idProject''; runID = get_int body ''parallelRun'';
                  workerID = TrimSpace (get_str body ''workerId'');
                  lease = (if get_int body ''leaseSeconds'' = 0 then 120 else get_int body ''leaseSeconds'')
              in (case validateWorkerToken e (rh_clock h 0) request tenant projectID runID workerID d of
                    Inl reply \<Rightarrow> (reply, d)
                  | Inr _ \<Rightarrow>
                      if lease < 15 \<or> lease > 3600 then (leaseRangeReply, d)
                      else (case HeartbeatParallelRunWorker e tenant projectID runID workerID lease (rh_clock h 1) d of
                        (Inl x, d') \<Rightarrow> (internalError, d')
                      | (Inr hb, d') \<Rightarrow> (heartbeat_reply hb, d'))))"

definition RunnerHeartbeat :: "env \<Rightarrow> run_handler \<Rightarrow> http_request \<Rightarrow> db \<Rightarrow> run_reply \<times> db" where
  "RunnerHeartbeat e h request = key_surface request (runner_heartbeat e h request)"

definition runner_update :: "env \<Rightarrow> run_handler \<Rightarrow> http_request \<Rightarrow> int \<Rightarrow> db \<Rightarrow> run_reply \<times> db" where
  "runner_update e h request tenant d =
     (case decodePlain request (runner_fields @ [(''status'', KStr), (''result'', KAny)]) of
       None \<Rightarrow> (invalidStatusReply, d)
     | Some body \<Rightarrow>
         if runner_ids_invalid body \<or> \<not> validWorkerStatus (get_str body ''status'') then (invalidStatusReply, d)
         else let projectID = get_int body ''idProject''; runID = get_int body ''parallelRun'';
                  workerID = TrimSpace (get_str body ''workerId'')
              in (case validateWorkerToken e (rh_clock h 0) request tenant projectID runID workerID d of
                    Inl reply \<Rightarrow> (reply, d)
                  | Inr _ \<Rightarrow>
                      (case UpdateRunnerWorker e \<lparr>up_TenantID = tenant, up_ProjectID = projectID, up_RunID = runID,
                              up_WorkerID = workerID, up_Status = get_str body ''status'',
                              up_Result = get_any body ''result'', up_Now = rh_clock h 1\<rparr> d of
                         (Inl x, d') \<Rightarrow> (internalError, d')
                       | (Inr run, d') \<Rightarrow> (Value 200 (VRun run), d'))))"

definition RunnerUpdateWorker :: "env \<Rightarrow> run_handler \<Rightarrow> http_request \<Rightarrow> db \<Rightarrow> run_reply \<times> db" where
  "RunnerUpdateWorker e h request = key_surface request (runner_update e h request)"

end
