(* ===== verification/LegacyKeys.thy ===== *)
theory LegacyKeys
  imports Sessions
begin

text \<open>
  Customer API keys: the middleware in front of the command-line and runner routes
  (internal/auth/legacy_key.go), the repository behind it (internal/persistence/mysql/legacy_key.go)
  and the browser handlers that show and rotate a key (internal/legacyapikeys/handler.go).
\<close>

section \<open>Tables and environment\<close>

record customer_row =
  kr_id :: int
  kr_name :: string
  kr_apiKey :: "string option"
  kr_expiresAt :: "instant option"
  kr_lastUsedAt :: "instant option"

record key_db =
  key_rows :: "customer_row list"
  key_audits :: "(int \<times> instant) list"

text \<open>
  \<open>ke_cursor\<close> is the number of rows after which reading a result set breaks off: the code does not
  ask for \<open>rows.Err()\<close>. \<open>ke_clock\<close> gives the readings of the clock within a request.
\<close>

record key_env =
  ke_fails :: "string \<Rightarrow> bool"
  ke_cursor :: "nat option"
  ke_rand :: "nat \<Rightarrow> nat list option"
  ke_generate :: "string \<Rightarrow> string option"
  ke_matches :: "string \<Rightarrow> string \<Rightarrow> bool"
  ke_column_time :: "instant \<Rightarrow> instant"
  ke_clock :: "nat \<Rightarrow> instant"

datatype key_error = ErrInvalidLegacyKey | KeyFailure string

record Customer =
  cu_ID :: int
  cu_Name :: string

section \<open>The repository\<close>

definition stored_key_matches :: "key_env \<Rightarrow> string \<Rightarrow> string \<Rightarrow> bool" where
  "stored_key_matches e stored key = (if HasPrefix stored ''$2'' then ke_matches e stored key else stored = key)"

fun scan_keys :: "key_env \<Rightarrow> string \<Rightarrow> customer_row list \<Rightarrow> key_error + Customer" where
  "scan_keys e key [] = Inl ErrInvalidLegacyKey"
| "scan_keys e key (r # rs) =
     (case kr_apiKey r of
        None \<Rightarrow> Inl (KeyFailure ''authenticate legacy API key'')
      | Some stored \<Rightarrow>
          if stored_key_matches e stored key
          then (if kr_id r = 0 then Inl ErrInvalidLegacyKey else Inr \<lparr>cu_ID = kr_id r, cu_Name = kr_name r\<rparr>)
          else scan_keys e key rs)"

definition unexpired :: "instant \<Rightarrow> customer_row \<Rightarrow> bool" where
  "unexpired now r \<longleftrightarrow> (case kr_expiresAt r of None \<Rightarrow> True | Some t \<Rightarrow> t > now)"

definition delivered :: "key_env \<Rightarrow> 'r list \<Rightarrow> 'r list" where
  "delivered e rows = (case ke_cursor e of None \<Rightarrow> rows | Some n \<Rightarrow> take n rows)"

definition AuthenticateLegacyCustomerKey :: "key_env \<Rightarrow> string \<Rightarrow> instant \<Rightarrow> key_db \<Rightarrow> (key_error + Customer) \<times> key_db" where
  "AuthenticateLegacyCustomerKey e key usedAt d =
     (if ke_fails e ''authenticate legacy API key'' then (Inl (KeyFailure ''authenticate legacy API key''), d)
      else case scan_keys e key (delivered e (filter (unexpired usedAt) (key_rows d))) of
        Inl x \<Rightarrow> (Inl x, d)
      | Inr customer \<Rightarrow>
          if ke_fails e ''record legacy API key use'' then (Inl (KeyFailure ''record legacy API key use''), d)
          else (Inr customer, d\<lparr>key_rows := upd_rows (\<lambda>r. kr_id r = cu_ID customer)
                  (\<lambda>r. r\<lparr>kr_lastUsedAt := Some (ke_column_time e usedAt)\<rparr>) (key_rows d)\<rparr>))"

record key_status =
  ks_active :: bool
  ks_expiresAt :: "instant option"
  ks_lastUsedAt :: "instant option"

definition ShowKey :: "key_env \<Rightarrow> int \<Rightarrow> instant \<Rightarrow> key_db \<Rightarrow> key_error + key_status" where
  "ShowKey e tenant now d =
     (if ke_fails e ''show legacy API key'' then Inl (KeyFailure ''show legacy API key'')
      else case find (\<lambda>r. kr_id r = tenant) (key_rows d) of
        None \<Rightarrow> Inl ErrInvalidLegacyKey
      | Some r \<Rightarrow> Inr \<lparr>ks_active = unexpired now r, ks_expiresAt = kr_expiresAt r, ks_lastUsedAt = kr_lastUsedAt r\<rparr>)"

text \<open>\<open>base64.RawURLEncoding.EncodeToString\<close>.\<close>

definition base64_digit :: "nat \<Rightarrow> char" where
  "base64_digit n = ''ABCDEFGHIJKLMNOPQRSTUVWXYZabcdefghijklmnopqrstuvwxyz0123456789-_'' ! (n mod 64)"

fun base64_raw :: "nat list \<Rightarrow> string" where
  "base64_raw [] = []"
| "base64_raw [a] = [base64_digit (a div 4), base64_digit (a mod 4 * 16)]"
| "base64_raw [a, b] = [base64_digit (a div 4), base64_digit (a mod 4 * 16 + b div 16), base64_digit (b mod 16 * 4)]"
| "base64_raw (a # b # c # bs) =
     [base64_digit (a div 4), base64_digit (a mod 4 * 16 + b div 16), base64_digit (b mod 16 * 4 + c div 64), base64_digit (c mod 64)]
     @ base64_raw bs"

definition key_lifetime :: int where
  "key_lifetime = 365 * 24 * hour"

definition ReplaceKey :: "key_env \<Rightarrow> int \<Rightarrow> instant \<Rightarrow> key_db \<Rightarrow> (key_error + string \<times> key_status) \<times> key_db" where
  "ReplaceKey e tenant now d =
     (case ke_rand e 32 of
        None \<Rightarrow> (Inl (KeyFailure ''rand''), d)
      | Some bytes \<Rightarrow>
          let raw = ''idk_'' @ base64_raw bytes; expires = now + key_lifetime
          in (case ke_generate e raw of
                None \<Rightarrow> (Inl (KeyFailure ''bcrypt''), d)
              | Some hash \<Rightarrow>
                  if ke_fails e ''replace legacy API key'' then (Inl (KeyFailure ''replace legacy API key''), d)
                  else if \<not> list_ex (\<lambda>r. kr_id r = tenant) (key_rows d) then (Inl ErrInvalidLegacyKey, d)
                  else let d1 = d\<lparr>key_rows := upd_rows (\<lambda>r. kr_id r = tenant)
                                (\<lambda>r. r\<lparr>kr_apiKey := Some hash, kr_expiresAt := Some (ke_column_time e expires), kr_lastUsedAt := None\<rparr>)
                                (key_rows d)\<rparr>
                       in (Inr (raw, \<lparr>ks_active = True, ks_expiresAt = Some expires, ks_lastUsedAt = None\<rparr>),
                           if ke_fails e ''audit legacy API key'' then d1
                           else d1\<lparr>key_audits := key_audits d1 @ [(tenant, ke_column_time e now)]\<rparr>)))"

section \<open>The middleware\<close>

definition maxLegacyKeyLength :: nat where "maxLegacyKeyLength = 4096"

definition readLegacyKey :: "http_request \<Rightarrow> string option" where
  "readLegacyKey request =
     (case rq_keys request of
        [value] \<Rightarrow> let key = TrimSpace value
          in if key = [] \<or> length key > maxLegacyKeyLength \<or> ContainsAny key [char_of (13::nat), char_of (10::nat)]
             then None else Some key
      | _ \<Rightarrow> None)"

definition invalidKey :: "'v reply" where
  "invalidKey = message_reply 401 ''Invalid key''"

text \<open>
  \<open>Middleware\<close> and \<open>reject\<close>: the next handler runs on a request that carries the customer as tenant.
\<close>

definition Middleware :: "key_env \<Rightarrow> (http_request \<Rightarrow> 'd \<Rightarrow> 'v reply \<times> 'd) \<Rightarrow> http_request \<Rightarrow> key_db \<Rightarrow> 'd \<Rightarrow> 'v reply \<times> key_db \<times> 'd" where
  "Middleware e handler request k d =
     (case readLegacyKey request of
        None \<Rightarrow> (invalidKey, k, d)
      | Some key \<Rightarrow>
          (case AuthenticateLegacyCustomerKey e key (ke_clock e 0) k of
             (Inl _, k') \<Rightarrow> (invalidKey, k', d)
           | (Inr customer, k') \<Rightarrow>
               (case handler (request\<lparr>rq_tenant := Some (cu_ID customer)\<rparr>) d of (reply, d') \<Rightarrow> (reply, k', d'))))"

section \<open>The browser handlers\<close>

text \<open>\<open>WriteError\<close> of internal/httpx/response.go.\<close>

definition WriteError :: "string \<Rightarrow> int \<Rightarrow> string \<Rightarrow> string \<Rightarrow> 'v reply" where
  "WriteError correlation status code message =
     Message status [(''error'', JObj ([(''code'', JStr code), (''message'', JStr message)]
       @ (if correlation = [] then [] else [(''correlationId'', JStr correlation)])))]"

datatype key_value = KShow key_status | KReplaced string key_status

text \<open>\<open>user\<close>: the repository of the program has a key lifecycle, so that only the session is tested.\<close>

definition key_user :: "auth_env \<Rightarrow> key_env \<Rightarrow> string \<Rightarrow> http_request \<Rightarrow> auth_db \<Rightarrow> key_value reply + User" where
  "key_user ae e correlation request a =
     (case AuthenticateRequest ae request (ke_clock e 0) a of
        None \<Rightarrow> Inl (WriteError correlation 401 ''UNAUTHENTICATED'' ''An active browser session is required.'')
      | Some u \<Rightarrow> Inr u)"

definition HandleShow :: "auth_env \<Rightarrow> key_env \<Rightarrow> string \<Rightarrow> http_request \<Rightarrow> auth_db \<Rightarrow> key_db \<Rightarrow> key_value reply" where
  "HandleShow ae e correlation request a d =
     (case key_user ae e correlation request a of
        Inl reply \<Rightarrow> reply
      | Inr u \<Rightarrow> (case ShowKey e (ActiveTenant u) (ke_clock e 1) d of
          Inl _ \<Rightarrow> WriteError correlation 500 ''LEGACY_API_KEY_UNAVAILABLE'' ''API-key metadata could not be loaded.''
        | Inr v \<Rightarrow> Value 200 (KShow v)))"

definition HandleReplace :: "auth_env \<Rightarrow> key_env \<Rightarrow> string \<Rightarrow> http_request \<Rightarrow> auth_db \<Rightarrow> key_db \<Rightarrow> key_value reply \<times> key_db" where
  "HandleReplace ae e correlation request a d =
     (case key_user ae e correlation request a of
        Inl reply \<Rightarrow> (reply, d)
      | Inr u \<Rightarrow> (case ReplaceKey e (ActiveTenant u) (ke_clock e 1) d of
          (Inl _, d') \<Rightarrow> (WriteError correlation 500 ''LEGACY_API_KEY_UNAVAILABLE'' ''API key could not be rotated.'', d')
        | (Inr (secret, v), d') \<Rightarrow> (Value 200 (KReplaced secret v), d')))"

end
