(* ===== verification/RunRoutes.thy ===== *)
theory RunRoutes
  imports RunHandlers LegacyKeys
begin

text \<open>
  The routes of parallel runs as internal/app/router.go registers them: the browser routes, and the
  group of command-line and runner routes behind the key middleware.
\<close>

datatype run_route = Index | Launch | Matrix | Show | ShowResults | Worker | Claim | Heartbeat | Cancel

datatype key_route = CL run_route | IssueToken | RevokeToken | RunnerClaiming | RunnerBeat | RunnerUpdate

fun browser_handler :: "auth_env \<Rightarrow> env \<Rightarrow> run_handler \<Rightarrow> run_route \<Rightarrow> http_request \<Rightarrow> app \<Rightarrow> run_value sent \<times> app" where
  "browser_handler ae e h Index = ParallelRuns ae e"
| "browser_handler ae e h Launch = BrowserCreateParallelRun ae e h"
| "browser_handler ae e h Matrix = BrowserCreateParallelRunMatrix ae e h"
| "browser_handler ae e h Show = ShowParallelRun ae e"
| "browser_handler ae e h ShowResults = Results ae e"
| "browser_handler ae e h Worker = UpdateParallelRunWorker ae e h"
| "browser_handler ae e h Claim = BrowserClaimParallelRun ae e h"
| "browser_handler ae e h Heartbeat = BrowserHeartbeatParallelRunWorker ae e h"
| "browser_handler ae e h Cancel = BrowserCancelParallelRun ae e h"

fun key_handler :: "env \<Rightarrow> run_handler \<Rightarrow> key_route \<Rightarrow> http_request \<Rightarrow> db \<Rightarrow> run_reply \<times> db" where
  "key_handler e h (CL Index) = CLParallelRuns e"
| "key_handler e h (CL Launch) = CLCreateParallelRun e h"
| "key_handler e h (CL Matrix) = CLCreateParallelRunMatrix e h"
| "key_handler e h (CL Show) = CLShowParallelRun e"
| "key_handler e h (CL ShowResults) = CLResults e"
| "key_handler e h (CL Worker) = CLUpdateParallelRunWorker e h"
| "key_handler e h (CL Claim) = CLClaimParallelRun e h"
| "key_handler e h (CL Heartbeat) = CLHeartbeatParallelRunWorker e h"
| "key_handler e h (CL Cancel) = CLCancelParallelRun e h"
| "key_handler e h IssueToken = CLIssueParallelRunToken e h"
| "key_handler e h RevokeToken = CLRevokeParallelRunToken e h"
| "key_handler e h RunnerClaiming = RunnerClaim e h"
| "key_handler e h RunnerBeat = RunnerHeartbeat e h"
| "key_handler e h RunnerUpdate = RunnerUpdateWorker e h"

definition serve_key :: "key_env \<Rightarrow> env \<Rightarrow> run_handler \<Rightarrow> key_route \<Rightarrow> http_request \<Rightarrow> key_db \<Rightarrow> db \<Rightarrow> run_reply \<times> key_db \<times> db" where
  "serve_key ke e h route = Middleware ke (key_handler e h route)"

end
