(* ===== verification/KeyProps.thy ===== *)
theory KeyProps
  imports LegacyKeys
begin

text \<open>
  Properties of the customer API keys: what the middleware lets through, what a rotation changes, and
  what a customer without a key does to the others.
\<close>

named_theorems keys \<open>the definitions behind the middleware\<close>

lemmas key_definitions [keys] = AuthenticateLegacyCustomerKey_def Middleware_def readLegacyKey_def Let_def

section \<open>The scan\<close>

lemma scan_keys_Inr:
  "scan_keys e key rs = Inr c \<Longrightarrow> \<exists>r \<in> set rs. \<exists>stored. kr_apiKey r = Some stored \<and> stored_key_matches e stored key
     \<and> cu_ID c = kr_id r \<and> cu_Name c = kr_name r"
  by (induction e key rs rule: scan_keys.induct) (auto split: option.splits if_splits)

lemma scan_keys_finds:
  assumes "\<forall>r \<in> set rs. \<exists>stored. kr_apiKey r = Some stored \<and> (stored_key_matches e stored key \<longrightarrow> kr_id r = t)"
    and "r \<in> set rs" "kr_apiKey r = Some stored" "stored_key_matches e stored key" "t \<noteq> 0"
  shows "\<exists>c. scan_keys e key rs = Inr c \<and> cu_ID c = t"
  using assms by (induction e key rs rule: scan_keys.induct) (force split: option.splits if_splits)+

lemma delivered_subset: "set (delivered e rows) \<subseteq> set rows"
  by (auto simp: delivered_def dest: in_set_takeD split: option.splits)

lemma AuthenticateLegacyCustomerKey_row:
  assumes "AuthenticateLegacyCustomerKey e key now d = (Inr c, d')"
  obtains r stored where "r \<in> set (key_rows d)" "unexpired now r" "kr_apiKey r = Some stored"
    "stored_key_matches e stored key" "cu_ID c = kr_id r"
proof -
  have "scan_keys e key (delivered e (filter (unexpired now) (key_rows d))) = Inr c"
    using assms by (auto simp: AuthenticateLegacyCustomerKey_def split: if_splits sum.splits)
  from scan_keys_Inr [OF this] delivered_subset [of e "filter (unexpired now) (key_rows d)"]
  show thesis using that by auto
qed

section \<open>The gate\<close>

lemma Middleware_cases:
  assumes "Middleware e handler request k d = (reply, k', d')"
  obtains (rejected) "reply = invalidKey" "d' = d"
  | (passed) v r stored where "rq_keys request = [v]" "TrimSpace v \<noteq> []" "length (TrimSpace v) \<le> 4096"
      "r \<in> set (key_rows k)" "unexpired (ke_clock e 0) r" "kr_apiKey r = Some stored"
      "stored_key_matches e stored (TrimSpace v)" "handler (request\<lparr>rq_tenant := Some (kr_id r)\<rparr>) d = (reply, d')"
proof (cases "readLegacyKey request")
  case None
  then show thesis using assms rejected by (simp add: Middleware_def)
next
  case (Some key)
  then obtain v where v: "rq_keys request = [v]" "key = TrimSpace v" "key \<noteq> []" "length key \<le> 4096"
    by (auto simp: readLegacyKey_def maxLegacyKeyLength_def Let_def split: list.splits if_splits)
  show thesis
  proof (cases "fst (AuthenticateLegacyCustomerKey e key (ke_clock e 0) k)")
    case (Inl x)
    then show thesis using assms Some rejected by (auto simp: Middleware_def split: prod.splits)
  next
    case (Inr c)
    then have auth: "AuthenticateLegacyCustomerKey e key (ke_clock e 0) k = (Inr c, k')"
      and run: "handler (request\<lparr>rq_tenant := Some (cu_ID c)\<rparr>) d = (reply, d')"
      using assms Some by (auto simp: Middleware_def split: prod.splits)
    from auth obtain r stored where "r \<in> set (key_rows k)" "unexpired (ke_clock e 0) r" "kr_apiKey r = Some stored"
      "stored_key_matches e stored key" "cu_ID c = kr_id r"
      by (rule AuthenticateLegacyCustomerKey_row)
    then show thesis using v run passed by auto
  qed
qed

text \<open>
  The request carries the key of a stored customer, in terms of the request and the row: it has one key, which
  is trimmed, is not empty and has at most 4096 bytes; the row has not expired at the time given; and the row
  holds that key, or a bcrypt hash that verifies it.
\<close>

definition carries_key_of :: "key_env \<Rightarrow> http_request \<Rightarrow> instant \<Rightarrow> customer_row \<Rightarrow> bool" where
  "carries_key_of e request now r \<longleftrightarrow> (\<exists>value stored. rq_keys request = [value] \<and> TrimSpace value \<noteq> [] \<and> length (TrimSpace value) \<le> 4096
     \<and> (\<forall>t. kr_expiresAt r = Some t \<longrightarrow> now < t) \<and> kr_apiKey r = Some stored
     \<and> (if prefix ''$2'' stored then ke_matches e stored (TrimSpace value) else stored = TrimSpace value))"

lemma carries_key:
  assumes "rq_keys request = [v]" "TrimSpace v \<noteq> []" "length (TrimSpace v) \<le> 4096" "unexpired now r" "kr_apiKey r = Some stored"
    "stored_key_matches e stored (TrimSpace v)"
  shows "carries_key_of e request now r"
  using assms by (auto simp: carries_key_of_def unexpired_def stored_key_matches_def HasPrefix_def)

text \<open>
  C9. Behind the key middleware a handler runs only for one non-empty key of at most 4096 bytes that
  is the unexpired key of a stored customer, and it runs with that customer as its tenant; every other
  request is answered 401 and leaves the handler's state alone.
\<close>

theorem key_gate:
  assumes "Middleware e handler request k d = (reply, k', d')"
  shows "(reply = invalidKey \<and> d' = d) \<or>
    (\<exists>r \<in> set (key_rows k). carries_key_of e request (ke_clock e 0) r \<and> handler (request\<lparr>rq_tenant := Some (kr_id r)\<rparr>) d = (reply, d'))"
  using assms by (rule Middleware_cases) (auto dest: carries_key)

text \<open>Fixtures: two customers, the first with a bcrypt hash, the second with a plain key.\<close>

definition kenv0 :: key_env where
  "kenv0 = \<lparr>ke_fails = (\<lambda>_. False), ke_cursor = None, ke_rand = (\<lambda>n. Some (replicate n 0)),
     ke_generate = (\<lambda>s. Some (''$2'' @ s)), ke_matches = (\<lambda>h s. h = ''$2'' @ s), ke_column_time = (\<lambda>t. t), ke_clock = (\<lambda>_. 0)\<rparr>"

definition kdb0 :: key_db where
  "kdb0 = \<lparr>key_rows = [\<lparr>kr_id = 7, kr_name = ''a'', kr_apiKey = Some ''$2x'', kr_expiresAt = None, kr_lastUsedAt = None\<rparr>,
       \<lparr>kr_id = 8, kr_name = ''b'', kr_apiKey = Some ''y'', kr_expiresAt = Some 5, kr_lastUsedAt = None\<rparr>], key_audits = []\<rparr>"

definition key_request :: "string list \<Rightarrow> http_request" where
  "key_request values = \<lparr>rq_cookie = None, rq_tenant = None, rq_keys = values, rq_path = (\<lambda>_. ''1''), rq_header = (\<lambda>_. []),
     rq_query = (\<lambda>_. []), rq_body = BEOF, rq_sourceIP = []\<rparr>"

theorem key_gate_witness:
  "\<exists>r \<in> set (key_rows kdb0). carries_key_of kenv0 (key_request ['' y '']) 0 r
     \<and> snd (snd (Middleware kenv0 (\<lambda>request d. (NoReply :: unit reply, rq_tenant request)) (key_request ['' y '']) kdb0 None)) = Some (kr_id r)"
proof -
  let ?m = "Middleware kenv0 (\<lambda>request d. (NoReply :: unit reply, rq_tenant request)) (key_request ['' y '']) kdb0 None"
  have run: "?m = (NoReply, fst (snd ?m), Some 8)" by code_simp
  have "ke_clock kenv0 0 = 0" by (simp add: kenv0_def)
  moreover have "snd (snd ?m) = Some 8" using run by (metis snd_conv)
  ultimately show ?thesis using key_gate [OF run] by (auto simp: invalidKey_def message_reply_def)
qed

section \<open>Rotation\<close>

text \<open>
  What the bcrypt package documents: a generated hash carries its prefix and verifies the password it
  was generated from.
\<close>

definition key_bcrypt_law :: "key_env \<Rightarrow> bool" where
  "key_bcrypt_law e \<longleftrightarrow> (\<forall>s h. ke_generate e s = Some h \<longrightarrow> HasPrefix h ''$2'' \<and> ke_matches e h s)"

lemma ReplaceKey_rows:
  assumes "ReplaceKey e tenant now d = (Inr (raw, st), d')"
  obtains h where "ke_generate e raw = Some h" "list_ex (\<lambda>r. kr_id r = tenant) (key_rows d)"
    "key_rows d' = upd_rows (\<lambda>r. kr_id r = tenant)
       (\<lambda>r. r\<lparr>kr_apiKey := Some h, kr_expiresAt := Some (ke_column_time e (now + key_lifetime)), kr_lastUsedAt := None\<rparr>) (key_rows d)"
  using assms by (auto simp: ReplaceKey_def Let_def split: option.splits if_splits)

text \<open>
  Rotating a key: until the new expiry the returned secret authenticates as its customer and
  afterwards it does not, and no other string authenticates as that customer unless the new hash
  verifies it, so the previous key is revoked.
\<close>

lemma rotated_key:
  assumes "key_bcrypt_law e" "ReplaceKey e tenant now d = (Inr (raw, st), d')" "tenant \<noteq> 0"
    and others: "\<forall>r \<in> set (key_rows d). kr_id r \<noteq> tenant \<longrightarrow> (\<exists>stored. kr_apiKey r = Some stored \<and> \<not> stored_key_matches e stored raw)"
    and "ke_cursor e = None" "\<not> ke_fails e ''authenticate legacy API key''" "\<not> ke_fails e ''record legacy API key use''"
  shows "(\<forall>t < ke_column_time e (now + key_lifetime). \<exists>c. fst (AuthenticateLegacyCustomerKey e raw t d') = Inr c \<and> cu_ID c = tenant)
    \<and> (\<forall>t key c. fst (AuthenticateLegacyCustomerKey e key t d') = Inr c \<and> cu_ID c = tenant
         \<longrightarrow> t < ke_column_time e (now + key_lifetime) \<and> (\<exists>h. ke_generate e raw = Some h \<and> ke_matches e h key))"
proof -
  obtain h where h: "ke_generate e raw = Some h" "list_ex (\<lambda>r. kr_id r = tenant) (key_rows d)"
    and rows: "key_rows d' = upd_rows (\<lambda>r. kr_id r = tenant)
       (\<lambda>r. r\<lparr>kr_apiKey := Some h, kr_expiresAt := Some (ke_column_time e (now + key_lifetime)), kr_lastUsedAt := None\<rparr>) (key_rows d)"
    using assms(2) by (rule ReplaceKey_rows)
  have law: "HasPrefix h ''$2''" "ke_matches e h raw" using assms(1) h(1) by (auto simp: key_bcrypt_law_def)
  have own: "kr_apiKey r = Some h \<and> kr_expiresAt r = Some (ke_column_time e (now + key_lifetime))"
    if r: "r \<in> set (key_rows d')" "kr_id r = tenant" for r
  proof -
    obtain r0 where "r = (if kr_id r0 = tenant then r0\<lparr>kr_apiKey := Some h,
        kr_expiresAt := Some (ke_column_time e (now + key_lifetime)), kr_lastUsedAt := None\<rparr> else r0)"
      using r(1) unfolding rows set_upd_rows by (elim bexE) blast
    then show ?thesis using r(2) by (cases "kr_id r0 = tenant") simp_all
  qed
  have other: "\<exists>stored. kr_apiKey r = Some stored \<and> \<not> stored_key_matches e stored raw"
    if r: "r \<in> set (key_rows d')" "kr_id r \<noteq> tenant" for r
  proof -
    obtain r0 where r0: "r0 \<in> set (key_rows d)" "r = (if kr_id r0 = tenant then r0\<lparr>kr_apiKey := Some h,
        kr_expiresAt := Some (ke_column_time e (now + key_lifetime)), kr_lastUsedAt := None\<rparr> else r0)"
      using r(1) unfolding rows set_upd_rows by (elim bexE) blast
    then have "r = r0" using r(2) by (cases "kr_id r0 = tenant") simp_all
    then show ?thesis using others r0(1) r(2) by simp
  qed
  obtain r where r: "r \<in> set (key_rows d')" "kr_id r = tenant"
    using h(2) rows by (force simp: list_ex_iff set_upd_rows)
  have "\<exists>c. fst (AuthenticateLegacyCustomerKey e raw t d') = Inr c \<and> cu_ID c = tenant"
    if t: "t < ke_column_time e (now + key_lifetime)" for t
  proof -
    have "\<forall>x \<in> set (filter (unexpired t) (key_rows d')). \<exists>stored. kr_apiKey x = Some stored
        \<and> (stored_key_matches e stored raw \<longrightarrow> kr_id x = tenant)"
      using own other by fastforce
    moreover have "r \<in> set (filter (unexpired t) (key_rows d'))" using r own [OF r] t by (simp add: unexpired_def)
    moreover have "stored_key_matches e h raw" using law by (simp add: stored_key_matches_def)
    ultimately have "\<exists>c. scan_keys e raw (filter (unexpired t) (key_rows d')) = Inr c \<and> cu_ID c = tenant"
      using scan_keys_finds own [OF r] assms(3) by blast
    then show ?thesis using assms(5-7) by (auto simp: AuthenticateLegacyCustomerKey_def delivered_def)
  qed
  moreover have "t < ke_column_time e (now + key_lifetime) \<and> ke_matches e h key"
    if "fst (AuthenticateLegacyCustomerKey e key t d') = Inr c" "cu_ID c = tenant" for t key c
  proof -
    have "AuthenticateLegacyCustomerKey e key t d' = (Inr c, snd (AuthenticateLegacyCustomerKey e key t d'))"
      using that(1) by (metis prod.collapse)
    then obtain r stored where "r \<in> set (key_rows d')" "unexpired t r" "kr_apiKey r = Some stored"
      "stored_key_matches e stored key" "cu_ID c = kr_id r" by (rule AuthenticateLegacyCustomerKey_row)
    then show ?thesis using own [of r] that(2) law by (auto simp: unexpired_def stored_key_matches_def)
  qed
  ultimately show ?thesis using h(1) by blast
qed

definition kraw0 :: string where
  "kraw0 = ''idk_'' @ base64_raw (replicate 32 0)"

lemma rotated_key_witness:
  "(\<exists>c. fst (AuthenticateLegacyCustomerKey kenv0 kraw0 5 (snd (ReplaceKey kenv0 7 0 kdb0))) = Inr c \<and> cu_ID c = 7)
   \<and> \<not> (\<exists>c. fst (AuthenticateLegacyCustomerKey kenv0 ''x'' 5 (snd (ReplaceKey kenv0 7 0 kdb0))) = Inr c \<and> cu_ID c = 7)"
proof -
  have law: "key_bcrypt_law kenv0" by (auto simp: key_bcrypt_law_def kenv0_def HasPrefix_def)
  have raw: "ReplaceKey kenv0 7 0 kdb0 = (Inr (kraw0, \<lparr>ks_active = True, ks_expiresAt = Some key_lifetime, ks_lastUsedAt = None\<rparr>),
      snd (ReplaceKey kenv0 7 0 kdb0))"
    by (simp add: ReplaceKey_def kenv0_def kdb0_def kraw0_def Let_def)
  have "\<forall>r \<in> set (key_rows kdb0). kr_id r \<noteq> 7 \<longrightarrow> (\<exists>stored. kr_apiKey r = Some stored \<and> \<not> stored_key_matches kenv0 stored kraw0)"
    by (simp add: kdb0_def stored_key_matches_def kenv0_def kraw0_def HasPrefix_def)
  from rotated_key [OF law raw _ this] have rot:
    "(\<forall>t < ke_column_time kenv0 (0 + key_lifetime). \<exists>c. fst (AuthenticateLegacyCustomerKey kenv0 kraw0 t (snd (ReplaceKey kenv0 7 0 kdb0))) = Inr c \<and> cu_ID c = 7)
     \<and> (\<forall>t key c. fst (AuthenticateLegacyCustomerKey kenv0 key t (snd (ReplaceKey kenv0 7 0 kdb0))) = Inr c \<and> cu_ID c = 7
         \<longrightarrow> t < ke_column_time kenv0 (0 + key_lifetime) \<and> (\<exists>h. ke_generate kenv0 kraw0 = Some h \<and> ke_matches kenv0 h key))"
    by (simp add: kenv0_def)
  have "(5::int) < ke_column_time kenv0 (0 + key_lifetime)" by code_simp
  moreover have "kraw0 \<noteq> ''x''" by (simp add: kraw0_def)
  ultimately show ?thesis using rot by (auto simp: kenv0_def)
qed

section \<open>A customer without a key\<close>

text \<open>
  When the first customer of the table has no key and no expiry, reading its row fails, and no
  key of any customer authenticates: every request to a route behind the middleware is answered 401.
\<close>

lemma null_key_blocks:
  assumes "key_rows k = r # rs" "kr_apiKey r = None" "kr_expiresAt r = None"
  shows "\<exists>k'. Middleware e handler request k d = (invalidKey, k', d)"
  using assms
  by (auto simp: Middleware_def AuthenticateLegacyCustomerKey_def unexpired_def delivered_def take_Cons'
      split: option.splits)

lemma null_key_blocks_witness:
  "\<exists>k'. Middleware kenv0 (\<lambda>request d. (NoReply :: unit reply, d)) (key_request [''$2x''])
     (kdb0\<lparr>key_rows := \<lparr>kr_id = 1, kr_name = ''n'', kr_apiKey = None, kr_expiresAt = None, kr_lastUsedAt = None\<rparr> # key_rows kdb0\<rparr>) True
     = (invalidKey, k', True)"
  by (rule null_key_blocks [where rs = "key_rows kdb0"
        and r = "\<lparr>kr_id = 1, kr_name = ''n'', kr_apiKey = None, kr_expiresAt = None, kr_lastUsedAt = None\<rparr>"]) simp_all

end
