(* ===== verification/RunHandlerProps.thy ===== *)
theory RunHandlerProps
  imports RunRoutes RunSafety KeyProps SessionProps
begin

text \<open>
  Properties of the parallel-run handlers. Every handler is confined to one tenant, which the two
  surfaces take from the session or from the API key; the locales state that contract once, and the
  interpretations discharge it for each handler. The properties follow for all routes together.
\<close>

section \<open>The contract of a handler\<close>

text \<open>A handler of tenant \<open>T\<close> does nothing, or takes one step of that tenant.\<close>

definition own_step :: "int \<Rightarrow> db \<Rightarrow> db \<Rightarrow> bool" where
  "own_step T d d' \<longleftrightarrow> d' = d \<or> run_step T d d'"

locale tenant_handler =
  fixes handle :: "int \<Rightarrow> db \<Rightarrow> run_reply \<times> db"
  assumes confined: "own_step T d (snd (handle T d))"
    and typed: "schedules_ok d \<Longrightarrow> schedules_typed d \<Longrightarrow> schedules_typed (snd (handle T d))"
begin

lemma key_confined:
  "snd (key_surface request handle d) = d
     \<or> (\<exists>T. rq_tenant request = Some T \<and> run_step T d (snd (key_surface request handle d)))"
  using confined by (auto simp: key_surface_def own_step_def split: option.splits)

lemma key_typed:
  "schedules_ok d \<Longrightarrow> schedules_typed d \<Longrightarrow> schedules_typed (snd (key_surface request handle d))"
  using typed by (simp add: key_surface_def split: option.split)

end

text \<open>A handler that creates nothing: it changes at most the row of a live schedule.\<close>

locale row_handler =
  fixes handle :: "int \<Rightarrow> db \<Rightarrow> run_reply \<times> db"
  assumes rows: "snd (handle T d) = d \<or> run_step T d (snd (handle T d)) \<and> row_change T d (snd (handle T d))"

sublocale row_handler \<subseteq> tenant_handler
proof
  show "own_step T d (snd (handle T d))" for T d using rows [of T d] by (auto simp: own_step_def)
  show "schedules_typed (snd (handle T d))" if "schedules_ok d" "schedules_typed d" for T d
    using rows [of T d] that row_change_typed by metis
qed

section \<open>Each handler keeps it\<close>

text \<open>The steps of the repository, as a handler meets them after a case distinction on the result.\<close>

lemma operation_steps:
  "ClaimParallelRun e i d = (x, d') \<Longrightarrow> run_step (cl_TenantID i) d d' \<and> row_change (cl_TenantID i) d d'"
  "UpdateRunnerWorker e u d = (y, d') \<Longrightarrow> run_step (up_TenantID u) d d' \<and> row_change (up_TenantID u) d d'"
  "HeartbeatParallelRunWorker e t p r wid lease now d = (z, d') \<Longrightarrow> run_step t d d' \<and> row_change t d d'"
  "CancelParallelRun e t p r now d = (v, d') \<Longrightarrow> run_step t d d' \<and> row_change t d d'"
  "IssueParallelRunToken e t p r agent now ttl d = (w, d') \<Longrightarrow> run_step t d d' \<and> row_change t d d'"
  "RevokeParallelRunToken e t p r tid now d = (rv, d') \<Longrightarrow> run_step t d d' \<and> row_change t d d'"
  using run_step.intros(2,5-9) operation_writes IssueParallelRunToken_schedules RevokeParallelRunToken_schedules
  by (metis snd_conv row_change_def)+

interpretation listing: row_handler "listParallelRuns e request" for e request
  by unfold_locales (simp add: listParallelRuns_def split: option.split sum.split)

interpretation reading: row_handler "read_run e view request" for e view request
  by unfold_locales (simp add: read_run_def split: option.split sum.split)

interpretation claiming: row_handler "\<lambda>T. claimParallelRun e h request T actor" for e h request actor
  by unfold_locales
    (auto simp: claimParallelRun_def Let_def split: option.split sum.split prod.split dest!: operation_steps(1))

interpretation updating: row_handler "updateWorker e h request" for e h request
  by unfold_locales (auto simp: updateWorker_def Let_def split: option.split sum.split prod.split dest!: operation_steps(2))

interpretation beating: row_handler "heartbeatParallelRunWorker e h request" for e h request
  by unfold_locales
    (auto simp: heartbeatParallelRunWorker_def Let_def split: option.split sum.split prod.split dest!: operation_steps(3))

interpretation cancelling: row_handler "cancelParallelRun e h request" for e h request
  by unfold_locales (auto simp: cancelParallelRun_def split: sum.split prod.split dest!: operation_steps(4))

interpretation issuing: row_handler "issue_run_token e h request" for e h request
  by unfold_locales
    (auto simp: issue_run_token_def Let_def split: option.split sum.split prod.split dest!: operation_steps(5))

interpretation revoking: row_handler "revoke_run_token e h request" for e h request
  by unfold_locales
    (auto simp: revoke_run_token_def Let_def split: option.split sum.split prod.split dest!: operation_steps(6))

interpretation runner_claiming: row_handler "runner_claim e h request" for e h request
  by unfold_locales
    (auto simp: runner_claim_def Let_def split: option.split sum.split prod.split dest!: operation_steps(1))

interpretation runner_beating: row_handler "runner_heartbeat e h request" for e h request
  by unfold_locales
    (auto simp: runner_heartbeat_def Let_def split: option.split sum.split prod.split dest!: operation_steps(3))

interpretation runner_updating: row_handler "runner_update e h request" for e h request
  by unfold_locales
    (auto simp: runner_update_def Let_def split: option.split sum.split prod.split dest!: operation_steps(2))


text \<open>The limits a launch puts on what it creates; a matrix leaves room for the suffix of its keys.\<close>

definition launch_limits :: "bool \<Rightarrow> ParallelRunCreate \<Rightarrow> bool" where
  "launch_limits matrix input \<longleftrightarrow> 1 \<le> pc_RequestedConcurrency input \<and> pc_RequestedConcurrency input \<le> 32
     \<and> pc_IdempotencyKey input \<noteq> [] \<and> length (pc_IdempotencyKey input) \<le> (if matrix then 96 else 128)"

lemma insert_schedule_typed:
  "schedules_typed d \<Longrightarrow> 1 \<le> pc_RequestedConcurrency input \<Longrightarrow> pc_RequestedConcurrency input \<le> 32
    \<Longrightarrow> key \<noteq> [] \<Longrightarrow> length key \<le> 128 \<Longrightarrow> schedules_typed (snd (insert_schedule e input key md d))"
  by (auto simp: insert_schedule_def schedules_typed_def schedule_typed_def new_schedule_def parallelRunTerminal_def
      split: option.split)

lemma createParallelRuns_typed:
  assumes "launch_limits (cs \<noteq> None) input" "schedules_typed d"
  shows "schedules_typed (snd (createParallelRuns e input cs d))"
proof (rule createParallelRuns_keeps_keys [where P = schedules_typed, OF assms(2)])
  fix c md d assume c: "c \<in> (case cs of None \<Rightarrow> {None} | Some l \<Rightarrow> Some ` set l)" "schedules_typed d"
  have "run_key e input c \<noteq> []" "length (run_key e input c) \<le> 128"
    using assms(1) c(1) by (auto simp: run_key_def parallelMatrixIdempotencyKey_def launch_limits_def split: option.splits if_splits)
  then show "schedules_typed (snd (insert_schedule e input (run_key e input c) md d))"
    using insert_schedule_typed c(2) assms(1) by (simp add: launch_limits_def)
qed

text \<open>What a launch handler does: nothing, or one creation within the limits.\<close>

lemma createParallelRun_cases:
  "snd (createParallelRun e h matrix request T d) = d \<or>
   (\<exists>input cs. pc_TenantID input = T \<and> launch_limits (cs \<noteq> None) input
      \<and> (cs = None \<or> length (the cs) \<le> maxMatrixRuns)
      \<and> snd (createParallelRun e h matrix request T d) = snd (createParallelRuns e input cs d))"
proof (cases "parsePathID (rq_path request ''idProject'')"; cases "decodeJSON request create_fields")
  fix projectID body
  assume ok: "parsePathID (rq_path request ''idProject'') = Some projectID" "decodeJSON request create_fields = Some body"
  define key where "key = get_str body ''idempotencyKey''"
  define n where "n = (if get_int body ''requestedConcurrency'' = 0 then 1 else get_int body ''requestedConcurrency'')"
  define input where "input = \<lparr>pc_TenantID = T, pc_ProjectID = projectID, pc_TestCycleID = get_int body ''testCycleId'',
      pc_IdempotencyKey = TrimSpace key, pc_RequestedConcurrency = n,
      pc_Metadata = normalizeRunMetadata (get_map body ''metadata''), pc_Now = rh_clock h 0\<rparr>"
  have effect: "snd (createParallelRun e h matrix request T d) =
      (if get_int body ''testCycleId'' < 1 \<or> TrimSpace key = [] \<or> length key > (if matrix then 96 else 128) \<or> n < 1 \<or> n > 32 then d
       else if \<not> matrix then snd (CreateParallelRun e input d) else snd (launch_matrix e input (get_matrix body ''matrix'') d))"
    using ok by (simp add: createParallelRun_def Let_def key_def n_def input_def case_prod_beta)
  have single: "snd (CreateParallelRun e input d) = snd (createParallelRuns e input None d)"
    by (auto simp: CreateParallelRun_def split: prod.split sum.split list.split)
  have matrix_effect: "snd (launch_matrix e input m d) = d \<or> (\<exists>cs. length cs \<le> maxMatrixRuns
      \<and> snd (launch_matrix e input m d) = snd (createParallelRuns e input (Some cs) d))" for m
    by (auto simp: launch_matrix_def CreateParallelRunMatrix_def not_less split: option.split prod.split sum.split)
  have limits: "launch_limits matrix input"
    if "\<not> (TrimSpace key = [] \<or> length key > (if matrix then 96 else 128) \<or> n < 1 \<or> n > 32)"
    using that TrimSpace_length [of key] by (auto simp: launch_limits_def input_def split: if_splits)
  have tenant: "pc_TenantID input = T" by (simp add: input_def)
  show ?thesis
  proof (cases "get_int body ''testCycleId'' < 1 \<or> TrimSpace key = [] \<or> length key > (if matrix then 96 else 128) \<or> n < 1 \<or> n > 32")
    case False
    then have l: "launch_limits matrix input" using limits by blast
    show ?thesis
    proof (cases matrix)
      case True
      then have same: "snd (createParallelRun e h matrix request T d) = snd (launch_matrix e input (get_matrix body ''matrix'') d)"
        using effect False by simp
      from matrix_effect [of "get_matrix body ''matrix''"] show ?thesis
      proof (elim disjE exE conjE)
        fix cs assume "length cs \<le> maxMatrixRuns"
          "snd (launch_matrix e input (get_matrix body ''matrix'') d) = snd (createParallelRuns e input (Some cs) d)"
        then show ?thesis using same l True tenant by (intro disjI2 exI [where x = input] exI [where x = "Some cs"]) simp
      qed (simp add: same)
    next
      case nm: False
      then show ?thesis using effect False l single tenant
        by (intro disjI2 exI [where x = input] exI [where x = None]) simp
    qed
  qed (simp add: effect)
qed (simp_all add: createParallelRun_def)


interpretation launching: tenant_handler "createParallelRun e h matrix request" for e h matrix request
proof
  fix T d
  consider "snd (createParallelRun e h matrix request T d) = d" | input cs where "pc_TenantID input = T"
    "launch_limits (cs \<noteq> None) input" "snd (createParallelRun e h matrix request T d) = snd (createParallelRuns e input cs d)"
    using createParallelRun_cases by blast
  then show "own_step T d (snd (createParallelRun e h matrix request T d))"
    by cases (use run_step.create in \<open>auto simp: own_step_def\<close>)
next
  fix T d assume "schedules_typed d"
  then show "schedules_typed (snd (createParallelRun e h matrix request T d))"
    using createParallelRun_cases [of e h matrix request T d] createParallelRuns_typed by metis
qed

section \<open>Fixtures\<close>

definition handler0 :: run_handler where
  "handler0 = \<lparr>rh_requireToken = False, rh_tokenTTL = 300 * second, rh_clock = (\<lambda>_. 0)\<rparr>"

text \<open>A launch in project 1 with the key of customer 7, and one with the session of tenant 1.\<close>

definition launch_request :: http_request where
  "launch_request = (key_request [''x''])\<lparr>rq_cookie := Some sid0,
     rq_body := BDoc (JObj [(''testCycleId'', JNum 2), (''idempotencyKey'', JStr ''k'')])\<rparr>"

definition launched :: "run_reply \<times> key_db \<times> db" where
  "launched = serve_key kenv0 env0 handler0 (CL Launch) launch_request kdb0 db0"

definition app0 :: app where
  "app0 = \<lparr>ap_runs = db0\<lparr>projects := [\<lparr>p_id = 1, p_tenant = 1\<rparr>],
     test_cycles := [\<lparr>c_id = 2, c_project = 1, c_tenant = 1, c_config = None\<rparr>]\<rparr>, ap_auth = adb1\<rparr>"

lemma launched_schedules: "map s_id (schedules (snd (snd launched))) = [1]"
  by code_simp

lemma launched_split: "serve_key kenv0 env0 handler0 (CL Launch) launch_request kdb0 db0 = (fst launched, fst (snd launched), snd (snd launched))"
  by (simp add: launched_def)

section \<open>All routes\<close>

lemmas key_handlers = CLParallelRuns_def CLCreateParallelRun_def CLCreateParallelRunMatrix_def CLShowParallelRun_def
  CLResults_def CLUpdateParallelRunWorker_def CLClaimParallelRun_def CLHeartbeatParallelRunWorker_def
  CLCancelParallelRun_def CLIssueParallelRunToken_def CLRevokeParallelRunToken_def RunnerClaim_def
  RunnerHeartbeat_def RunnerUpdateWorker_def results_def showParallelRun_def

lemmas browser_handlers = ParallelRuns_def BrowserCreateParallelRun_def BrowserCreateParallelRunMatrix_def
  ShowParallelRun_def Results_def UpdateParallelRunWorker_def BrowserClaimParallelRun_def
  BrowserHeartbeatParallelRunWorker_def BrowserCancelParallelRun_def results_def showParallelRun_def

lemmas key_confinement = listing.key_confined reading.key_confined launching.key_confined claiming.key_confined
  updating.key_confined beating.key_confined cancelling.key_confined issuing.key_confined revoking.key_confined
  runner_claiming.key_confined runner_beating.key_confined runner_updating.key_confined

lemmas key_typing = listing.key_typed reading.key_typed launching.key_typed claiming.key_typed
  updating.key_typed beating.key_typed cancelling.key_typed issuing.key_typed revoking.key_typed
  runner_claiming.key_typed runner_beating.key_typed runner_updating.key_typed

lemma key_handler_confined:
  "snd (key_handler e h route request d) = d
     \<or> (\<exists>T. rq_tenant request = Some T \<and> run_step T d (snd (key_handler e h route request d)))"
  by (induction e h route rule: key_handler.induct) (simp_all only: key_handler.simps key_handlers, (rule key_confinement)+)

lemma key_handler_typed:
  "schedules_ok d \<Longrightarrow> schedules_typed d \<Longrightarrow> schedules_typed (snd (key_handler e h route request d))"
  by (induction e h route rule: key_handler.induct)
    (simp_all only: key_handler.simps key_handlers, (erule (1) key_typing)+)

text \<open>The same for the browser surface, whose tenant is the active tenant of the session.\<close>

lemma session_surface_handler:
  assumes "\<And>user. tenant_handler (handle user)"
    and "session_surface ae request (\<lambda>user. handle user (ActiveTenant user)) a = (s, a')"
  shows "ap_auth a' = ap_auth a \<and> (ap_runs a' = ap_runs a \<or> (\<exists>user. authenticatedUser ae request (ap_auth a)
        = (Inr user :: run_value sent + User) \<and> run_step (ActiveTenant user) (ap_runs a) (ap_runs a')))
     \<and> (schedules_ok (ap_runs a) \<longrightarrow> schedules_typed (ap_runs a) \<longrightarrow> schedules_typed (ap_runs a'))"
proof (cases "authenticatedUser ae request (ap_auth a) :: run_value sent + User")
  case (Inl x)
  then show ?thesis using assms(2) by (auto simp: session_surface_def)
next
  case (Inr user)
  then have a': "a' = a\<lparr>ap_runs := snd (handle user (ActiveTenant user) (ap_runs a))\<rparr>"
    using assms(2) by (auto simp: session_surface_def split: prod.splits)
  show ?thesis
    using tenant_handler.confined [OF assms(1), of "ActiveTenant user" "ap_runs a" user]
      tenant_handler.typed [OF assms(1), of "ap_runs a" user "ActiveTenant user"] Inr
    by (auto simp: a' own_step_def)
qed

lemma browser_handler_surface:
  "\<exists>handle. (\<forall>user. tenant_handler (handle user))
     \<and> browser_handler ae e h route request = session_surface ae request (\<lambda>user. handle user (ActiveTenant user))"
proof -
  have wrap: ?thesis if "tenant_handler f" "browser_handler ae e h route request = session_surface ae request (\<lambda>user. f (ActiveTenant user))" for f
    using that by (intro exI [where x = "\<lambda>_. f"]) simp
  show ?thesis
  proof (cases route)
    case Claim
    have "\<forall>user. tenant_handler (\<lambda>T. claimParallelRun e h request T (Some user))" using claiming.tenant_handler_axioms by blast
    then show ?thesis using Claim by (intro exI [where x = "\<lambda>user T. claimParallelRun e h request T (Some user)"])
      (simp add: browser_handlers)
  qed (use wrap listing.tenant_handler_axioms reading.tenant_handler_axioms launching.tenant_handler_axioms
      updating.tenant_handler_axioms beating.tenant_handler_axioms cancelling.tenant_handler_axioms
    in \<open>simp only: browser_handler.simps browser_handlers; blast\<close>)+
qed

text \<open>
  C2. Every route behind the key middleware refines the repository's transition relation: a request
  leaves the runs as they are, or takes exactly one step of a customer whose key it carries (the one key of
  the request is the stored key of that customer or verified by its bcrypt hash, and has not expired when the
  request is authenticated), whatever tenant its path or body names.
\<close>

theorem key_routes_refine:
  assumes "serve_key ke e h route request k d = (reply, k', d')"
  shows "d' = d \<or> (\<exists>r \<in> set (key_rows k). carries_key_of ke request (ke_clock ke 0) r \<and> run_step (kr_id r) d d')"
  using assms unfolding serve_key_def
proof (cases rule: Middleware_cases)
  case (passed v r stored)
  then have "carries_key_of ke request (ke_clock ke 0) r" by (intro carries_key)
  moreover have "d' = snd (key_handler e h route (request\<lparr>rq_tenant := Some (kr_id r)\<rparr>) d)" using passed by (metis snd_conv)
  ultimately show ?thesis using key_handler_confined [of e h route "request\<lparr>rq_tenant := Some (kr_id r)\<rparr>" d] passed by auto
qed simp

theorem key_routes_refine_witness:
  "\<exists>r \<in> set (key_rows kdb0). run_step (kr_id r) db0 (snd (snd launched))"
proof -
  have "schedules db0 = []" by (simp add: db0_def)
  then have "snd (snd launched) \<noteq> db0" using launched_schedules by auto
  with key_routes_refine [OF launched_split] show ?thesis by blast
qed

lemma Get_active: "Get ae sid now d = Inr user \<Longrightarrow> us_Status user = ''active''"
  by (auto simp: Get_def session_user_def user_of_row_def split: if_splits option.splits dest!: find_SomeD)

text \<open>
  C3. Every browser route refines the repository's transition relation: it never changes sessions or
  users, and it leaves the runs as they are or takes one step of the active tenant of the live session
  that the cookie names.
\<close>

theorem browser_routes_refine:
  assumes "browser_handler ae e h route request a = (s, a')"
  shows "ap_auth a' = ap_auth a \<and> (ap_runs a' = ap_runs a \<or> (\<exists>sid user. rq_cookie request = Some sid
    \<and> Get ae sid (ae_clock ae 0) (ap_auth a) = Inr user \<and> us_Status user = ''active''
    \<and> run_step (ActiveTenant user) (ap_runs a) (ap_runs a')))"
proof -
  obtain handle where handle: "\<And>user. tenant_handler (handle user)"
    "browser_handler ae e h route request = session_surface ae request (\<lambda>user. handle user (ActiveTenant user))"
    using browser_handler_surface by blast
  note surface = session_surface_handler [OF handle(1) assms [unfolded handle(2)]]
  have "\<exists>sid. rq_cookie request = Some sid \<and> Get ae sid (ae_clock ae 0) (ap_auth a) = Inr user \<and> us_Status user = ''active''"
    if "authenticatedUser ae request (ap_auth a) = (Inr user :: run_value sent + User)" for user
    using that Get_active
    by (auto simp: authenticatedUser_def authenticatedSession_def split: option.splits sum.splits if_splits)
  then show ?thesis using surface by blast
qed

theorem browser_routes_refine_witness:
  "\<exists>user. Get aenv0 sid0 0 adb1 = Inr user
     \<and> run_step (ActiveTenant user) (ap_runs app0) (ap_runs (snd (browser_handler aenv0 env0 handler0 Launch launch_request app0)))"
proof -
  let ?b = "browser_handler aenv0 env0 handler0 Launch launch_request app0"
  have "map s_id (schedules (ap_runs (snd ?b))) = [1]" by code_simp
  moreover have "schedules (ap_runs app0) = []" by (simp add: app0_def db0_def)
  ultimately have "ap_runs (snd ?b) \<noteq> ap_runs app0" by auto
  moreover have "rq_cookie launch_request = Some sid0" "ap_auth app0 = adb1" "ae_clock aenv0 0 = 0"
    by (simp_all add: launch_request_def app0_def aenv0_def)
  ultimately show ?thesis using browser_routes_refine [OF prod.collapse [symmetric], of aenv0 env0 handler0 Launch launch_request app0] by auto
qed

text \<open>
  The service: requests to the routes in any order, from any surface, with any configuration of the
  handlers; between them, other handlers may change sessions and keys.
\<close>

inductive served :: "app \<Rightarrow> key_db \<Rightarrow> bool" where
  start: "fresh_db (ap_runs a) \<Longrightarrow> served a k"
| browser: "served a k \<Longrightarrow> browser_handler ae e h route request a = (s, a') \<Longrightarrow> served a' k"
| key: "served a k \<Longrightarrow> serve_key ke e h kroute request k (ap_runs a) = (reply, k', d') \<Longrightarrow> served (a\<lparr>ap_runs := d'\<rparr>) k'"
| elsewhere: "served a k \<Longrightarrow> ap_runs a' = ap_runs a \<Longrightarrow> served a' k'"

lemma key_serving:
  assumes "serve_key ke e h kroute request k d = (reply, k', d')" "reachable d" "schedules_typed d"
  shows "reachable d' \<and> schedules_typed d'"
  using assms(1) unfolding serve_key_def
proof (cases rule: Middleware_cases)
  case (passed v r stored)
  let ?q = "request\<lparr>rq_tenant := Some (kr_id r)\<rparr>"
  have d': "d' = snd (key_handler e h kroute ?q d)" using passed by (metis snd_conv)
  show ?thesis
    using key_handler_confined [of e h kroute ?q d] key_handler_typed [of d e h kroute ?q] reachable_schedules_ok assms(2,3)
    unfolding d' by (metis reachable.step)
qed (use assms in simp)

lemma browser_serving:
  assumes "browser_handler ae e h route request a = (s, a')" "reachable (ap_runs a)" "schedules_typed (ap_runs a)"
  shows "reachable (ap_runs a') \<and> schedules_typed (ap_runs a')"
proof -
  obtain handle where handle: "\<And>user. tenant_handler (handle user)"
    "browser_handler ae e h route request = session_surface ae request (\<lambda>user. handle user (ActiveTenant user))"
    using browser_handler_surface by blast
  from session_surface_handler [OF handle(1) assms(1) [unfolded handle(2)]] show ?thesis
    using assms(2,3) reachable_schedules_ok by (metis reachable.step)
qed

lemma served_invariant: "served a k \<Longrightarrow> reachable (ap_runs a) \<and> schedules_typed (ap_runs a)"
proof (induction rule: served.induct)
  case (start a k)
  then show ?case by (auto intro: reachable.start simp: fresh_db_def schedules_typed_def)
next
  case (browser a k ae e h route request s a')
  then show ?case using browser_serving by blast
next
  case (key a k ke e h kroute request reply k' d')
  then show ?case using key_serving by auto
qed simp

text \<open>
  C8. The type of a schedule, in every state the service reaches: the status is \<open>queued\<close>,
  \<open>running\<close> or terminal (never \<open>cancelling\<close>, although two guards test for it), the
  completion time and the aggregate code are set exactly on terminal rows, the requested concurrency
  is between 1 and 32, and the idempotency key has between 1 and 128 bytes; no two schedules share
  an identifier or a key within a project.
\<close>

theorem served_schedules_typed:
  assumes "served a k"
  shows "list_all schedule_typed (schedules (ap_runs a)) \<and> distinct (map s_id (schedules (ap_runs a)))
    \<and> distinct (map uniq_key (schedules (ap_runs a)))"
  using served_invariant [OF assms] reachable_schedules_ok [of "ap_runs a"]
  by (simp add: schedules_typed_def schedules_ok_def)

section \<open>The runner surface\<close>

lemma ValidateWorkerToken_Inr:
  assumes "ValidateWorkerToken e t p r wid tok now d = Inr ()"
  obtains s worker hash expiresAt where "tok \<noteq> []" "find_schedule t p r d = Some s"
    "existing_worker (decodeParallelMap (s_workers s)) wid = Some worker"
    "ParseRFC3339Nano (str_or_empty (mget worker ''workerTokenExpiresAt'')) = Some expiresAt" "now < expiresAt"
    "hash = str_or_empty (mget worker ''workerTokenHash'')" "hash \<noteq> []" "bcrypt_matches e hash tok"
  using assms by (auto simp: ValidateWorkerToken_def Let_def split: if_splits option.splits)

lemma validateWorkerToken_Inr:
  "validateWorkerToken e now request tenant p r wid d = Inr u
     \<Longrightarrow> ValidateWorkerToken e tenant p r wid (rq_header request ''Idelium-Worker-Token'') now d = Inr ()"
  by (auto simp: validateWorkerToken_def split: sum.splits)

lemma runner_heartbeat_call:
  assumes "runner_heartbeat e h request T d = (reply, d')" "d' \<noteq> d"
  obtains p r wid lease where "15 \<le> lease" "lease \<le> 3600"
    "ValidateWorkerToken e T p r wid (rq_header request ''Idelium-Worker-Token'') (rh_clock h 0) d = Inr ()"
    "d' = snd (HeartbeatParallelRunWorker e T p r wid lease (rh_clock h 1) d)"
proof -
  obtain body where body: "decodeJSON request (runner_fields @ [(''leaseSeconds'', KInt)]) = Some body"
    using assms by (auto simp: runner_heartbeat_def split: option.splits)
  define p where "p = get_int body ''idProject''"
  define r where "r = get_int body ''parallelRun''"
  define wid where "wid = TrimSpace (get_str body ''workerId'')"
  define lease where "lease = (if get_int body ''leaseSeconds'' = 0 then 120 else get_int body ''leaseSeconds'')"
  have "\<exists>u. validateWorkerToken e (rh_clock h 0) request T p r wid d = Inr u \<and> \<not> (lease < 15 \<or> lease > 3600)
      \<and> d' = snd (HeartbeatParallelRunWorker e T p r wid lease (rh_clock h 1) d)"
    using assms body unfolding p_def r_def wid_def lease_def
    by (auto simp: runner_heartbeat_def Let_def split: if_splits sum.splits prod.splits)
  then show thesis using that validateWorkerToken_Inr by (metis not_less)
qed

lemma runner_update_call:
  assumes "runner_update e h request T d = (reply, d')" "d' \<noteq> d"
  obtains u where "up_TenantID u = T" "validWorkerStatus (up_Status u)"
    "ValidateWorkerToken e T (up_ProjectID u) (up_RunID u) (up_WorkerID u) (rq_header request ''Idelium-Worker-Token'') (rh_clock h 0) d = Inr ()"
    "d' = snd (UpdateRunnerWorker e u d)"
proof -
  obtain body where body: "decodePlain request (runner_fields @ [(''status'', KStr), (''result'', KAny)]) = Some body"
    using assms by (auto simp: runner_update_def split: option.splits)
  define u where "u = \<lparr>up_TenantID = T, up_ProjectID = get_int body ''idProject'', up_RunID = get_int body ''parallelRun'',
      up_WorkerID = TrimSpace (get_str body ''workerId''), up_Status = get_str body ''status'',
      up_Result = get_any body ''result'', up_Now = rh_clock h 1\<rparr>"
  have "\<exists>x. validateWorkerToken e (rh_clock h 0) request T (up_ProjectID u) (up_RunID u) (up_WorkerID u) d = Inr x
      \<and> validWorkerStatus (up_Status u) \<and> d' = snd (UpdateRunnerWorker e u d)"
    using assms body unfolding u_def
    by (auto simp: runner_update_def Let_def split: if_splits sum.splits prod.splits)
  then show thesis using that [of u] validateWorkerToken_Inr by (auto simp: u_def)
qed

text \<open>
  C7. A runner acts only with a worker token: when a runner heartbeat or a runner update changes
  anything, the run holds a worker document whose unexpired token hash verifies the token the request
  carries, and nothing but the row of that run changes.
\<close>

theorem runner_needs_token:
  assumes "key_handler e h route request d = (reply, d')" "route = RunnerBeat \<or> route = RunnerUpdate" "d' \<noteq> d"
  shows "\<exists>T p r wid s worker. rq_tenant request = Some T \<and> find_schedule T p r d = Some s
    \<and> existing_worker (decodeParallelMap (s_workers s)) wid = Some worker
    \<and> bcrypt_matches e (str_or_empty (mget worker ''workerTokenHash'')) (rq_header request ''Idelium-Worker-Token'')
    \<and> (\<exists>t. ParseRFC3339Nano (str_or_empty (mget worker ''workerTokenExpiresAt'')) = Some t \<and> rh_clock h 0 < t)
    \<and> (\<exists>f. d' = update_schedule T p r f d)"
proof -
  obtain T where T: "rq_tenant request = Some T"
    using assms by (auto simp: RunnerHeartbeat_def RunnerUpdateWorker_def key_surface_def split: option.splits)
  obtain p r wid where call: "ValidateWorkerToken e T p r wid (rq_header request ''Idelium-Worker-Token'') (rh_clock h 0) d = Inr ()"
    and effect: "\<exists>f. d' = update_schedule T p r f d"
  proof (cases "route = RunnerBeat")
    case True
    then have run: "runner_heartbeat e h request T d = (reply, d')"
      using assms T by (simp add: RunnerHeartbeat_def key_surface_def)
    obtain p r wid lease where hb: "ValidateWorkerToken e T p r wid (rq_header request ''Idelium-Worker-Token'') (rh_clock h 0) d = Inr ()"
      "d' = snd (HeartbeatParallelRunWorker e T p r wid lease (rh_clock h 1) d)"
      using runner_heartbeat_call [OF run assms(3)] by metis
    have "HeartbeatParallelRunWorker e T p r wid lease (rh_clock h 1) d
        = (fst (HeartbeatParallelRunWorker e T p r wid lease (rh_clock h 1) d), d')" using hb by simp
    from HeartbeatParallelRunWorker_effect [OF this] assms(3) show thesis using that [OF hb(1)] by blast
  next
    case False
    then have run: "runner_update e h request T d = (reply, d')"
      using assms T by (simp add: RunnerUpdateWorker_def key_surface_def)
    from runner_update_call [OF run assms(3)] obtain u where u: "up_TenantID u = T"
      "ValidateWorkerToken e T (up_ProjectID u) (up_RunID u) (up_WorkerID u) (rq_header request ''Idelium-Worker-Token'') (rh_clock h 0) d = Inr ()"
      "d' = snd (UpdateRunnerWorker e u d)" by metis
    have "UpdateRunnerWorker e u d = (fst (UpdateRunnerWorker e u d), d')" using u by simp
    from UpdateRunnerWorker_effect [OF this] assms(3) show thesis using that [OF u(2)] u(1) by blast
  qed
  from call show ?thesis by (rule ValidateWorkerToken_Inr) (use T effect in blast)
qed

text \<open>
  A body that is missing or is not JSON: launching (singly or as a matrix) and claiming send no
  reply at all, which the client sees as an empty success with status 200, although nothing was done;
  the other routes with a body that cannot do without it answer 422.
\<close>

lemma malformed_body_replies:
  assumes "rq_tenant request = Some T" "rq_body request = BEOF \<or> rq_body request = BBad"
    and "parsePathID (rq_path request ''idProject'') = Some p" "parsePathID (rq_path request ''parallelRun'') = Some r"
    and "TrimSpace (rq_path request ''workerId'') \<noteq> []" "length (TrimSpace (rq_path request ''workerId'')) \<le> 128"
  shows "(\<forall>route \<in> {CL Launch, CL Matrix, CL Claim}. key_handler e h route request d = (NoReply, d)
      \<and> http_status (fst (key_handler e h route request d)) = 200)
    \<and> (\<forall>route \<in> {CL Worker, IssueToken, RunnerClaiming, RunnerBeat, RunnerUpdate}. snd (key_handler e h route request d) = d
      \<and> http_status (fst (key_handler e h route request d)) = 422)"
proof -
  have none: "decodeJSON request fs = None" "decodePlain request fs = None" for fs
    using assms(2) by (auto simp: decodeJSON_def decodePlain_def)
  have path: "parseAssetVersionPath request ''parallelRun'' = (Inr (p, r) :: run_reply + int \<times> int)"
    using assms(3,4) by (simp add: parseAssetVersionPath_def)
  show ?thesis
    using assms by (simp add: key_handlers key_surface_def none path createParallelRun_def claimParallelRun_def
        updateWorker_def issue_run_token_def runner_claim_def runner_heartbeat_def runner_update_def Let_def
        invalidStatusReply_def invalidWorkerReply_def)
qed

section \<open>Instances\<close>

theorem served_schedules_typed_witness:
  "list_all schedule_typed (schedules (snd (snd launched))) \<and> schedules (snd (snd launched)) \<noteq> []"
proof -
  define a where "a = \<lparr>ap_runs = db0, ap_auth = adb1\<rparr>"
  have "served a kdb0" by (rule served.start) (simp add: a_def fresh_db_def db0_def)
  moreover have "serve_key kenv0 env0 handler0 (CL Launch) launch_request kdb0 (ap_runs a)
      = (fst launched, fst (snd launched), snd (snd launched))" using launched_split by (simp add: a_def)
  ultimately have "served (a\<lparr>ap_runs := snd (snd launched)\<rparr>) (fst (snd launched))" by (rule served.key)
  from served_schedules_typed [OF this] show ?thesis using launched_schedules by auto
qed

text \<open>A runner that claimed a slot and then sends a heartbeat with the worker token it got.\<close>

definition worker_token0 :: string where
  "worker_token0 = (case fst (ClaimParallelRun env0 (claim0 ''a'' [] 0) db1) of Inr run \<Rightarrow> WorkerToken run | Inl _ \<Rightarrow> [])"

definition beat_request :: http_request where
  "beat_request = (key_request [''x''])\<lparr>rq_tenant := Some 7, rq_header := (\<lambda>name. if name = ''Idelium-Worker-Token'' then worker_token0 else []),
     rq_body := BDoc (JObj [(''idProject'', JNum 1), (''parallelRun'', JNum 1), (''workerId'', JStr ''a''), (''leaseSeconds'', JNum 60)])\<rparr>"

definition later_handler :: run_handler where
  "later_handler = handler0\<lparr>rh_clock := (\<lambda>_. 5 * second)\<rparr>"

theorem runner_needs_token_witness:
  "\<exists>p r s wid worker. find_schedule 7 p r db3 = Some s \<and> existing_worker (decodeParallelMap (s_workers s)) wid = Some worker
     \<and> bcrypt_matches env0 (str_or_empty (mget worker ''workerTokenHash'')) worker_token0"
proof -
  let ?k = "key_handler env0 later_handler RunnerBeat beat_request db3"
  have "map s_updatedAt (schedules (snd ?k)) = [Some (5 * second)]" by code_simp
  moreover have "map s_updatedAt (schedules db3) = [Some 0]" by code_simp
  ultimately have "snd ?k \<noteq> db3" by (auto simp del: key_handler.simps)
  moreover have "rq_tenant beat_request = Some 7" "rq_header beat_request ''Idelium-Worker-Token'' = worker_token0"
    by (simp_all add: beat_request_def)
  ultimately obtain p r wid s worker where "find_schedule 7 p r db3 = Some s"
    "existing_worker (decodeParallelMap (s_workers s)) wid = Some worker"
    "bcrypt_matches env0 (str_or_empty (mget worker ''workerTokenHash'')) worker_token0"
    using runner_needs_token [of env0 later_handler RunnerBeat beat_request db3 "fst ?k" "snd ?k"]
    by (auto simp del: key_handler.simps)
  then show ?thesis by blast
qed

lemma malformed_body_replies_witness:
  "key_handler env0 handler0 (CL Launch) ((key_request [])\<lparr>rq_tenant := Some 7\<rparr>) db0 = (NoReply, db0)"
proof -
  have "parsePathID ''1'' = Some 1" "TrimSpace ''1'' = ''1''" by code_simp+
  then show ?thesis
    using malformed_body_replies [of "(key_request [])\<lparr>rq_tenant := Some 7\<rparr>" 7 1 1 env0 handler0 db0]
    by (simp add: key_request_def)
qed

end
