(* ===== verification/Secrets.thy ===== *)
theory Secrets
  imports Store
begin

text \<open>
  Integration secrets (internal/integrations/secret.go): the application key, the padding, and the
  Laravel envelope of an AES-256-CBC ciphertext with its HMAC. A byte slice is a \<open>string\<close>.

  AES, HMAC-SHA256, the random bytes and the JSON decoder of the envelope are parameters; the chaining
  of blocks, base64, hexadecimal and the padding are definitions.
\<close>

section \<open>Encodings of the standard library\<close>

text \<open>\<open>base64.StdEncoding\<close>. The decoder skips line breaks, demands padding and ignores trailing bits.\<close>

definition b64_alphabet :: string where
  "b64_alphabet = ''ABCDEFGHIJKLMNOPQRSTUVWXYZabcdefghijklmnopqrstuvwxyz0123456789+/''"

definition b64_char :: "nat \<Rightarrow> char" where
  "b64_char n = b64_alphabet ! (n mod 64)"

fun index_of :: "'a \<Rightarrow> 'a list \<Rightarrow> nat option" where
  "index_of x [] = None"
| "index_of x (y # ys) = (if x = y then Some 0 else map_option Suc (index_of x ys))"

definition b64_value :: "char \<Rightarrow> nat option" where
  "b64_value c = index_of c b64_alphabet"

fun b64_encode :: "string \<Rightarrow> string" where
  "b64_encode [] = []"
| "b64_encode [a] = [b64_char (byte_of a div 4), b64_char (byte_of a mod 4 * 16), CHR ''='', CHR ''='']"
| "b64_encode [a, b] = [b64_char (byte_of a div 4), b64_char (byte_of a mod 4 * 16 + byte_of b div 16),
     b64_char (byte_of b mod 16 * 4), CHR ''='']"
| "b64_encode (a # b # c # bs) =
     b64_char (byte_of a div 4) # b64_char (byte_of a mod 4 * 16 + byte_of b div 16)
       # b64_char (byte_of b mod 16 * 4 + byte_of c div 64) # b64_char (byte_of c mod 64) # b64_encode bs"

fun b64_groups :: "string \<Rightarrow> string option" where
  "b64_groups [] = Some []"
| "b64_groups (p # q # r # s # rest) =
     (case (b64_value p, b64_value q) of
        (Some x, Some y) \<Rightarrow>
          if r = CHR ''=''
          then (if s = CHR ''='' \<and> rest = [] then Some [char_of (x * 4 + y div 16)] else None)
          else (case b64_value r of
            None \<Rightarrow> None
          | Some z \<Rightarrow>
              if s = CHR ''=''
              then (if rest = [] then Some [char_of (x * 4 + y div 16), char_of (y mod 16 * 16 + z div 4)] else None)
              else (case (b64_value s, b64_groups rest) of
                (Some w, Some bs) \<Rightarrow>
                  Some (char_of (x * 4 + y div 16) # char_of (y mod 16 * 16 + z div 4) # char_of (z mod 4 * 64 + w) # bs)
              | _ \<Rightarrow> None))
      | _ \<Rightarrow> None)"
| "b64_groups _ = None"

definition line_break :: "char \<Rightarrow> bool" where
  "line_break c \<longleftrightarrow> c = char_of (10::nat) \<or> c = char_of (13::nat)"

definition b64_decode :: "string \<Rightarrow> string option" where
  "b64_decode s = b64_groups (filter (\<lambda>c. \<not> line_break c) s)"

text \<open>\<open>hex.EncodeToString\<close> and \<open>hex.DecodeString\<close>, which takes digits of either case.\<close>

definition to_hex :: "string \<Rightarrow> string" where
  "to_hex bs = hex_encode (map byte_of bs)"

definition hex_value :: "char \<Rightarrow> nat option" where
  "hex_value c = index_of (lower_char c) ''0123456789abcdef''"

fun from_hex :: "string \<Rightarrow> string option" where
  "from_hex [] = Some []"
| "from_hex [a] = None"
| "from_hex (a # b # s) =
     (case (hex_value a, hex_value b, from_hex s) of
        (Some x, Some y, Some bs) \<Rightarrow> Some (char_of (x * 16 + y) # bs)
      | _ \<Rightarrow> None)"

section \<open>The application key\<close>

datatype secret_error =
    ErrInvalidApplicationKey
  | ErrInvalidCiphertext
  | KeyFileUnreadable
  | KeyNotConfigured
  | RandFailure

definition ParseApplicationKey :: "string \<Rightarrow> secret_error + string" where
  "ParseApplicationKey text =
     (let v = TrimSpace text
      in if HasPrefix v ''base64:''
         then (case b64_decode (TrimPrefix v ''base64:'') of
                 Some decoded \<Rightarrow> if length decoded \<noteq> 32 then Inl ErrInvalidApplicationKey else Inr decoded
               | None \<Rightarrow> Inl ErrInvalidApplicationKey)
         else if length v \<noteq> 32 then Inl ErrInvalidApplicationKey
         else Inr v)"

definition ApplicationKeyFromEnvironment :: "(string \<Rightarrow> string) \<Rightarrow> (string \<Rightarrow> string option) \<Rightarrow> secret_error + string" where
  "ApplicationKeyFromEnvironment getenv readfile =
     (let file = (if getenv ''IDELIUM_APP_KEY_FILE'' = [] then getenv ''APP_KEY_FILE'' else getenv ''IDELIUM_APP_KEY_FILE'');
          parse = (\<lambda>v. case ParseApplicationKey v of Inl _ \<Rightarrow> Inl KeyNotConfigured | Inr key \<Rightarrow> Inr key)
      in if file = [] then parse (getenv ''APP_KEY'')
         else (case readfile file of
                 None \<Rightarrow> Inl KeyFileUnreadable
               | Some contents \<Rightarrow> parse (TrimRight contents [char_of (13::nat), char_of (10::nat)])))"

section \<open>Padding\<close>

definition pkcs7Pad :: "string \<Rightarrow> nat \<Rightarrow> string" where
  "pkcs7Pad bytes blockSize =
     (let padding = blockSize - length bytes mod blockSize in bytes @ replicate padding (char_of padding))"

definition pkcs7Unpad :: "string \<Rightarrow> nat \<Rightarrow> string option" where
  "pkcs7Unpad bytes blockSize =
     (if bytes = [] \<or> length bytes mod blockSize \<noteq> 0 then None
      else let padding = byte_of (last bytes)
           in if padding < 1 \<or> padding > blockSize \<or> padding > length bytes then None
              else if \<not> list_all (\<lambda>c. byte_of c = padding) (drop (length bytes - padding) bytes) then None
              else Some (take (length bytes - padding) bytes))"

section \<open>Cipher-block chaining\<close>

text \<open>\<open>cipher.NewCBCEncrypter\<close> and \<open>NewCBCDecrypter\<close> over a block function, on whole blocks of 16 bytes.\<close>

fun xor_char :: "char \<Rightarrow> char \<Rightarrow> char" where
  "xor_char (Char a0 a1 a2 a3 a4 a5 a6 a7) (Char b0 b1 b2 b3 b4 b5 b6 b7) =
     Char (a0 \<noteq> b0) (a1 \<noteq> b1) (a2 \<noteq> b2) (a3 \<noteq> b3) (a4 \<noteq> b4) (a5 \<noteq> b5) (a6 \<noteq> b6) (a7 \<noteq> b7)"

definition xor_block :: "string \<Rightarrow> string \<Rightarrow> string" where
  "xor_block a b = map2 xor_char a b"

fun blocks :: "nat \<Rightarrow> string \<Rightarrow> string list" where
  "blocks 0 s = []"
| "blocks (Suc n) s = take 16 s # blocks n (drop 16 s)"

fun cbc_encrypt :: "(string \<Rightarrow> string) \<Rightarrow> string \<Rightarrow> string list \<Rightarrow> string" where
  "cbc_encrypt enc prev [] = []"
| "cbc_encrypt enc prev (b # bs) = (let c = enc (xor_block b prev) in c @ cbc_encrypt enc c bs)"

fun cbc_decrypt :: "(string \<Rightarrow> string) \<Rightarrow> string \<Rightarrow> string list \<Rightarrow> string" where
  "cbc_decrypt dec prev [] = []"
| "cbc_decrypt dec prev (c # cs) = xor_block (dec c) prev @ cbc_decrypt dec c cs"

definition aes_blocks :: "string \<Rightarrow> string list" where
  "aes_blocks s = blocks (length s div 16) s"

section \<open>The envelope\<close>

record laravelPayload =
  lp_IV :: string
  lp_Value :: string
  lp_MAC :: string
  lp_Tag :: string

record crypto =
  cr_rand :: "nat \<Rightarrow> string option"
  cr_encrypt :: "string \<Rightarrow> string \<Rightarrow> string"
  cr_decrypt :: "string \<Rightarrow> string \<Rightarrow> string"
  cr_hmac :: "string \<Rightarrow> string \<Rightarrow> string"
  cr_unmarshal :: "string \<Rightarrow> laravelPayload option"

text \<open>
  \<open>json.Marshal\<close> of a payload: its fields hold base64 and hexadecimal text, none of which JSON or
  the HTML escaping of Go rewrites.
\<close>

definition quoted :: "string \<Rightarrow> string" where
  "quoted s = CHR 0x22 # s @ [CHR 0x22]"

definition marshal_payload :: "laravelPayload \<Rightarrow> string" where
  "marshal_payload p = ''{'' @ quoted ''iv'' @ '':'' @ quoted (lp_IV p) @ '','' @ quoted ''value'' @ '':'' @ quoted (lp_Value p)
     @ '','' @ quoted ''mac'' @ '':'' @ quoted (lp_MAC p) @ '','' @ quoted ''tag'' @ '':'' @ quoted (lp_Tag p) @ ''}''"

definition EncryptLaravelString :: "crypto \<Rightarrow> string \<Rightarrow> string \<Rightarrow> secret_error + string" where
  "EncryptLaravelString cr key plaintext =
     (if length key \<noteq> 32 then Inl ErrInvalidApplicationKey
      else case cr_rand cr 16 of
        None \<Rightarrow> Inl RandFailure
      | Some iv \<Rightarrow>
          let ciphertext = cbc_encrypt (cr_encrypt cr key) iv (aes_blocks (pkcs7Pad plaintext 16));
              encodedIV = b64_encode iv; encodedValue = b64_encode ciphertext
          in Inr (b64_encode (marshal_payload \<lparr>lp_IV = encodedIV, lp_Value = encodedValue,
                 lp_MAC = to_hex (cr_hmac cr key (encodedIV @ encodedValue)), lp_Tag = []\<rparr>)))"

definition DecryptLaravelString :: "crypto \<Rightarrow> string \<Rightarrow> string \<Rightarrow> secret_error + string" where
  "DecryptLaravelString cr key envelope =
     (if length key \<noteq> 32 then Inl ErrInvalidApplicationKey
      else case b64_decode envelope of None \<Rightarrow> Inl ErrInvalidCiphertext | Some payloadJSON \<Rightarrow>
      (case cr_unmarshal cr payloadJSON of None \<Rightarrow> Inl ErrInvalidCiphertext | Some payload \<Rightarrow>
      (case b64_decode (lp_IV payload) of None \<Rightarrow> Inl ErrInvalidCiphertext | Some iv \<Rightarrow>
      if length iv \<noteq> 16 then Inl ErrInvalidCiphertext else
      (case b64_decode (lp_Value payload) of None \<Rightarrow> Inl ErrInvalidCiphertext | Some ciphertext \<Rightarrow>
      if ciphertext = [] \<or> length ciphertext mod 16 \<noteq> 0 then Inl ErrInvalidCiphertext else
      (case from_hex (lp_MAC payload) of None \<Rightarrow> Inl ErrInvalidCiphertext | Some expectedMAC \<Rightarrow>
      if expectedMAC \<noteq> cr_hmac cr key (lp_IV payload @ lp_Value payload) then Inl ErrInvalidCiphertext
      else (case pkcs7Unpad (cbc_decrypt (cr_decrypt cr key) iv (aes_blocks ciphertext)) 16 of
              None \<Rightarrow> Inl ErrInvalidCiphertext
            | Some plaintext \<Rightarrow> Inr plaintext))))))"

end
