(* ===== verification/Destinations.thy ===== *)
theory Destinations
  imports Prelude "HOL-Library.Word"
begin

unbundle bit_operations_syntax

text \<open>
  The destinations of webhooks (internal/integrations/destination.go) over \<open>net.IP\<close>, a slice of 4 or
  16 bytes. The predicates of package net are written out as that package defines them; parsing a URL,
  parsing an address and resolving a name are parameters.
\<close>

type_synonym IP = "8 word list"

definition To4 :: "IP \<Rightarrow> IP option" where
  "To4 ip = (if length ip = 4 then Some ip
     else if length ip = 16 \<and> take 10 ip = replicate 10 0 \<and> ip ! 10 = 255 \<and> ip ! 11 = 255 then Some (drop 12 ip)
     else None)"

definition IsUnspecified :: "IP \<Rightarrow> bool" where
  "IsUnspecified ip \<longleftrightarrow> To4 ip = Some [0, 0, 0, 0] \<or> ip = replicate 16 0"

definition IsLoopback :: "IP \<Rightarrow> bool" where
  "IsLoopback ip \<longleftrightarrow> (case To4 ip of Some v \<Rightarrow> v ! 0 = 127 | None \<Rightarrow> ip = replicate 15 0 @ [1])"

definition IsPrivate :: "IP \<Rightarrow> bool" where
  "IsPrivate ip \<longleftrightarrow> (case To4 ip of
     Some v \<Rightarrow> v ! 0 = 10 \<or> v ! 0 = 172 \<and> v ! 1 AND 0xF0 = 16 \<or> v ! 0 = 192 \<and> v ! 1 = 168
   | None \<Rightarrow> length ip = 16 \<and> ip ! 0 AND 0xFE = 0xFC)"

definition IsMulticast :: "IP \<Rightarrow> bool" where
  "IsMulticast ip \<longleftrightarrow> (case To4 ip of Some v \<Rightarrow> v ! 0 AND 0xF0 = 0xE0 | None \<Rightarrow> length ip = 16 \<and> ip ! 0 = 0xFF)"

definition IsLinkLocalMulticast :: "IP \<Rightarrow> bool" where
  "IsLinkLocalMulticast ip \<longleftrightarrow> (case To4 ip of
     Some v \<Rightarrow> v ! 0 = 224 \<and> v ! 1 = 0 \<and> v ! 2 = 0
   | None \<Rightarrow> length ip = 16 \<and> ip ! 0 = 0xFF \<and> ip ! 1 AND 0x0F = 2)"

definition IsLinkLocalUnicast :: "IP \<Rightarrow> bool" where
  "IsLinkLocalUnicast ip \<longleftrightarrow> (case To4 ip of
     Some v \<Rightarrow> v ! 0 = 169 \<and> v ! 1 = 254
   | None \<Rightarrow> length ip = 16 \<and> ip ! 0 = 0xFE \<and> ip ! 1 AND 0xC0 = 0x80)"

text \<open>The broadcast address is compared with \<open>IP.Equal\<close>, which identifies the two forms of an IPv4 address.\<close>

definition IsGlobalUnicast :: "IP \<Rightarrow> bool" where
  "IsGlobalUnicast ip \<longleftrightarrow> (length ip = 4 \<or> length ip = 16) \<and> To4 ip \<noteq> Some [255, 255, 255, 255]
     \<and> \<not> IsUnspecified ip \<and> \<not> IsLoopback ip \<and> \<not> IsMulticast ip \<and> \<not> IsLinkLocalUnicast ip"

definition publicAddress :: "IP \<Rightarrow> bool" where
  "publicAddress ip \<longleftrightarrow> IsGlobalUnicast ip \<and> \<not> IsPrivate ip \<and> \<not> IsLoopback ip \<and> \<not> IsLinkLocalUnicast ip
     \<and> \<not> IsLinkLocalMulticast ip"

record parsed_url =
  pu_Scheme :: string
  pu_Hostname :: string
  pu_hasUser :: bool

record resolver =
  rs_parse :: "string \<Rightarrow> parsed_url option"
  rs_parseIP :: "string \<Rightarrow> IP option"
  rs_lookup :: "string \<Rightarrow> IP list option"

definition SafeDestination :: "resolver \<Rightarrow> string \<Rightarrow> bool" where
  "SafeDestination rs url =
     (case rs_parse rs url of
        None \<Rightarrow> False
      | Some parsed \<Rightarrow>
          if (pu_Scheme parsed \<noteq> ''http'' \<and> pu_Scheme parsed \<noteq> ''https'') \<or> pu_Hostname parsed = []
             \<or> EqualFold (pu_Hostname parsed) ''localhost'' \<or> pu_hasUser parsed
          then False
          else (case rs_parseIP rs (pu_Hostname parsed) of
            Some address \<Rightarrow> publicAddress address
          | None \<Rightarrow> (case rs_lookup rs (pu_Hostname parsed) of
              None \<Rightarrow> False
            | Some addresses \<Rightarrow> addresses \<noteq> [] \<and> list_all publicAddress addresses)))"

end
