(* ===== verification/Deliveries.thy ===== *)
theory Deliveries
  imports Secrets Destinations Json
begin

text \<open>
  Outbound deliveries: the dispatcher (internal/integrations/dispatcher.go), the store it works on
  (internal/persistence/mysql/integration_delivery_store.go and \<open>NextDispatchID\<close> of queue_drain.go), the
  worker loop (internal/integrations/worker.go) and its lease (integration_worker_lease.go).
\<close>

section \<open>Rows and values\<close>

record endpoint_row =
  er_id :: int
  er_tenant :: int
  er_project :: int
  er_adapter :: string
  er_url :: string
  er_status :: string
  er_secret :: string

record delivery_row =
  dr_id :: int
  dr_tenant :: int
  dr_project :: int
  dr_endpoint :: int
  dr_deliveryId :: string
  dr_event :: string
  dr_schemaVersion :: string
  dr_status :: string
  dr_attempts :: int
  dr_payload :: "json option"
  dr_responseStatus :: "int option"
  dr_lastError :: "string option"
  dr_nextAttemptAt :: "instant option"
  dr_sentAt :: "instant option"
  dr_createdAt :: "instant option"

record delivery_audit =
  da_tenant :: int
  da_project :: int
  da_target :: int
  da_after :: json
  da_result :: string
  da_metadata :: json

record delivery_db =
  endpoints :: "endpoint_row list"
  deliveries :: "delivery_row list"
  delivery_audits :: "delivery_audit list"

record Delivery =
  dl_ID :: int
  dl_TenantID :: int
  dl_ProjectID :: int
  dl_EndpointID :: int
  dl_DeliveryID :: string
  dl_Event :: string
  dl_SchemaVersion :: string
  dl_Status :: string
  dl_Attempts :: int
  dl_Payload :: json

record DispatchOutcome =
  do_Status :: string
  do_Attempts :: int
  do_ResponseStatus :: "int option"
  do_LastError :: "string option"
  do_NextAttemptAt :: "instant option"
  do_SentAt :: "instant option"

datatype delivery_error = ErrDeliveryNotFound | ErrNoPendingDelivery | DeliveryFailure string

record webhook =
  wh_method :: string
  wh_url :: string
  wh_headers :: "(string \<times> string) list"
  wh_body :: string

text \<open>
  The answer to one request, with the address that its \<open>Location\<close> header leads to from the address of the
  request: none without the header, and a bad one when the header does not parse.
\<close>

datatype location = NoLocation | BadLocation | Location string

record http_response =
  hr_status :: int
  hr_location :: location

record http_client =
  cl_Timeout :: int

text \<open>
  The environment of a dispatch: failing statements, what a timestamp column keeps, the transport of the HTTP
  client (the answer to the request with the given number in a chain of redirects; \<open>None\<close> when the round trip
  fails or the time of the client is up), the \<open>Referer\<close> header that net/http adds to a redirected request,
  \<open>http.NewRequest\<close>'s verdict on the URL, the JSON encoder, the RFC 3339 text of an instant in the zone of the
  process, the resolver and the cryptography.
\<close>

record dispatch_env =
  de_fails :: "string \<Rightarrow> bool"
  de_column_time :: "instant \<Rightarrow> instant"
  de_transport :: "http_client \<Rightarrow> nat \<Rightarrow> webhook \<Rightarrow> http_response option"
  de_referer :: "webhook \<Rightarrow> string \<Rightarrow> (string \<times> string) list"
  de_url_valid :: "string \<Rightarrow> bool"
  de_marshal :: "json \<Rightarrow> string option"
  de_format :: "instant \<Rightarrow> string"
  de_resolver :: resolver
  de_crypto :: crypto

section \<open>The store\<close>

definition delivery_of :: "delivery_row \<Rightarrow> json \<Rightarrow> Delivery" where
  "delivery_of r payload = \<lparr>dl_ID = dr_id r, dl_TenantID = dr_tenant r, dl_ProjectID = dr_project r,
     dl_EndpointID = dr_endpoint r, dl_DeliveryID = dr_deliveryId r, dl_Event = dr_event r,
     dl_SchemaVersion = dr_schemaVersion r, dl_Status = dr_status r, dl_Attempts = dr_attempts r, dl_Payload = payload\<rparr>"

definition joins :: "delivery_row \<Rightarrow> endpoint_row \<Rightarrow> bool" where
  "joins r ep \<longleftrightarrow> er_id ep = dr_endpoint r \<and> er_tenant ep = dr_tenant r \<and> er_project ep = dr_project r"

text \<open>A payload column that is no JSON object (or null) cannot be decoded into the map.\<close>

definition LoadForDispatch :: "dispatch_env \<Rightarrow> int \<Rightarrow> delivery_db \<Rightarrow> delivery_error + endpoint_row \<times> Delivery" where
  "LoadForDispatch e deliveryID d =
     (if de_fails e ''load integration delivery for dispatch'' then Inl (DeliveryFailure ''load integration delivery for dispatch'')
      else case find (\<lambda>r. dr_id r = deliveryID) (deliveries d) of
        None \<Rightarrow> Inl ErrDeliveryNotFound
      | Some r \<Rightarrow> (case find (joins r) (endpoints d) of
          None \<Rightarrow> Inl ErrDeliveryNotFound
        | Some ep \<Rightarrow> (case dr_payload r of
            None \<Rightarrow> Inr (ep, delivery_of r (JObj []))
          | Some (JObj m) \<Rightarrow> Inr (ep, delivery_of r (JObj m))
          | Some JNull \<Rightarrow> Inr (ep, delivery_of r JNull)
          | Some _ \<Rightarrow> Inl (DeliveryFailure ''decode integration delivery payload''))))"

definition addresses :: "Delivery \<Rightarrow> delivery_row \<Rightarrow> bool" where
  "addresses dl r \<longleftrightarrow> dr_id r = dl_ID dl \<and> dr_tenant r = dl_TenantID dl \<and> dr_project r = dl_ProjectID dl
     \<and> dr_endpoint r = dl_EndpointID dl \<and> dr_attempts r = dl_Attempts dl \<and> dr_status r \<noteq> ''sent''"

definition outcome_row :: "dispatch_env \<Rightarrow> DispatchOutcome \<Rightarrow> delivery_row \<Rightarrow> delivery_row" where
  "outcome_row e oc r = r\<lparr>dr_status := do_Status oc, dr_attempts := do_Attempts oc, dr_responseStatus := do_ResponseStatus oc,
     dr_lastError := do_LastError oc, dr_nextAttemptAt := map_option (de_column_time e) (do_NextAttemptAt oc),
     dr_sentAt := map_option (de_column_time e) (do_SentAt oc)\<rparr>"

text \<open>The audit row; both documents pass through the redaction of auditlog.\<close>

definition outcome_audit :: "dispatch_env \<Rightarrow> Delivery \<Rightarrow> DispatchOutcome \<Rightarrow> delivery_audit" where
  "outcome_audit e dl oc =
     \<lparr>da_tenant = dl_TenantID dl, da_project = dl_ProjectID dl, da_target = dl_ID dl,
      da_after = Redact (JObj [(''status'', JStr (do_Status oc)), (''deliveryId'', JStr (dl_DeliveryID dl))]),
      da_result = (if do_Status oc = ''sent'' then ''success'' else ''failure''),
      da_metadata = Redact (JObj
        [(''responseStatus'', case do_ResponseStatus oc of None \<Rightarrow> JNull | Some n \<Rightarrow> JNum n),
         (''attempts'', JNum (do_Attempts oc)),
         (''nextAttemptAt'', case do_NextAttemptAt oc of None \<Rightarrow> JNull | Some t \<Rightarrow> JStr (de_format e t)),
         (''reason'', case do_LastError oc of None \<Rightarrow> JNull | Some m \<Rightarrow> JStr m),
         (''job'', JStr ''go.integration-delivery'')])\<rparr>"

definition SaveDispatchOutcome :: "dispatch_env \<Rightarrow> Delivery \<Rightarrow> DispatchOutcome \<Rightarrow> delivery_db \<Rightarrow> (delivery_error + unit) \<times> delivery_db" where
  "SaveDispatchOutcome e dl oc d =
     (if de_fails e ''start integration delivery outcome'' then (Inl (DeliveryFailure ''start integration delivery outcome''), d)
      else if de_fails e ''save integration delivery outcome'' then (Inl (DeliveryFailure ''save integration delivery outcome''), d)
      else if de_fails e ''count integration delivery outcome'' then (Inl (DeliveryFailure ''count integration delivery outcome''), d)
      else if length (filter (addresses dl) (deliveries d)) \<noteq> 1 then (Inl ErrDeliveryNotFound, d)
      else if de_fails e ''record integration delivery dispatch audit''
      then (Inl (DeliveryFailure ''record integration delivery dispatch audit''), d)
      else if de_fails e ''commit integration delivery outcome'' then (Inl (DeliveryFailure ''commit integration delivery outcome''), d)
      else (Inr (), d\<lparr>deliveries := upd_rows (addresses dl) (outcome_row e oc) (deliveries d),
                     delivery_audits := delivery_audits d @ [outcome_audit e dl oc]\<rparr>))"

text \<open>\<open>NextDispatchID\<close>: the due row that is first in the order of the query (\<open>NULL\<close> sorts first).\<close>

definition due :: "instant \<Rightarrow> delivery_row \<Rightarrow> bool" where
  "due now r \<longleftrightarrow> dr_status r = ''pending''
     \<or> dr_status r = ''failed'' \<and> (case dr_nextAttemptAt r of None \<Rightarrow> True | Some t \<Rightarrow> t \<le> now)"

definition sort_time :: "delivery_row \<Rightarrow> instant option" where
  "sort_time r = (case dr_nextAttemptAt r of Some t \<Rightarrow> Some t | None \<Rightarrow> dr_createdAt r)"

fun time_less :: "instant option \<Rightarrow> instant option \<Rightarrow> bool" where
  "time_less None None = False"
| "time_less None (Some t) = True"
| "time_less (Some s) None = False"
| "time_less (Some s) (Some t) = (s < t)"

definition earlier :: "delivery_row \<Rightarrow> delivery_row \<Rightarrow> bool" where
  "earlier r s \<longleftrightarrow> time_less (sort_time r) (sort_time s) \<or> sort_time r = sort_time s \<and> dr_id r < dr_id s"

fun first_row :: "delivery_row list \<Rightarrow> delivery_row option" where
  "first_row [] = None"
| "first_row (r # rs) = (case first_row rs of None \<Rightarrow> Some r | Some s \<Rightarrow> if earlier s r then Some s else Some r)"

definition NextDispatchID :: "dispatch_env \<Rightarrow> instant \<Rightarrow> delivery_db \<Rightarrow> delivery_error + int" where
  "NextDispatchID e now d =
     (if de_fails e ''select pending integration delivery'' then Inl (DeliveryFailure ''select pending integration delivery'')
      else case first_row (filter (due now) (deliveries d)) of
        None \<Rightarrow> Inl ErrNoPendingDelivery
      | Some r \<Rightarrow> Inr (dr_id r))"

section \<open>The dispatcher\<close>

record Dispatcher =
  dp_Client :: "http_client option"
  dp_ApplicationKey :: string
  dp_MaxAttempts :: int
  dp_Backoff :: "int list"
  dp_Now :: "nat \<Rightarrow> instant"

definition normalized :: "Dispatcher \<Rightarrow> Dispatcher" where
  "normalized dp = dp\<lparr>dp_Client := (case dp_Client dp of None \<Rightarrow> Some \<lparr>cl_Timeout = 5 * second\<rparr> | Some client \<Rightarrow> Some client),
     dp_MaxAttempts := (if dp_MaxAttempts dp < 1 then 3 else dp_MaxAttempts dp),
     dp_Backoff := (if dp_Backoff dp = [] then [minute, 5 * minute, 15 * minute] else dp_Backoff dp)\<rparr>"

text \<open>\<open>fail\<close>; \<open>k\<close> is the number of the clock reading. An index below zero (a negative attempt count) panics.\<close>

definition fail_outcome :: "Dispatcher \<Rightarrow> nat \<Rightarrow> Delivery \<Rightarrow> int option \<Rightarrow> string \<Rightarrow> DispatchOutcome option" where
  "fail_outcome dp k dl responseStatus message =
     (let n = normalized dp; attempts = dl_Attempts dl + 1
      in if attempts \<ge> dp_MaxAttempts n
         then Some \<lparr>do_Status = ''dead_letter'', do_Attempts = attempts, do_ResponseStatus = responseStatus,
                do_LastError = Some message, do_NextAttemptAt = None, do_SentAt = None\<rparr>
         else let index = (if attempts - 1 \<ge> int (length (dp_Backoff n)) then int (length (dp_Backoff n)) - 1 else attempts - 1)
              in if index < 0 then None
                 else Some \<lparr>do_Status = ''failed'', do_Attempts = attempts, do_ResponseStatus = responseStatus,
                        do_LastError = Some message,
                        do_NextAttemptAt = Some (dp_Now n k + dp_Backoff n ! nat index), do_SentAt = None\<rparr>)"

definition fail_delivery :: "dispatch_env \<Rightarrow> Dispatcher \<Rightarrow> nat \<Rightarrow> Delivery \<Rightarrow> int option \<Rightarrow> string \<Rightarrow> delivery_db
    \<Rightarrow> (delivery_error + unit) \<times> delivery_db" where
  "fail_delivery e dp k dl responseStatus message d =
     (case fail_outcome dp k dl responseStatus message of
        None \<Rightarrow> (Inl (DeliveryFailure ''panic''), d)
      | Some oc \<Rightarrow> SaveDispatchOutcome e dl oc d)"

definition base_payload :: "dispatch_env \<Rightarrow> Delivery \<Rightarrow> instant \<Rightarrow> jmap" where
  "base_payload e dl occurredAt = [(''schemaVersion'', JStr (dl_SchemaVersion dl)), (''event'', JStr (dl_Event dl)),
     (''deliveryId'', JStr (dl_DeliveryID dl)), (''tenantId'', JNum (dl_TenantID dl)), (''projectId'', JNum (dl_ProjectID dl)),
     (''occurredAt'', JStr (de_format e occurredAt)), (''data'', dl_Payload dl)]"

definition adapterPayload :: "dispatch_env \<Rightarrow> string \<Rightarrow> Delivery \<Rightarrow> instant \<Rightarrow> json" where
  "adapterPayload e adapter dl occurredAt =
     (let base = JObj (base_payload e dl occurredAt); title = ''[Idelium] '' @ dl_Event dl
      in if adapter = ''slack'' then JObj [(''text'', JStr title), (''idelium'', base)]
         else if adapter = ''teams'' then JObj [(''type'', JStr ''message''), (''text'', JStr title), (''idelium'', base)]
         else if adapter = ''jira''
         then JObj [(''summary'', JStr title), (''description'', JStr (case de_marshal e base of None \<Rightarrow> [] | Some text \<Rightarrow> text)),
                (''labels'', JArr [JStr ''idelium'']), (''idelium'', base)]
         else base)"

definition signed_request :: "dispatch_env \<Rightarrow> string \<Rightarrow> Delivery \<Rightarrow> string \<Rightarrow> string \<Rightarrow> instant \<Rightarrow> webhook" where
  "signed_request e url dl secret body now =
     (let timestamp = itoa (now div second)
      in \<lparr>wh_method = ''POST'', wh_url = url,
          wh_headers = [(''Content-Type'', ''application/json''), (''User-Agent'', ''Idelium-Webhook/1.0''),
            (''Idelium-Delivery-Id'', dl_DeliveryID dl), (''Idelium-Event'', dl_Event dl),
            (''Idelium-Tenant-Id'', itoa (dl_TenantID dl)), (''Idelium-Project-Id'', itoa (dl_ProjectID dl)),
            (''Idelium-Signature'', ''t='' @ timestamp @ '',v1='' @ to_hex (cr_hmac (de_crypto e) secret (timestamp @ ''.'' @ body))),
            (''Idelium-Signature-Tolerance'', ''300''), (''Idelium-Schema-Version'', dl_SchemaVersion dl)],
          wh_body = body\<rparr>)"

text \<open>
  \<open>http.Client.Do\<close> with the default policy on redirects, which the client of the dispatcher has: after one of
  five statuses a request goes to the address of the \<open>Location\<close> header, whatever it is, until ten requests
  were sent, which is an error. After 307 and 308 the method is kept, and the body unless an earlier hop has
  dropped it; after 301, 302 and 303 a POST becomes a GET without a body. The headers of the first request are
  copied, the one that describes the body only with it. An answer without the header is returned as it is.
\<close>

definition redirect_statuses :: "int list" where
  "redirect_statuses = [301, 302, 303, 307, 308]"

definition hop_request :: "dispatch_env \<Rightarrow> webhook \<Rightarrow> webhook \<Rightarrow> int \<Rightarrow> bool \<Rightarrow> string \<Rightarrow> webhook" where
  "hop_request e first previous status with_body url =
     \<lparr>wh_method = (if status = 307 \<or> status = 308 \<or> wh_method previous = ''GET'' \<or> wh_method previous = ''HEAD'' then wh_method previous else ''GET''),
      wh_url = url,
      wh_headers = (if with_body then wh_headers first else filter (\<lambda>(name, _). name \<noteq> ''Content-Type'') (wh_headers first)) @ de_referer e previous url,
      wh_body = (if with_body then wh_body first else [])\<rparr>"

fun client_hops :: "dispatch_env \<Rightarrow> http_client \<Rightarrow> nat \<Rightarrow> nat \<Rightarrow> bool \<Rightarrow> webhook \<Rightarrow> webhook \<Rightarrow> int option \<times> webhook list" where
  "client_hops e client 0 hop with_body first request = (None, [])"
| "client_hops e client (Suc left) hop with_body first request =
     (case de_transport e client hop request of
        None \<Rightarrow> (None, [request])
      | Some response \<Rightarrow>
          let status = hr_status response; keeps = (with_body \<and> (status = 307 \<or> status = 308))
          in if status \<notin> set redirect_statuses then (Some status, [request])
             else (case hr_location response of
               NoLocation \<Rightarrow> (Some status, [request])
             | BadLocation \<Rightarrow> (None, [request])
             | Location url \<Rightarrow>
                 (case client_hops e client left (Suc hop) keeps first (hop_request e first request status keeps url) of
                    (answer, sent) \<Rightarrow> (answer, request # sent))))"

definition client_do :: "dispatch_env \<Rightarrow> http_client \<Rightarrow> webhook \<Rightarrow> int option \<times> webhook list" where
  "client_do e client request = client_hops e client 10 0 True request request"

text \<open>\<open>Dispatch\<close> returns its result, the requests it sent (none, or one with its redirects) and the store after it.\<close>

definition Dispatch :: "dispatch_env \<Rightarrow> Dispatcher \<Rightarrow> int \<Rightarrow> delivery_db \<Rightarrow> (delivery_error + unit) \<times> webhook list \<times> delivery_db" where
  "Dispatch e dp0 deliveryID d =
     (case LoadForDispatch e deliveryID d of
        Inl x \<Rightarrow> (Inl x, [], d)
      | Inr (ep, dl) \<Rightarrow>
          if dl_Status dl = ''sent'' then (Inr (), [], d)
          else if er_tenant ep \<noteq> dl_TenantID dl \<or> er_project ep \<noteq> dl_ProjectID dl \<or> er_id ep \<noteq> dl_EndpointID dl
          then (Inl ErrDeliveryNotFound, [], d)
          else let dp = normalized dp0; fail = (\<lambda>k status message sent.
                     case fail_delivery e dp k dl status message d of (result, d') \<Rightarrow> (result, sent, d'))
               in if er_status ep \<noteq> ''active'' then fail 0 None ''The integration endpoint is not active.'' []
                  else if \<not> SafeDestination (de_resolver e) (er_url ep) then fail 0 None ''The integration destination is not safe.'' []
                  else (case de_marshal e (adapterPayload e (er_adapter ep) dl (dp_Now dp 0)) of
                    None \<Rightarrow> fail 1 None ''The integration payload could not be encoded.'' []
                  | Some body \<Rightarrow> (case DecryptLaravelString (de_crypto e) (dp_ApplicationKey dp) (er_secret ep) of
                      Inl _ \<Rightarrow> fail 1 None ''The integration endpoint secret could not be decrypted.'' []
                    | Inr secret \<Rightarrow>
                        if \<not> de_url_valid e (er_url ep) then fail 1 None ''The integration destination is invalid.'' []
                        else (case client_do e (the (dp_Client dp)) (signed_request e (er_url ep) dl secret body (dp_Now dp 1)) of
                          (None, sent) \<Rightarrow> fail 2 None ''The integration delivery request failed.'' sent
                        | (Some status, sent) \<Rightarrow>
                            if status \<ge> 200 \<and> status < 300
                            then (case SaveDispatchOutcome e dl
                                     \<lparr>do_Status = ''sent'', do_Attempts = dl_Attempts dl + 1, do_ResponseStatus = Some status,
                                      do_LastError = None, do_NextAttemptAt = None, do_SentAt = Some (dp_Now dp 2)\<rparr> d of
                                    (result, d') \<Rightarrow> (result, sent, d'))
                            else fail 2 (Some status) ''Webhook delivery returned a non-success status.'' sent))))"

section \<open>The worker\<close>

text \<open>
  One turn of the loop of \<open>Run\<close>: \<open>Wait\<close> resets the timer to the poll interval, \<open>Again\<close> to zero, \<open>Stop\<close>
  returns the error. The dispatcher gets the worker's store and key.
\<close>

datatype turn = Wait | Again | Stop delivery_error

definition worker_turn :: "dispatch_env \<Rightarrow> Dispatcher \<Rightarrow> instant \<Rightarrow> delivery_db \<Rightarrow> turn \<times> webhook list \<times> delivery_db" where
  "worker_turn e dp now d =
     (case NextDispatchID e now d of
        Inl x \<Rightarrow> if x = ErrNoPendingDelivery then (Wait, [], d) else (Stop x, [], d)
      | Inr did \<Rightarrow> (case Dispatch e dp did d of (_, sent, d') \<Rightarrow> (Again, sent, d')))"

text \<open>The loop, for a given number of turns, each with its own environment, clock and time.\<close>

fun worker_run :: "(dispatch_env \<times> Dispatcher \<times> instant) list \<Rightarrow> delivery_db \<Rightarrow> delivery_error option \<times> webhook list \<times> delivery_db" where
  "worker_run [] d = (None, [], d)"
| "worker_run ((e, dp, now) # ts) d =
     (case worker_turn e dp now d of
        (Stop x, sent, d') \<Rightarrow> (Some x, sent, d')
      | (_, sent, d') \<Rightarrow> (case worker_run ts d' of (x, later, d'') \<Rightarrow> (x, sent @ later, d'')))"

section \<open>The worker's lease\<close>

text \<open>
  \<open>GET_LOCK(name, 0)\<close> and \<open>RELEASE_LOCK(name)\<close> of MySQL: the lock belongs to one connection, and closing
  the connection frees it. The state is the connection that holds the lock, if any.
\<close>

datatype lease_error = LeaseUnavailable | AnotherWorkerActive | LeaseNotReleased | LeaseNotClosed

definition AcquireIntegrationWorkerLease :: "bool \<Rightarrow> bool \<Rightarrow> nat \<Rightarrow> nat option \<Rightarrow> (lease_error + nat) \<times> nat option" where
  "AcquireIntegrationWorkerLease connFails queryFails connection holder =
     (if connFails then (Inl LeaseUnavailable, holder)
      else if queryFails then (Inl AnotherWorkerActive, holder)
      else case holder of
        Some c \<Rightarrow> if c = connection then (Inr connection, holder) else (Inl AnotherWorkerActive, holder)
      | None \<Rightarrow> (Inr connection, Some connection))"

text \<open>The lease is \<open>None\<close> when it was released before.\<close>

definition ReleaseLease :: "bool \<Rightarrow> bool \<Rightarrow> nat option \<Rightarrow> nat option \<Rightarrow> (lease_error + unit) \<times> nat option" where
  "ReleaseLease queryFails closeFails lease holder =
     (case lease of
        None \<Rightarrow> (Inr (), holder)
      | Some connection \<Rightarrow>
          ((if queryFails \<or> holder \<noteq> Some connection then Inl LeaseNotReleased
            else if closeFails then Inl LeaseNotClosed else Inr ()),
           if holder = Some connection \<and> \<not> (queryFails \<and> closeFails) then None else holder))"

lemma lease_exclusive:
  assumes "AcquireIntegrationWorkerLease cf qf c holder = (Inr c, holder')" "c' \<noteq> c"
  shows "\<exists>x. AcquireIntegrationWorkerLease cf' qf' c' holder' = (Inl x, holder')"
  using assms by (auto simp: AcquireIntegrationWorkerLease_def split: if_splits option.splits)

end
