(* ===== verification/SecretProps.thy ===== *)
theory SecretProps
  imports Secrets
begin

text \<open>
  Properties of integration secrets: the encodings and the padding are inverted, the chaining of blocks
  is inverted, and what decrypts is what was authenticated.
\<close>

named_theorems codec \<open>inverse laws of the encodings\<close>

section \<open>Base64 and hexadecimal\<close>

lemma byte_of_less: "byte_of c < 256"
  by (simp add: byte_of_def)

lemma char_of_byte [simp]: "char_of (byte_of c) = c"
  by (simp add: byte_of_def)

lemma index_of_nth: "distinct xs \<Longrightarrow> i < length xs \<Longrightarrow> index_of (xs ! i) xs = Some i"
  by (induction xs arbitrary: i) (auto simp: nth_Cons' split: if_splits)

lemma b64_alphabet_facts:
  "length b64_alphabet = 64" "distinct b64_alphabet" "CHR ''='' \<notin> set b64_alphabet"
  by (simp_all add: b64_alphabet_def)

lemma b64_alphabet_no_break: "list_all (\<lambda>c. \<not> line_break c) b64_alphabet"
  by code_simp

lemma b64_char_mem: "b64_char n \<in> set b64_alphabet"
  by (simp add: b64_char_def b64_alphabet_facts)

lemma b64_char_facts [codec]:
  "b64_value (b64_char n) = Some (n mod 64)" "b64_char n \<noteq> CHR ''=''" "\<not> line_break (b64_char n)"
proof -
  show "b64_value (b64_char n) = Some (n mod 64)"
    using index_of_nth [OF b64_alphabet_facts(2), of "n mod 64"]
    by (simp add: b64_value_def b64_char_def b64_alphabet_facts(1))
  show "b64_char n \<noteq> CHR ''=''" using b64_char_mem [of n] b64_alphabet_facts(3) by metis
  show "\<not> line_break (b64_char n)" using b64_char_mem [of n] b64_alphabet_no_break unfolding list_all_iff by blast
qed

text \<open>Recombining the six-bit groups.\<close>

lemma sextets:
  fixes x y z :: nat
  assumes "x < 256" "y < 256" "z < 256"
  shows "(x div 4) mod 64 * 4 + (x mod 4 * 16 + y div 16) mod 64 div 16 = x"
    "(x div 4) mod 64 * 4 + (x mod 4 * 16) mod 64 div 16 = x"
    "(x mod 4 * 16 + y div 16) mod 64 mod 16 * 16 + (y mod 16 * 4 + z div 64) mod 64 div 4 = y"
    "(x mod 4 * 16 + y div 16) mod 64 mod 16 * 16 + (y mod 16 * 4) mod 64 div 4 = y"
    "(y mod 16 * 4 + z div 64) mod 64 mod 4 * 64 + z mod 64 mod 64 = z"
proof -
  have "x div 4 < 64" "y div 16 < 16" "z div 64 < 4" using assms by auto
  moreover have "x mod 4 < 4" "y mod 16 < 16" by auto
  ultimately have *: "(x div 4) mod 64 = x div 4" "(x mod 4 * 16 + y div 16) mod 64 = x mod 4 * 16 + y div 16"
    "(x mod 4 * 16) mod 64 = x mod 4 * 16" "(y mod 16 * 4 + z div 64) mod 64 = y mod 16 * 4 + z div 64"
    "(y mod 16 * 4) mod 64 = y mod 16 * 4" by simp_all
  show "(x div 4) mod 64 * 4 + (x mod 4 * 16 + y div 16) mod 64 div 16 = x" unfolding * using \<open>y div 16 < 16\<close> by simp
  show "(x div 4) mod 64 * 4 + (x mod 4 * 16) mod 64 div 16 = x" unfolding * by simp
  show "(x mod 4 * 16 + y div 16) mod 64 mod 16 * 16 + (y mod 16 * 4 + z div 64) mod 64 div 4 = y"
    unfolding * using \<open>y div 16 < 16\<close> \<open>z div 64 < 4\<close> by simp
  show "(x mod 4 * 16 + y div 16) mod 64 mod 16 * 16 + (y mod 16 * 4) mod 64 div 4 = y"
    unfolding * using \<open>y div 16 < 16\<close> by simp
  show "(y mod 16 * 4 + z div 64) mod 64 mod 4 * 64 + z mod 64 mod 64 = z" unfolding * using \<open>z div 64 < 4\<close> by simp
qed

lemmas sextet_bytes = sextets [of "byte_of a" "byte_of b" "byte_of c" for a b c, OF byte_of_less byte_of_less byte_of_less]

lemma b64_groups_encode: "b64_groups (b64_encode s) = Some s"
  by (induction s rule: b64_encode.induct)
    (simp_all only: b64_encode.simps b64_groups.simps codec sextet_bytes char_of_byte option.case prod.case if_False if_True
      simp_thms)

lemma equals_sign [codec]: "\<not> line_break (CHR ''='')"
  by code_simp

lemma b64_encode_clean: "list_all (\<lambda>c. \<not> line_break c) (b64_encode s)"
  by (induction s rule: b64_encode.induct) (simp_all add: codec)

lemma b64_round_trip [codec]: "b64_decode (b64_encode s) = Some s"
  using b64_encode_clean [of s] b64_groups_encode [of s]
  by (simp add: b64_decode_def list_all_iff filter_id_conv)

lemma hex_digit_facts: "distinct ''0123456789abcdef''" "list_all (\<lambda>c. lower_char c = c) ''0123456789abcdef''"
  by (simp_all add: lower_char_def byte_of_def)

lemma hex_digit_mem: "hex_digit n \<in> set ''0123456789abcdef''"
  unfolding hex_digit_def by (rule nth_mem) simp

lemma hex_value_digit [codec]: "hex_value (hex_digit n) = Some (n mod 16)"
proof -
  have "lower_char (hex_digit n) = hex_digit n" using hex_digit_mem [of n] hex_digit_facts(2) unfolding list_all_iff by blast
  then show ?thesis using index_of_nth [OF hex_digit_facts(1), of "n mod 16"] by (simp add: hex_value_def hex_digit_def)
qed

lemma hex_round_trip [codec]: "from_hex (to_hex s) = Some s"
proof (induction s)
  case (Cons c s)
  have "byte_of c div 16 mod 16 = byte_of c div 16" using byte_of_less [of c] by simp
  then show ?case using Cons by (simp add: to_hex_def hex_encode_def codec)
qed (simp add: to_hex_def hex_encode_def)

section \<open>Padding\<close>

lemma byte_of_char_of: "n < 256 \<Longrightarrow> byte_of (char_of n) = n"
  by (simp add: byte_of_def)

lemma next_multiple:
  assumes "0 < (n::nat)"
  shows "l + (n - l mod n) = l div n * n + n"
proof -
  define q m where "q = l div n * n" and "m = l mod n"
  have "l = q + m" "m < n" using assms by (simp_all add: q_def m_def)
  then show ?thesis unfolding q_def [symmetric] m_def [symmetric] by simp
qed

lemma pad_length: "0 < n \<Longrightarrow> length (pkcs7Pad s n) mod n = 0 \<and> pkcs7Pad s n \<noteq> []"
proof -
  assume n: "0 < n"
  have "length (pkcs7Pad s n) = length s div n * n + n" using next_multiple [OF n] by (simp add: pkcs7Pad_def Let_def)
  then show ?thesis using n by auto
qed

lemma unpad_pad: "0 < n \<Longrightarrow> n < 256 \<Longrightarrow> pkcs7Unpad (pkcs7Pad s n) n = Some s"
proof -
  assume n: "0 < n" "n < 256"
  define k where "k = n - length s mod n"
  have k: "0 < k" "k \<le> n" using n(1) by (simp_all add: k_def)
  have "(length s + k) mod n = 0" using next_multiple [OF n(1), of "length s"] by (simp add: k_def)
  then show ?thesis using n k
    by (simp add: pkcs7Pad_def pkcs7Unpad_def Let_def k_def [symmetric] byte_of_char_of last_append list_all_iff)
qed

lemma pad_unpad:
  assumes "pkcs7Unpad v n = Some s" "n < 256"
  shows "pkcs7Pad s n = v"
proof -
  define k where "k = byte_of (last v)"
  have *: "v \<noteq> []" "length v mod n = 0" "1 \<le> k" "k \<le> n" "k \<le> length v"
    "\<forall>c \<in> set (drop (length v - k) v). byte_of c = k" "s = take (length v - k) v"
    using assms unfolding pkcs7Unpad_def Let_def k_def [symmetric]
    by (simp_all add: list_all_iff not_less split: if_split_asm)
  have len: "length s = length v - k" using * by simp
  have "length s mod n = (n - k) mod n"
  proof -
    obtain q where q: "length v = n * q" using *(2) by auto
    then obtain q' where "q = Suc q'" using *(1) by (cases q) auto
    then have "length s = n * q' + (n - k)" using len q * by simp
    then show ?thesis by simp
  qed
  then have "n - length s mod n = k" using * by (cases "k = n") (auto simp: mod_less)
  moreover have "drop (length v - k) v = replicate k (char_of k)"
  proof (rule nth_equalityI)
    fix i assume i: "i < length (drop (length v - k) v)"
    then have "byte_of (drop (length v - k) v ! i) = k" using *(6) nth_mem by blast
    then show "drop (length v - k) v ! i = replicate k (char_of k) ! i"
      using i * char_of_byte [of "drop (length v - k) v ! i"] by simp
  qed (use * in simp)
  ultimately show ?thesis using * by (simp add: pkcs7Pad_def Let_def) (metis append_take_drop_id)
qed

section \<open>Chaining\<close>

lemma xor_bit: "((x = (\<not> y)) = (\<not> y)) = x"
  by auto

lemma xor_char_cancel [simp]: "xor_char (xor_char a b) b = a"
  by (cases a; cases b) (simp add: xor_bit)

lemma xor_block_length [simp]: "length (xor_block a b) = min (length a) (length b)"
  by (simp add: xor_block_def)

lemma xor_block_cancel: "length a = length b \<Longrightarrow> xor_block (xor_block a b) b = a"
  by (auto simp: xor_block_def intro: nth_equalityI)

lemma blocks_whole: "length s = 16 * n \<Longrightarrow> concat (blocks n s) = s \<and> length (blocks n s) = n \<and> (\<forall>b \<in> set (blocks n s). length b = 16)"
proof (induction n arbitrary: s)
  case (Suc n)
  have "length (drop 16 s) = 16 * n" "length (take 16 s) = 16" using Suc.prems by simp_all
  from Suc.IH [OF this(1)] this(2) show ?case unfolding blocks.simps by (metis append_take_drop_id concat.simps(2) length_Cons set_ConsD)
qed simp

lemma cbc_inverse:
  assumes "\<And>b. length b = 16 \<Longrightarrow> length (enc b) = 16 \<and> dec (enc b) = b" "length prev = 16" "\<forall>b \<in> set bs. length b = 16"
  shows "length (cbc_encrypt enc prev bs) = 16 * length bs
    \<and> cbc_decrypt dec prev (blocks (length bs) (cbc_encrypt enc prev bs)) = concat bs"
  using assms(2,3)
proof (induction bs arbitrary: prev)
  case (Cons b bs)
  define c where "c = enc (xor_block b prev)"
  have c: "length c = 16" "dec c = xor_block b prev" using assms(1) [of "xor_block b prev"] Cons.prems by (auto simp: c_def)
  show ?case using Cons.IH [of c] Cons.prems c xor_block_cancel [of b prev] by (simp add: c_def [symmetric])
qed simp

section \<open>The envelope\<close>

text \<open>
  What the parameters guarantee: \<open>rand.Read\<close> fills the slice, AES with a 32-byte key is a bijection
  of 16-byte blocks, and \<open>json.Unmarshal\<close> reads back a marshalled payload of plain ASCII text.
\<close>

definition plain_char :: "char \<Rightarrow> bool" where
  "plain_char c \<longleftrightarrow> 32 \<le> byte_of c \<and> byte_of c \<le> 126 \<and> byte_of c \<noteq> 34 \<and> byte_of c \<noteq> 92"

definition json_plain :: "string \<Rightarrow> bool" where
  "json_plain s \<longleftrightarrow> list_all plain_char s"

definition crypto_law :: "crypto \<Rightarrow> bool" where
  "crypto_law cr \<longleftrightarrow> (\<forall>n bs. cr_rand cr n = Some bs \<longrightarrow> length bs = n)
     \<and> (\<forall>key b. length key = 32 \<longrightarrow> length b = 16 \<longrightarrow>
          length (cr_encrypt cr key b) = 16 \<and> cr_decrypt cr key (cr_encrypt cr key b) = b)
     \<and> (\<forall>p. json_plain (lp_IV p) \<longrightarrow> json_plain (lp_Value p) \<longrightarrow> json_plain (lp_MAC p) \<longrightarrow> json_plain (lp_Tag p)
          \<longrightarrow> cr_unmarshal cr (marshal_payload p) = Some p)"

lemma plain_tables: "list_all plain_char b64_alphabet" "list_all plain_char ''0123456789abcdef''" "plain_char (CHR ''='')"
  by (simp_all add: plain_char_def b64_alphabet_def byte_of_def)

lemma plain_chars: "plain_char (b64_char n)" "plain_char (hex_digit n)"
  using b64_char_mem [of n] hex_digit_mem [of n] plain_tables(1,2) unfolding list_all_iff by blast+

lemma json_plain_b64: "json_plain (b64_encode s)"
  by (induction s rule: b64_encode.induct) (simp_all add: json_plain_def plain_chars plain_tables(3))

lemma json_plain_hex: "json_plain (to_hex s)"
  by (induction s) (simp_all add: json_plain_def to_hex_def hex_encode_def plain_chars)

text \<open>
  C22. A secret survives its envelope: whatever string is encrypted under a key, decrypting the
  envelope under the same key gives exactly that string.
\<close>

theorem secret_round_trip:
  assumes "crypto_law cr" "EncryptLaravelString cr key plaintext = Inr envelope"
  shows "DecryptLaravelString cr key envelope = Inr plaintext"
proof -
  obtain iv where key: "length key = 32" and iv: "cr_rand cr 16 = Some iv"
    using assms(2) by (auto simp: EncryptLaravelString_def split: if_splits option.splits)
  have len_iv: "length iv = 16" using assms(1) iv by (auto simp: crypto_law_def)
  define bs where "bs = aes_blocks (pkcs7Pad plaintext 16)"
  define ct where "ct = cbc_encrypt (cr_encrypt cr key) iv bs"
  define p where "p = \<lparr>lp_IV = b64_encode iv, lp_Value = b64_encode ct,
      lp_MAC = to_hex (cr_hmac cr key (b64_encode iv @ b64_encode ct)), lp_Tag = []\<rparr>"
  have env: "envelope = b64_encode (marshal_payload p)"
    using assms(2) key iv by (simp add: EncryptLaravelString_def p_def ct_def bs_def Let_def)
  have "length (pkcs7Pad plaintext 16) = 16 * (length (pkcs7Pad plaintext 16) div 16)"
    using pad_length [of 16 plaintext] by auto
  from blocks_whole [OF this] have bs: "concat bs = pkcs7Pad plaintext 16" "\<forall>b \<in> set bs. length b = 16"
    unfolding bs_def aes_blocks_def by blast+
  have "\<And>b. length b = 16 \<Longrightarrow> length (cr_encrypt cr key b) = 16 \<and> cr_decrypt cr key (cr_encrypt cr key b) = b"
    using assms(1) key by (simp add: crypto_law_def)
  from cbc_inverse [OF this len_iv bs(2)] have ct: "length ct = 16 * length bs"
    "cbc_decrypt (cr_decrypt cr key) iv (aes_blocks ct) = pkcs7Pad plaintext 16"
    using bs(1) by (simp_all add: ct_def aes_blocks_def)
  have "ct \<noteq> []" using ct(1) bs(1) pad_length [of 16 plaintext] by auto
  moreover have "cr_unmarshal cr (marshal_payload p) = Some p"
  proof -
    have "json_plain (lp_IV p)" "json_plain (lp_Value p)" "json_plain (lp_MAC p)" "json_plain (lp_Tag p)"
      using json_plain_b64 json_plain_hex by (simp_all add: p_def) (simp add: json_plain_def)
    then show ?thesis using assms(1) unfolding crypto_law_def by blast
  qed
  ultimately show ?thesis
    using key len_iv ct unpad_pad [of 16 plaintext]
    by (simp add: DecryptLaravelString_def env codec) (simp add: p_def codec)
qed

text \<open>
  C23. Only authenticated ciphertext decrypts: when decryption returns a string, the envelope holds a
  payload whose MAC is the HMAC of its own fields under the key, whose initialisation vector has 16
  bytes, and whose ciphertext decrypts to precisely that string in its canonical padding; so under a
  key for which the MAC differs every envelope is refused.
\<close>

theorem decrypt_authenticated:
  assumes "DecryptLaravelString cr key envelope = Inr plaintext"
  shows "length key = 32 \<and> (\<exists>doc p iv ct. b64_decode envelope = Some doc \<and> cr_unmarshal cr doc = Some p
    \<and> b64_decode (lp_IV p) = Some iv \<and> length iv = 16 \<and> b64_decode (lp_Value p) = Some ct
    \<and> from_hex (lp_MAC p) = Some (cr_hmac cr key (lp_IV p @ lp_Value p))
    \<and> cbc_decrypt (cr_decrypt cr key) iv (aes_blocks ct) = pkcs7Pad plaintext 16)"
proof -
  obtain doc p iv ct where *: "length key = 32" "b64_decode envelope = Some doc" "cr_unmarshal cr doc = Some p"
    "b64_decode (lp_IV p) = Some iv" "length iv = 16" "b64_decode (lp_Value p) = Some ct"
    "from_hex (lp_MAC p) = Some (cr_hmac cr key (lp_IV p @ lp_Value p))"
    "pkcs7Unpad (cbc_decrypt (cr_decrypt cr key) iv (aes_blocks ct)) 16 = Some plaintext"
    using assms unfolding DecryptLaravelString_def by (auto split: if_splits option.splits)
  then show ?thesis using pad_unpad [OF *(8)] by auto
qed

section \<open>An instance\<close>

text \<open>A block function that is its own inverse, and a decoder that takes the fields between the quotes.\<close>

fun split_quotes :: "string \<Rightarrow> string list" where
  "split_quotes [] = [[]]"
| "split_quotes (c # s) = (if c = CHR 0x22 then [] # split_quotes s
     else case split_quotes s of w # ws \<Rightarrow> (c # w) # ws | [] \<Rightarrow> [[c]])"

lemma split_quotes_step: "CHR 0x22 \<notin> set a \<Longrightarrow> split_quotes (a @ CHR 0x22 # s) = a # split_quotes s"
  by (induction a) auto

lemma plain_no_quote: "json_plain s \<Longrightarrow> CHR 0x22 \<notin> set s"
  by (auto simp: json_plain_def list_all_iff plain_char_def byte_of_def)

definition crypto0 :: crypto where
  "crypto0 = \<lparr>cr_rand = (\<lambda>n. Some (replicate n (CHR ''v''))), cr_encrypt = (\<lambda>key b. map (\<lambda>c. xor_char c (CHR ''z'')) b),
     cr_decrypt = (\<lambda>key b. map (\<lambda>c. xor_char c (CHR ''z'')) b), cr_hmac = (\<lambda>key m. take 4 key @ take 4 m),
     cr_unmarshal = (\<lambda>doc. case split_quotes doc of
         [_, _, _, x, _, _, _, y, _, _, _, z, _, _, _, t, _] \<Rightarrow> Some \<lparr>lp_IV = x, lp_Value = y, lp_MAC = z, lp_Tag = t\<rparr>
       | _ \<Rightarrow> None)\<rparr>"

lemma marshal_payload_quotes:
  assumes "json_plain (lp_IV p)" "json_plain (lp_Value p)" "json_plain (lp_MAC p)" "json_plain (lp_Tag p)"
  shows "split_quotes (marshal_payload p) = [''{'', ''iv'', '':'', lp_IV p, '','', ''value'', '':'', lp_Value p, '','', ''mac'', '':'',
     lp_MAC p, '','', ''tag'', '':'', lp_Tag p, ''}'']"
  using assms [THEN plain_no_quote] by (simp add: marshal_payload_def quoted_def split_quotes_step)

lemma crypto0_law: "crypto_law crypto0"
  by (auto simp: crypto_law_def crypto0_def marshal_payload_quotes comp_def)

definition key0 :: string where
  "key0 = replicate 32 (CHR ''k'')"

theorem secret_round_trip_witness:
  "\<exists>envelope. EncryptLaravelString crypto0 key0 ''hook'' = Inr envelope \<and> DecryptLaravelString crypto0 key0 envelope = Inr ''hook''"
proof -
  obtain envelope where "EncryptLaravelString crypto0 key0 ''hook'' = Inr envelope"
    by (simp add: EncryptLaravelString_def key0_def crypto0_def Let_def)
  with secret_round_trip [OF crypto0_law] show ?thesis by blast
qed

definition envelope0 :: string where
  "envelope0 = (case EncryptLaravelString crypto0 key0 ''hook'' of Inr x \<Rightarrow> x | Inl _ \<Rightarrow> [])"

theorem decrypt_authenticated_witness:
  "\<exists>p :: laravelPayload. from_hex (lp_MAC p) = Some (cr_hmac crypto0 key0 (lp_IV p @ lp_Value p))"
proof -
  have "DecryptLaravelString crypto0 key0 envelope0 = Inr ''hook''" by code_simp
  from decrypt_authenticated [OF this] show ?thesis by blast
qed

end
