(* ===== verification/DeliveryProps.thy ===== *)
theory DeliveryProps
  imports Deliveries SecretProps
begin

text \<open>
  Properties of outbound deliveries: where a webhook may go and what a redirect does with it, how often an
  attempt is finalised, that the worker runs out of work, and what a delivery that cannot be loaded does to
  the queue.
\<close>

named_theorems dispatching \<open>the definitions behind a dispatch\<close>

section \<open>One dispatch\<close>

text \<open>
  The requests of the client: the first is the one it was given, each of the others goes where the answer to the
  one before it redirects, and there are at most as many as the limit.
\<close>

definition redirected :: "dispatch_env \<Rightarrow> http_client \<Rightarrow> nat \<Rightarrow> webhook list \<Rightarrow> bool" where
  "redirected e client hop sent \<longleftrightarrow> (\<forall>i. Suc i < length sent \<longrightarrow> (\<exists>response. de_transport e client (hop + i) (sent ! i) = Some response
     \<and> hr_status response \<in> {301, 302, 303, 307, 308} \<and> hr_location response = Location (wh_url (sent ! Suc i))))"

lemma redirected_Cons:
  "redirected e client (Suc hop) (r # rs) \<Longrightarrow> de_transport e client hop request = Some response \<Longrightarrow> hr_status response \<in> {301, 302, 303, 307, 308}
   \<Longrightarrow> hr_location response = Location (wh_url r) \<Longrightarrow> redirected e client hop (request # r # rs)"
  by (auto simp: redirected_def nth_Cons split: nat.splits)

lemma client_hops_sent:
  "client_hops e client left hop with_body first request = (answer, sent) \<Longrightarrow> length sent \<le> left
     \<and> (0 < left \<longrightarrow> (\<exists>rest. sent = request # rest)) \<and> redirected e client hop sent"
proof (induction left arbitrary: hop with_body request answer sent)
  case (Suc left)
  show ?case
  proof (cases "\<exists>response url. de_transport e client hop request = Some response \<and> hr_status response \<in> set redirect_statuses \<and> hr_location response = Location url")
    case True
    then obtain response url where r: "de_transport e client hop request = Some response" "hr_status response \<in> set redirect_statuses"
      "hr_location response = Location url" by blast
    define keeps where "keeps \<longleftrightarrow> with_body \<and> (hr_status response = 307 \<or> hr_status response = 308)"
    obtain answer' sent' where h: "client_hops e client left (Suc hop) keeps first (hop_request e first request (hr_status response) keeps url) = (answer', sent')"
      by fastforce
    then have s: "sent = request # sent'" using Suc.prems r by (simp add: keeps_def Let_def)
    note ih = Suc.IH [OF h]
    have "redirected e client hop sent"
    proof (cases sent')
      case (Cons x xs)
      then have "x = hop_request e first request (hr_status response) keeps url" using ih by (cases left) auto
      then have "wh_url x = url" by (simp add: hop_request_def)
      then show ?thesis using ih r unfolding s Cons by (intro redirected_Cons) (auto simp: redirect_statuses_def)
    qed (simp add: s redirected_def)
    then show ?thesis using ih s by simp
  next
    case False
    then have "sent = [request]" using Suc.prems by (auto simp: Let_def split: option.splits if_splits location.splits prod.splits)
    then show ?thesis by (simp add: redirected_def)
  qed
qed (simp add: redirected_def)

lemma client_do_sent [simp]: "length (snd (client_do e client request)) \<le> 10"
  using client_hops_sent [of e client 10 0 True request request] by (cases "client_do e client request") (auto simp: client_do_def)

lemma normalized_idem [simp]: "normalized (normalized dp) = normalized dp"
  by (simp add: normalized_def split: option.split)

lemma normalized_facts [simp]: "1 \<le> dp_MaxAttempts (normalized dp)" "dp_Backoff (normalized dp) \<noteq> []"
  by (simp_all add: normalized_def)

text \<open>An outcome of an attempt: the count goes up by one, and it stays open only below the limit.\<close>

definition attempt_outcome :: "int \<Rightarrow> Delivery \<Rightarrow> DispatchOutcome \<Rightarrow> bool" where
  "attempt_outcome m dl oc \<longleftrightarrow> do_Attempts oc = dl_Attempts dl + 1
     \<and> (do_Status oc = ''sent'' \<or> do_Status oc = ''dead_letter'' \<and> m \<le> do_Attempts oc \<or> do_Status oc = ''failed'' \<and> do_Attempts oc < m)"

lemma fail_outcome_attempt:
  assumes "0 \<le> dl_Attempts dl"
  shows "\<exists>oc. fail_outcome dp k dl status message = Some oc \<and> attempt_outcome (dp_MaxAttempts (normalized dp)) dl oc"
proof -
  have "0 < length (dp_Backoff (normalized dp))" by simp
  then show ?thesis using assms by (auto simp: fail_outcome_def attempt_outcome_def Let_def)
qed

lemma Dispatch_saves:
  assumes "LoadForDispatch e did d = Inr (ep, dl)" "dl_Status dl \<noteq> ''sent''" "0 \<le> dl_Attempts dl"
    "er_tenant ep = dl_TenantID dl" "er_project ep = dl_ProjectID dl" "er_id ep = dl_EndpointID dl"
  shows "\<exists>oc sent. Dispatch e dp did d = (fst (SaveDispatchOutcome e dl oc d), sent, snd (SaveDispatchOutcome e dl oc d))
    \<and> attempt_outcome (dp_MaxAttempts (normalized dp)) dl oc \<and> length sent \<le> 10"
proof -
  have fail: "\<exists>oc. fail_delivery e (normalized dp) k dl status message d = SaveDispatchOutcome e dl oc d
      \<and> attempt_outcome (dp_MaxAttempts (normalized dp)) dl oc" for k status message
    using fail_outcome_attempt [OF assms(3), of "normalized dp" k status message] by (auto simp: fail_delivery_def)
  have sent: "attempt_outcome m dl \<lparr>do_Status = ''sent'', do_Attempts = dl_Attempts dl + 1, do_ResponseStatus = s,
      do_LastError = None, do_NextAttemptAt = None, do_SentAt = t\<rparr>" for m s t by (simp add: attempt_outcome_def)
  define branch where "branch r w d' \<longleftrightarrow> (\<exists>oc. (r, d') = SaveDispatchOutcome e dl oc d
      \<and> attempt_outcome (dp_MaxAttempts (normalized dp)) dl oc \<and> length w \<le> 10)" for r :: "delivery_error + unit" and w :: "webhook list" and d'
  have f: "branch (fst (fail_delivery e (normalized dp) k dl status message d)) w (snd (fail_delivery e (normalized dp) k dl status message d))"
    if "length w \<le> 10" for k status message w
    using fail [of k status message] that by (auto simp: branch_def)
  have g: "branch (fst (SaveDispatchOutcome e dl oc d)) w (snd (SaveDispatchOutcome e dl oc d))"
    if "oc = \<lparr>do_Status = ''sent'', do_Attempts = dl_Attempts dl + 1, do_ResponseStatus = s, do_LastError = None,
      do_NextAttemptAt = None, do_SentAt = t\<rparr>" "length w \<le> 10" for oc s t w
    using sent that unfolding branch_def by (intro exI [where x = oc]) simp
  have "branch (fst (Dispatch e dp did d)) (fst (snd (Dispatch e dp did d))) (snd (snd (Dispatch e dp did d)))"
    using assms unfolding Dispatch_def
    by (auto simp: Let_def case_prod_beta f g split: sum.split option.split prod.split)
  then show ?thesis unfolding branch_def by (metis prod.collapse fst_conv snd_conv)
qed

text \<open>
  C24. A webhook leaves only for an unsent delivery whose endpoint belongs to the same tenant and project, is
  active and has a safe destination at that moment. The first request is a POST to that endpoint's address and
  carries the HMAC of its timestamp and body under the endpoint's decrypted secret. The client follows
  redirects: at most nine more requests are sent, each to the address to which the answer to the one before it
  redirects, which nothing checks.
\<close>

theorem dispatch_guard:
  assumes "Dispatch e dp did d = (result, sent, d')" "sent \<noteq> []"
  shows "\<exists>r \<in> set (deliveries d). \<exists>ep \<in> set (endpoints d). \<exists>secret timestamp request rest.
    sent = request # rest \<and> dr_id r = did \<and> dr_status r \<noteq> ''sent'' \<and> joins r ep \<and> er_status ep = ''active''
    \<and> SafeDestination (de_resolver e) (er_url ep) \<and> wh_method request = ''POST'' \<and> wh_url request = er_url ep
    \<and> DecryptLaravelString (de_crypto e) (dp_ApplicationKey dp) (er_secret ep) = Inr secret
    \<and> (''Idelium-Signature'', ''t='' @ timestamp @ '',v1='' @ to_hex (cr_hmac (de_crypto e) secret (timestamp @ ''.'' @ wh_body request)))
       \<in> set (wh_headers request)
    \<and> length rest \<le> 9 \<and> redirected e (case dp_Client dp of None \<Rightarrow> \<lparr>cl_Timeout = 5 * second\<rparr> | Some client \<Rightarrow> client) 0 sent"
proof -
  have key: "dp_ApplicationKey (normalized dp) = dp_ApplicationKey dp"
    "the (dp_Client (normalized dp)) = (case dp_Client dp of None \<Rightarrow> \<lparr>cl_Timeout = 5 * second\<rparr> | Some client \<Rightarrow> client)"
    by (simp_all add: normalized_def split: option.split)
  let ?client = "case dp_Client dp of None \<Rightarrow> \<lparr>cl_Timeout = 5 * second\<rparr> | Some client \<Rightarrow> client"
  obtain ep dl where load: "LoadForDispatch e did d = Inr (ep, dl)" "dl_Status dl \<noteq> ''sent''"
    using assms unfolding Dispatch_def by (auto split: sum.splits if_splits)
  obtain r where r: "find (\<lambda>r. dr_id r = did) (deliveries d) = Some r" "find (joins r) (endpoints d) = Some ep"
    "dl = delivery_of r (dl_Payload dl)"
    using load(1) unfolding LoadForDispatch_def by (auto simp: delivery_of_def split: if_splits option.splits json.splits)
  have row: "r \<in> set (deliveries d)" "dr_id r = did" "ep \<in> set (endpoints d)" "joins r ep" "dr_status r \<noteq> ''sent''"
    using find_SomeD [OF r(1)] find_SomeD [OF r(2)] load(2) r(3) by (auto simp: delivery_of_def) (metis Delivery.select_convs(8))
  have "er_status ep = ''active'' \<and> SafeDestination (de_resolver e) (er_url ep)
      \<and> (\<exists>secret body now. DecryptLaravelString (de_crypto e) (dp_ApplicationKey dp) (er_secret ep) = Inr secret
          \<and> sent = snd (client_do e ?client (signed_request e (er_url ep) dl secret body now)))"
    using assms load unfolding Dispatch_def key
    by (auto simp: Let_def case_prod_beta key split: if_splits sum.splits option.splits)
  then obtain secret body now where s: "er_status ep = ''active''" "SafeDestination (de_resolver e) (er_url ep)"
    "DecryptLaravelString (de_crypto e) (dp_ApplicationKey dp) (er_secret ep) = Inr secret"
    "sent = snd (client_do e ?client (signed_request e (er_url ep) dl secret body now))" by blast
  define request where "request = signed_request e (er_url ep) dl secret body now"
  have "client_hops e ?client 10 0 True request request = (fst (client_do e ?client request), sent)"
    using s(4) by (simp add: client_do_def request_def)
  from client_hops_sent [OF this] obtain rest where sent: "sent = request # rest" "length rest \<le> 9" "redirected e ?client 0 sent" by auto
  have "wh_method request = ''POST''" "wh_url request = er_url ep" "wh_body request = body"
    "(''Idelium-Signature'', ''t='' @ itoa (now div second) @ '',v1='' @ to_hex (cr_hmac (de_crypto e) secret (itoa (now div second) @ ''.'' @ body)))
       \<in> set (wh_headers request)"
    by (simp_all add: request_def signed_request_def Let_def)
  then show ?thesis using row s(1-3) sent by metis
qed

section \<open>One outcome per attempt\<close>

lemma SaveDispatchOutcome_effect:
  assumes "SaveDispatchOutcome e dl oc d = (Inr (), d')"
  shows "length (filter (addresses dl) (deliveries d)) = 1 \<and> endpoints d' = endpoints d
    \<and> deliveries d' = upd_rows (addresses dl) (outcome_row e oc) (deliveries d)"
  using assms by (auto simp: SaveDispatchOutcome_def split: if_splits)

text \<open>
  C26. Two consumers cannot both finalise an attempt: once an outcome with the next attempt number is
  stored, storing any outcome for the same loaded delivery finds nothing and changes nothing.
\<close>

theorem attempt_finalised_once:
  assumes "SaveDispatchOutcome e dl oc d = (Inr (), d')" "do_Attempts oc = dl_Attempts dl + 1"
  shows "\<exists>x. SaveDispatchOutcome e' dl oc' d' = (Inl x, d')"
proof -
  have "\<not> addresses dl r" if "r \<in> set (deliveries d')" for r
  proof -
    obtain r0 where "r = (if addresses dl r0 then outcome_row e oc r0 else r0)"
      using \<open>r \<in> set (deliveries d')\<close> SaveDispatchOutcome_effect [OF assms(1)] unfolding set_upd_rows by (metis set_upd_rows)
    then show ?thesis using assms(2) by (cases "addresses dl r0") (auto simp: addresses_def outcome_row_def)
  qed
  then have "filter (addresses dl) (deliveries d') = []" by (simp add: filter_empty_conv)
  then show ?thesis by (simp add: SaveDispatchOutcome_def)
qed

section \<open>The worker runs out of work\<close>

definition open_row :: "delivery_row \<Rightarrow> bool" where
  "open_row r \<longleftrightarrow> dr_status r = ''pending'' \<or> dr_status r = ''failed''"

definition deliverable :: "delivery_db \<Rightarrow> delivery_row \<Rightarrow> bool" where
  "deliverable d r \<longleftrightarrow> list_ex (joins r) (endpoints d)
     \<and> (case dr_payload r of None \<Rightarrow> True | Some (JObj m) \<Rightarrow> True | Some JNull \<Rightarrow> True | Some _ \<Rightarrow> False)"

text \<open>
  A queue whose open deliveries can be loaded. An open delivery has the attempts that are left below the limit,
  and at least one.
\<close>

definition queue_ok :: "delivery_db \<Rightarrow> bool" where
  "queue_ok d \<longleftrightarrow> distinct (map dr_id (deliveries d))
     \<and> list_all (\<lambda>r. open_row r \<longrightarrow> 0 \<le> dr_attempts r \<and> deliverable d r) (deliveries d)"

definition budget :: "int \<Rightarrow> delivery_row \<Rightarrow> nat" where
  "budget m r = (if open_row r then nat (max 1 (m - dr_attempts r)) else 0)"

definition total_budget :: "int \<Rightarrow> delivery_db \<Rightarrow> nat" where
  "total_budget m d = sum_list (map (budget m) (deliveries d))"

lemma sum_upd_rows_less:
  fixes g :: "'r \<Rightarrow> nat"
  assumes "\<And>r. r \<in> set rs \<Longrightarrow> p r \<Longrightarrow> g (f r) < g r" "\<exists>r \<in> set rs. p r"
  shows "sum_list (map g (upd_rows p f rs)) < sum_list (map g rs)"
proof -
  have le: "sum_list (map g (upd_rows p f xs)) \<le> sum_list (map g xs)" if "set xs \<subseteq> set rs" for xs
    using that assms(1) by (induction xs) (auto simp: upd_rows_def intro: add_mono less_imp_le)
  have "sum_list (map g (upd_rows p f xs)) < sum_list (map g xs)" if "set xs \<subseteq> set rs" "\<exists>r \<in> set xs. p r" for xs
    using that
  proof (induction xs)
    case (Cons x xs)
    show ?case
    proof (cases "p x")
      case True
      then show ?thesis using assms(1) [of x] le [of xs] Cons.prems by (simp add: upd_rows_def add_less_le_mono)
    next
      case False
      then show ?thesis using Cons by (simp add: upd_rows_def)
    qed
  qed simp
  then show ?thesis using assms(2) by simp
qed

lemma first_row_mem: "first_row rs = Some r \<Longrightarrow> r \<in> set rs"
  by (induction rs arbitrary: r) (auto split: option.splits if_splits)

lemma NextDispatchID_row:
  assumes "NextDispatchID e now d = Inr did"
  obtains r where "r \<in> set (deliveries d)" "open_row r" "dr_id r = did"
proof -
  obtain r where r: "first_row (filter (due now) (deliveries d)) = Some r" "dr_id r = did"
    using assms by (auto simp: NextDispatchID_def split: if_splits option.splits)
  then have "r \<in> set (deliveries d)" "due now r" using first_row_mem by fastforce+
  then show thesis using that r(2) by (auto simp: due_def open_row_def)
qed

lemma find_by_id:
  "distinct (map dr_id rs) \<Longrightarrow> r \<in> set rs \<Longrightarrow> find (\<lambda>x. dr_id x = dr_id r) rs = Some r"
  by (induction rs) (auto simp: image_iff)

lemma LoadForDispatch_deliverable:
  assumes "queue_ok d" "r \<in> set (deliveries d)" "open_row r" "\<not> de_fails e ''load integration delivery for dispatch''"
  obtains ep payload where "LoadForDispatch e (dr_id r) d = Inr (ep, delivery_of r payload)" "joins r ep"
proof -
  have f: "find (\<lambda>x. dr_id x = dr_id r) (deliveries d) = Some r"
    using assms(1,2) find_by_id by (auto simp: queue_ok_def)
  have del: "deliverable d r" using assms(1-3) by (auto simp: queue_ok_def list_all_iff)
  then obtain ep where ep: "find (joins r) (endpoints d) = Some ep"
    by (auto simp: deliverable_def list_ex_iff find_None_iff dest: not_None_eq [THEN iffD1, rotated])
      (metis find_None_iff not_Some_eq)
  show thesis using that f ep del assms(4) find_SomeD [OF ep]
    by (auto simp: LoadForDispatch_def deliverable_def split: option.splits json.splits)
qed

lemma attempt_row_ok:
  assumes "attempt_outcome m dl oc" "addresses dl r" "open_row r" "0 \<le> dr_attempts r"
  shows "budget m (outcome_row e oc r) < budget m r"
    and "open_row (outcome_row e oc r) \<Longrightarrow> 0 \<le> dr_attempts (outcome_row e oc r)"
  using assms by (auto simp: attempt_outcome_def addresses_def budget_def open_row_def outcome_row_def)

lemma worker_turn_progress:
  assumes "queue_ok d" "de_fails e = (\<lambda>_. False)" "dp_MaxAttempts (normalized dp) = m" "worker_turn e dp now d = (Again, sent, d')"
  shows "queue_ok d' \<and> total_budget m d' < total_budget m d \<and> length sent \<le> 10"
proof -
  obtain did where did: "NextDispatchID e now d = Inr did" and disp: "snd (Dispatch e dp did d) = (sent, d')"
    using assms(4) by (auto simp: worker_turn_def split: sum.splits if_splits prod.splits)
  from did obtain r where r: "r \<in> set (deliveries d)" "open_row r" "dr_id r = did" by (rule NextDispatchID_row)
  have att: "0 \<le> dr_attempts r" using assms(1) r by (auto simp: queue_ok_def list_all_iff)
  obtain ep payload where load: "LoadForDispatch e did d = Inr (ep, delivery_of r payload)" "joins r ep"
    using LoadForDispatch_deliverable [OF assms(1) r(1,2), of e] r(3) assms(2) by auto
  define dl where "dl = delivery_of r payload"
  obtain oc where oc: "d' = snd (SaveDispatchOutcome e dl oc d)" "attempt_outcome m dl oc" "length sent \<le> 10"
    using Dispatch_saves [OF load(1), of dp] r(2) att load(2) disp assms(3)
    by (auto simp: delivery_of_def open_row_def joins_def dl_def)
  have only: "x = r" if "x \<in> set (deliveries d)" "addresses dl x" for x
    using that r assms(1) by (auto simp: queue_ok_def addresses_def dl_def delivery_of_def distinct_map dest: inj_onD)
  have r_addr: "addresses dl r" using r(2) by (auto simp: addresses_def dl_def delivery_of_def open_row_def)
  have "distinct (deliveries d)" using assms(1) by (simp add: queue_ok_def distinct_map)
  then have "distinct (filter (addresses dl) (deliveries d))" by simp
  moreover have "set (filter (addresses dl) (deliveries d)) = {r}" unfolding set_filter using only r_addr r(1) by blast
  ultimately have "length (filter (addresses dl) (deliveries d)) = 1" by (simp add: distinct_card [symmetric])
  then have d': "deliveries d' = upd_rows (addresses dl) (outcome_row e oc) (deliveries d)" "endpoints d' = endpoints d"
    using oc(1) assms(2) by (simp_all add: SaveDispatchOutcome_def)
  note row = attempt_row_ok [OF oc(2) r_addr r(2) att]
  have "total_budget m d' < total_budget m d" unfolding total_budget_def d'(1)
  proof (rule sum_upd_rows_less)
    fix x assume "x \<in> set (deliveries d)" "addresses dl x"
    then have "x = r" by (rule only)
    then show "budget m (outcome_row e oc x) < budget m x" using row(1) by simp
  qed (use r(1) r_addr in blast)
  moreover have "queue_ok d'"
  proof -
    have "map dr_id (deliveries d') = map dr_id (deliveries d)" unfolding d'(1) by (intro map_upd_rows) (simp add: outcome_row_def)
    moreover have "open_row x \<longrightarrow> 0 \<le> dr_attempts x \<and> deliverable d' x" if x: "x \<in> set (deliveries d')" for x
    proof -
      obtain x0 where x0: "x0 \<in> set (deliveries d)" "x = (if addresses dl x0 then outcome_row e oc x0 else x0)"
        using x unfolding d'(1) set_upd_rows by blast
      have same: "deliverable d' x = deliverable d x0"
        using x0(2) d'(2) by (auto simp: deliverable_def outcome_row_def joins_def [abs_def])
      show ?thesis
      proof (cases "addresses dl x0")
        case True
        then have "x0 = r" using only x0(1) by blast
        then have "deliverable d x0" "x = outcome_row e oc r" using assms(1) r(1,2) x0(2) True by (simp_all add: queue_ok_def list_all_iff)
        then show ?thesis using row(2) same by simp
      next
        case False
        then show ?thesis using x0 same assms(1) by (auto simp: queue_ok_def list_all_iff)
      qed
    qed
    ultimately show ?thesis using assms(1) by (auto simp: queue_ok_def list_all_iff)
  qed
  ultimately show ?thesis using oc(3) by simp
qed

text \<open>The turns of a run that find something to do.\<close>

fun busy_turns :: "(dispatch_env \<times> Dispatcher \<times> instant) list \<Rightarrow> delivery_db \<Rightarrow> nat" where
  "busy_turns [] d = 0"
| "busy_turns ((e, dp, now) # ts) d =
     (case worker_turn e dp now d of
        (Again, _, d') \<Rightarrow> Suc (busy_turns ts d')
      | (Wait, _, d') \<Rightarrow> busy_turns ts d'
      | (Stop _, _, _) \<Rightarrow> 0)"

text \<open>
  C25. The worker runs out of work: when no statement fails, the limit of attempts is the same in every turn,
  deliveries have distinct numbers, and every open delivery has its endpoint, a payload
  that is absent, null or a JSON object, and a count of attempts that is not negative, then however long the loop
  runs it does not stop with an error, the turns that find work are at most the attempts left in the queue (of an
  open delivery those below the limit, and at least one), each sends at most ten requests, redirects included,
  and the queue stays in that condition.
\<close>

theorem worker_drains:
  assumes "queue_ok d" "\<forall>(e, dp, now) \<in> set ts. de_fails e = (\<lambda>_. False) \<and> dp_MaxAttempts (normalized dp) = m"
    and "worker_run ts d = (x, sent, d')"
  shows "x = None \<and> busy_turns ts d + total_budget m d' \<le> total_budget m d \<and> length sent \<le> 10 * busy_turns ts d \<and> queue_ok d'"
  using assms
proof (induction ts arbitrary: d x sent d')
  case (Cons t ts)
  obtain e dp now where t: "t = (e, dp, now)" by (cases t) auto
  have env: "de_fails e = (\<lambda>_. False)" "dp_MaxAttempts (normalized dp) = m" using Cons.prems(2) t by auto
  have rest: "\<forall>(e, dp, now) \<in> set ts. de_fails e = (\<lambda>_. False) \<and> dp_MaxAttempts (normalized dp) = m" using Cons.prems(2) by auto
  obtain w sent1 d1 where turn: "worker_turn e dp now d = (w, sent1, d1)" by (cases "worker_turn e dp now d") auto
  obtain x2 sent2 d2 where run: "worker_run ts d1 = (x2, sent2, d2)" by (cases "worker_run ts d1") auto
  show ?case
  proof (cases w)
    case Wait
    then have "sent1 = []" "d1 = d" using turn by (auto simp: worker_turn_def split: sum.splits if_splits prod.splits)
    then show ?thesis using Cons.IH [OF _ rest run] Cons.prems(1,3) turn run Wait t by auto
  next
    case Again
    then have step: "queue_ok d1 \<and> total_budget m d1 < total_budget m d \<and> length sent1 \<le> 10"
      using worker_turn_progress [OF Cons.prems(1) env] turn by blast
    then show ?thesis using Cons.IH [OF _ rest run] Cons.prems(3) turn run Again t by auto
  next
    case (Stop y)
    then show ?thesis using turn env(1)
      by (auto simp: worker_turn_def NextDispatchID_def split: sum.splits if_splits prod.splits option.splits)
  qed
qed simp

section \<open>A delivery that cannot be loaded\<close>

lemma earlier_asym: "earlier r s \<Longrightarrow> \<not> earlier s r"
  by (cases "sort_time r"; cases "sort_time s") (auto simp: earlier_def)

lemma first_row_earliest:
  "r \<in> set rs \<Longrightarrow> \<forall>s \<in> set rs. s \<noteq> r \<longrightarrow> earlier r s \<Longrightarrow> first_row rs = Some r"
proof (induction rs)
  case (Cons x rs)
  show ?case
  proof (cases "x = r")
    case True
    have "\<not> earlier s r \<or> s = r" if "first_row rs = Some s" for s
      using Cons.prems(2) first_row_mem [OF that] earlier_asym by auto
    then show ?thesis using True by (auto split: option.split)
  next
    case False
    then show ?thesis using Cons by auto
  qed
qed simp

text \<open>
  One pending delivery that cannot be loaded and is first in the queue stops all others: its endpoint is gone or
  belongs to another project, or its payload is JSON but neither null nor an object. Every turn of the worker
  selects it, changes nothing, sends nothing and starts again at once, without waiting for the poll interval,
  for ever.
\<close>

lemma unloadable_blocks_queue:
  assumes "r \<in> set (deliveries d)" "dr_status r = ''pending''" "\<forall>s \<in> set (deliveries d). s \<noteq> r \<longrightarrow> earlier r s"
    and "distinct (map dr_id (deliveries d))" "\<not> deliverable d r"
  shows "snd (worker_run ts d) = ([], d)
    \<and> (\<not> de_fails e ''select pending integration delivery'' \<longrightarrow> worker_turn e dp now d = (Again, [], d))"
proof -
  have first: "first_row (filter (due now) (deliveries d)) = Some r" for now
    using assms(1-3) by (intro first_row_earliest) (auto simp: due_def)
  have load: "\<exists>x. LoadForDispatch e (dr_id r) d = Inl x" for e
    using find_by_id [OF assms(4,1)] assms(5) find_SomeD [of "joins r" "endpoints d"]
    by (auto simp: LoadForDispatch_def deliverable_def list_ex_iff split: option.splits json.splits)
  have disp: "\<exists>x. Dispatch e dp (dr_id r) d = (Inl x, [], d)" for e dp
    using load [of e] by (auto simp: Dispatch_def)
  have turn: "worker_turn e dp now d = (if de_fails e ''select pending integration delivery''
      then (Stop (DeliveryFailure ''select pending integration delivery''), [], d) else (Again, [], d))" for e dp now
    using disp [of e dp] first [of now] by (auto simp: worker_turn_def NextDispatchID_def split: prod.split)
  have "snd (worker_run ts d) = ([], d)"
    by (induction ts) (auto simp: turn split: prod.splits)
  then show ?thesis using turn [of e dp now] by simp
qed

section \<open>Instances\<close>

text \<open>An endpoint of tenant 7, one pending delivery for it, and a client that answers 204.\<close>

definition denv0 :: dispatch_env where
  "denv0 = \<lparr>de_fails = (\<lambda>_. False), de_column_time = (\<lambda>t. t), de_transport = (\<lambda>_ _ _. Some \<lparr>hr_status = 204, hr_location = NoLocation\<rparr>),
     de_referer = (\<lambda>_ _. []), de_url_valid = (\<lambda>_. True),
     de_marshal = (\<lambda>_. Some ''{}''), de_format = (\<lambda>_. []),
     de_resolver = \<lparr>rs_parse = (\<lambda>url. Some \<lparr>pu_Scheme = ''https'', pu_Hostname = url, pu_hasUser = False\<rparr>),
       rs_parseIP = (\<lambda>_. None), rs_lookup = (\<lambda>_. Some [[8, 8, 8, 8]])\<rparr>, de_crypto = crypto0\<rparr>"

definition dispatcher0 :: Dispatcher where
  "dispatcher0 = \<lparr>dp_Client = None, dp_ApplicationKey = key0, dp_MaxAttempts = 0, dp_Backoff = [], dp_Now = (\<lambda>_. 0)\<rparr>"

definition endpoint0 :: endpoint_row where
  "endpoint0 = \<lparr>er_id = 4, er_tenant = 7, er_project = 1, er_adapter = ''slack'', er_url = ''h'', er_status = ''active'', er_secret = envelope0\<rparr>"

definition delivery0 :: "int \<Rightarrow> int \<Rightarrow> delivery_row" where
  "delivery0 did endpoint = \<lparr>dr_id = did, dr_tenant = 7, dr_project = 1, dr_endpoint = endpoint, dr_deliveryId = ''d'', dr_event = ''e'',
     dr_schemaVersion = ''1'', dr_status = ''pending'', dr_attempts = 0, dr_payload = None, dr_responseStatus = None,
     dr_lastError = None, dr_nextAttemptAt = None, dr_sentAt = None, dr_createdAt = Some did\<rparr>"

definition ddb0 :: delivery_db where
  "ddb0 = \<lparr>endpoints = [endpoint0], deliveries = [delivery0 2 4], delivery_audits = []\<rparr>"

theorem dispatch_guard_witness:
  "\<exists>r \<in> set (deliveries ddb0). \<exists>ep \<in> set (endpoints ddb0). \<exists>request rest. fst (snd (Dispatch denv0 dispatcher0 2 ddb0)) = request # rest
     \<and> joins r ep \<and> er_status ep = ''active'' \<and> SafeDestination (de_resolver denv0) (er_url ep) \<and> wh_url request = er_url ep \<and> length rest \<le> 9"
proof -
  let ?x = "Dispatch denv0 dispatcher0 2 ddb0"
  have "fst (snd ?x) \<noteq> []" by code_simp
  from dispatch_guard [of denv0 dispatcher0 2 ddb0 "fst ?x" "fst (snd ?x)" "snd (snd ?x)", OF _ this] show ?thesis by auto
qed

text \<open>
  The destination is checked once, for the address of the endpoint. When the endpoint answers 307 with the address
  of a metadata service, the signed POST is sent there with its body, and its answer decides the outcome.
\<close>

definition denv_redirect :: dispatch_env where
  "denv_redirect = denv0\<lparr>de_transport := (\<lambda>_ hop _. if hop = 0 then Some \<lparr>hr_status = 307, hr_location = Location ''http://169.254.169.254/''\<rparr>
     else Some \<lparr>hr_status = 200, hr_location = NoLocation\<rparr>)\<rparr>"

lemma redirect_unchecked:
  "\<exists>first second. fst (snd (Dispatch denv_redirect dispatcher0 2 ddb0)) = [first, second] \<and> wh_url second = ''http://169.254.169.254/''
     \<and> wh_method second = ''POST'' \<and> wh_body second = wh_body first \<and> wh_headers second = wh_headers first
     \<and> map dr_status (deliveries (snd (snd (Dispatch denv_redirect dispatcher0 2 ddb0)))) = [''sent'']"
proof -
  have "(case Dispatch denv_redirect dispatcher0 2 ddb0 of (_, sent, d') \<Rightarrow>
      length sent = 2 \<and> wh_url (sent ! 1) = ''http://169.254.169.254/'' \<and> wh_method (sent ! 1) = ''POST''
      \<and> wh_body (sent ! 1) = wh_body (sent ! 0) \<and> wh_headers (sent ! 1) = wh_headers (sent ! 0) \<and> map dr_status (deliveries d') = [''sent''])"
    by code_simp
  then show ?thesis by (auto simp: case_prod_beta numeral_2_eq_2 length_Suc_conv)
qed

definition loaded0 :: Delivery where
  "loaded0 = delivery_of (delivery0 2 4) (JObj [])"

definition sent0 :: DispatchOutcome where
  "sent0 = \<lparr>do_Status = ''sent'', do_Attempts = 1, do_ResponseStatus = Some 204, do_LastError = None, do_NextAttemptAt = None, do_SentAt = Some 0\<rparr>"

theorem attempt_finalised_once_witness:
  "\<exists>x. SaveDispatchOutcome denv0 loaded0 sent0 (snd (SaveDispatchOutcome denv0 loaded0 sent0 ddb0))
     = (Inl x, snd (SaveDispatchOutcome denv0 loaded0 sent0 ddb0))"
proof (rule attempt_finalised_once)
  have "fst (SaveDispatchOutcome denv0 loaded0 sent0 ddb0) = Inr ()"
    by (simp add: SaveDispatchOutcome_def denv0_def ddb0_def loaded0_def delivery_of_def delivery0_def addresses_def)
  then show "SaveDispatchOutcome denv0 loaded0 sent0 ddb0 = (Inr (), snd (SaveDispatchOutcome denv0 loaded0 sent0 ddb0))"
    by (metis prod.collapse)
  show "do_Attempts sent0 = dl_Attempts loaded0 + 1" by code_simp
qed

theorem worker_drains_witness:
  "busy_turns (replicate 9 (denv0, dispatcher0, 0)) ddb0 \<le> 3
     \<and> length (fst (snd (worker_run (replicate 9 (denv0, dispatcher0, 0)) ddb0))) \<le> 30"
proof -
  let ?w = "worker_run (replicate 9 (denv0, dispatcher0, 0)) ddb0"
  have q: "queue_ok ddb0" by (simp add: queue_ok_def ddb0_def delivery0_def open_row_def deliverable_def joins_def endpoint0_def)
  have b: "total_budget 3 ddb0 = 3" by (simp add: total_budget_def ddb0_def budget_def delivery0_def open_row_def)
  have t: "\<forall>(e, dp, now) \<in> set (replicate 9 (denv0, dispatcher0, 0 :: instant)).
      de_fails e = (\<lambda>_. False) \<and> dp_MaxAttempts (normalized dp) = 3"
    by (simp add: denv0_def dispatcher0_def normalized_def)
  have "?w = (fst ?w, fst (snd ?w), snd (snd ?w))" by (simp only: prod.collapse)
  from worker_drains [OF q t this] b show ?thesis by linarith
qed

lemma orphan_blocks_queue:
  "snd (worker_run (replicate 5 (denv0, dispatcher0, 9)) (ddb0\<lparr>deliveries := [delivery0 1 99, delivery0 2 4]\<rparr>))
     = ([], ddb0\<lparr>deliveries := [delivery0 1 99, delivery0 2 4]\<rparr>)"
  using unloadable_blocks_queue [of "delivery0 1 99" "ddb0\<lparr>deliveries := [delivery0 1 99, delivery0 2 4]\<rparr>"]
  by (simp add: delivery0_def earlier_def sort_time_def ddb0_def joins_def endpoint0_def deliverable_def)

lemma list_payload_blocks_queue:
  "snd (worker_run (replicate 5 (denv0, dispatcher0, 9)) (ddb0\<lparr>deliveries := [(delivery0 1 4)\<lparr>dr_payload := Some (JArr [])\<rparr>, delivery0 2 4]\<rparr>))
     = ([], ddb0\<lparr>deliveries := [(delivery0 1 4)\<lparr>dr_payload := Some (JArr [])\<rparr>, delivery0 2 4]\<rparr>)"
  using unloadable_blocks_queue [of "(delivery0 1 4)\<lparr>dr_payload := Some (JArr [])\<rparr>"
      "ddb0\<lparr>deliveries := [(delivery0 1 4)\<lparr>dr_payload := Some (JArr [])\<rparr>, delivery0 2 4]\<rparr>"]
  by (simp add: delivery0_def earlier_def sort_time_def ddb0_def joins_def endpoint0_def deliverable_def)

end
