(* ===== verification/QueueDrain.thy ===== *)
theory QueueDrain
  imports Deliveries
begin

text \<open>
  The gate before the Go worker takes over from Laravel's queue: the counts of
  internal/persistence/mysql/queue_drain.go and the verdict of internal/integrations/queue_drain.go.
\<close>

text \<open>The tables that are counted; \<open>None\<close> is a table that does not exist.\<close>

record queue_db =
  qd_jobs :: "nat option"
  qd_failedJobs :: "nat option"
  qd_deliveries :: "delivery_row list option"
  qd_exports :: "string list option"

record queue_env =
  qe_schemaFails :: "string \<Rightarrow> bool"
  qe_countFails :: "string \<Rightarrow> bool"

datatype drain_error =
    UnknownDriver
  | SchemaIncomplete
  | DrainFailure string

definition aggregateCount :: "queue_env \<Rightarrow> string \<Rightarrow> nat option \<Rightarrow> drain_error + int" where
  "aggregateCount e table count =
     (if qe_schemaFails e table then Inl (DrainFailure ''inspect Laravel queue drain schema'')
      else case count of
        None \<Rightarrow> Inl SchemaIncomplete
      | Some n \<Rightarrow> if qe_countFails e table then Inl (DrainFailure ''inspect Laravel queue drain aggregate'') else Inr (int n))"

definition QueuedJobs :: "queue_env \<Rightarrow> string \<Rightarrow> queue_db \<Rightarrow> drain_error + int" where
  "QueuedJobs e queueDriver q = (if queueDriver = ''sync'' then Inr 0 else aggregateCount e ''jobs'' (qd_jobs q))"

definition FailedJobs :: "queue_env \<Rightarrow> queue_db \<Rightarrow> drain_error + int" where
  "FailedJobs e q = aggregateCount e ''failed_jobs'' (qd_failedJobs q)"

definition PendingDomainJobs :: "queue_env \<Rightarrow> queue_db \<Rightarrow> drain_error + (string \<times> int) list" where
  "PendingDomainJobs e q =
     (case aggregateCount e ''integration_deliveries''
         (map_option (\<lambda>rs. length (filter (\<lambda>r. dr_status r = ''pending'' \<or> dr_status r = ''failed'') rs)) (qd_deliveries q)) of
        Inl x \<Rightarrow> Inl x
      | Inr n \<Rightarrow> (case aggregateCount e ''result_exports''
          (map_option (\<lambda>xs. length (filter (\<lambda>s. s = ''queued'') xs)) (qd_exports q)) of
          Inl x \<Rightarrow> Inl x
        | Inr k \<Rightarrow> Inr [(''integration_deliveries'', n), (''result_exports'', k)]))"

record QueueDrainVerification =
  qv_Status :: string
  qv_QueueDriver :: string
  qv_WorkersStopped :: bool
  qv_QueuedJobs :: int
  qv_FailedJobs :: int
  qv_PendingDomainJobs :: "(string \<times> int) list"
  qv_TotalBlockingJobs :: int
  qv_Blockers :: "string list"

text \<open>The verdict; the total is a sum of 64-bit integers, which wraps.\<close>

definition drain_verdict :: "string \<Rightarrow> bool \<Rightarrow> int \<Rightarrow> int \<Rightarrow> (string \<times> int) list \<Rightarrow> QueueDrainVerification" where
  "drain_verdict queueDriver workersStopped queued failed domain =
     (let total = foldl (\<lambda>t c. wrap64 (t + snd c)) (wrap64 (queued + failed)) domain;
          blockers = (if workersStopped then [] else [''Laravel queue workers are not confirmed stopped''])
                     @ (if total \<noteq> 0 then [''Laravel queue or domain work remains pending''] else [])
      in \<lparr>qv_Status = (if blockers = [] then ''ready'' else ''blocked''), qv_QueueDriver = queueDriver,
          qv_WorkersStopped = workersStopped, qv_QueuedJobs = queued, qv_FailedJobs = failed,
          qv_PendingDomainJobs = domain, qv_TotalBlockingJobs = total, qv_Blockers = blockers\<rparr>)"

definition VerifyQueueDrain :: "queue_env \<Rightarrow> string \<Rightarrow> bool \<Rightarrow> queue_db \<Rightarrow> drain_error + QueueDrainVerification" where
  "VerifyQueueDrain e queueDriver workersStopped q =
     (if queueDriver \<noteq> ''sync'' \<and> queueDriver \<noteq> ''database'' then Inl UnknownDriver
      else case QueuedJobs e queueDriver q of
        Inl x \<Rightarrow> Inl x
      | Inr queued \<Rightarrow> (case FailedJobs e q of
          Inl x \<Rightarrow> Inl x
        | Inr failed \<Rightarrow> (case PendingDomainJobs e q of
            Inl x \<Rightarrow> Inl x
          | Inr domain \<Rightarrow> Inr (drain_verdict queueDriver workersStopped queued failed domain))))"

section \<open>What the verdict means\<close>

lemma aggregateCount_Inr: "aggregateCount e table c = Inr n \<Longrightarrow> \<exists>k. c = Some k \<and> n = int k"
  by (auto simp: aggregateCount_def split: if_splits option.splits)

lemma drain_total:
  fixes a b c k :: nat
  assumes "a < 2 ^ 60" "b < 2 ^ 60" "c < 2 ^ 60" "k < 2 ^ 60"
  shows "foldl (\<lambda>t c. wrap64 (t + snd c)) (wrap64 (int a + int b)) [(x, int c), (y, int k)] = int (a + b + c + k)"
proof -
  have "wrap64 (int a + int b) = int a + int b" "wrap64 (int a + int b + int c) = int a + int b + int c"
    "wrap64 (int a + int b + int c + int k) = int a + int b + int c + int k"
    using assms by (intro wrap64_id; simp add: int64_range_def)+
  then show ?thesis by simp
qed

text \<open>
  The gate opens exactly on a drained queue: for tables of fewer than \<open>2^60\<close> rows each, the verdict
  is \<open>ready\<close> if and only if the workers are confirmed stopped, the failed-job table is empty, no
  delivery is pending or failed, no export is queued and, for the database driver, no job is queued; a
  missing table is an error and never a verdict.
\<close>

lemma queue_drain_ready:
  assumes "VerifyQueueDrain e driver stopped q = Inr v"
    and "\<forall>n \<in> set_option (qd_jobs q). n < 2 ^ 60" "\<forall>n \<in> set_option (qd_failedJobs q). n < 2 ^ 60"
    "\<forall>rs \<in> set_option (qd_deliveries q). length rs < 2 ^ 60" "\<forall>xs \<in> set_option (qd_exports q). length xs < 2 ^ 60"
  shows "(qv_Status v = ''ready'') \<longleftrightarrow> stopped \<and> (driver = ''database'' \<longrightarrow> qd_jobs q = Some 0) \<and> qd_failedJobs q = Some 0
    \<and> (\<exists>rs xs. qd_deliveries q = Some rs \<and> qd_exports q = Some xs \<and> ''queued'' \<notin> set xs
         \<and> (\<forall>r \<in> set rs. dr_status r \<noteq> ''pending'' \<and> dr_status r \<noteq> ''failed''))"
proof -
  obtain queued failed domain where parts: "driver = ''sync'' \<or> driver = ''database''" "QueuedJobs e driver q = Inr queued"
    "FailedJobs e q = Inr failed" "PendingDomainJobs e q = Inr domain" "v = drain_verdict driver stopped queued failed domain"
    using assms(1) by (auto simp: VerifyQueueDrain_def split: if_splits sum.splits)
  obtain f where f: "qd_failedJobs q = Some f" "failed = int f"
    using parts(3) aggregateCount_Inr unfolding FailedJobs_def by blast
  obtain rs xs where d: "qd_deliveries q = Some rs" "qd_exports q = Some xs"
    "domain = [(''integration_deliveries'', int (length (filter (\<lambda>r. dr_status r = ''pending'' \<or> dr_status r = ''failed'') rs))),
       (''result_exports'', int (length (filter (\<lambda>s. s = ''queued'') xs)))]"
    using parts(4) by (auto simp: PendingDomainJobs_def split: sum.splits dest!: aggregateCount_Inr)
  obtain j where j: "queued = int j" "j < 2 ^ 60" "driver = ''database'' \<longrightarrow> qd_jobs q = Some j" "driver = ''sync'' \<longrightarrow> j = 0"
  proof (cases "driver = ''sync''")
    case True
    then show thesis using that [of 0] parts(2) by (simp add: QueuedJobs_def)
  next
    case False
    then obtain j where "qd_jobs q = Some j" "queued = int j"
      using parts(2) aggregateCount_Inr unfolding QueuedJobs_def by (metis (full_types))
    then show thesis using that [of j] assms(2) False by simp
  qed
  define a where "a = length (filter (\<lambda>r. dr_status r = ''pending'' \<or> dr_status r = ''failed'') rs)"
  define b where "b = length (filter (\<lambda>s. s = ''queued'') xs)"
  have small: "f < 2 ^ 60" "a < 2 ^ 60" "b < 2 ^ 60"
    using assms(3-5) f(1) d(1,2) le_less_trans [OF length_filter_le] unfolding a_def b_def by auto
  have "qv_Status v = ''ready'' \<longleftrightarrow> stopped \<and> j + f + a + b = 0"
    unfolding parts(5) drain_verdict_def d(3) a_def [symmetric] b_def [symmetric] f(2) j(1) drain_total [OF j(2) small]
    by (auto simp: Let_def)
  moreover have "a = 0 \<longleftrightarrow> (\<forall>r \<in> set rs. dr_status r \<noteq> ''pending'' \<and> dr_status r \<noteq> ''failed'')" "b = 0 \<longleftrightarrow> ''queued'' \<notin> set xs"
    by (auto simp: a_def b_def filter_empty_conv)
  ultimately show ?thesis using f(1) d(1,2) j(3,4) parts(1) by auto
qed

definition drained :: queue_db where
  "drained = \<lparr>qd_jobs = Some 0, qd_failedJobs = Some 0, qd_deliveries = Some [], qd_exports = Some [''done'']\<rparr>"

definition qenv0 :: queue_env where
  "qenv0 = \<lparr>qe_schemaFails = (\<lambda>_. False), qe_countFails = (\<lambda>_. False)\<rparr>"

lemma queue_drain_ready_witness:
  "\<exists>v. VerifyQueueDrain qenv0 ''database'' True drained = Inr v \<and> qv_Status v = ''ready''"
proof -
  obtain v where v: "VerifyQueueDrain qenv0 ''database'' True drained = Inr v"
    by (simp add: VerifyQueueDrain_def QueuedJobs_def FailedJobs_def PendingDomainJobs_def aggregateCount_def qenv0_def drained_def)
  have "qv_Status v = ''ready''" using queue_drain_ready [OF v] by (simp add: drained_def)
  then show ?thesis using v by blast
qed

end
