(* ===== verification/DestinationProps.thy ===== *)
theory DestinationProps
  imports Destinations
begin

text \<open>
  Which addresses a webhook may reach, in terms of address ranges.
\<close>

unbundle bit_operations_syntax

section \<open>Masks of a byte\<close>

lemma high_mask: "(w :: 8 word) AND NOT (mask k) = push_bit k (drop_bit k w)"
  by (rule bit_word_eqI) (auto simp: bit_simps)

lemma high_bits: "unat ((w :: 8 word) AND NOT (mask k)) = unat w div 2 ^ k * 2 ^ k"
proof -
  have "unat w div 2 ^ k * 2 ^ k \<le> unat w" by simp
  have "unat w < 256" using unsigned_less [of w, where ?'a = nat] by simp
  then have id: "take_bit 8 (unat w) = unat w" by (simp add: take_bit_nat_eq_self)
  note \<open>unat w div 2 ^ k * 2 ^ k \<le> unat w\<close>
  also note \<open>unat w < 256\<close>
  finally have "take_bit 8 (push_bit k (drop_bit k (unat w))) = unat w div 2 ^ k * 2 ^ k"
    by (simp add: drop_bit_eq_div push_bit_eq_mult take_bit_eq_mod)
  then show ?thesis unfolding high_mask
    by (simp only: unsigned_push_bit_eq unsigned_drop_bit_eq) (simp add: id)
qed

lemma masks_not: "0xF0 = NOT (mask 4 :: 8 word)" "0xFE = NOT (mask 1 :: 8 word)" "0xC0 = NOT (mask 6 :: 8 word)"
  by (simp_all add: mask_eq_exp_minus_1)

lemma word_is_nat: "(v :: 8 word) = word_of_nat n \<longleftrightarrow> unat v = n" if "n < 256"
  using that by (auto simp: unsigned_of_nat take_bit_eq_mod)

lemma mask_is: "(w :: 8 word) AND NOT (mask k) = word_of_nat n \<longleftrightarrow> unat w div 2 ^ k * 2 ^ k = n" if "n < 256"
  unfolding word_is_nat [OF that] high_bits ..

lemma mask_private: "(w :: 8 word) AND 0xF0 = 16 \<longleftrightarrow> 16 \<le> w \<and> w \<le> 31"
  unfolding masks_not using mask_is [of 16 w 4] by (auto simp: word_le_nat_alt)

lemma mask_multicast: "(w :: 8 word) AND 0xF0 = 0xE0 \<longleftrightarrow> 224 \<le> w \<and> w \<le> 239"
  unfolding masks_not using mask_is [of 224 w 4] by (auto simp: word_le_nat_alt)

lemma mask_unique_local: "(w :: 8 word) AND 0xFE = 0xFC \<longleftrightarrow> w = 252 \<or> w = 253"
  unfolding masks_not using mask_is [of 252 w 1] word_is_nat [of 252 w] word_is_nat [of 253 w] by auto

lemma mask_link_local: "(w :: 8 word) AND 0xC0 = 0x80 \<longleftrightarrow> 128 \<le> w \<and> w \<le> 191"
  unfolding masks_not using mask_is [of 128 w 6] by (auto simp: word_le_nat_alt)

lemmas masks = mask_private mask_multicast mask_unique_local mask_link_local

section \<open>Ranges\<close>

text \<open>The IPv4 and IPv6 ranges that are refused.\<close>

fun refused4 :: "IP \<Rightarrow> bool" where
  "refused4 [a, b, c, d] \<longleftrightarrow> [a, b, c, d] = [0, 0, 0, 0] \<or> a = 10 \<or> a = 127 \<or> a = 169 \<and> b = 254 \<or> a = 172 \<and> 16 \<le> b \<and> b \<le> 31
     \<or> a = 192 \<and> b = 168 \<or> 224 \<le> a \<and> a \<le> 239 \<or> [a, b, c, d] = [255, 255, 255, 255]"
| "refused4 _ \<longleftrightarrow> True"

definition refused6 :: "IP \<Rightarrow> bool" where
  "refused6 ip \<longleftrightarrow> length ip \<noteq> 16 \<or> ip = replicate 16 0 \<or> ip = replicate 15 0 @ [1] \<or> ip ! 0 = 252 \<or> ip ! 0 = 253
     \<or> ip ! 0 = 254 \<and> 128 \<le> ip ! 1 \<and> ip ! 1 \<le> 191 \<or> ip ! 0 = 255"

lemma To4_length: "To4 ip = Some v \<Longrightarrow> length v = 4"
  by (auto simp: To4_def split: if_splits)

lemma publicAddress_v4: "To4 ip = Some v \<Longrightarrow> publicAddress ip \<longleftrightarrow> \<not> refused4 v"
proof -
  assume v: "To4 ip = Some v"
  then obtain a b c d where abcd: "v = [a, b, c, d]" using To4_length [OF v] by (auto simp: length_Suc_conv numeral_eq_Suc)
  have "length ip = 4 \<or> length ip = 16" "ip \<noteq> replicate 16 0"
    using v by (auto simp: To4_def split: if_splits)
  then have "IsGlobalUnicast ip \<longleftrightarrow> v \<noteq> [255, 255, 255, 255] \<and> v \<noteq> [0, 0, 0, 0] \<and> \<not> IsLoopback ip \<and> \<not> IsMulticast ip \<and> \<not> IsLinkLocalUnicast ip"
    using v by (simp add: IsGlobalUnicast_def IsUnspecified_def)
  moreover have "IsLoopback ip \<longleftrightarrow> a = 127" "IsMulticast ip \<longleftrightarrow> 224 \<le> a \<and> a \<le> 239" "IsLinkLocalUnicast ip \<longleftrightarrow> a = 169 \<and> b = 254"
    "IsPrivate ip \<longleftrightarrow> a = 10 \<or> a = 172 \<and> 16 \<le> b \<and> b \<le> 31 \<or> a = 192 \<and> b = 168"
    "IsLinkLocalMulticast ip \<longrightarrow> IsMulticast ip"
    using v by (simp_all add: abcd masks IsLoopback_def IsMulticast_def IsLinkLocalUnicast_def IsPrivate_def IsLinkLocalMulticast_def)
  ultimately show ?thesis unfolding publicAddress_def abcd refused4.simps by argo
qed

lemma publicAddress_v6: "To4 ip = None \<Longrightarrow> publicAddress ip \<longleftrightarrow> \<not> refused6 ip"
proof -
  assume v: "To4 ip = None"
  then have "length ip \<noteq> 4" by (auto simp: To4_def)
  then have "IsGlobalUnicast ip \<longleftrightarrow> length ip = 16 \<and> ip \<noteq> replicate 16 0 \<and> \<not> IsLoopback ip \<and> \<not> IsMulticast ip \<and> \<not> IsLinkLocalUnicast ip"
    using v unfolding IsGlobalUnicast_def IsUnspecified_def by simp
  moreover have "IsLoopback ip \<longleftrightarrow> ip = replicate 15 0 @ [1]" "IsMulticast ip \<longleftrightarrow> length ip = 16 \<and> ip ! 0 = 255"
    "IsLinkLocalUnicast ip \<longleftrightarrow> length ip = 16 \<and> ip ! 0 = 254 \<and> 128 \<le> ip ! 1 \<and> ip ! 1 \<le> 191"
    "IsPrivate ip \<longleftrightarrow> length ip = 16 \<and> (ip ! 0 = 252 \<or> ip ! 0 = 253)" "IsLinkLocalMulticast ip \<longrightarrow> IsMulticast ip"
    unfolding IsLoopback_def IsMulticast_def IsLinkLocalUnicast_def IsPrivate_def IsLinkLocalMulticast_def v option.case masks
    by (rule refl | blast)+
  ultimately show ?thesis unfolding publicAddress_def refused6_def by (simp only: de_Morgan_disj simp_thms conj_ac) blast
qed

text \<open>
  C38. A destination passes exactly when its URL parses, has scheme http or https, a host that is not
  \<open>localhost\<close> in any case and no credentials, and the address it names, or every one of the (at least
  one) addresses its name resolves to, lies outside the refused ranges: unspecified, loopback, private
  (10/8, 172.16/12, 192.168/16, fc00::/7), link local, multicast and the IPv4 broadcast address, in the
  plain as in the IPv4-mapped form. Other reserved ranges, such as 100.64/10, 198.18/15 and 240/4, pass.
\<close>

theorem safe_destination_ranges:
  "(SafeDestination rs url \<longleftrightarrow> (\<exists>parsed addresses. rs_parse rs url = Some parsed
     \<and> (pu_Scheme parsed = ''http'' \<or> pu_Scheme parsed = ''https'') \<and> pu_Hostname parsed \<noteq> []
     \<and> fold_case (pu_Hostname parsed) \<noteq> ''localhost'' \<and> \<not> pu_hasUser parsed
     \<and> (case rs_parseIP rs (pu_Hostname parsed) of Some address \<Rightarrow> addresses = [address]
        | None \<Rightarrow> rs_lookup rs (pu_Hostname parsed) = Some addresses)
     \<and> addresses \<noteq> [] \<and> (\<forall>ip \<in> set addresses. \<not> (case To4 ip of Some v \<Rightarrow> refused4 v | None \<Rightarrow> refused6 ip))))
   \<and> publicAddress [100, 64, 0, 1] \<and> publicAddress [198, 18, 0, 1] \<and> publicAddress [240, 0, 0, 1]"
proof -
  have low: "fold_case ''localhost'' = ''localhost''" by code_simp
  have public: "publicAddress ip \<longleftrightarrow> \<not> (case To4 ip of Some v \<Rightarrow> refused4 v | None \<Rightarrow> refused6 ip)" for ip
    by (cases "To4 ip") (simp_all add: publicAddress_v4 publicAddress_v6)
  have "publicAddress [100, 64, 0, 1] \<and> publicAddress [198, 18, 0, 1] \<and> publicAddress [240, 0, 0, 1]" by code_simp
  moreover have "SafeDestination rs url \<longleftrightarrow> (\<exists>parsed addresses. rs_parse rs url = Some parsed
     \<and> (pu_Scheme parsed = ''http'' \<or> pu_Scheme parsed = ''https'') \<and> pu_Hostname parsed \<noteq> []
     \<and> fold_case (pu_Hostname parsed) \<noteq> ''localhost'' \<and> \<not> pu_hasUser parsed
     \<and> (case rs_parseIP rs (pu_Hostname parsed) of Some address \<Rightarrow> addresses = [address]
        | None \<Rightarrow> rs_lookup rs (pu_Hostname parsed) = Some addresses)
     \<and> addresses \<noteq> [] \<and> (\<forall>ip \<in> set addresses. publicAddress ip))"
  proof (cases "rs_parse rs url")
    case (Some parsed)
    define ok where "ok \<longleftrightarrow> (pu_Scheme parsed = ''http'' \<or> pu_Scheme parsed = ''https'') \<and> pu_Hostname parsed \<noteq> []
      \<and> fold_case (pu_Hostname parsed) \<noteq> ''localhost'' \<and> \<not> pu_hasUser parsed"
    have ok: "\<not> ok \<longleftrightarrow> (pu_Scheme parsed \<noteq> ''http'' \<and> pu_Scheme parsed \<noteq> ''https'') \<or> pu_Hostname parsed = []
      \<or> fold_case (pu_Hostname parsed) = ''localhost'' \<or> pu_hasUser parsed" unfolding ok_def by blast
    have "SafeDestination rs url \<longleftrightarrow> ok \<and> (case rs_parseIP rs (pu_Hostname parsed) of Some address \<Rightarrow> publicAddress address
        | None \<Rightarrow> (case rs_lookup rs (pu_Hostname parsed) of None \<Rightarrow> False | Some addresses \<Rightarrow> addresses \<noteq> [] \<and> list_all publicAddress addresses))"
      unfolding SafeDestination_def Some option.case EqualFold_def low ok [symmetric] by (cases ok) simp_all
    also have "\<dots> \<longleftrightarrow> ok \<and> (\<exists>addresses. (case rs_parseIP rs (pu_Hostname parsed) of Some address \<Rightarrow> addresses = [address]
        | None \<Rightarrow> rs_lookup rs (pu_Hostname parsed) = Some addresses) \<and> addresses \<noteq> [] \<and> (\<forall>ip \<in> set addresses. publicAddress ip))"
      by (simp add: list_all_iff split: option.split)
    finally show ?thesis unfolding ok_def Some by blast
  qed (simp add: SafeDestination_def)
  ultimately show ?thesis unfolding public by blast
qed

text \<open>A name that resolves to a public and to a private address is refused, one that resolves to the public address only passes.\<close>

definition resolver0 :: resolver where
  "resolver0 = \<lparr>rs_parse = (\<lambda>url. Some \<lparr>pu_Scheme = ''https'', pu_Hostname = url, pu_hasUser = False\<rparr>),
     rs_parseIP = (\<lambda>_. None),
     rs_lookup = (\<lambda>name. Some (if name = ''a'' then [[203, 0, 113, 7]] else [[203, 0, 113, 7], [10, 0, 0, 1]]))\<rparr>"

theorem safe_destination_ranges_witness: "SafeDestination resolver0 ''a'' \<and> \<not> SafeDestination resolver0 ''b''"
proof -
  have "fold_case ''a'' \<noteq> ''localhost''" "fold_case ''b'' \<noteq> ''localhost''" by code_simp+
  then show ?thesis
    using safe_destination_ranges [of resolver0 "''a''"] safe_destination_ranges [of resolver0 "''b''"]
    by (simp add: resolver0_def To4_def)
qed

end
