(* ===== verification/Artifacts.thy ===== *)
theory Artifacts
  imports GoTime Secrets
begin

text \<open>
  The limits on execution artifacts (internal/artifacts/policy.go): the policy with its defaults, the
  checks of a descriptor, an inline artifact and a collection, and the retention window.
\<close>

section \<open>The policy\<close>

record Policy =
  po_MaxArtifactBytes :: int
  po_InlineArtifactMaxBytes :: int
  po_CollectionMaxItems :: int
  po_DefaultRetentionDays :: int
  po_AllowedContentTypes :: "string list"

record Descriptor =
  ds_ArtifactType :: string
  ds_Name :: string
  ds_ContentType :: string
  ds_SizeBytes :: int
  ds_ChecksumSHA256 :: string
  ds_StorageKey :: string

record Violation =
  vi_Field :: string
  vi_Code :: string
  vi_Message :: string
  vi_Limit :: int
  vi_Actual :: int

definition DefaultPolicy :: Policy where
  "DefaultPolicy = \<lparr>po_MaxArtifactBytes = 50 * 1024 * 1024, po_InlineArtifactMaxBytes = 262144, po_CollectionMaxItems = 50,
     po_DefaultRetentionDays = 30,
     po_AllowedContentTypes = [''application/json'', ''application/junit+xml'', ''application/xml'', ''text/markdown'',
       ''text/html'', ''text/plain'', ''image/png'', ''image/jpeg'']\<rparr>"

definition normalized_policy :: "Policy \<Rightarrow> Policy" where
  "normalized_policy policy =
     \<lparr>po_MaxArtifactBytes = (if po_MaxArtifactBytes policy \<le> 0 then po_MaxArtifactBytes DefaultPolicy else po_MaxArtifactBytes policy),
      po_InlineArtifactMaxBytes = (if po_InlineArtifactMaxBytes policy \<le> 0 then po_InlineArtifactMaxBytes DefaultPolicy
        else po_InlineArtifactMaxBytes policy),
      po_CollectionMaxItems = (if po_CollectionMaxItems policy \<le> 0 then po_CollectionMaxItems DefaultPolicy
        else po_CollectionMaxItems policy),
      po_DefaultRetentionDays = (if po_DefaultRetentionDays policy \<le> 0 then po_DefaultRetentionDays DefaultPolicy
        else po_DefaultRetentionDays policy),
      po_AllowedContentTypes = (if po_AllowedContentTypes policy = [] then po_AllowedContentTypes DefaultPolicy
        else po_AllowedContentTypes policy)\<rparr>"

definition violation :: "string \<Rightarrow> string \<Rightarrow> string \<Rightarrow> int \<Rightarrow> int \<Rightarrow> Violation" where
  "violation field code message limit actual =
     \<lparr>vi_Field = field, vi_Code = code, vi_Message = message, vi_Limit = limit, vi_Actual = actual\<rparr>"

definition required_field :: "string \<Rightarrow> Violation" where
  "required_field field = violation field ''ARTIFACT_FIELD_REQUIRED'' ''The field is required.'' 0 0"

section \<open>Checks\<close>

text \<open>\<open>checksumPattern\<close>: 64 hexadecimal digits and nothing else.\<close>

definition checksum_matches :: "string \<Rightarrow> bool" where
  "checksum_matches s \<longleftrightarrow> length s = 64 \<and> list_all (\<lambda>c. hex_value c \<noteq> None) s"

definition blank :: "string \<Rightarrow> bool" where
  "blank s \<longleftrightarrow> TrimSpace s = []"

definition ValidateDescriptor :: "Policy \<Rightarrow> Descriptor \<Rightarrow> Violation list" where
  "ValidateDescriptor policy0 descriptor =
     (let policy = normalized_policy policy0
      in (if blank (ds_ArtifactType descriptor) then [required_field ''artifactType''] else [])
         @ (if blank (ds_Name descriptor) then [required_field ''name''] else [])
         @ (if blank (ds_ContentType descriptor) then [required_field ''contentType'']
            else if ds_ContentType descriptor \<notin> set (po_AllowedContentTypes policy)
            then [violation ''contentType'' ''ARTIFACT_CONTENT_TYPE_NOT_ALLOWED'' ''The artifact content type is not allowed.'' 0 0]
            else [])
         @ (if ds_SizeBytes descriptor < 0
            then [violation ''sizeBytes'' ''ARTIFACT_SIZE_INVALID'' ''The artifact size must not be negative.'' 0 (ds_SizeBytes descriptor)]
            else if ds_SizeBytes descriptor > po_MaxArtifactBytes policy
            then [violation ''sizeBytes'' ''ARTIFACT_SIZE_LIMIT_EXCEEDED'' ''The artifact exceeds the configured size limit.''
                    (po_MaxArtifactBytes policy) (ds_SizeBytes descriptor)]
            else [])
         @ (if blank (ds_ChecksumSHA256 descriptor) then [required_field ''checksumSha256'']
            else if \<not> checksum_matches (ds_ChecksumSHA256 descriptor)
            then [violation ''checksumSha256'' ''ARTIFACT_CHECKSUM_INVALID'' ''The artifact checksum must be a SHA-256 hex digest.'' 0 0]
            else [])
         @ (if blank (ds_StorageKey descriptor) then [required_field ''storageKey''] else []))"

definition ValidateInlineArtifact :: "Policy \<Rightarrow> string \<Rightarrow> int \<Rightarrow> Violation list" where
  "ValidateInlineArtifact policy0 field sizeBytes =
     (let policy = normalized_policy policy0
      in if sizeBytes \<le> po_InlineArtifactMaxBytes policy then []
         else [violation field ''ARTIFACT_INLINE_SIZE_LIMIT_EXCEEDED'' ''The inline artifact exceeds the configured size limit.''
                 (po_InlineArtifactMaxBytes policy) sizeBytes])"

definition ValidateCollection :: "Policy \<Rightarrow> string \<Rightarrow> int \<Rightarrow> Violation list" where
  "ValidateCollection policy0 field count =
     (let policy = normalized_policy policy0
      in if count \<le> po_CollectionMaxItems policy then []
         else [violation field ''ARTIFACT_COLLECTION_LIMIT_EXCEEDED'' ''The result payload contains too many artifacts.''
                 (po_CollectionMaxItems policy) count])"

text \<open>A \<open>time.Duration\<close> is a signed 64-bit number of nanoseconds; both products wrap.\<close>

definition RetentionDuration :: "Policy \<Rightarrow> int" where
  "RetentionDuration policy = wrap64 (wrap64 (po_DefaultRetentionDays (normalized_policy policy) * 24) * hour)"

end
