(* ===== verification/Config.thy ===== *)
theory Config
  imports Artifacts
begin

text \<open>
  The runtime configuration (internal/config/config.go): what \<open>Load\<close> reads from the environment and
  secret files, and what it accepts. The environment, the file system and \<open>time.ParseDuration\<close>, whose
  fractions are floating-point, are parameters.
\<close>

record HTTPConfig =
  hc_Address :: string
  hc_ReadHeaderTimeout :: int
  hc_ReadTimeout :: int
  hc_WriteTimeout :: int
  hc_IdleTimeout :: int
  hc_ShutdownTimeout :: int

record DatabaseConfig =
  dc_Host :: string
  dc_Port :: int
  dc_Name :: string
  dc_User :: string
  dc_Password :: string
  dc_TLSMode :: string
  dc_ConnectTimeout :: int
  dc_ReadTimeout :: int
  dc_WriteTimeout :: int
  dc_MaxOpenConnections :: int
  dc_MaxIdleConnections :: int
  dc_ConnectionMaxLifetime :: int

record Config =
  cf_Environment :: string
  cf_HTTP :: HTTPConfig
  cf_Database :: DatabaseConfig
  cf_Artifacts :: Policy

record process_env =
  pe_getenv :: "string \<Rightarrow> string"
  pe_readFile :: "string \<Rightarrow> string option"
  pe_parseDuration :: "string \<Rightarrow> int option"

section \<open>Reading\<close>

fun firstNonEmpty :: "process_env \<Rightarrow> string list \<Rightarrow> string" where
  "firstNonEmpty p [] = []"
| "firstNonEmpty p (name # names) = (if pe_getenv p name \<noteq> [] then pe_getenv p name else firstNonEmpty p names)"

definition firstNonEmptyOrDefault :: "process_env \<Rightarrow> string \<Rightarrow> string list \<Rightarrow> string" where
  "firstNonEmptyOrDefault p fallback names = (if firstNonEmpty p names \<noteq> [] then firstNonEmpty p names else fallback)"

definition valueOrDefault :: "process_env \<Rightarrow> string \<Rightarrow> string \<Rightarrow> string" where
  "valueOrDefault p name fallback = (if pe_getenv p name \<noteq> [] then pe_getenv p name else fallback)"

definition durationOrDefault :: "process_env \<Rightarrow> string \<Rightarrow> int \<Rightarrow> int" where
  "durationOrDefault p name fallback =
     (if pe_getenv p name = [] then fallback
      else case pe_parseDuration p (pe_getenv p name) of None \<Rightarrow> 0 | Some duration \<Rightarrow> duration)"

definition intOrDefault :: "process_env \<Rightarrow> string \<Rightarrow> int \<Rightarrow> int" where
  "intOrDefault p name fallback =
     (if pe_getenv p name = [] then fallback
      else case ParseInt (pe_getenv p name) of None \<Rightarrow> 0 | Some parsed \<Rightarrow> parsed)"

definition intFromFallback :: "process_env \<Rightarrow> string \<Rightarrow> int \<Rightarrow> int" where
  "intFromFallback p name fallback = intOrDefault p name fallback"

definition readSecret :: "process_env \<Rightarrow> string \<Rightarrow> string \<Rightarrow> string + string" where
  "readSecret p filePath fallback =
     (if filePath = [] then Inr fallback
      else case pe_readFile p filePath of
        None \<Rightarrow> Inl ''secret file is not readable''
      | Some contents \<Rightarrow>
          let v = TrimRight contents [char_of (13::nat), char_of (10::nat)]
          in if v = [] then Inl ''secret file is empty'' else Inr v)"

definition artifactPolicyFromEnvironment :: "process_env \<Rightarrow> Policy" where
  "artifactPolicyFromEnvironment p = DefaultPolicy
     \<lparr>po_MaxArtifactBytes := intOrDefault p ''IDELIUM_ARTIFACT_MAX_SIZE_BYTES'' (po_MaxArtifactBytes DefaultPolicy),
      po_InlineArtifactMaxBytes := intOrDefault p ''IDELIUM_ARTIFACT_INLINE_MAX_BYTES'' (po_InlineArtifactMaxBytes DefaultPolicy),
      po_CollectionMaxItems := intOrDefault p ''IDELIUM_ARTIFACT_COLLECTION_MAX_ITEMS'' (po_CollectionMaxItems DefaultPolicy),
      po_DefaultRetentionDays := intOrDefault p ''IDELIUM_ARTIFACT_RETENTION_DAYS'' (po_DefaultRetentionDays DefaultPolicy)\<rparr>"

section \<open>Accepting\<close>

definition retired_names :: "string list" where
  "retired_names = [''IDELIUM_AUTH_BRIDGE_URL'', ''IDELIUM_AUTH_BRIDGE_TOKEN'', ''IDELIUM_AUTH_BRIDGE_SECRET'',
     ''IDELIUM_BROWSER_AUTH_BRIDGE_URL'', ''IDELIUM_LARAVEL_AUTH_INTROSPECTION_URL'']"

definition rejectRetiredAuthBridgeConfiguration :: "process_env \<Rightarrow> string option" where
  "rejectRetiredAuthBridgeConfiguration p =
     map_option (\<lambda>name. name @ '' is retired; browser authentication must be handled by Go-native auth after compatibility cutover'')
       (find (\<lambda>name. pe_getenv p name \<noteq> []) retired_names)"

text \<open>\<open>validate\<close>: the first complaint, or \<open>None\<close>.\<close>

definition validate :: "Config \<Rightarrow> string option" where
  "validate c =
     (let h = cf_HTTP c; d = cf_Database c; a = cf_Artifacts c
      in if blank (hc_Address h) then Some ''IDELIUM_HTTP_ADDRESS must not be empty''
         else if hc_ReadHeaderTimeout h \<le> 0 \<or> hc_ReadTimeout h \<le> 0 \<or> hc_WriteTimeout h \<le> 0 \<or> hc_IdleTimeout h \<le> 0 \<or> hc_ShutdownTimeout h \<le> 0
         then Some ''HTTP timeouts must be positive''
         else if blank (dc_Host d) \<or> blank (dc_Name d) \<or> blank (dc_User d) then Some ''database host, name, and user must not be empty''
         else if dc_Password d = [] then Some ''database password must be provided through a secret file or environment variable''
         else if dc_Port d < 1 \<or> dc_Port d > 65535 then Some ''database port must be between 1 and 65535''
         else if dc_MaxOpenConnections d < 1 \<or> dc_MaxIdleConnections d < 0 \<or> dc_MaxIdleConnections d > dc_MaxOpenConnections d
         then Some ''database connection pool limits are invalid''
         else if dc_ConnectTimeout d \<le> 0 \<or> dc_ReadTimeout d \<le> 0 \<or> dc_WriteTimeout d \<le> 0 \<or> dc_ConnectionMaxLifetime d \<le> 0
         then Some ''database timeouts must be positive''
         else if dc_TLSMode d \<noteq> ''false'' \<and> dc_TLSMode d \<noteq> ''true'' \<and> dc_TLSMode d \<noteq> ''preferred''
         then Some ''IDELIUM_DB_TLS_MODE must be false, true, or preferred''
         else if po_MaxArtifactBytes a \<le> 0 \<or> po_InlineArtifactMaxBytes a \<le> 0 \<or> po_CollectionMaxItems a \<le> 0 \<or> po_DefaultRetentionDays a \<le> 0
         then Some ''artifact size, count, and retention limits must be positive''
         else None)"

definition read_config :: "process_env \<Rightarrow> string \<Rightarrow> Config" where
  "read_config p password =
     \<lparr>cf_Environment = valueOrDefault p ''IDELIUM_ENVIRONMENT'' (valueOrDefault p ''APP_ENV'' ''production''),
      cf_HTTP = \<lparr>hc_Address = valueOrDefault p ''IDELIUM_HTTP_ADDRESS'' '':8080'',
        hc_ReadHeaderTimeout = durationOrDefault p ''IDELIUM_HTTP_READ_HEADER_TIMEOUT'' (5 * second),
        hc_ReadTimeout = durationOrDefault p ''IDELIUM_HTTP_READ_TIMEOUT'' (15 * second),
        hc_WriteTimeout = durationOrDefault p ''IDELIUM_HTTP_WRITE_TIMEOUT'' (30 * second),
        hc_IdleTimeout = durationOrDefault p ''IDELIUM_HTTP_IDLE_TIMEOUT'' (60 * second),
        hc_ShutdownTimeout = durationOrDefault p ''IDELIUM_HTTP_SHUTDOWN_TIMEOUT'' (15 * second)\<rparr>,
      cf_Database = \<lparr>dc_Host = firstNonEmptyOrDefault p ''127.0.0.1'' [''IDELIUM_DB_HOST'', ''DB_HOST''],
        dc_Port = intOrDefault p ''IDELIUM_DB_PORT'' (intFromFallback p ''DB_PORT'' 3306),
        dc_Name = firstNonEmptyOrDefault p ''ideliumdb'' [''IDELIUM_DB_NAME'', ''DB_DATABASE''],
        dc_User = firstNonEmptyOrDefault p ''idelium'' [''IDELIUM_DB_USER'', ''DB_USERNAME''],
        dc_Password = password, dc_TLSMode = valueOrDefault p ''IDELIUM_DB_TLS_MODE'' ''false'',
        dc_ConnectTimeout = durationOrDefault p ''IDELIUM_DB_CONNECT_TIMEOUT'' (5 * second),
        dc_ReadTimeout = durationOrDefault p ''IDELIUM_DB_READ_TIMEOUT'' (10 * second),
        dc_WriteTimeout = durationOrDefault p ''IDELIUM_DB_WRITE_TIMEOUT'' (10 * second),
        dc_MaxOpenConnections = intOrDefault p ''IDELIUM_DB_MAX_OPEN_CONNECTIONS'' 25,
        dc_MaxIdleConnections = intOrDefault p ''IDELIUM_DB_MAX_IDLE_CONNECTIONS'' 10,
        dc_ConnectionMaxLifetime = durationOrDefault p ''IDELIUM_DB_CONNECTION_MAX_LIFETIME'' (5 * minute)\<rparr>,
      cf_Artifacts = artifactPolicyFromEnvironment p\<rparr>"

definition Load :: "process_env \<Rightarrow> string + Config" where
  "Load p =
     (case rejectRetiredAuthBridgeConfiguration p of
        Some message \<Rightarrow> Inl message
      | None \<Rightarrow> (case readSecret p (firstNonEmpty p [''IDELIUM_DB_PASSWORD_FILE'', ''DB_PASSWORD_FILE''])
            (firstNonEmpty p [''IDELIUM_DB_PASSWORD'', ''DB_PASSWORD'']) of
          Inl message \<Rightarrow> Inl (''database password configuration is invalid: '' @ message)
        | Inr password \<Rightarrow> (case validate (read_config p password) of
            Some message \<Rightarrow> Inl message
          | None \<Rightarrow> Inr (read_config p password))))"

section \<open>Properties\<close>

definition int_settings :: "string list" where
  "int_settings = [''IDELIUM_DB_PORT'', ''IDELIUM_DB_MAX_OPEN_CONNECTIONS'', ''IDELIUM_ARTIFACT_MAX_SIZE_BYTES'',
     ''IDELIUM_ARTIFACT_INLINE_MAX_BYTES'', ''IDELIUM_ARTIFACT_COLLECTION_MAX_ITEMS'', ''IDELIUM_ARTIFACT_RETENTION_DAYS'']"

lemma malformed_number: "pe_getenv p name \<noteq> [] \<Longrightarrow> ParseInt (pe_getenv p name) = None \<Longrightarrow> intOrDefault p name fallback = 0"
  by (simp add: intOrDefault_def)

lemma validated: "Load p = Inr c \<Longrightarrow> validate c = None \<and> (\<exists>password. c = read_config p password)"
  unfolding Load_def by (auto split: option.splits sum.splits)

text \<open>The window as a function of the days: exact up to 106751 days, negative for the next value.\<close>

lemma retention_exact:
  assumes "0 < days" "int64_range days"
  shows "wrap64 (wrap64 (days * 24) * hour) = days * 24 * hour \<longleftrightarrow> days \<le> 106751"
proof
  assume "wrap64 (wrap64 (days * 24) * hour) = days * 24 * hour"
  then have "int64_range (days * 24 * hour)" using wrap64_range by metis
  then show "days \<le> 106751" by (simp add: int64_range_def)
next
  assume "days \<le> 106751"
  then have "int64_range (days * 24)" "int64_range (days * 24 * hour)" using assms by (simp_all add: int64_range_def)
  then show "wrap64 (wrap64 (days * 24) * hour) = days * 24 * hour" by (simp add: wrap64_id)
qed

lemma intOrDefault_range: "int64_range fallback \<Longrightarrow> int64_range (intOrDefault p name fallback)"
  by (auto simp: intOrDefault_def int64_range_def [of 0] split: option.split dest: ParseInt_range)

definition duration_settings :: "string list" where
  "duration_settings = [''IDELIUM_HTTP_READ_HEADER_TIMEOUT'', ''IDELIUM_HTTP_READ_TIMEOUT'', ''IDELIUM_HTTP_WRITE_TIMEOUT'',
     ''IDELIUM_HTTP_IDLE_TIMEOUT'', ''IDELIUM_HTTP_SHUTDOWN_TIMEOUT'', ''IDELIUM_DB_CONNECT_TIMEOUT'', ''IDELIUM_DB_READ_TIMEOUT'',
     ''IDELIUM_DB_WRITE_TIMEOUT'', ''IDELIUM_DB_CONNECTION_MAX_LIFETIME'']"

lemma malformed_duration: "pe_getenv p name \<noteq> [] \<Longrightarrow> pe_parseDuration p (pe_getenv p name) = None \<Longrightarrow> durationOrDefault p name fallback = 0"
  by (simp add: durationOrDefault_def)

text \<open>The bounds of an accepted configuration, field by field.\<close>

definition http_bounds :: "HTTPConfig \<Rightarrow> bool" where
  "http_bounds h \<longleftrightarrow> TrimSpace (hc_Address h) \<noteq> [] \<and> 0 < hc_ReadHeaderTimeout h \<and> 0 < hc_ReadTimeout h \<and> 0 < hc_WriteTimeout h
     \<and> 0 < hc_IdleTimeout h \<and> 0 < hc_ShutdownTimeout h"

definition database_bounds :: "DatabaseConfig \<Rightarrow> bool" where
  "database_bounds d \<longleftrightarrow> TrimSpace (dc_Host d) \<noteq> [] \<and> TrimSpace (dc_Name d) \<noteq> [] \<and> TrimSpace (dc_User d) \<noteq> [] \<and> dc_Password d \<noteq> []
     \<and> 1 \<le> dc_Port d \<and> dc_Port d \<le> 65535 \<and> 1 \<le> dc_MaxOpenConnections d \<and> 0 \<le> dc_MaxIdleConnections d
     \<and> dc_MaxIdleConnections d \<le> dc_MaxOpenConnections d \<and> 0 < dc_ConnectTimeout d \<and> 0 < dc_ReadTimeout d \<and> 0 < dc_WriteTimeout d
     \<and> 0 < dc_ConnectionMaxLifetime d \<and> dc_TLSMode d \<in> {''false'', ''true'', ''preferred''}"

definition artifact_bounds :: "Policy \<Rightarrow> bool" where
  "artifact_bounds a \<longleftrightarrow> 0 < po_MaxArtifactBytes a \<and> 0 < po_InlineArtifactMaxBytes a \<and> 0 < po_CollectionMaxItems a \<and> 0 < po_DefaultRetentionDays a"

lemma validate_bounds: "validate c = None \<Longrightarrow> http_bounds (cf_HTTP c) \<and> database_bounds (cf_Database c) \<and> artifact_bounds (cf_Artifacts c)"
  unfolding validate_def Let_def http_bounds_def database_bounds_def artifact_bounds_def
  by (simp add: not_less not_le blank_def split: if_split_asm)

text \<open>
  C39. What \<open>Load\<close> accepts. A number or a duration that is set and does not parse is refused, with two
  exceptions: the idle-connection limit becomes 0, and DB_PORT is not read when IDELIUM_DB_PORT is set. An
  accepted configuration has an address, a database host, name, user and password, a port between 1 and
  65535, an open limit of at least 1 and an idle limit between 0 and it, all nine timeouts and all four artifact
  limits positive, and one of the three TLS modes. The retention window is the configured number of days
  exactly up to 106751 days; beyond that, although accepted, the 64-bit duration has overflowed.
\<close>

theorem config_bounds:
  assumes "Load p = Inr c"
  shows "(\<forall>name \<in> set int_settings. pe_getenv p name = [] \<or> ParseInt (pe_getenv p name) \<noteq> None)
    \<and> (pe_getenv p ''IDELIUM_DB_PORT'' = [] \<longrightarrow> pe_getenv p ''DB_PORT'' = [] \<or> ParseInt (pe_getenv p ''DB_PORT'') \<noteq> None)
    \<and> (\<forall>name \<in> set duration_settings. pe_getenv p name = [] \<or> pe_parseDuration p (pe_getenv p name) \<noteq> None)
    \<and> http_bounds (cf_HTTP c) \<and> database_bounds (cf_Database c) \<and> artifact_bounds (cf_Artifacts c)
    \<and> (RetentionDuration (cf_Artifacts c) = po_DefaultRetentionDays (cf_Artifacts c) * 24 * hour
         \<longleftrightarrow> po_DefaultRetentionDays (cf_Artifacts c) \<le> 106751)"
proof -
  obtain password where c: "c = read_config p password" "validate c = None"
    using validated [OF assms] by blast
  note v = validate_bounds [OF c(2)]
  have days: "0 < po_DefaultRetentionDays (cf_Artifacts c)" using v by (simp add: artifact_bounds_def)
  have "pe_getenv p name = [] \<or> ParseInt (pe_getenv p name) \<noteq> None" if name: "name \<in> set int_settings" for name
  proof (rule ccontr)
    assume "\<not> ?thesis"
    then have "intOrDefault p name fallback = 0" for fallback using malformed_number by blast
    moreover have "1 \<le> dc_Port (cf_Database c)" "1 \<le> dc_MaxOpenConnections (cf_Database c)" "0 < po_MaxArtifactBytes (cf_Artifacts c)"
      "0 < po_InlineArtifactMaxBytes (cf_Artifacts c)" "0 < po_CollectionMaxItems (cf_Artifacts c)"
      using v by (simp_all add: database_bounds_def artifact_bounds_def)
    ultimately show False using name days c(1) by (auto simp: int_settings_def read_config_def artifactPolicyFromEnvironment_def)
  qed
  moreover have "pe_getenv p ''DB_PORT'' = [] \<or> ParseInt (pe_getenv p ''DB_PORT'') \<noteq> None" if "pe_getenv p ''IDELIUM_DB_PORT'' = []"
  proof (rule ccontr)
    assume "\<not> ?thesis"
    then have "intOrDefault p ''DB_PORT'' 3306 = 0" using malformed_number by blast
    moreover have "1 \<le> dc_Port (cf_Database c)" using v by (simp add: database_bounds_def)
    ultimately show False using that c(1) by (simp add: read_config_def intFromFallback_def intOrDefault_def [of p "''IDELIUM_DB_PORT''"])
  qed
  moreover have "pe_getenv p name = [] \<or> pe_parseDuration p (pe_getenv p name) \<noteq> None" if name: "name \<in> set duration_settings" for name
  proof (rule ccontr)
    assume "\<not> ?thesis"
    then have "durationOrDefault p name fallback = 0" for fallback using malformed_duration by blast
    moreover have "0 < hc_ReadHeaderTimeout (cf_HTTP c)" "0 < hc_ReadTimeout (cf_HTTP c)" "0 < hc_WriteTimeout (cf_HTTP c)"
      "0 < hc_IdleTimeout (cf_HTTP c)" "0 < hc_ShutdownTimeout (cf_HTTP c)" "0 < dc_ConnectTimeout (cf_Database c)"
      "0 < dc_ReadTimeout (cf_Database c)" "0 < dc_WriteTimeout (cf_Database c)" "0 < dc_ConnectionMaxLifetime (cf_Database c)"
      using v by (simp_all add: http_bounds_def database_bounds_def)
    ultimately show False using name c(1) by (auto simp: duration_settings_def read_config_def)
  qed
  moreover have "int64_range (po_DefaultRetentionDays (cf_Artifacts c))"
    unfolding c(1) read_config_def artifactPolicyFromEnvironment_def
    by (auto intro!: intOrDefault_range simp: DefaultPolicy_def int64_range_def [of 30])
  moreover have "RetentionDuration (cf_Artifacts c) = wrap64 (wrap64 (po_DefaultRetentionDays (cf_Artifacts c) * 24) * hour)"
    using days by (simp add: RetentionDuration_def normalized_policy_def)
  ultimately show ?thesis using v retention_exact [OF days] by simp
qed

definition process0 :: process_env where
  "process0 = \<lparr>pe_getenv = (\<lambda>name. if name = ''DB_PASSWORD'' then ''pw'' else if name = ''IDELIUM_ARTIFACT_RETENTION_DAYS'' then ''106752'' else []),
     pe_readFile = (\<lambda>_. None), pe_parseDuration = (\<lambda>_. None)\<rparr>"

theorem config_bounds_witness:
  "\<exists>c. Load process0 = Inr c \<and> RetentionDuration (cf_Artifacts c) < 0
     \<and> RetentionDuration (cf_Artifacts c) \<noteq> po_DefaultRetentionDays (cf_Artifacts c) * 24 * hour"
proof -
  have ok: "(case Load process0 of Inl _ \<Rightarrow> False | Inr c \<Rightarrow> RetentionDuration (cf_Artifacts c) < 0 \<and> po_DefaultRetentionDays (cf_Artifacts c) = 106752)"
    by code_simp
  then obtain c where c: "Load process0 = Inr c" by (auto split: sum.splits)
  show ?thesis using config_bounds [OF c] ok c by auto
qed

end
