(* ===== verification/CliApi.thy ===== *)
theory CliApi
  imports LegacyKeys
begin

text \<open>
  The API of the command-line client (internal/cliapi and internal/persistence/mysql/cli_*.go): reads of
  the test configuration of a customer, and writes of performed cycles, tests and steps, which a client
  may repeat under an idempotency key.
\<close>

section \<open>Tables and environment\<close>

text \<open>
  A row of \<open>test_cycles\<close>, \<open>tests\<close>, \<open>steps\<close>, \<open>plugins\<close> or \<open>environments\<close>. The description
  column, and the configuration of an environment, may be NULL.
\<close>

record config_row =
  cr_id :: int
  cr_name :: string
  cr_code :: string
  cr_description :: "string option"
  cr_config :: "string option"
  cr_project :: int
  cr_order :: int
  cr_createdAt :: "instant option"
  cr_updatedAt :: "instant option"
  cr_tenant :: int

text \<open>\<open>pc_context\<close> is the optional snapshot column that was written, with its text.\<close>

record performed_cycle =
  pc_id :: int
  pc_testCycle :: int
  pc_date :: instant
  pc_status :: int
  pc_tenant :: int
  pc_key :: "string option"
  pc_context :: "(string \<times> string) option"
  pc_createdAt :: instant
  pc_updatedAt :: instant

record performed_test =
  pt_id :: int
  pt_cycle :: int
  pt_test :: int
  pt_name :: string
  pt_status :: int
  pt_tenant :: int
  pt_key :: "string option"
  pt_postmanData :: "string option"
  pt_createdAt :: instant
  pt_updatedAt :: instant

record performed_step =
  ps_id :: int
  ps_cycle :: int
  ps_test :: int
  ps_step :: int
  ps_status :: int
  ps_name :: string
  ps_screenshots :: string
  ps_type :: string
  ps_data :: string
  ps_tenant :: int
  ps_key :: "string option"
  ps_createdAt :: instant
  ps_updatedAt :: instant

record cli_db =
  cd_testCycles :: "config_row list"
  cd_tests :: "config_row list"
  cd_steps :: "config_row list"
  cd_plugins :: "config_row list"
  cd_environments :: "config_row list"
  cd_cycles :: "performed_cycle list"
  cd_performedTests :: "performed_test list"
  cd_performedSteps :: "performed_step list"
  cd_nextCycle :: int
  cd_nextTest :: int
  cd_nextStep :: int

text \<open>
  The environment: failing statements by label, \<open>NOW()\<close>, the columns that exist in
  \<open>performed_test_cycles\<close>, \<open>json.Unmarshal\<close> of a text into \<open>any\<close> (\<open>None\<close> is a syntax error),
  \<open>json.Marshal\<close> and the correlation identifier of the request.
\<close>

record cli_env =
  ce_fails :: "string \<Rightarrow> bool"
  ce_now :: instant
  ce_columns :: "string \<Rightarrow> bool"
  ce_unmarshal :: "string \<Rightarrow> json option"
  ce_marshal :: "json \<Rightarrow> string option"
  ce_correlation :: string

datatype cli_error = CliNotFound | CliFailure string

section \<open>Reading the configuration\<close>

record TestCycle =
  tc_ID :: int
  tc_Name :: string
  tc_Description :: string
  tc_Config :: string
  tc_IDProject :: int
  tc_CreatedAt :: "instant option"
  tc_UpdatedAt :: "instant option"
  tc_IDCostumer :: int

record Test =
  te_ID :: int
  te_Name :: string
  te_Description :: string
  te_Config :: string
  te_IDProject :: int
  te_CreatedAt :: "instant option"
  te_UpdatedAt :: "instant option"
  te_IDCostumer :: int

record Step =
  sp_ID :: int
  sp_Name :: string
  sp_Description :: string
  sp_Config :: string
  sp_IDProject :: int
  sp_Order :: int
  sp_CreatedAt :: "instant option"
  sp_UpdatedAt :: "instant option"
  sp_IDCostumer :: int

record Plugin =
  pl_ID :: int
  pl_Name :: string
  pl_Code :: string
  pl_Description :: string
  pl_IDProject :: int
  pl_CreatedAt :: "instant option"
  pl_UpdatedAt :: "instant option"
  pl_IDCostumer :: int

record Environment =
  en_ID :: int
  en_Code :: string
  en_Description :: string
  en_Config :: string
  en_IDProject :: int
  en_CreatedAt :: "instant option"
  en_UpdatedAt :: "instant option"
  en_IDCostumer :: int

text \<open>\<open>Scan\<close> into a \<open>string\<close> fails on NULL.\<close>

definition scanCLITestCycle :: "config_row \<Rightarrow> TestCycle option" where
  "scanCLITestCycle r =
     (case (cr_description r, cr_config r) of
        (Some description, Some config) \<Rightarrow> Some \<lparr>tc_ID = cr_id r, tc_Name = cr_name r, tc_Description = description, tc_Config = config,
          tc_IDProject = cr_project r, tc_CreatedAt = cr_createdAt r, tc_UpdatedAt = cr_updatedAt r, tc_IDCostumer = cr_tenant r\<rparr>
      | _ \<Rightarrow> None)"

definition scanCLITest :: "config_row \<Rightarrow> Test option" where
  "scanCLITest r =
     (case (cr_description r, cr_config r) of
        (Some description, Some config) \<Rightarrow> Some \<lparr>te_ID = cr_id r, te_Name = cr_name r, te_Description = description, te_Config = config,
          te_IDProject = cr_project r, te_CreatedAt = cr_createdAt r, te_UpdatedAt = cr_updatedAt r, te_IDCostumer = cr_tenant r\<rparr>
      | _ \<Rightarrow> None)"

definition scanCLIStep :: "config_row \<Rightarrow> Step option" where
  "scanCLIStep r =
     (case (cr_description r, cr_config r) of
        (Some description, Some config) \<Rightarrow> Some \<lparr>sp_ID = cr_id r, sp_Name = cr_name r, sp_Description = description, sp_Config = config,
          sp_IDProject = cr_project r, sp_Order = cr_order r, sp_CreatedAt = cr_createdAt r, sp_UpdatedAt = cr_updatedAt r, sp_IDCostumer = cr_tenant r\<rparr>
      | _ \<Rightarrow> None)"

definition scanCLIPlugin :: "config_row \<Rightarrow> Plugin option" where
  "scanCLIPlugin r = map_option (\<lambda>description. \<lparr>pl_ID = cr_id r, pl_Name = cr_name r, pl_Code = cr_code r, pl_Description = description,
     pl_IDProject = cr_project r, pl_CreatedAt = cr_createdAt r, pl_UpdatedAt = cr_updatedAt r, pl_IDCostumer = cr_tenant r\<rparr>) (cr_description r)"

definition scanCLIEnvironment :: "config_row \<Rightarrow> Environment option" where
  "scanCLIEnvironment r =
     (case (cr_description r, cr_config r) of
        (Some description, Some config) \<Rightarrow> Some \<lparr>en_ID = cr_id r, en_Code = cr_code r, en_Description = description, en_Config = config,
          en_IDProject = cr_project r, en_CreatedAt = cr_createdAt r, en_UpdatedAt = cr_updatedAt r, en_IDCostumer = cr_tenant r\<rparr>
      | _ \<Rightarrow> None)"

text \<open>\<open>SELECT \<dots> WHERE id = ? AND idCostumer = ? LIMIT 1\<close> and its scan.\<close>

definition read_row :: "cli_env \<Rightarrow> string \<Rightarrow> (config_row \<Rightarrow> 'v option) \<Rightarrow> config_row list \<Rightarrow> int \<Rightarrow> int \<Rightarrow> cli_error + 'v" where
  "read_row e label scan rows customerID ident =
     (if ce_fails e label then Inl (CliFailure label)
      else case find (\<lambda>r. cr_id r = ident \<and> cr_tenant r = customerID) rows of
        None \<Rightarrow> Inl CliNotFound
      | Some r \<Rightarrow> (case scan r of None \<Rightarrow> Inl (CliFailure label) | Some v \<Rightarrow> Inr v))"

definition GetTestCycle :: "cli_env \<Rightarrow> int \<Rightarrow> int \<Rightarrow> cli_db \<Rightarrow> cli_error + TestCycle" where
  "GetTestCycle e customerID testCycleID d = read_row e ''read CLI test cycle'' scanCLITestCycle (cd_testCycles d) customerID testCycleID"

definition GetTest :: "cli_env \<Rightarrow> int \<Rightarrow> int \<Rightarrow> cli_db \<Rightarrow> cli_error + Test" where
  "GetTest e customerID testID d = read_row e ''read CLI test'' scanCLITest (cd_tests d) customerID testID"

definition GetStep :: "cli_env \<Rightarrow> int \<Rightarrow> int \<Rightarrow> cli_db \<Rightarrow> cli_error + Step" where
  "GetStep e customerID stepID d = read_row e ''read CLI step'' scanCLIStep (cd_steps d) customerID stepID"

definition GetPlugin :: "cli_env \<Rightarrow> int \<Rightarrow> int \<Rightarrow> cli_db \<Rightarrow> cli_error + Plugin" where
  "GetPlugin e customerID pluginID d = read_row e ''read CLI plugin'' scanCLIPlugin (cd_plugins d) customerID pluginID"

definition GetEnvironment :: "cli_env \<Rightarrow> int \<Rightarrow> int \<Rightarrow> cli_db \<Rightarrow> cli_error + Environment" where
  "GetEnvironment e customerID environmentID d = read_row e ''read CLI environment'' scanCLIEnvironment (cd_environments d) customerID environmentID"

text \<open>The loop over the rows stops at the first that does not scan; \<open>rows.Err()\<close> is asked at the end.\<close>

fun scan_rows :: "(config_row \<Rightarrow> 'v option) \<Rightarrow> config_row list \<Rightarrow> 'v list option" where
  "scan_rows scan [] = Some []"
| "scan_rows scan (r # rs) = (case scan r of None \<Rightarrow> None | Some v \<Rightarrow> map_option (\<lambda>vs. v # vs) (scan_rows scan rs))"

definition list_rows :: "cli_env \<Rightarrow> string \<Rightarrow> (config_row \<Rightarrow> 'v option) \<Rightarrow> config_row list \<Rightarrow> int \<Rightarrow> int \<Rightarrow> cli_error + 'v list" where
  "list_rows e label scan rows customerID projectID =
     (if ce_fails e label then Inl (CliFailure label)
      else case scan_rows scan (sort_key cr_id (filter (\<lambda>r. cr_project r = projectID \<and> cr_tenant r = customerID) rows)) of
        None \<Rightarrow> Inl (CliFailure ''scan'')
      | Some vs \<Rightarrow> if ce_fails e (label @ '' rows'') then Inl (CliFailure (label @ '' rows'')) else Inr vs)"

definition ListPlugins :: "cli_env \<Rightarrow> int \<Rightarrow> int \<Rightarrow> cli_db \<Rightarrow> cli_error + Plugin list" where
  "ListPlugins e customerID projectID d = list_rows e ''list CLI plugins'' scanCLIPlugin (cd_plugins d) customerID projectID"

definition ListEnvironments :: "cli_env \<Rightarrow> int \<Rightarrow> int \<Rightarrow> cli_db \<Rightarrow> cli_error + Environment list" where
  "ListEnvironments e customerID projectID d = list_rows e ''list CLI environments'' scanCLIEnvironment (cd_environments d) customerID projectID"

section \<open>The read handlers\<close>

datatype cli_value =
    TestCycleValue TestCycle
  | TestValue Test
  | StepValue Step
  | PluginValue Plugin
  | PluginValues "Plugin list"
  | EnvironmentValue Environment
  | EnvironmentValues "Environment list"

type_synonym cli_reply = "cli_value reply"

definition parseLegacyID :: "string \<Rightarrow> int option" where
  "parseLegacyID s =
     (let trimmed = TrimSpace s
      in if trimmed = [] then None
         else case ParseInt trimmed of None \<Rightarrow> None | Some n \<Rightarrow> if n > 0 then Some n else None)"

definition writeInvalidID :: cli_reply where
  "writeInvalidID = message_reply 404 ''Invalid id''"

definition tenantMissing :: "cli_env \<Rightarrow> cli_reply" where
  "tenantMissing e = WriteError (ce_correlation e) 500 ''CLI_TENANT_CONTEXT_MISSING'' ''The CLI tenant context could not be resolved.''"

definition configurationUnavailable :: "cli_env \<Rightarrow> cli_reply" where
  "configurationUnavailable e = WriteError (ce_correlation e) 500 ''CLI_CONFIGURATION_UNAVAILABLE'' ''The CLI configuration could not be loaded.''"

text \<open>The seven read handlers have one shape: tenant, identifier, repository call, reply.\<close>

definition cli_read ::
  "cli_env \<Rightarrow> string \<Rightarrow> (cli_env \<Rightarrow> int \<Rightarrow> int \<Rightarrow> cli_db \<Rightarrow> cli_error + 'v) \<Rightarrow> ('v \<Rightarrow> cli_value) \<Rightarrow> http_request \<Rightarrow> cli_db \<Rightarrow> cli_reply" where
  "cli_read e name get wrap request d =
     (case rq_tenant request of
        None \<Rightarrow> tenantMissing e
      | Some customerID \<Rightarrow> (case parseLegacyID (rq_path request name) of
          None \<Rightarrow> writeInvalidID
        | Some ident \<Rightarrow> (case get e customerID ident d of
            Inl CliNotFound \<Rightarrow> writeInvalidID
          | Inl (CliFailure _) \<Rightarrow> configurationUnavailable e
          | Inr v \<Rightarrow> Value 200 (wrap v))))"

definition HandleTestCycle :: "cli_env \<Rightarrow> http_request \<Rightarrow> cli_db \<Rightarrow> cli_reply" where
  "HandleTestCycle e = cli_read e ''idTestCycle'' GetTestCycle TestCycleValue"

definition HandleTest :: "cli_env \<Rightarrow> http_request \<Rightarrow> cli_db \<Rightarrow> cli_reply" where
  "HandleTest e = cli_read e ''idTest'' GetTest TestValue"

definition HandleStep :: "cli_env \<Rightarrow> http_request \<Rightarrow> cli_db \<Rightarrow> cli_reply" where
  "HandleStep e = cli_read e ''idStep'' GetStep StepValue"

definition HandlePlugins :: "cli_env \<Rightarrow> http_request \<Rightarrow> cli_db \<Rightarrow> cli_reply" where
  "HandlePlugins e = cli_read e ''idProject'' ListPlugins PluginValues"

definition HandlePlugin :: "cli_env \<Rightarrow> http_request \<Rightarrow> cli_db \<Rightarrow> cli_reply" where
  "HandlePlugin e = cli_read e ''idPlugin'' GetPlugin PluginValue"

definition HandleEnvironments :: "cli_env \<Rightarrow> http_request \<Rightarrow> cli_db \<Rightarrow> cli_reply" where
  "HandleEnvironments e = cli_read e ''idProject'' ListEnvironments EnvironmentValues"

definition HandleEnvironment :: "cli_env \<Rightarrow> http_request \<Rightarrow> cli_db \<Rightarrow> cli_reply" where
  "HandleEnvironment e = cli_read e ''idEnvironment'' GetEnvironment EnvironmentValue"

end
