(* ===== verification/CliWrites.thy ===== *)
theory CliWrites
  imports CliApi
begin

text \<open>
  Performed cycles, tests and steps: the repositories of internal/persistence/mysql/cli_performed*.go and
  the handlers of internal/cliapi/performed*.go that decode, check and redact what the client sends.
\<close>

section \<open>The repositories\<close>

record CreatePerformedCycleRequest =
  cc_TestCycleID :: int
  cc_IdempotencyKey :: string
  cc_ExecutionContext :: "string option"
  cc_ExecutionContextProvided :: bool

record UpdatePerformedCycleRequest =
  uc_TestCycleID :: int
  uc_Status :: int

record CreatePerformedTestRequest =
  ct_TestCycleID :: int
  ct_TestID :: int
  ct_Name :: string
  ct_IdempotencyKey :: string

record UpdatePerformedTestRequest =
  ut_TestID :: int
  ut_Status :: int
  ut_PostmanDataPresent :: bool
  ut_PostmanData :: "string option"

record CreatePerformedStepRequest =
  cs_TestCycleID :: int
  cs_TestID :: int
  cs_StepID :: int
  cs_Name :: string
  cs_Status :: int
  cs_Screenshots :: string
  cs_Data :: string
  cs_Type :: string
  cs_IdempotencyKey :: string

record UpdatePerformedStepRequest =
  us_StepID :: int
  us_Screenshots :: string

datatype tenant_table = performed_test_cycles | test_cycles | tests_table | steps_table

definition tenantRowExists :: "tenant_table \<Rightarrow> int \<Rightarrow> int \<Rightarrow> cli_db \<Rightarrow> bool" where
  "tenantRowExists table ident customerID d =
     (case table of
        performed_test_cycles \<Rightarrow> list_ex (\<lambda>r. pc_id r = ident \<and> pc_tenant r = customerID) (cd_cycles d)
      | test_cycles \<Rightarrow> list_ex (\<lambda>r. cr_id r = ident \<and> cr_tenant r = customerID) (cd_testCycles d)
      | tests_table \<Rightarrow> list_ex (\<lambda>r. cr_id r = ident \<and> cr_tenant r = customerID) (cd_tests d)
      | steps_table \<Rightarrow> list_ex (\<lambda>r. cr_id r = ident \<and> cr_tenant r = customerID) (cd_steps d))"

definition tenantPerformedTestExists :: "int \<Rightarrow> int \<Rightarrow> int \<Rightarrow> cli_db \<Rightarrow> bool" where
  "tenantPerformedTestExists testID testCycleID customerID d =
     list_ex (\<lambda>r. pt_id r = testID \<and> pt_cycle r = testCycleID \<and> pt_tenant r = customerID) (cd_performedTests d)"

text \<open>
  The two forms of an insert: without a key the column stays NULL, which the tenant-scoped unique index
  ignores; with a key, \<open>ON DUPLICATE KEY UPDATE id = LAST_INSERT_ID(id)\<close> answers the identifier of the row
  that has it. The result is the identifier and whether the row is new.
\<close>

definition key_column :: "string \<Rightarrow> string option" where
  "key_column key = (if key = [] then None else Some key)"

definition keyed_row :: "('r \<Rightarrow> int) \<Rightarrow> ('r \<Rightarrow> string option) \<Rightarrow> int \<Rightarrow> string \<Rightarrow> 'r list \<Rightarrow> 'r option" where
  "keyed_row tenant key customerID idempotencyKey rows =
     (if idempotencyKey = [] then None else find (\<lambda>r. tenant r = customerID \<and> key r = Some idempotencyKey) rows)"

text \<open>\<open>optionalPerformedCycleExecutionContextColumn\<close>: the first of the three columns that exists.\<close>

definition context_columns :: "string list" where
  "context_columns = [''executionContext'', ''execution_context'', ''context'']"

fun first_column :: "cli_env \<Rightarrow> string list \<Rightarrow> cli_error + string option" where
  "first_column e [] = Inr None"
| "first_column e (c # cs) =
     (if ce_fails e (''column '' @ c) then Inl (CliFailure ''insert CLI performed cycle'')
      else if ce_columns e c then Inr (Some c) else first_column e cs)"

definition optionalPerformedCycleExecutionContextColumn :: "cli_env \<Rightarrow> cli_error + string option" where
  "optionalPerformedCycleExecutionContextColumn e = first_column e context_columns"

definition performedCycleExecutionContextColumnSQL :: "string \<Rightarrow> string option" where
  "performedCycleExecutionContextColumnSQL column =
     (if column = ''executionContext'' then Some ''`executionContext`''
      else if column = ''execution_context'' then Some ''`execution_context`''
      else if column = ''context'' then Some ''`context`'' else None)"

text \<open>The row that an insert appends.\<close>

definition add_cycle :: "cli_env \<Rightarrow> int \<Rightarrow> CreatePerformedCycleRequest \<Rightarrow> (string \<times> string) option \<Rightarrow> cli_db \<Rightarrow> cli_db" where
  "add_cycle e customerID command context d =
     d\<lparr>cd_cycles := cd_cycles d @ [\<lparr>pc_id = cd_nextCycle d, pc_testCycle = cc_TestCycleID command, pc_date = ce_now e,
           pc_status = 0, pc_tenant = customerID, pc_key = key_column (cc_IdempotencyKey command), pc_context = context,
           pc_createdAt = ce_now e, pc_updatedAt = ce_now e\<rparr>],
       cd_nextCycle := cd_nextCycle d + 1\<rparr>"

definition add_test :: "cli_env \<Rightarrow> int \<Rightarrow> CreatePerformedTestRequest \<Rightarrow> cli_db \<Rightarrow> cli_db" where
  "add_test e customerID command d =
     d\<lparr>cd_performedTests := cd_performedTests d @ [\<lparr>pt_id = cd_nextTest d, pt_cycle = ct_TestCycleID command,
           pt_test = ct_TestID command, pt_name = ct_Name command, pt_status = 0, pt_tenant = customerID,
           pt_key = key_column (ct_IdempotencyKey command), pt_postmanData = None,
           pt_createdAt = ce_now e, pt_updatedAt = ce_now e\<rparr>],
       cd_nextTest := cd_nextTest d + 1\<rparr>"

definition add_step :: "cli_env \<Rightarrow> int \<Rightarrow> CreatePerformedStepRequest \<Rightarrow> cli_db \<Rightarrow> cli_db" where
  "add_step e customerID command d =
     d\<lparr>cd_performedSteps := cd_performedSteps d @ [\<lparr>ps_id = cd_nextStep d, ps_cycle = cs_TestCycleID command,
           ps_test = cs_TestID command, ps_step = cs_StepID command, ps_status = cs_Status command, ps_name = cs_Name command,
           ps_screenshots = cs_Screenshots command, ps_type = cs_Type command, ps_data = cs_Data command,
           ps_tenant = customerID, ps_key = key_column (cs_IdempotencyKey command),
           ps_createdAt = ce_now e, ps_updatedAt = ce_now e\<rparr>],
       cd_nextStep := cd_nextStep d + 1\<rparr>"

definition insertPerformedCycle :: "cli_env \<Rightarrow> int \<Rightarrow> CreatePerformedCycleRequest \<Rightarrow> cli_db \<Rightarrow> (cli_error + int) \<times> cli_db" where
  "insertPerformedCycle e customerID command d =
     (let label = ''insert CLI performed cycle'';
          insert = (\<lambda>context. if ce_fails e label then (Inl (CliFailure label), d)
            else (Inr (cd_nextCycle d), add_cycle e customerID command context d))
      in if cc_IdempotencyKey command \<noteq> [] then
           (case keyed_row pc_tenant pc_key customerID (cc_IdempotencyKey command) (cd_cycles d) of
              Some r \<Rightarrow> if ce_fails e label then (Inl (CliFailure label), d) else (Inr (pc_id r), d)
            | None \<Rightarrow> insert None)
         else case cc_ExecutionContext command of
           None \<Rightarrow> insert None
         | Some snapshot \<Rightarrow> (case optionalPerformedCycleExecutionContextColumn e of
             Inl x \<Rightarrow> (Inl x, d)
           | Inr None \<Rightarrow> insert None
           | Inr (Some column) \<Rightarrow> (case performedCycleExecutionContextColumnSQL column of
               None \<Rightarrow> (Inl (CliFailure label), d)
             | Some _ \<Rightarrow> insert (Some (column, snapshot)))))"

text \<open>A transaction that does not commit leaves the database as it was.\<close>

definition committed :: "cli_env \<Rightarrow> string \<Rightarrow> string \<Rightarrow> cli_db \<Rightarrow> (cli_error + 'v) \<times> cli_db \<Rightarrow> (cli_error + 'v) \<times> cli_db" where
  "committed e ident commit d outcome =
     (case outcome of
        (Inl x, _) \<Rightarrow> (Inl x, d)
      | (Inr v, d') \<Rightarrow>
          if ce_fails e ident then (Inl (CliFailure ident), d)
          else if ce_fails e commit then (Inl (CliFailure commit), d)
          else (Inr v, d'))"

definition CreatePerformedCycle :: "cli_env \<Rightarrow> int \<Rightarrow> CreatePerformedCycleRequest \<Rightarrow> cli_db \<Rightarrow> (cli_error + int) \<times> cli_db" where
  "CreatePerformedCycle e customerID command d =
     (if ce_fails e ''begin CLI performed-cycle create'' then (Inl (CliFailure ''begin CLI performed-cycle create''), d)
      else if ce_fails e ''check test-cycle ownership'' then (Inl (CliFailure ''check test-cycle ownership''), d)
      else if \<not> tenantRowExists test_cycles (cc_TestCycleID command) customerID d then (Inl CliNotFound, d)
      else committed e ''read CLI performed-cycle identifier'' ''commit CLI performed-cycle create'' d
             (insertPerformedCycle e customerID command d))"

text \<open>
  An \<open>UPDATE\<close> outside a transaction. MySQL counts the rows it changes, so that a repeated update counts
  none; then the row is looked up.
\<close>

definition UpdatePerformedCycle :: "cli_env \<Rightarrow> int \<Rightarrow> UpdatePerformedCycleRequest \<Rightarrow> cli_db \<Rightarrow> (cli_error + int) \<times> cli_db" where
  "UpdatePerformedCycle e customerID command d =
     (let mine = (\<lambda>r. pc_id r = uc_TestCycleID command \<and> pc_tenant r = customerID);
          set_row = (\<lambda>r. r\<lparr>pc_status := uc_Status command, pc_updatedAt := ce_now e\<rparr>);
          d' = d\<lparr>cd_cycles := upd_rows mine set_row (cd_cycles d)\<rparr>
      in if ce_fails e ''update CLI performed cycle'' then (Inl (CliFailure ''update CLI performed cycle''), d)
         else if ce_fails e ''read CLI performed-cycle update count'' then (Inl (CliFailure ''read CLI performed-cycle update count''), d')
         else if list_ex (\<lambda>r. mine r \<and> set_row r \<noteq> r) (cd_cycles d) then (Inr (uc_TestCycleID command), d')
         else if ce_fails e ''read CLI performed cycle after no-op update''
              then (Inl (CliFailure ''read CLI performed cycle after no-op update''), d')
         else if \<not> list_ex mine (cd_cycles d) then (Inl CliNotFound, d')
         else (Inr (uc_TestCycleID command), d'))"

definition CreatePerformedTest :: "cli_env \<Rightarrow> int \<Rightarrow> CreatePerformedTestRequest \<Rightarrow> cli_db \<Rightarrow> (cli_error + int) \<times> cli_db" where
  "CreatePerformedTest e customerID command d =
     (if ce_fails e ''begin CLI performed-test create'' then (Inl (CliFailure ''begin CLI performed-test create''), d)
      else if ce_fails e ''check performed-test cycle ownership'' then (Inl (CliFailure ''check performed-test cycle ownership''), d)
      else if ce_fails e ''check test ownership'' then (Inl (CliFailure ''check test ownership''), d)
      else if \<not> tenantRowExists performed_test_cycles (ct_TestCycleID command) customerID d
              \<or> \<not> tenantRowExists tests_table (ct_TestID command) customerID d then (Inl CliNotFound, d)
      else if ce_fails e ''insert CLI performed test'' then (Inl (CliFailure ''insert CLI performed test''), d)
      else committed e ''read CLI performed-test identifier'' ''commit CLI performed-test create'' d
        (case keyed_row pt_tenant pt_key customerID (ct_IdempotencyKey command) (cd_performedTests d) of
           Some r \<Rightarrow> (Inr (pt_id r), d)
         | None \<Rightarrow> (Inr (cd_nextTest d), add_test e customerID command d)))"

definition UpdatePerformedTest :: "cli_env \<Rightarrow> int \<Rightarrow> UpdatePerformedTestRequest \<Rightarrow> cli_db \<Rightarrow> (cli_error + int) \<times> cli_db" where
  "UpdatePerformedTest e customerID command d =
     (let mine = (\<lambda>r. pt_id r = ut_TestID command \<and> pt_tenant r = customerID)
      in if ce_fails e ''begin CLI performed-test update'' then (Inl (CliFailure ''begin CLI performed-test update''), d)
         else if ce_fails e ''lock CLI performed test'' then (Inl (CliFailure ''lock CLI performed test''), d)
         else case find mine (cd_performedTests d) of
           None \<Rightarrow> (Inl CliNotFound, d)
         | Some existing \<Rightarrow>
             if ce_fails e ''update CLI performed test'' then (Inl (CliFailure ''update CLI performed test''), d)
             else if ce_fails e ''commit CLI performed-test update'' then (Inl (CliFailure ''commit CLI performed-test update''), d)
             else (Inr (pt_id existing), d\<lparr>cd_performedTests := upd_rows mine
                    (\<lambda>r. if ut_PostmanDataPresent command
                         then r\<lparr>pt_status := ut_Status command, pt_postmanData := ut_PostmanData command, pt_updatedAt := ce_now e\<rparr>
                         else r\<lparr>pt_status := ut_Status command, pt_updatedAt := ce_now e\<rparr>) (cd_performedTests d)\<rparr>))"

definition CreatePerformedStep :: "cli_env \<Rightarrow> int \<Rightarrow> CreatePerformedStepRequest \<Rightarrow> cli_db \<Rightarrow> (cli_error + int) \<times> cli_db" where
  "CreatePerformedStep e customerID command d =
     (if ce_fails e ''begin CLI performed-step create'' then (Inl (CliFailure ''begin CLI performed-step create''), d)
      else if ce_fails e ''check performed-cycle ownership'' then (Inl (CliFailure ''check performed-cycle ownership''), d)
      else if ce_fails e ''check performed-test ownership'' then (Inl (CliFailure ''check performed-test ownership''), d)
      else if ce_fails e ''check source step ownership'' then (Inl (CliFailure ''check source step ownership''), d)
      else if \<not> tenantRowExists performed_test_cycles (cs_TestCycleID command) customerID d
              \<or> \<not> tenantPerformedTestExists (cs_TestID command) (cs_TestCycleID command) customerID d
              \<or> \<not> tenantRowExists steps_table (cs_StepID command) customerID d then (Inl CliNotFound, d)
      else if ce_fails e ''insert CLI performed step'' then (Inl (CliFailure ''insert CLI performed step''), d)
      else committed e ''read CLI performed-step identifier'' ''commit CLI performed-step create'' d
        (case keyed_row ps_tenant ps_key customerID (cs_IdempotencyKey command) (cd_performedSteps d) of
           Some r \<Rightarrow> (Inr (ps_id r), d)
         | None \<Rightarrow> (Inr (cd_nextStep d), add_step e customerID command d)))"

definition UpdatePerformedStep :: "cli_env \<Rightarrow> int \<Rightarrow> UpdatePerformedStepRequest \<Rightarrow> cli_db \<Rightarrow> (cli_error + int) \<times> cli_db" where
  "UpdatePerformedStep e customerID command d =
     (let mine = (\<lambda>r. ps_id r = us_StepID command \<and> ps_tenant r = customerID);
          set_row = (\<lambda>r. r\<lparr>ps_screenshots := us_Screenshots command, ps_updatedAt := ce_now e\<rparr>);
          d' = d\<lparr>cd_performedSteps := upd_rows mine set_row (cd_performedSteps d)\<rparr>
      in if ce_fails e ''update CLI performed step'' then (Inl (CliFailure ''update CLI performed step''), d)
         else if ce_fails e ''read CLI performed-step update count'' then (Inl (CliFailure ''read CLI performed-step update count''), d')
         else if list_ex (\<lambda>r. mine r \<and> set_row r \<noteq> r) (cd_performedSteps d) then (Inr (us_StepID command), d')
         else if ce_fails e ''read CLI performed step after no-op update''
              then (Inl (CliFailure ''read CLI performed step after no-op update''), d')
         else if \<not> list_ex mine (cd_performedSteps d) then (Inl CliNotFound, d')
         else (Inr (us_StepID command), d'))"

section \<open>Decoding a command\<close>

text \<open>
  What \<open>io.ReadAll\<close> and \<open>json.Unmarshal\<close> make of the first 8 MiB of a body: nothing that can be read, no
  JSON object, or an object whose members are kept as their text (\<open>json.RawMessage\<close>).
\<close>

datatype cli_body = Unreadable | NoObject | Fields "string gomap"

definition writeValidationError :: "cli_env \<Rightarrow> string \<Rightarrow> cli_reply" where
  "writeValidationError e message = WriteError (ce_correlation e) 422 ''VALIDATION_FAILED'' message"

definition writeInvalidDetails :: cli_reply where
  "writeInvalidDetails = message_reply 404 ''Invalid details''"

definition writeCLIWriteUnavailable :: "cli_env \<Rightarrow> string \<Rightarrow> cli_reply" where
  "writeCLIWriteUnavailable e message = WriteError (ce_correlation e) 500 ''CLI_RESULT_WRITE_UNAVAILABLE'' message"

definition decodeJSONObject :: "cli_env \<Rightarrow> cli_body \<Rightarrow> cli_reply + string gomap" where
  "decodeJSONObject e body =
     (case body of
        Unreadable \<Rightarrow> Inl (writeValidationError e ''The request body could not be read.'')
      | NoObject \<Rightarrow> Inl (writeValidationError e ''The request body must be a JSON object.'')
      | Fields members \<Rightarrow> Inr members)"

text \<open>A number decodes into an \<open>int64\<close> when its text is an integer in range; null leaves the zero value.\<close>

definition requiredInt :: "cli_env \<Rightarrow> string gomap \<Rightarrow> string \<Rightarrow> int option" where
  "requiredInt e members name =
     (case map_of members name of
        None \<Rightarrow> None
      | Some raw \<Rightarrow> (case ce_unmarshal e raw of
          Some JNull \<Rightarrow> Some 0
        | Some (JNum _) \<Rightarrow> ParseInt raw
        | Some (JFloat _ _) \<Rightarrow> ParseInt raw
        | _ \<Rightarrow> None))"

definition requiredPositiveInt :: "cli_env \<Rightarrow> string gomap \<Rightarrow> string \<Rightarrow> int option" where
  "requiredPositiveInt e members name =
     (case requiredInt e members name of None \<Rightarrow> None | Some n \<Rightarrow> if n > 0 then Some n else None)"

definition requiredString :: "cli_env \<Rightarrow> string gomap \<Rightarrow> string \<Rightarrow> string option" where
  "requiredString e members name =
     (case map_of members name of
        None \<Rightarrow> None
      | Some raw \<Rightarrow> (case ce_unmarshal e raw of
          Some (JStr s) \<Rightarrow> if TrimSpace s = [] then None else Some (TrimSpace s)
        | _ \<Rightarrow> None))"

definition jsonStringField :: "cli_env \<Rightarrow> string gomap \<Rightarrow> string \<Rightarrow> string option" where
  "jsonStringField e members name =
     (case map_of members name of
        None \<Rightarrow> None
      | Some raw \<Rightarrow> (case ce_unmarshal e raw of
          Some (JStr s) \<Rightarrow> Some s
        | Some JNull \<Rightarrow> Some []
        | _ \<Rightarrow> if TrimSpace raw \<noteq> [] then Some raw else None))"

definition validJSONStringField :: "cli_env \<Rightarrow> string gomap \<Rightarrow> string \<Rightarrow> string option" where
  "validJSONStringField e members name =
     (case jsonStringField e members name of
        None \<Rightarrow> None
      | Some s \<Rightarrow> (case ce_unmarshal e s of None \<Rightarrow> None | Some _ \<Rightarrow> Some s))"

definition isJSONArray :: "cli_env \<Rightarrow> string \<Rightarrow> bool" where
  "isJSONArray e raw = (case ce_unmarshal e raw of Some (JArr _) \<Rightarrow> True | Some JNull \<Rightarrow> True | _ \<Rightarrow> False)"

definition json_key_markers :: "string list" where
  "json_key_markers = [''authorization'', ''password'', ''secret'', ''token'', ''apikey'', ''api-key'', ''session'', ''csrf'', ''cookie'']"

definition isSensitiveJSONKey :: "string \<Rightarrow> bool" where
  "isSensitiveJSONKey key =
     (let normalized = ToLower (map (\<lambda>c. if c = CHR ''_'' then CHR ''-'' else c) key)
      in list_ex (\<lambda>marker. Contains normalized marker) json_key_markers)"

fun redactJSONValue :: "json \<Rightarrow> json" where
  "redactJSONValue (JObj m) = JObj (map (\<lambda>(key, child). (key, if isSensitiveJSONKey key then redacted_text else redactJSONValue child)) m)"
| "redactJSONValue (JArr xs) = JArr (map redactJSONValue xs)"
| "redactJSONValue v = v"

definition redactPostmanJSON :: "cli_env \<Rightarrow> string \<Rightarrow> string option" where
  "redactPostmanJSON e raw = (case ce_unmarshal e raw of None \<Rightarrow> None | Some v \<Rightarrow> ce_marshal e (redactJSONValue v))"

definition redactJSONString :: "cli_env \<Rightarrow> string \<Rightarrow> string option" where
  "redactJSONString e s = redactPostmanJSON e s"

text \<open>\<open>idempotencyKey\<close>: absent, or 8 to 128 characters of the URL-safe alphabet; the outer \<open>None\<close> is a refusal.\<close>

definition key_character :: "char \<Rightarrow> bool" where
  "key_character c \<longleftrightarrow> (97 \<le> byte_of c \<and> byte_of c \<le> 122) \<or> (65 \<le> byte_of c \<and> byte_of c \<le> 90) \<or> is_digit c \<or> c = CHR ''-'' \<or> c = CHR ''_''"

definition idempotencyKey :: "http_request \<Rightarrow> string option" where
  "idempotencyKey request =
     (let key = rq_header request ''Idempotency-Key''
      in if key = [] then Some []
         else if length key < 8 \<or> length key > 128 then None
         else if \<not> list_all key_character key then None
         else Some key)"

definition maxExecutionContextBytes :: nat where "maxExecutionContextBytes = 65536"

definition key_message :: string where
  "key_message = ''Idempotency-Key must be between 8 and 128 URL-safe characters.''"

definition decodeCreatePerformedCycle :: "cli_env \<Rightarrow> cli_body \<Rightarrow> http_request \<Rightarrow> cli_reply + CreatePerformedCycleRequest" where
  "decodeCreatePerformedCycle e body request =
     (case decodeJSONObject e body of
        Inl reply \<Rightarrow> Inl reply
      | Inr members \<Rightarrow> (case requiredPositiveInt e members ''testCycleId'' of
          None \<Rightarrow> Inl (writeValidationError e ''testCycleId is required and must be a positive integer.'')
        | Some testCycleID \<Rightarrow> (case idempotencyKey request of
            None \<Rightarrow> Inl (writeValidationError e key_message)
          | Some key \<Rightarrow>
              let command = \<lparr>cc_TestCycleID = testCycleID, cc_IdempotencyKey = key, cc_ExecutionContext = None, cc_ExecutionContextProvided = False\<rparr>
              in (case map_of members ''executionContext'' of
                    None \<Rightarrow> Inr command
                  | Some raw \<Rightarrow>
                      if TrimSpace raw = ''null'' then Inr command
                      else if length raw > maxExecutionContextBytes
                           then Inl (writeValidationError e ''executionContext must be a JSON object smaller than 64 KiB.'')
                      else (case ce_unmarshal e raw of
                        Some (JObj _) \<Rightarrow> (case redactPostmanJSON e raw of
                          None \<Rightarrow> Inl (writeValidationError e ''executionContext must be valid JSON.'')
                        | Some redacted \<Rightarrow> Inr (command\<lparr>cc_ExecutionContextProvided := True, cc_ExecutionContext := Some redacted\<rparr>))
                      | _ \<Rightarrow> Inl (writeValidationError e ''executionContext must be a JSON object.''))))))"

definition decodeCreatePerformedTest :: "cli_env \<Rightarrow> cli_body \<Rightarrow> http_request \<Rightarrow> cli_reply + CreatePerformedTestRequest" where
  "decodeCreatePerformedTest e body request =
     (case decodeJSONObject e body of
        Inl reply \<Rightarrow> Inl reply
      | Inr members \<Rightarrow> (case requiredPositiveInt e members ''testCycleId'' of
          None \<Rightarrow> Inl (writeValidationError e ''testCycleId is required and must be a positive integer.'')
        | Some testCycleID \<Rightarrow> (case requiredPositiveInt e members ''testId'' of
            None \<Rightarrow> Inl (writeValidationError e ''testId is required and must be a positive integer.'')
          | Some testID \<Rightarrow> (case requiredString e members ''name'' of
              None \<Rightarrow> Inl (writeValidationError e ''name is required and must be a non-empty string.'')
            | Some name \<Rightarrow> (case idempotencyKey request of
                None \<Rightarrow> Inl (writeValidationError e key_message)
              | Some key \<Rightarrow> Inr \<lparr>ct_TestCycleID = testCycleID, ct_TestID = testID, ct_Name = name, ct_IdempotencyKey = key\<rparr>)))))"

definition decodeUpdatePerformedTest :: "cli_env \<Rightarrow> cli_body \<Rightarrow> cli_reply + UpdatePerformedTestRequest" where
  "decodeUpdatePerformedTest e body =
     (case decodeJSONObject e body of
        Inl reply \<Rightarrow> Inl reply
      | Inr members \<Rightarrow> (case requiredPositiveInt e members ''testId'' of
          None \<Rightarrow> Inl (writeValidationError e ''testId is required and must be a positive integer.'')
        | Some testID \<Rightarrow> (case requiredInt e members ''status'' of
            None \<Rightarrow> Inl (writeValidationError e ''status is required and must be an integer.'')
          | Some status \<Rightarrow>
              let command = \<lparr>ut_TestID = testID, ut_Status = status, ut_PostmanDataPresent = False, ut_PostmanData = None\<rparr>
              in (case map_of members ''postmanData'' of
                    None \<Rightarrow> Inr command
                  | Some raw \<Rightarrow>
                      if TrimSpace raw = ''null'' then Inr (command\<lparr>ut_PostmanDataPresent := True\<rparr>)
                      else if \<not> isJSONArray e raw then Inl (writeValidationError e ''postmanData must be a JSON array or null.'')
                      else (case redactPostmanJSON e raw of
                        None \<Rightarrow> Inl (writeValidationError e ''postmanData must be valid JSON.'')
                      | Some redacted \<Rightarrow> Inr (command\<lparr>ut_PostmanDataPresent := True, ut_PostmanData := Some redacted\<rparr>))))))"

definition allowedPerformedStepTypes :: "string list" where
  "allowedPerformedStepTypes = [''selenium'', ''seleniumOrAppium'', ''postman'', ''dsl'']"

definition decodeCreatePerformedStep :: "cli_env \<Rightarrow> cli_body \<Rightarrow> http_request \<Rightarrow> cli_reply + CreatePerformedStepRequest" where
  "decodeCreatePerformedStep e body request =
     (case decodeJSONObject e body of
        Inl reply \<Rightarrow> Inl reply
      | Inr members \<Rightarrow> (case requiredPositiveInt e members ''testCycleId'' of
          None \<Rightarrow> Inl (writeValidationError e ''testCycleId is required and must be a positive integer.'')
        | Some testCycleID \<Rightarrow> (case requiredPositiveInt e members ''testId'' of
            None \<Rightarrow> Inl (writeValidationError e ''testId is required and must be a positive integer.'')
          | Some testID \<Rightarrow> (case requiredPositiveInt e members ''stepId'' of
              None \<Rightarrow> Inl (writeValidationError e ''stepId is required and must be a positive integer.'')
            | Some stepID \<Rightarrow> (case requiredString e members ''name'' of
                None \<Rightarrow> Inl (writeValidationError e ''name is required and must be a non-empty string.'')
              | Some name \<Rightarrow> (case requiredInt e members ''status'' of
                  None \<Rightarrow> Inl (writeValidationError e ''status is required and must be an integer.'')
                | Some status \<Rightarrow> (case validJSONStringField e members ''screenshots'' of
                    None \<Rightarrow> Inl (writeValidationError e ''screenshots is required and must be a valid JSON string.'')
                  | Some screenshots \<Rightarrow> (case validJSONStringField e members ''data'' of
                      None \<Rightarrow> Inl (writeValidationError e ''data is required and must be a valid JSON string.'')
                    | Some content \<Rightarrow> (case redactJSONString e content of
                        None \<Rightarrow> Inl (writeValidationError e ''data is required and must be valid JSON.'')
                      | Some redactedData \<Rightarrow> (case requiredString e members ''type'' of
                          None \<Rightarrow> Inl (writeValidationError e ''type is required.'')
                        | Some stepType \<Rightarrow>
                            if stepType \<notin> set allowedPerformedStepTypes
                            then Inl (writeValidationError e ''type must be selenium, seleniumOrAppium, postman, or dsl.'')
                            else (case idempotencyKey request of
                              None \<Rightarrow> Inl (writeValidationError e key_message)
                            | Some key \<Rightarrow> Inr \<lparr>cs_TestCycleID = testCycleID, cs_TestID = testID, cs_StepID = stepID, cs_Name = name,
                                cs_Status = status, cs_Screenshots = screenshots, cs_Data = redactedData, cs_Type = stepType,
                                cs_IdempotencyKey = key\<rparr>)))))))))))"

text \<open>The decoding that the two plain updates do in their handlers.\<close>

definition decode_update_cycle :: "cli_env \<Rightarrow> cli_body \<Rightarrow> cli_reply + UpdatePerformedCycleRequest" where
  "decode_update_cycle e body =
     (case decodeJSONObject e body of
        Inl reply \<Rightarrow> Inl reply
      | Inr members \<Rightarrow> (case requiredPositiveInt e members ''testCycleId'' of
          None \<Rightarrow> Inl (writeValidationError e ''testCycleId is required and must be a positive integer.'')
        | Some testCycleID \<Rightarrow> (case requiredInt e members ''status'' of
            None \<Rightarrow> Inl (writeValidationError e ''status is required and must be 1 or 2.'')
          | Some status \<Rightarrow>
              if status \<noteq> 1 \<and> status \<noteq> 2 then Inl (writeValidationError e ''status is required and must be 1 or 2.'')
              else Inr \<lparr>uc_TestCycleID = testCycleID, uc_Status = status\<rparr>)))"

definition decode_update_step :: "cli_env \<Rightarrow> cli_body \<Rightarrow> cli_reply + UpdatePerformedStepRequest" where
  "decode_update_step e body =
     (case decodeJSONObject e body of
        Inl reply \<Rightarrow> Inl reply
      | Inr members \<Rightarrow> (case requiredPositiveInt e members ''stepId'' of
          None \<Rightarrow> Inl (writeValidationError e ''stepId is required and must be a positive integer.'')
        | Some stepID \<Rightarrow> (case jsonStringField e members ''screenshots'' of
            None \<Rightarrow> Inl (writeValidationError e ''screenshots is required.'')
          | Some screenshots \<Rightarrow> Inr \<lparr>us_StepID = stepID, us_Screenshots = screenshots\<rparr>)))"

section \<open>The write handlers\<close>

text \<open>Which writers the handler was given.\<close>

record cli_handler =
  ch_performedCycles :: bool
  ch_performedTests :: bool
  ch_performedSteps :: bool

text \<open>The six write handlers have one shape: tenant, writer, decoding, repository call, reply.\<close>

definition cli_write ::
  "cli_env \<Rightarrow> bool \<Rightarrow> string \<Rightarrow> cli_reply + 'c \<Rightarrow> (cli_env \<Rightarrow> int \<Rightarrow> 'c \<Rightarrow> cli_db \<Rightarrow> (cli_error + int) \<times> cli_db) \<Rightarrow> string \<Rightarrow> string
    \<Rightarrow> http_request \<Rightarrow> cli_db \<Rightarrow> cli_reply \<times> cli_db" where
  "cli_write e configured missing decoded run failed name request d =
     (case rq_tenant request of
        None \<Rightarrow> (tenantMissing e, d)
      | Some customerID \<Rightarrow>
          if \<not> configured then (writeCLIWriteUnavailable e missing, d)
          else (case decoded of
            Inl reply \<Rightarrow> (reply, d)
          | Inr command \<Rightarrow> (case run e customerID command d of
              (Inl CliNotFound, d') \<Rightarrow> (writeInvalidDetails, d')
            | (Inl (CliFailure _), d') \<Rightarrow> (writeCLIWriteUnavailable e failed, d')
            | (Inr ident, d') \<Rightarrow> (Message 200 [(name, JNum ident)], d'))))"

definition HandleCreatePerformedCycle :: "cli_env \<Rightarrow> cli_handler \<Rightarrow> cli_body \<Rightarrow> http_request \<Rightarrow> cli_db \<Rightarrow> cli_reply \<times> cli_db" where
  "HandleCreatePerformedCycle e h body request d =
     cli_write e (ch_performedCycles h) ''CLI performed-cycle writer is not configured.'' (decodeCreatePerformedCycle e body request)
       CreatePerformedCycle ''The CLI performed-cycle record could not be created.'' ''idCycle'' request d"

definition HandleUpdatePerformedCycle :: "cli_env \<Rightarrow> cli_handler \<Rightarrow> cli_body \<Rightarrow> http_request \<Rightarrow> cli_db \<Rightarrow> cli_reply \<times> cli_db" where
  "HandleUpdatePerformedCycle e h body request d =
     cli_write e (ch_performedCycles h) ''CLI performed-cycle writer is not configured.'' (decode_update_cycle e body)
       UpdatePerformedCycle ''The CLI performed-cycle record could not be updated.'' ''idCycle'' request d"

definition HandleCreatePerformedTest :: "cli_env \<Rightarrow> cli_handler \<Rightarrow> cli_body \<Rightarrow> http_request \<Rightarrow> cli_db \<Rightarrow> cli_reply \<times> cli_db" where
  "HandleCreatePerformedTest e h body request d =
     cli_write e (ch_performedTests h) ''CLI performed-test writer is not configured'' (decodeCreatePerformedTest e body request)
       CreatePerformedTest ''The CLI performed-test record could not be created.'' ''idTest'' request d"

definition HandleUpdatePerformedTest :: "cli_env \<Rightarrow> cli_handler \<Rightarrow> cli_body \<Rightarrow> http_request \<Rightarrow> cli_db \<Rightarrow> cli_reply \<times> cli_db" where
  "HandleUpdatePerformedTest e h body request d =
     cli_write e (ch_performedTests h) ''CLI performed-test writer is not configured'' (decodeUpdatePerformedTest e body)
       UpdatePerformedTest ''The CLI performed-test record could not be updated.'' ''idTest'' request d"

definition HandleCreatePerformedStep :: "cli_env \<Rightarrow> cli_handler \<Rightarrow> cli_body \<Rightarrow> http_request \<Rightarrow> cli_db \<Rightarrow> cli_reply \<times> cli_db" where
  "HandleCreatePerformedStep e h body request d =
     cli_write e (ch_performedSteps h) ''CLI performed-step writer is not configured.'' (decodeCreatePerformedStep e body request)
       CreatePerformedStep ''The CLI performed-step record could not be created.'' ''idStep'' request d"

definition HandleUpdatePerformedStep :: "cli_env \<Rightarrow> cli_handler \<Rightarrow> cli_body \<Rightarrow> http_request \<Rightarrow> cli_db \<Rightarrow> cli_reply \<times> cli_db" where
  "HandleUpdatePerformedStep e h body request d =
     cli_write e (ch_performedSteps h) ''CLI performed-step writer is not configured.'' (decode_update_step e body)
       UpdatePerformedStep ''The CLI performed-step record could not be updated.'' ''idStep'' request d"

section \<open>The routes\<close>

datatype cli_route =
    PostCycle cli_body | PutCycle cli_body | PostTest cli_body | PutTest cli_body | PostStep cli_body | PutStep cli_body
  | GetCycleRoute | GetTestRoute | GetStepRoute | GetPluginsRoute | GetPluginRoute | GetEnvironmentsRoute | GetEnvironmentRoute

fun cli_route_handler :: "cli_env \<Rightarrow> cli_handler \<Rightarrow> cli_route \<Rightarrow> http_request \<Rightarrow> cli_db \<Rightarrow> cli_reply \<times> cli_db" where
  "cli_route_handler e h (PostCycle body) = HandleCreatePerformedCycle e h body"
| "cli_route_handler e h (PutCycle body) = HandleUpdatePerformedCycle e h body"
| "cli_route_handler e h (PostTest body) = HandleCreatePerformedTest e h body"
| "cli_route_handler e h (PutTest body) = HandleUpdatePerformedTest e h body"
| "cli_route_handler e h (PostStep body) = HandleCreatePerformedStep e h body"
| "cli_route_handler e h (PutStep body) = HandleUpdatePerformedStep e h body"
| "cli_route_handler e h GetCycleRoute = (\<lambda>request d. (HandleTestCycle e request d, d))"
| "cli_route_handler e h GetTestRoute = (\<lambda>request d. (HandleTest e request d, d))"
| "cli_route_handler e h GetStepRoute = (\<lambda>request d. (HandleStep e request d, d))"
| "cli_route_handler e h GetPluginsRoute = (\<lambda>request d. (HandlePlugins e request d, d))"
| "cli_route_handler e h GetPluginRoute = (\<lambda>request d. (HandlePlugin e request d, d))"
| "cli_route_handler e h GetEnvironmentsRoute = (\<lambda>request d. (HandleEnvironments e request d, d))"
| "cli_route_handler e h GetEnvironmentRoute = (\<lambda>request d. (HandleEnvironment e request d, d))"

definition serve_cli :: "key_env \<Rightarrow> cli_env \<Rightarrow> cli_handler \<Rightarrow> cli_route \<Rightarrow> http_request \<Rightarrow> key_db \<Rightarrow> cli_db \<Rightarrow> cli_reply \<times> key_db \<times> cli_db" where
  "serve_cli ke e h route = Middleware ke (cli_route_handler e h route)"

end
