(* ===== verification/CliIsolation.thy ===== *)
theory CliIsolation
  imports CliProps
begin

text \<open>
  The command-line API of one customer over the shared database behaves as over a database that holds
  the rows of this customer only: every operation commutes with the restriction to the customer.
\<close>

definition own :: "int \<Rightarrow> cli_db \<Rightarrow> cli_db" where
  "own T d = d\<lparr>cd_testCycles := filter (\<lambda>r. cr_tenant r = T) (cd_testCycles d), cd_tests := filter (\<lambda>r. cr_tenant r = T) (cd_tests d),
     cd_steps := filter (\<lambda>r. cr_tenant r = T) (cd_steps d), cd_plugins := filter (\<lambda>r. cr_tenant r = T) (cd_plugins d),
     cd_environments := filter (\<lambda>r. cr_tenant r = T) (cd_environments d), cd_cycles := filter (\<lambda>r. pc_tenant r = T) (cd_cycles d),
     cd_performedTests := filter (\<lambda>r. pt_tenant r = T) (cd_performedTests d),
     cd_performedSteps := filter (\<lambda>r. ps_tenant r = T) (cd_performedSteps d)\<rparr>"

text \<open>The rows alone, without the counters of identifiers, which all customers share.\<close>

definition stored :: "int \<Rightarrow> cli_db \<Rightarrow> cli_db" where
  "stored T d = (own T d)\<lparr>cd_nextCycle := 0, cd_nextTest := 0, cd_nextStep := 0\<rparr>"

section \<open>Tables\<close>

lemma find_filter: "(\<And>r. P r \<Longrightarrow> Q r) \<Longrightarrow> find P (filter Q rows) = find P rows"
  by (induction rows) auto

lemma list_ex_filter: "(\<And>r. P r \<Longrightarrow> Q r) \<Longrightarrow> list_ex P (filter Q rows) = list_ex P rows"
  by (induction rows) auto

lemma filter_upd_rows_own: "(\<And>r. Q (f r) = Q r) \<Longrightarrow> filter Q (upd_rows p f rows) = upd_rows p f (filter Q rows)"
  by (induction rows) (simp_all add: upd_rows_def)

lemma upd_rows_foreign: "u \<noteq> T \<Longrightarrow> upd_rows (\<lambda>r. num r = i \<and> tenant r = T) f (filter (\<lambda>r. tenant r = u) rows) = filter (\<lambda>r. tenant r = u) rows"
  by (induction rows) (simp_all add: upd_rows_def)

lemma own_keyed [simp]:
  "keyed_row pc_tenant pc_key T k (cd_cycles (own T d)) = keyed_row pc_tenant pc_key T k (cd_cycles d)"
  "keyed_row pt_tenant pt_key T k (cd_performedTests (own T d)) = keyed_row pt_tenant pt_key T k (cd_performedTests d)"
  "keyed_row ps_tenant ps_key T k (cd_performedSteps (own T d)) = keyed_row ps_tenant ps_key T k (cd_performedSteps d)"
  by (auto simp: own_def keyed_row_def intro!: find_filter)

lemma own_exists [simp]:
  "tenantRowExists table i T (own T d) = tenantRowExists table i T d"
  "tenantPerformedTestExists t i T (own T d) = tenantPerformedTestExists t i T d"
  by (cases table) (auto simp: own_def tenantRowExists_def tenantPerformedTestExists_def intro!: list_ex_filter)

lemma own_next [simp]: "cd_nextCycle (own T d) = cd_nextCycle d" "cd_nextTest (own T d) = cd_nextTest d" "cd_nextStep (own T d) = cd_nextStep d"
  by (simp_all add: own_def)

lemma own_add [simp]:
  "add_cycle e T c snap (own T d) = own T (add_cycle e T c snap d)"
  "add_test e T ct (own T d) = own T (add_test e T ct d)"
  "add_step e T cs (own T d) = own T (add_step e T cs d)"
  by (simp_all add: own_def add_cycle_def add_test_def add_step_def)

lemma own_set [simp]:
  "set_cycle e T uc (own T d) = own T (set_cycle e T uc d)"
  "set_test e T ut (own T d) = own T (set_test e T ut d)"
  "set_step e T us (own T d) = own T (set_step e T us d)"
  by (simp_all add: own_def set_cycle_def set_test_def set_step_def filter_upd_rows_own)

section \<open>Reads\<close>

lemma own_read_row: "read_row e label scan (filter (\<lambda>r. cr_tenant r = T) rows) T i = read_row e label scan rows T i"
proof -
  have "find (\<lambda>r. cr_id r = i \<and> cr_tenant r = T) (filter (\<lambda>r. cr_tenant r = T) rows) = find (\<lambda>r. cr_id r = i \<and> cr_tenant r = T) rows"
    by (rule find_filter) simp
  then show ?thesis by (simp add: read_row_def)
qed

lemma own_list_rows: "list_rows e label scan (filter (\<lambda>r. cr_tenant r = T) rows) T i = list_rows e label scan rows T i"
proof -
  have "filter (\<lambda>r. cr_project r = i \<and> cr_tenant r = T) (filter (\<lambda>r. cr_tenant r = T) rows) = filter (\<lambda>r. cr_project r = i \<and> cr_tenant r = T) rows"
    by (induction rows) auto
  then show ?thesis by (simp add: list_rows_def)
qed

lemma own_reads:
  "GetTestCycle e T i (own T d) = GetTestCycle e T i d" "GetTest e T i (own T d) = GetTest e T i d"
  "GetStep e T i (own T d) = GetStep e T i d" "GetPlugin e T i (own T d) = GetPlugin e T i d"
  "GetEnvironment e T i (own T d) = GetEnvironment e T i d" "ListPlugins e T i (own T d) = ListPlugins e T i d"
  "ListEnvironments e T i (own T d) = ListEnvironments e T i d"
  unfolding GetTestCycle_def GetTest_def GetStep_def GetPlugin_def GetEnvironment_def ListPlugins_def ListEnvironments_def
  by (simp_all add: own_def own_read_row own_list_rows)

lemma own_cli_read:
  assumes "\<And>i. get e T i (own T d) = get e T i d" "rq_tenant request = Some T"
  shows "cli_read e name get wrap request (own T d) = cli_read e name get wrap request d"
  unfolding cli_read_def by (simp add: assms split: option.split)

section \<open>Writes\<close>

text \<open>A repository call that reads and writes the rows of its customer only.\<close>

locale tenant_call =
  fixes run :: "cli_env \<Rightarrow> int \<Rightarrow> 'c \<Rightarrow> cli_db \<Rightarrow> (cli_error + int) \<times> cli_db"
  assumes restricts: "run e T c (own T d) = map_prod id (own T) (run e T c d)"
begin

lemma handler_restricts:
  assumes "rq_tenant request = Some T"
  shows "cli_write e configured missing decoded run failed name request (own T d)
    = map_prod id (own T) (cli_write e configured missing decoded run failed name request d)"
proof (cases decoded)
  case (Inr command)
  obtain x d' where r: "run e T command d = (x, d')" by fastforce
  then have "run e T command (own T d) = (x, own T d')" by (simp add: restricts)
  then show ?thesis using r assms Inr by (auto simp: cli_write_def split: sum.splits cli_error.splits)
qed (simp add: cli_write_def assms)

end

text \<open>The updates in terms of the rows they look at and of what they write.\<close>

lemma own_list_ex:
  "list_ex (\<lambda>r. pc_id r = i \<and> pc_tenant r = T \<and> P r) (cd_cycles (own T d)) = list_ex (\<lambda>r. pc_id r = i \<and> pc_tenant r = T \<and> P r) (cd_cycles d)"
  "list_ex (\<lambda>r. ps_id r = i \<and> ps_tenant r = T \<and> Q r) (cd_performedSteps (own T d))
     = list_ex (\<lambda>r. ps_id r = i \<and> ps_tenant r = T \<and> Q r) (cd_performedSteps d)"
  "list_ex (\<lambda>r. pc_id r = i \<and> pc_tenant r = T) (cd_cycles (own T d)) = list_ex (\<lambda>r. pc_id r = i \<and> pc_tenant r = T) (cd_cycles d)"
  "list_ex (\<lambda>r. ps_id r = i \<and> ps_tenant r = T) (cd_performedSteps (own T d)) = list_ex (\<lambda>r. ps_id r = i \<and> ps_tenant r = T) (cd_performedSteps d)"
  "find (\<lambda>r. pt_id r = i \<and> pt_tenant r = T) (cd_performedTests (own T d)) = find (\<lambda>r. pt_id r = i \<and> pt_tenant r = T) (cd_performedTests d)"
  by (auto simp: own_def intro!: list_ex_filter find_filter)

lemma own_committed: "committed e i c (own T d) (map_prod id (own T) r) = map_prod id (own T) (committed e i c d r)"
  by (cases r; cases "fst r") (simp_all add: committed_def)

lemma own_insert: "insertPerformedCycle e T c (own T d) = map_prod id (own T) (insertPerformedCycle e T c d)"
  unfolding insertPerformedCycle_def Let_def by (simp split: option.splits sum.splits)

interpretation create_cycle_call: tenant_call CreatePerformedCycle
  by unfold_locales (simp add: CreatePerformedCycle_def own_insert own_committed)

interpretation create_test_call: tenant_call CreatePerformedTest
proof
  fix e T c d
  let ?case = "\<lambda>d. case keyed_row pt_tenant pt_key T (ct_IdempotencyKey c) (cd_performedTests d) of
      Some r \<Rightarrow> (Inr (pt_id r) :: cli_error + int, d) | None \<Rightarrow> (Inr (cd_nextTest d), add_test e T c d)"
  have "?case (own T d) = map_prod id (own T) (?case d)" by (simp split: option.splits)
  then show "CreatePerformedTest e T c (own T d) = map_prod id (own T) (CreatePerformedTest e T c d)"
    unfolding CreatePerformedTest_def by (simp only: own_committed own_exists if_distrib [of "map_prod id (own T)"] map_prod_simp id_apply)
qed

interpretation create_step_call: tenant_call CreatePerformedStep
proof
  fix e T c d
  let ?case = "\<lambda>d. case keyed_row ps_tenant ps_key T (cs_IdempotencyKey c) (cd_performedSteps d) of
      Some r \<Rightarrow> (Inr (ps_id r) :: cli_error + int, d) | None \<Rightarrow> (Inr (cd_nextStep d), add_step e T c d)"
  have "?case (own T d) = map_prod id (own T) (?case d)" by (simp split: option.splits)
  then show "CreatePerformedStep e T c (own T d) = map_prod id (own T) (CreatePerformedStep e T c d)"
    unfolding CreatePerformedStep_def by (simp only: own_committed own_exists if_distrib [of "map_prod id (own T)"] map_prod_simp id_apply)
qed

interpretation update_cycle_call: tenant_call UpdatePerformedCycle
  by unfold_locales (simp add: UpdatePerformedCycle_def Let_def own_list_ex own_set(1) flip: set_cycle_def)

interpretation update_test_call: tenant_call UpdatePerformedTest
  by unfold_locales (simp add: UpdatePerformedTest_def Let_def own_list_ex split: option.splits flip: set_test_def)

interpretation update_step_call: tenant_call UpdatePerformedStep
  by unfold_locales (simp add: UpdatePerformedStep_def Let_def own_list_ex flip: set_step_def)

lemma cli_route_restricts:
  assumes "rq_tenant request = Some T"
  shows "cli_route_handler e h route request (own T d) = map_prod id (own T) (cli_route_handler e h route request d)"
  by (cases route)
    (simp_all add: assms cli_handler_defs create_cycle_call.handler_restricts create_test_call.handler_restricts
      create_step_call.handler_restricts update_cycle_call.handler_restricts update_test_call.handler_restricts
      update_step_call.handler_restricts HandleTestCycle_def HandleTest_def HandleStep_def HandlePlugins_def HandlePlugin_def
      HandleEnvironments_def HandleEnvironment_def own_cli_read own_reads)

lemma cli_change_foreign: "cli_change m T d d' \<Longrightarrow> u \<noteq> T \<Longrightarrow> stored u d' = stored u d"
  by (induction rule: cli_change.induct)
    (auto simp: stored_def own_def add_cycle_def add_test_def add_step_def set_cycle_def set_test_def set_step_def filter_upd_rows_own upd_rows_foreign)

end
