(* ===== verification/CliResults.thy ===== *)
theory CliResults
  imports CliIsolation
begin

text \<open>
  The results of the command-line client over sequences of requests: their references, their content,
  and creations that are repeated under a key.
\<close>

section \<open>Fixtures\<close>

definition cenv0 :: cli_env where
  "cenv0 = \<lparr>ce_fails = (\<lambda>_. False), ce_now = 5, ce_columns = (\<lambda>c. c = ''execution_context''),
     ce_unmarshal = (\<lambda>s. if s = ''x'' then Some (JObj [(''token'', JStr ''t'')]) else map_option JNum (ParseInt s)),
     ce_marshal = (\<lambda>v. case v of JObj [(k, JStr s)] \<Rightarrow> Some (k @ ''='' @ s) | _ \<Rightarrow> None), ce_correlation = []\<rparr>"

definition chandler0 :: cli_handler where
  "chandler0 = \<lparr>ch_performedCycles = True, ch_performedTests = True, ch_performedSteps = True\<rparr>"

definition crow0 :: "int \<Rightarrow> int \<Rightarrow> config_row" where
  "crow0 i T = \<lparr>cr_id = i, cr_name = ''n'', cr_code = ''c'', cr_description = Some [], cr_config = Some ''x'', cr_project = 1, cr_order = 0,
     cr_createdAt = None, cr_updatedAt = None, cr_tenant = T\<rparr>"

definition cdb0 :: cli_db where
  "cdb0 = \<lparr>cd_testCycles = [crow0 1 8, crow0 2 9], cd_tests = [crow0 3 8], cd_steps = [crow0 4 8], cd_plugins = [], cd_environments = [],
     cd_cycles = [], cd_performedTests = [], cd_performedSteps = [], cd_nextCycle = 1, cd_nextTest = 1, cd_nextStep = 1\<rparr>"

definition cbody0 :: cli_body where
  "cbody0 = Fields [(''testCycleId'', ''1''), (''executionContext'', ''x'')]"

definition cserved0 :: cli_db where
  "cserved0 = snd (snd (serve_cli kenv0 cenv0 chandler0 (PostCycle cbody0) (key_request [''y'']) kdb0 cdb0))"

lemma texts0: "TrimSpace ''y'' = ''y''" "TrimSpace ''x'' = ''x''" "ParseInt ''1'' = Some 1" "isSensitiveJSONKey ''token''"
  by code_simp+

lemma key0: "readLegacyKey (key_request [''y'']) = Some ''y''"
proof -
  have "\<not> ContainsAny ''y'' [char_of (13::nat), char_of (10::nat)]" by code_simp
  then show ?thesis by (simp add: readLegacyKey_def key_request_def texts0 maxLegacyKeyLength_def)
qed

lemma customer0: "fst (AuthenticateLegacyCustomerKey kenv0 ''y'' (ke_clock kenv0 0) kdb0) = Inr \<lparr>cu_ID = 8, cu_Name = ''b''\<rparr>"
  by (simp add: AuthenticateLegacyCustomerKey_def kenv0_def kdb0_def delivered_def unexpired_def stored_key_matches_def HasPrefix_def)

definition ccommand0 :: CreatePerformedCycleRequest where
  "ccommand0 = \<lparr>cc_TestCycleID = 1, cc_IdempotencyKey = [], cc_ExecutionContext = Some ''token=[REDACTED]'', cc_ExecutionContextProvided = True\<rparr>"

lemma command0: "decodeCreatePerformedCycle cenv0 cbody0 (key_request [''y'']\<lparr>rq_tenant := Some 8\<rparr>) = Inr ccommand0"
  by (simp add: decodeCreatePerformedCycle_def decodeJSONObject_def cbody0_def requiredPositiveInt_def requiredInt_def idempotencyKey_def
      key_request_def cenv0_def texts0 redactPostmanJSON_def redacted_text_def maxExecutionContextBytes_def ccommand0_def)

lemma created0: "CreatePerformedCycle cenv0 8 ccommand0 cdb0
    = (Inr 1, add_cycle cenv0 8 ccommand0 (Some (''execution_context'', ''token=[REDACTED]'')) cdb0)"
  by (simp add: CreatePerformedCycle_def insertPerformedCycle_def committed_def cenv0_def cdb0_def crow0_def tenantRowExists_def ccommand0_def
      optionalPerformedCycleExecutionContextColumn_def context_columns_def performedCycleExecutionContextColumnSQL_def Let_def)

lemma cserved0_value: "map (\<lambda>r. (pc_id r, pc_tenant r, pc_context r)) (cd_cycles cserved0)
    = [(1, 8, Some (''execution_context'', ''token=[REDACTED]''))]"
proof -
  obtain k where "AuthenticateLegacyCustomerKey kenv0 ''y'' (ke_clock kenv0 0) kdb0 = (Inr \<lparr>cu_ID = 8, cu_Name = ''b''\<rparr>, k)"
    using customer0 by (metis prod.collapse)
  then have "cserved0 = add_cycle cenv0 8 ccommand0 (Some (''execution_context'', ''token=[REDACTED]'')) cdb0"
    by (simp add: cserved0_def serve_cli_def Middleware_def key0 HandleCreatePerformedCycle_def cli_write_def command0 created0 chandler0_def)
  then have "cd_cycles cserved0 = cd_cycles (add_cycle cenv0 8 ccommand0 (Some (''execution_context'', ''token=[REDACTED]'')) cdb0)"
    by (rule arg_cong)
  then show ?thesis by (simp add: add_cycle_def cdb0_def)
qed

lemma cserved0_served: "cli_served (ce_marshal cenv0) cdb0 cserved0"
proof -
  let ?s = "serve_cli kenv0 cenv0 chandler0 (PostCycle cbody0) (key_request [''y'']) kdb0 cdb0"
  have "?s = (fst ?s, fst (snd ?s), cserved0)" by (simp only: cserved0_def prod.collapse)
  then show ?thesis by (rule cli_served.serve [OF cli_served.start refl])
qed

section \<open>One customer's view\<close>

text \<open>
  C17. A request to the command-line API is answered 401 and changes nothing, or runs for the customer
  whose key it carries. Then the reply, and what the customer has stored afterwards, are those that the
  same request gives on a database with the rows of this customer only, and no row of another customer
  is added, removed or changed.
\<close>

theorem cli_tenant_view:
  assumes "serve_cli ke e h route request k d = (reply, k', d')"
  shows "reply = invalidKey \<and> d' = d \<or>
    (\<exists>key customer. readLegacyKey request = Some key \<and> fst (AuthenticateLegacyCustomerKey ke key (ke_clock ke 0) k) = Inr customer
       \<and> serve_cli ke e h route request k (own (cu_ID customer) d) = (reply, k', own (cu_ID customer) d')
       \<and> (\<forall>u. u \<noteq> cu_ID customer \<longrightarrow> stored u d' = stored u d))"
proof (cases "readLegacyKey request")
  case None
  then show ?thesis using assms by (simp add: serve_cli_def Middleware_def)
next
  case (Some key)
  obtain x k1 where a: "AuthenticateLegacyCustomerKey ke key (ke_clock ke 0) k = (x, k1)" by fastforce
  show ?thesis
  proof (cases x)
    case (Inl y)
    then show ?thesis using assms Some a by (simp add: serve_cli_def Middleware_def)
  next
    case (Inr customer)
    let ?r = "request\<lparr>rq_tenant := Some (cu_ID customer)\<rparr>"
    have h: "cli_route_handler e h route ?r d = (reply, d')" and k: "k' = k1"
      using assms Some a Inr by (auto simp: serve_cli_def Middleware_def split: prod.splits)
    have "cli_route_handler e h route ?r (own (cu_ID customer) d) = (reply, own (cu_ID customer) d')"
      using cli_route_restricts [of ?r "cu_ID customer" e h route d] h by simp
    then have "serve_cli ke e h route request k (own (cu_ID customer) d) = (reply, k', own (cu_ID customer) d')"
      using Some a Inr k by (simp add: serve_cli_def Middleware_def)
    moreover have "\<forall>u. u \<noteq> cu_ID customer \<longrightarrow> stored u d' = stored u d"
      using cli_route_change [OF h] cli_change_foreign by fastforce
    ultimately show ?thesis using Some a Inr by auto
  qed
qed

theorem cli_tenant_view_witness:
  "\<exists>reply k'. serve_cli kenv0 cenv0 chandler0 (PostCycle cbody0) (key_request [''y'']) kdb0 (own 8 cdb0) = (reply, k', own 8 cserved0)
     \<and> stored 9 cserved0 = stored 9 cdb0"
proof -
  let ?s = "serve_cli kenv0 cenv0 chandler0 (PostCycle cbody0) (key_request [''y'']) kdb0 cdb0"
  have "?s = (fst ?s, fst (snd ?s), cserved0)" by (simp only: cserved0_def prod.collapse)
  moreover have "cd_cycles cserved0 \<noteq> cd_cycles cdb0" using cserved0_value by (auto simp: cdb0_def)
  ultimately show ?thesis
    using cli_tenant_view [of kenv0 cenv0 chandler0 "PostCycle cbody0" "key_request [''y'']" kdb0 cdb0 "fst ?s" "fst (snd ?s)" cserved0]
      customer0 key0 by auto
qed

section \<open>Consistency and content\<close>

text \<open>
  C18. Whatever requests the command-line API serves, for whichever customers, every performed cycle
  belongs to a test cycle of its own customer, every performed test to a performed cycle and a test of
  its customer, every performed step to a performed test of the same cycle and customer and to a step of
  the customer; identifiers stay distinct, and so do the idempotency keys of a customer.
\<close>

theorem cli_results_consistent:
  assumes "cli_served m d d'" "cli_refs d" "cli_tables d"
  shows "cli_refs d' \<and> cli_tables d'"
  using assms(1) by (induction rule: cli_served_induct) (use assms(2,3) cli_change_refs cli_change_tables in blast)+

theorem cli_results_consistent_witness: "cli_refs cserved0 \<and> cli_tables cserved0 \<and> cd_cycles cserved0 \<noteq> []"
proof -
  have "cli_refs cdb0" "cli_tables cdb0" by (simp_all add: cli_refs_def cli_tables_def table_ok_def cdb0_def)
  with cli_results_consistent [OF cserved0_served] cserved0_value show ?thesis by auto
qed

text \<open>
  C20. What the command-line API stores of a client's documents is redacted: the execution context of a
  cycle, the Postman data of a test and the data of a step are encodings of documents in which every key
  that names a credential has the redaction mark as its value, at any depth; the status of a cycle is 0,
  1 or 2 and the type of a step one of the four.
\<close>

theorem cli_stored_redacted:
  assumes "cli_served m d d'" "cli_content m d"
  shows "cli_content m d'"
  using assms(1) by (induction rule: cli_served_induct) (use assms(2) cli_change_content in blast)+

theorem cli_stored_redacted_witness:
  "\<exists>v. clean_json v \<and> ce_marshal cenv0 v = Some ''token=[REDACTED]'' \<and> pc_context (hd (cd_cycles cserved0)) = Some (''execution_context'', ''token=[REDACTED]'')"
proof -
  obtain r where r: "cd_cycles cserved0 = [r]" "pc_context r = Some (''execution_context'', ''token=[REDACTED]'')"
    using cserved0_value by (auto simp: map_eq_Cons_conv)
  have "cli_content (ce_marshal cenv0) cdb0" by (simp add: cli_content_def cdb0_def)
  with cli_stored_redacted [OF cserved0_served] have "cycle_content (ce_marshal cenv0) r" using r by (simp add: cli_content_def)
  then show ?thesis using r by (auto simp: cycle_content_def clean_text_def)
qed

section \<open>Repetition\<close>

text \<open>
  A second creation under the key of a first, by the same customer, in any state that requests lead to.
\<close>

definition repeatable :: "(cli_env \<Rightarrow> int \<Rightarrow> 'c \<Rightarrow> cli_db \<Rightarrow> (cli_error + int) \<times> cli_db) \<Rightarrow> ('c \<Rightarrow> string) \<Rightarrow> bool" where
  "repeatable create key \<longleftrightarrow> (\<forall>m e e' T c c' d d1 d2 n.
     cli_served m d1 d2 \<and> create e T c d = (Inr n, d1) \<and> key c \<noteq> [] \<and> key c' = key c \<longrightarrow>
       snd (create e' T c' d2) = d2 \<and> (\<forall>n'. fst (create e' T c' d2) = Inr n' \<longrightarrow> n' = n)
       \<and> (ce_fails e' = (\<lambda>_. False) \<longrightarrow> create e' T c d2 = (Inr n, d2)))"

lemma repeatableI:
  assumes "keyed_writer create parents key holder"
  shows "repeatable create key"
  unfolding repeatable_def
  using keyed_writer.retry_same [OF assms] keyed_writer.retry_completes [OF assms] cli_served_grows by (metis prod.collapse)

text \<open>
  C19. A creation under an idempotency key can be repeated: after any requests of any customers, a second
  creation of the same kind by the same customer under the same key adds nothing, and when it succeeds
  answers the identifier of the first; the same command does succeed when no statement fails. This holds
  for performed cycles, tests and steps.
\<close>

theorem cli_retry:
  "repeatable CreatePerformedCycle cc_IdempotencyKey \<and> repeatable CreatePerformedTest ct_IdempotencyKey
   \<and> repeatable CreatePerformedStep cs_IdempotencyKey"
  using cycle_writer.keyed_writer_axioms test_writer.keyed_writer_axioms step_writer.keyed_writer_axioms
  by (blast intro: repeatableI)

theorem cli_retry_witness:
  "CreatePerformedCycle cenv0 8 (ccommand0\<lparr>cc_IdempotencyKey := ''abcdefgh''\<rparr>) (add_cycle cenv0 8 (ccommand0\<lparr>cc_IdempotencyKey := ''abcdefgh''\<rparr>) None cdb0)
     = (Inr 1, add_cycle cenv0 8 (ccommand0\<lparr>cc_IdempotencyKey := ''abcdefgh''\<rparr>) None cdb0)"
proof -
  let ?c = "ccommand0\<lparr>cc_IdempotencyKey := ''abcdefgh''\<rparr>"
  have "CreatePerformedCycle cenv0 8 ?c cdb0 = (Inr 1, add_cycle cenv0 8 ?c None cdb0)"
    by (simp add: CreatePerformedCycle_def insertPerformedCycle_def committed_def cenv0_def cdb0_def crow0_def tenantRowExists_def
        ccommand0_def keyed_row_def Let_def)
  moreover have "ce_fails cenv0 = (\<lambda>_. False)" by (simp add: cenv0_def)
  ultimately show ?thesis
    using cli_retry cli_served.start [of "\<lambda>_. None" "add_cycle cenv0 8 ?c None cdb0"] unfolding repeatable_def
    by (metis (no_types, lifting) CreatePerformedCycleRequest.select_convs(2) CreatePerformedCycleRequest.update_convs(2)
        CreatePerformedCycleRequest.surjective list.distinct(1))
qed

text \<open>
  A cycle that is created under a key is stored without the execution context that came with it, although
  the column exists.
\<close>

lemma key_drops_context:
  assumes "CreatePerformedCycle e T c d = (Inr n, d')" "cc_IdempotencyKey c \<noteq> []" "r \<in> set (cd_cycles d')" "r \<notin> set (cd_cycles d)"
  shows "pc_context r = None"
  using create_cycle_effect [OF assms(1)] insert_cycle_effect [of e T c d n d'] assms(2-4)
  by (auto simp: add_cycle_def split: option.splits)

end
