(* ===== verification/Migrations.thy ===== *)
theory Migrations
  imports Store
begin

text \<open>
  The handover of the schema from Laravel (internal/migrations): the reviewed baseline and its checks, the
  bridge that marks it as applied in the table \<open>migrations\<close>, and the two verifications that precede a
  cutover. Errors are their messages.
\<close>

section \<open>The baseline\<close>

record BaselinePolicy =
  bp_LaravelRemainsSchemaOwner :: bool
  bp_GoBaselineApplicationEnabled :: bool
  bp_DualWritesAllowed :: bool
  bp_Rollback :: string

record BaselineMigration =
  bm_Name :: string
  bm_File :: string
  bm_SHA256 :: string
  bm_Bytes :: int

record BaselineManifest =
  mf_SchemaVersion :: int
  mf_BaselineID :: string
  mf_GeneratedOn :: string
  mf_SourceRuntime :: string
  mf_TargetRuntime :: string
  mf_SourceDirectory :: string
  mf_MigrationCount :: int
  mf_AggregateSHA256 :: string
  mf_ReviewStatus :: string
  mf_HandoverPolicy :: BaselinePolicy
  mf_Redaction :: string
  mf_Migrations :: "BaselineMigration list"

record BaselinePlan =
  bl_BaselineID :: string
  bl_MigrationCount :: int
  bl_AggregateSHA256 :: string
  bl_ReviewStatus :: string
  bl_LaravelRemainsSchemaOwner :: bool
  bl_GoBaselineApplicationEnabled :: bool
  bl_DualWritesAllowed :: bool
  bl_Rollback :: string

text \<open>
  The environment: the embedded manifest as it decodes (or the error of reading or decoding it), SHA-256,
  the statements that fail, and the order that MySQL lists names in.
\<close>

record migration_env =
  me_manifest :: "string + BaselineManifest"
  me_sha256 :: "string \<Rightarrow> nat list"
  me_fails :: "string \<Rightarrow> bool"

text \<open>The bytes that the aggregate is taken of: file and digest of each record, each ended by a zero byte.\<close>

definition aggregate_bytes :: "BaselineMigration list \<Rightarrow> string" where
  "aggregate_bytes ms = concat (map (\<lambda>m. bm_File m @ [char_of (0::nat)] @ bm_SHA256 m @ [char_of (0::nat)]) ms)"

definition validateBaseline :: "migration_env \<Rightarrow> BaselineManifest \<Rightarrow> string option" where
  "validateBaseline e manifest =
     (if mf_SchemaVersion manifest \<noteq> 1 then Some (''unsupported Go baseline manifest schema version '' @ itoa (mf_SchemaVersion manifest))
      else if mf_BaselineID manifest = [] \<or> mf_AggregateSHA256 manifest = []
           then Some ''Go baseline manifest is missing required identity fields''
      else if mf_MigrationCount manifest \<noteq> int (length (mf_Migrations manifest)) \<or> mf_MigrationCount manifest = 0
           then Some ''Go baseline manifest migration count is inconsistent''
      else if bp_GoBaselineApplicationEnabled (mf_HandoverPolicy manifest)
           then Some ''Go baseline application must remain disabled until cutover gates pass''
      else if bp_DualWritesAllowed (mf_HandoverPolicy manifest) then Some ''Go baseline manifest must not allow dual writes''
      else if list_ex (\<lambda>m. bm_File m = [] \<or> bm_SHA256 m = [] \<or> bm_Bytes m \<le> 0) (mf_Migrations manifest)
           then Some ''Go baseline manifest contains an incomplete migration record''
      else if hex_encode (me_sha256 e (aggregate_bytes (mf_Migrations manifest))) \<noteq> mf_AggregateSHA256 manifest
           then Some ''Go baseline aggregate checksum does not match migration records''
      else None)"

definition ReviewedBaseline :: "migration_env \<Rightarrow> string + BaselineManifest" where
  "ReviewedBaseline e =
     (case me_manifest e of
        Inl message \<Rightarrow> Inl message
      | Inr manifest \<Rightarrow> (case validateBaseline e manifest of Some message \<Rightarrow> Inl message | None \<Rightarrow> Inr manifest))"

definition ReviewedBaselinePlan :: "migration_env \<Rightarrow> string + BaselinePlan" where
  "ReviewedBaselinePlan e =
     (case ReviewedBaseline e of
        Inl message \<Rightarrow> Inl message
      | Inr manifest \<Rightarrow> Inr \<lparr>bl_BaselineID = mf_BaselineID manifest, bl_MigrationCount = mf_MigrationCount manifest,
          bl_AggregateSHA256 = mf_AggregateSHA256 manifest, bl_ReviewStatus = mf_ReviewStatus manifest,
          bl_LaravelRemainsSchemaOwner = bp_LaravelRemainsSchemaOwner (mf_HandoverPolicy manifest),
          bl_GoBaselineApplicationEnabled = bp_GoBaselineApplicationEnabled (mf_HandoverPolicy manifest),
          bl_DualWritesAllowed = bp_DualWritesAllowed (mf_HandoverPolicy manifest), bl_Rollback = bp_Rollback (mf_HandoverPolicy manifest)\<rparr>)"

section \<open>The bridge\<close>

record BridgeOptions =
  bo_ConfirmBaselineID :: string
  bo_Batch :: int

record BridgePlan =
  br_BaselineID :: string
  br_MigrationCount :: int
  br_Batch :: int
  br_Table :: string
  br_StatementTemplate :: string
  br_Migrations :: "string list"
  br_RequiresExplicitRun :: bool

record BridgeResult =
  bs_BaselineID :: string
  bs_MigrationCount :: int
  bs_Batch :: int
  bs_Applied :: int
  bs_Skipped :: int

definition bridgeStatementTemplate :: string where
  "bridgeStatementTemplate = ''INSERT INTO migrations (migration, batch) SELECT ?, ? WHERE NOT EXISTS (SELECT 1 FROM migrations WHERE migration = ?)''"

definition validateBridgeOptions :: "BaselineManifest \<Rightarrow> BridgeOptions \<Rightarrow> string option" where
  "validateBridgeOptions manifest options =
     (if bo_ConfirmBaselineID options = [] then Some ''confirmed baseline ID is required''
      else if bo_ConfirmBaselineID options \<noteq> mf_BaselineID manifest then Some ''confirmed baseline ID does not match reviewed baseline''
      else if bo_Batch options \<le> 0 then Some ''migration batch must be greater than zero''
      else None)"

definition ReviewedBaselineBridgePlan :: "migration_env \<Rightarrow> BridgeOptions \<Rightarrow> string + BridgePlan" where
  "ReviewedBaselineBridgePlan e options =
     (case ReviewedBaseline e of
        Inl message \<Rightarrow> Inl message
      | Inr manifest \<Rightarrow> (case validateBridgeOptions manifest options of
          Some message \<Rightarrow> Inl message
        | None \<Rightarrow>
            let migrationNames = map bm_Name (mf_Migrations manifest)
            in Inr \<lparr>br_BaselineID = mf_BaselineID manifest, br_MigrationCount = int (length migrationNames), br_Batch = bo_Batch options,
                 br_Table = ''migrations'', br_StatementTemplate = bridgeStatementTemplate, br_Migrations = migrationNames,
                 br_RequiresExplicitRun = True\<rparr>))"

text \<open>
  The rows of the table \<open>migrations\<close> are pairs of name and batch. The statement adds a row for a name that
  the table does not have; it is executed for one name after the other.
\<close>

type_synonym markers = "(string \<times> int) list"

definition mark :: "int \<Rightarrow> string \<Rightarrow> markers \<Rightarrow> int \<times> markers" where
  "mark batch name rows = (if name \<in> set (map fst rows) then (0, rows) else (1, rows @ [(name, batch)]))"

fun mark_all :: "migration_env \<Rightarrow> int \<Rightarrow> string list \<Rightarrow> BridgeResult \<Rightarrow> markers \<Rightarrow> (string + BridgeResult) \<times> markers" where
  "mark_all e batch [] result rows = (Inr result, rows)"
| "mark_all e batch (name # names) result rows =
     (if me_fails e (''exec '' @ name) then (Inl ''mark Laravel baseline as applied: database unavailable'', rows)
      else let (rowsAffected, rows') = mark batch name rows
           in if me_fails e (''rows '' @ name) then (Inl ''mark Laravel baseline as applied: rows affected unavailable'', rows')
              else mark_all e batch names
                     (if rowsAffected > 0 then result\<lparr>bs_Applied := bs_Applied result + 1\<rparr> else result\<lparr>bs_Skipped := bs_Skipped result + 1\<rparr>) rows')"

definition MarkReviewedBaselineApplied :: "migration_env \<Rightarrow> bool \<Rightarrow> BridgeOptions \<Rightarrow> markers \<Rightarrow> (string + BridgeResult) \<times> markers" where
  "MarkReviewedBaselineApplied e execer options rows =
     (if \<not> execer then (Inl ''migration marker executor is required'', rows)
      else case ReviewedBaselineBridgePlan e options of
        Inl message \<Rightarrow> (Inl message, rows)
      | Inr plan \<Rightarrow> mark_all e (br_Batch plan) (br_Migrations plan)
          \<lparr>bs_BaselineID = br_BaselineID plan, bs_MigrationCount = br_MigrationCount plan, bs_Batch = br_Batch plan, bs_Applied = 0, bs_Skipped = 0\<rparr> rows)"

section \<open>An empty installation\<close>

record EmptyInstallVerification =
  ei_BaselineID :: string
  ei_MigrationCount :: int
  ei_Status :: string
  ei_SchemaEmpty :: bool
  ei_ExistingTables :: "string list"
  ei_Blockers :: "string list"
  ei_VerifiedActions :: "string list"

text \<open>\<open>UserTables\<close> of the MySQL inspector: whether there is a database handle, the schema, and its base tables.\<close>

definition UserTables :: "migration_env \<Rightarrow> bool \<Rightarrow> string \<Rightarrow> string list \<Rightarrow> string + string list" where
  "UserTables e database schema tables =
     (if \<not> database then Inl ''database handle is required''
      else if schema = [] then Inl ''database schema name is required''
      else if me_fails e ''inspect empty install schema'' then Inl ''inspect empty install schema: database unavailable''
      else Inr (sort tables))"

definition VerifyEmptyInstall :: "migration_env \<Rightarrow> (string + string list) option \<Rightarrow> string + EmptyInstallVerification" where
  "VerifyEmptyInstall e inspector =
     (case ReviewedBaseline e of
        Inl message \<Rightarrow> Inl message
      | Inr manifest \<Rightarrow> (case inspector of
          None \<Rightarrow> Inl ''schema inspector is required''
        | Some (Inl message) \<Rightarrow> Inl message
        | Some (Inr tables) \<Rightarrow>
            let verification = \<lparr>ei_BaselineID = mf_BaselineID manifest, ei_MigrationCount = mf_MigrationCount manifest, ei_Status = [],
                  ei_SchemaEmpty = (tables = []), ei_ExistingTables = tables, ei_Blockers = [],
                  ei_VerifiedActions = [''loaded reviewed Go baseline manifest'', ''inspected target schema table inventory'',
                    ''confirmed no tenant data or row payloads were read'']\<rparr>
            in if tables \<noteq> [] then Inr (verification\<lparr>ei_Status := ''failed'', ei_Blockers := [''target schema is not empty'']\<rparr>)
               else if \<not> bp_GoBaselineApplicationEnabled (mf_HandoverPolicy manifest)
               then Inr (verification\<lparr>ei_Status := ''blocked'', ei_Blockers :=
                 [''Go baseline application is disabled until bridge, upgrade, route cutover, and rollback rehearsal gates pass'']\<rparr>)
               else Inr (verification\<lparr>ei_Status := ''ready''\<rparr>)))"

section \<open>An upgrade\<close>

record LaravelUpgradeVerification =
  lu_BaselineID :: string
  lu_SourceRelease :: string
  lu_MigrationCount :: int
  lu_Status :: string
  lu_MissingMigrations :: "string list"
  lu_UnexpectedMarkers :: "string list"
  lu_Blockers :: "string list"
  lu_VerifiedActions :: "string list"
  lu_ReadsApplicationDB :: bool

definition AppliedMigrations :: "migration_env \<Rightarrow> bool \<Rightarrow> markers \<Rightarrow> string + string list" where
  "AppliedMigrations e database rows =
     (if \<not> database then Inl ''database handle is required''
      else if me_fails e ''inspect Laravel migration markers'' then Inl ''inspect Laravel migration markers: database unavailable''
      else Inr (sort (map fst rows)))"

text \<open>Ranging over the keys of a set of names and sorting what is absent from another.\<close>

definition absent_names :: "string list \<Rightarrow> string list \<Rightarrow> string list" where
  "absent_names names others = sort (filter (\<lambda>name. name \<notin> set others) (remdups names))"

definition VerifyLaravelUpgrade :: "migration_env \<Rightarrow> (string + string list) option \<Rightarrow> string \<Rightarrow> string + LaravelUpgradeVerification" where
  "VerifyLaravelUpgrade e inspector sourceRelease =
     (if sourceRelease = [] then Inl ''source Laravel release is required''
      else case inspector of
        None \<Rightarrow> Inl ''migration table inspector is required''
      | Some inspected \<Rightarrow> (case ReviewedBaseline e of
          Inl message \<Rightarrow> Inl message
        | Inr manifest \<Rightarrow> (case inspected of
            Inl message \<Rightarrow> Inl message
          | Inr applied \<Rightarrow>
              let required = map bm_Name (mf_Migrations manifest);
                  missing = absent_names required applied;
                  unexpected = absent_names applied required;
                  verification = \<lparr>lu_BaselineID = mf_BaselineID manifest, lu_SourceRelease = sourceRelease,
                    lu_MigrationCount = mf_MigrationCount manifest, lu_Status = [], lu_MissingMigrations = missing,
                    lu_UnexpectedMarkers = unexpected, lu_Blockers = [],
                    lu_VerifiedActions = [''loaded reviewed Go baseline manifest'', ''read Laravel migration marker names only'',
                      ''compared applied markers against reviewed baseline''], lu_ReadsApplicationDB = False\<rparr>
              in if missing \<noteq> [] then Inr (verification\<lparr>lu_Status := ''failed'',
                      lu_Blockers := [''source Laravel schema is missing reviewed baseline migration markers'']\<rparr>)
                 else if unexpected \<noteq> [] then Inr (verification\<lparr>lu_Status := ''review-required'',
                      lu_Blockers := [''migration table contains markers outside the reviewed Go baseline'']\<rparr>)
                 else if \<not> bp_GoBaselineApplicationEnabled (mf_HandoverPolicy manifest) then Inr (verification\<lparr>lu_Status := ''blocked'',
                      lu_Blockers := [''Go baseline application is disabled until route cutover and rollback rehearsal gates pass'']\<rparr>)
                 else Inr (verification\<lparr>lu_Status := ''ready''\<rparr>))))"

section \<open>Properties\<close>

lemma reviewed_disabled: "ReviewedBaseline e = Inr manifest \<Longrightarrow> \<not> bp_GoBaselineApplicationEnabled (mf_HandoverPolicy manifest)"
  unfolding ReviewedBaseline_def validateBaseline_def by (auto split: sum.splits option.splits if_splits)

lemma absent_names_empty: "absent_names names others = [] \<longleftrightarrow> set names \<subseteq> set others"
proof -
  have "absent_names names others = [] \<longleftrightarrow> set (absent_names names others) = {}" by simp
  also have "\<dots> \<longleftrightarrow> set names \<subseteq> set others" unfolding absent_names_def by auto
  finally show ?thesis .
qed

text \<open>
  While a baseline passes review no verification is ever \<open>ready\<close>: review demands that application is
  disabled, and the verifications then stop at \<open>blocked\<close>.
\<close>

lemma verification_never_ready:
  "VerifyEmptyInstall e tables = Inr v \<Longrightarrow> ei_Status v \<noteq> ''ready''"
  "VerifyLaravelUpgrade e applied release = Inr w \<Longrightarrow> lu_Status w \<noteq> ''ready''"
  using reviewed_disabled [of e] unfolding VerifyEmptyInstall_def VerifyLaravelUpgrade_def Let_def
  by (auto split: sum.splits option.splits if_splits)

text \<open>What a run of the statements does to the table and to the counts.\<close>

lemma mark_all_success:
  assumes "mark_all e batch names result rows = (Inr result', rows')"
  shows "\<exists>added. rows' = rows @ map (\<lambda>name. (name, batch)) added \<and> distinct added \<and> set added = set names - set (map fst rows)
    \<and> bs_Applied result' = bs_Applied result + int (length added)
    \<and> bs_Applied result' + bs_Skipped result' = bs_Applied result + bs_Skipped result + int (length names)"
  using assms
proof (induction names arbitrary: result rows)
  case (Cons name names)
  let ?new = "name \<notin> set (map fst rows)"
  let ?rows = "if ?new then rows @ [(name, batch)] else rows"
  let ?result = "if ?new then result\<lparr>bs_Applied := bs_Applied result + 1\<rparr> else result\<lparr>bs_Skipped := bs_Skipped result + 1\<rparr>"
  have "mark_all e batch names ?result ?rows = (Inr result', rows')"
    using Cons.prems by (auto simp: mark_def split: if_splits)
  from Cons.IH [OF this] obtain added where added: "rows' = ?rows @ map (\<lambda>name. (name, batch)) added" "distinct added"
    "set added = set names - set (map fst ?rows)" "bs_Applied result' = bs_Applied ?result + int (length added)"
    "bs_Applied result' + bs_Skipped result' = bs_Applied ?result + bs_Skipped ?result + int (length names)" by blast
  show ?case
  proof (cases ?new)
    case True
    then show ?thesis using added by (intro exI [of _ "name # added"]) auto
  next
    case False
    then show ?thesis using added by (intro exI [of _ added]) auto
  qed
qed simp

lemma mark_all_completes:
  assumes "me_fails e = (\<lambda>_. False)"
  shows "\<exists>result' rows'. mark_all e batch names result rows = (Inr result', rows')"
proof (induction names arbitrary: result rows)
  case (Cons name names)
  show ?case using Cons.IH assms by (simp add: mark_def)
qed simp

text \<open>
  The bridge is idempotent and completes what an interrupted run left: when marking the baseline
  succeeds, the table has its earlier rows followed by one row of the requested batch for each reviewed
  migration that was absent, the counts add up to the migrations of the baseline, and marking again, in
  whichever batch, adds nothing and reports all of them as skipped. The upgrade verification then finds no
  marker missing: it is \<open>blocked\<close> when the table holds reviewed markers only and asks for a review
  otherwise.
\<close>

lemma baseline_marked:
  assumes "MarkReviewedBaselineApplied e True options rows = (Inr result, rows')" "me_fails e = (\<lambda>_. False)"
    "ReviewedBaseline e = Inr manifest"
  shows "(\<exists>added. rows' = rows @ map (\<lambda>name. (name, bo_Batch options)) added \<and> distinct added
        \<and> set added = set (map bm_Name (mf_Migrations manifest)) - set (map fst rows) \<and> bs_Applied result = int (length added))
    \<and> bs_Applied result + bs_Skipped result = int (length (mf_Migrations manifest))
    \<and> (\<forall>options' result'. fst (MarkReviewedBaselineApplied e True options' rows') = Inr result' \<longrightarrow>
         snd (MarkReviewedBaselineApplied e True options' rows') = rows' \<and> bs_Applied result' = 0
         \<and> bs_Skipped result' = int (length (mf_Migrations manifest)))
    \<and> (release \<noteq> [] \<longrightarrow> (\<exists>v. VerifyLaravelUpgrade e (Some (AppliedMigrations e True rows')) release = Inr v \<and> lu_MissingMigrations v = []
         \<and> lu_Status v = (if set (map fst rows) \<subseteq> set (map bm_Name (mf_Migrations manifest)) then ''blocked'' else ''review-required'')))"
proof -
  let ?names = "map bm_Name (mf_Migrations manifest)"
  have run: "\<exists>added. t' = t @ map (\<lambda>name. (name, bo_Batch opts)) added \<and> distinct added \<and> set added = set ?names - set (map fst t)
      \<and> bs_Applied r = int (length added) \<and> bs_Applied r + bs_Skipped r = int (length (mf_Migrations manifest))"
    if "MarkReviewedBaselineApplied e True opts t = (Inr r, t')" for opts t t' r
  proof -
    note marked = that
    obtain start where "mark_all e (bo_Batch opts) ?names start t = (Inr r, t')" "bs_Applied start = 0" "bs_Skipped start = 0"
      using marked assms(3) unfolding MarkReviewedBaselineApplied_def ReviewedBaselineBridgePlan_def Let_def by (auto split: option.splits)
    with mark_all_success [OF this(1)] show ?thesis by simp
  qed
  obtain added where added: "rows' = rows @ map (\<lambda>name. (name, bo_Batch options)) added" "distinct added"
    "set added = set ?names - set (map fst rows)" "bs_Applied result = int (length added)"
    "bs_Applied result + bs_Skipped result = int (length (mf_Migrations manifest))" using run [OF assms(1)] by blast
  have names: "set (map fst rows') = set ?names \<union> set (map fst rows)" using added(1,3) by (auto simp: image_image)
  have again: "snd (MarkReviewedBaselineApplied e True opts rows') = rows' \<and> bs_Applied r = 0 \<and> bs_Skipped r = int (length (mf_Migrations manifest))"
    if "fst (MarkReviewedBaselineApplied e True opts rows') = Inr r" for opts r
  proof -
    note second = that
    obtain t' where t: "MarkReviewedBaselineApplied e True opts rows' = (Inr r, t')" using second by (metis prod.collapse)
    obtain added' where a: "t' = rows' @ map (\<lambda>name. (name, bo_Batch opts)) added'" "set added' = set ?names - set (map fst rows')"
      "bs_Applied r = int (length added')" "bs_Applied r + bs_Skipped r = int (length (mf_Migrations manifest))" using run [OF t] by blast
    have "set added' = {}" unfolding a(2) names Diff_eq_empty_iff by (rule Un_upper1)
    with a have "t' = rows'" "bs_Applied r = 0" "bs_Skipped r = int (length (mf_Migrations manifest))" by simp_all
    then show ?thesis using t by simp
  qed
  have "\<exists>v. VerifyLaravelUpgrade e (Some (AppliedMigrations e True rows')) release = Inr v \<and> lu_MissingMigrations v = []
      \<and> lu_Status v = (if set (map fst rows) \<subseteq> set ?names then ''blocked'' else ''review-required'')" if "release \<noteq> []"
  proof -
    have m: "absent_names ?names (sort (map fst rows')) = []" unfolding absent_names_empty set_sort names by blast
    have u: "absent_names (sort (map fst rows')) ?names = [] \<longleftrightarrow> set (map fst rows) \<subseteq> set ?names" unfolding absent_names_empty set_sort names by blast
    show ?thesis using that m u assms(2,3) reviewed_disabled [OF assms(3)]
      unfolding VerifyLaravelUpgrade_def AppliedMigrations_def Let_def by simp
  qed
  then show ?thesis using added again by blast
qed

text \<open>A manifest of two migrations, one of which the table has, beside a marker that was not reviewed.\<close>

definition menv0 :: migration_env where
  "menv0 = \<lparr>me_manifest = Inr \<lparr>mf_SchemaVersion = 1, mf_BaselineID = ''b'', mf_GeneratedOn = [], mf_SourceRuntime = [], mf_TargetRuntime = [],
       mf_SourceDirectory = [], mf_MigrationCount = 2, mf_AggregateSHA256 = ''00'', mf_ReviewStatus = [],
       mf_HandoverPolicy = \<lparr>bp_LaravelRemainsSchemaOwner = True, bp_GoBaselineApplicationEnabled = False, bp_DualWritesAllowed = False, bp_Rollback = []\<rparr>,
       mf_Redaction = [], mf_Migrations = [\<lparr>bm_Name = ''m1'', bm_File = ''f'', bm_SHA256 = ''s'', bm_Bytes = 1\<rparr>,
         \<lparr>bm_Name = ''m2'', bm_File = ''g'', bm_SHA256 = ''s'', bm_Bytes = 1\<rparr>]\<rparr>,
     me_sha256 = (\<lambda>_. [0]), me_fails = (\<lambda>_. False)\<rparr>"

lemma baseline_marked_witness:
  "\<exists>v. VerifyLaravelUpgrade menv0 (Some (AppliedMigrations menv0 True [(''m1'', 1), (''x'', 1), (''m2'', 7)])) ''r'' = Inr v
     \<and> lu_MissingMigrations v = [] \<and> lu_Status v = ''review-required''"
proof -
  obtain manifest where m: "ReviewedBaseline menv0 = Inr manifest" "map bm_Name (mf_Migrations manifest) = [''m1'', ''m2'']"
    by (simp add: ReviewedBaseline_def validateBaseline_def menv0_def hex_encode_def hex_digit_def)
  have "MarkReviewedBaselineApplied menv0 True \<lparr>bo_ConfirmBaselineID = ''b'', bo_Batch = 7\<rparr> [(''m1'', 1), (''x'', 1)]
      = (Inr \<lparr>bs_BaselineID = ''b'', bs_MigrationCount = 2, bs_Batch = 7, bs_Applied = 1, bs_Skipped = 1\<rparr>, [(''m1'', 1), (''x'', 1), (''m2'', 7)])"
    by (simp add: MarkReviewedBaselineApplied_def ReviewedBaselineBridgePlan_def ReviewedBaseline_def validateBaseline_def menv0_def
        hex_encode_def hex_digit_def validateBridgeOptions_def mark_def)
  from baseline_marked [OF this _ m(1), of "''r''"] m(2) show ?thesis by (auto simp: menv0_def split: if_splits)
qed

end
