(* ===== verification/HttpMiddleware.thy ===== *)
theory HttpMiddleware
  imports LegacyKeys
begin

text \<open>
  The middleware in front of every route (internal/httpx/middleware.go and response.go, in the order of
  \<open>NewRouter\<close> in internal/app/router.go): correlation identifiers, security headers, the access log and
  the recovery of panics.
\<close>

section \<open>Responses\<close>

text \<open>
  A handler is what it does to its \<open>ResponseWriter\<close>, what it logs, and whether it panics in the end. The
  writer is that of net/http. The headers are fixed by the first \<open>WriteHeader\<close> of a final status, which a
  \<open>Write\<close> does with status 200 when there was none; a later \<open>WriteHeader\<close> is ignored, and one of an
  informational status (1xx except 101) sends its own headers and fixes nothing. A \<open>Write\<close> is refused, with
  0 bytes written, after a status that allows no body; the bytes written in answer to a HEAD request are
  counted and discarded; and \<open>wr_room\<close> bytes can be written until the connection fails, after which a \<open>Write\<close>
  returns how many of its bytes went out. \<open>WriteHeader\<close> stands for calls with a status from 100 to 999: others
  panic. No handler of the program declares a \<open>Content-Length\<close>, against which net/http would check the body.
\<close>

datatype write_op = SetHeader string string | WriteHeader int | Write string

record response_writer =
  wr_head :: bool
  wr_room :: nat
  wr_header :: "string gomap"
  wr_status :: int
  wr_sent :: "string gomap"
  wr_body :: string

definition empty_writer :: "bool \<Rightarrow> nat \<Rightarrow> response_writer" where
  "empty_writer head room = \<lparr>wr_head = head, wr_room = room, wr_header = [], wr_status = 0, wr_sent = [], wr_body = []\<rparr>"

definition informational :: "int \<Rightarrow> bool" where
  "informational status \<longleftrightarrow> 100 \<le> status \<and> status \<le> 199 \<and> status \<noteq> 101"

definition body_allowed :: "int \<Rightarrow> bool" where
  "body_allowed status \<longleftrightarrow> \<not> (100 \<le> status \<and> status \<le> 199) \<and> status \<noteq> 204 \<and> status \<noteq> 304"

definition write_header :: "int \<Rightarrow> response_writer \<Rightarrow> response_writer" where
  "write_header status w = (if wr_status w \<noteq> 0 \<or> informational status then w else w\<lparr>wr_status := status, wr_sent := wr_header w\<rparr>)"

text \<open>The number that \<open>Write\<close> returns, for a writer whose headers are fixed.\<close>

definition written :: "response_writer \<Rightarrow> string \<Rightarrow> nat" where
  "written w payload =
     (if \<not> body_allowed (wr_status w) then 0 else if wr_head w then length payload else min (length payload) (wr_room w))"

fun do_op :: "write_op \<Rightarrow> response_writer \<Rightarrow> response_writer" where
  "do_op (SetHeader k v) w = w\<lparr>wr_header := AList.update k v (wr_header w)\<rparr>"
| "do_op (WriteHeader status) w = write_header status w"
| "do_op (Write payload) w =
     (let w' = write_header 200 w; n = written w' payload
      in if wr_head w' then w' else w'\<lparr>wr_body := wr_body w' @ take n payload, wr_room := wr_room w' - n\<rparr>)"

text \<open>When a handler returns without writing, net/http sends status 200.\<close>

definition respond :: "response_writer \<Rightarrow> write_op list \<Rightarrow> response_writer" where
  "respond w ops = write_header 200 (fold do_op ops w)"

datatype log_entry = AccessLog string int int | PanicLog string

type_synonym outcome = "write_op list \<times> log_entry list \<times> bool"
type_synonym http_handler = "string \<Rightarrow> response_writer \<Rightarrow> outcome"

section \<open>Correlation identifiers\<close>

definition maxCorrelationIDLength :: nat where "maxCorrelationIDLength = 128"

definition correlation_char :: "char \<Rightarrow> bool" where
  "correlation_char c \<longleftrightarrow> (97 \<le> byte_of c \<and> byte_of c \<le> 122) \<or> (65 \<le> byte_of c \<and> byte_of c \<le> 90) \<or> is_digit c \<or> c \<in> set ''._:-''"

definition validCorrelationID :: "string \<Rightarrow> bool" where
  "validCorrelationID s \<longleftrightarrow> s \<noteq> [] \<and> length s \<le> maxCorrelationIDLength \<and> list_all correlation_char s"

text \<open>\<open>strconv.FormatUint(_, 36)\<close> and the layout \<open>20060102T150405.000000000\<close>.\<close>

definition base36_digit :: "nat \<Rightarrow> char" where
  "base36_digit n = ''0123456789abcdefghijklmnopqrstuvwxyz'' ! (n mod 36)"

fun base36 :: "nat \<Rightarrow> string" where
  "base36 n = (if n < 36 then [base36_digit n] else base36 (n div 36) @ [base36_digit n])"

declare base36.simps [simp del]

definition compact_time :: "instant \<Rightarrow> string" where
  "compact_time t =
     (let (y, m, d) = civil (t div day_ns); r = t mod day_ns; p2 = (\<lambda>n. pad 2 (nat n))
      in year_text y @ p2 m @ p2 d @ ''T'' @ p2 (r div hour) @ p2 (r mod hour div minute) @ p2 (r mod minute div second) @ ''.''
         @ pad 9 (nat (r mod second)))"

text \<open>The bytes that \<open>rand.Read\<close> gives, the clock, and the counter \<open>fallbackCorrelationSequence\<close> of 64 bits.\<close>

record correlation_env =
  co_rand :: "nat list option"
  co_now :: instant
  co_sequence :: nat

definition newCorrelationID :: "correlation_env \<Rightarrow> string \<times> nat" where
  "newCorrelationID e =
     (case co_rand e of
        Some identifier \<Rightarrow> (hex_encode identifier, co_sequence e)
      | None \<Rightarrow> let n = (co_sequence e + 1) mod 2 ^ 64 in (''request-'' @ compact_time (co_now e) @ ''-'' @ base36 n, n))"

definition correlation_of :: "correlation_env \<Rightarrow> string \<Rightarrow> string" where
  "correlation_of e header = (let s = TrimSpace header in if validCorrelationID s then s else fst (newCorrelationID e))"

section \<open>The middleware\<close>

definition CorrelationID :: "correlation_env \<Rightarrow> string \<Rightarrow> http_handler \<Rightarrow> response_writer \<Rightarrow> outcome" where
  "CorrelationID e header next_handler w =
     (let correlation = correlation_of e header; op = SetHeader ''X-Correlation-ID'' correlation;
          (ops, logs, panics) = next_handler correlation (do_op op w)
      in (op # ops, logs, panics))"

definition secure_headers :: "string gomap" where
  "secure_headers = [(''X-Content-Type-Options'', ''nosniff''), (''X-Frame-Options'', ''DENY''), (''Referrer-Policy'', ''no-referrer''),
     (''Content-Security-Policy'', ''default-src '' @ [char_of (39::nat)] @ ''none'' @ [char_of (39::nat)] @ ''; frame-ancestors ''
        @ [char_of (39::nat)] @ ''none'' @ [char_of (39::nat)]),
     (''Permissions-Policy'', ''camera=(), geolocation=(), microphone=()''),
     (''Strict-Transport-Security'', ''max-age=31536000; includeSubDomains''), (''X-Permitted-Cross-Domain-Policies'', ''none'')]"

definition SecureHeaders :: "http_handler \<Rightarrow> http_handler" where
  "SecureHeaders next_handler = (\<lambda>correlation w.
     let sets = map (\<lambda>(k, v). SetHeader k v) secure_headers; (ops, logs, panics) = next_handler correlation (fold do_op sets w)
     in (sets @ ops, logs, panics))"

text \<open>\<open>WriteJSON\<close> of an error envelope; \<open>encode\<close> is the JSON encoder with its final newline.\<close>

definition error_ops :: "(jmap \<Rightarrow> string) \<Rightarrow> string \<Rightarrow> int \<Rightarrow> string \<Rightarrow> string \<Rightarrow> write_op list" where
  "error_ops encode correlation status code message =
     [SetHeader ''Content-Type'' ''application/json; charset=utf-8'', WriteHeader status,
      Write (case WriteError correlation status code message :: unit reply of Message _ m \<Rightarrow> encode m | _ \<Rightarrow> [])]"

definition Recoverer :: "(jmap \<Rightarrow> string) \<Rightarrow> http_handler \<Rightarrow> http_handler" where
  "Recoverer encode next_handler = (\<lambda>correlation w. let (ops, logs, panics) = next_handler correlation w
     in if panics then (ops @ error_ops encode correlation 500 ''INTERNAL_ERROR'' ''The request could not be completed.'', logs @ [PanicLog correlation], False)
        else (ops, logs, False))"

text \<open>
  \<open>statusRecorder\<close> passes on the first \<open>WriteHeader\<close> only, and one of status 200 before a \<open>Write\<close> when
  there was none; it keeps the status, and counts the bytes that the writer behind it says it has written.
\<close>

record status_recorder =
  sr_status :: int
  sr_bytes :: int
  sr_writer :: response_writer
  sr_inner :: "write_op list"

definition pass_on :: "write_op \<Rightarrow> status_recorder \<Rightarrow> status_recorder" where
  "pass_on op s = s\<lparr>sr_writer := do_op op (sr_writer s), sr_inner := sr_inner s @ [op]\<rparr>"

definition record_header :: "int \<Rightarrow> status_recorder \<Rightarrow> status_recorder" where
  "record_header status s = (if sr_status s \<noteq> 0 then s else pass_on (WriteHeader status) (s\<lparr>sr_status := status\<rparr>))"

fun record_op :: "write_op \<Rightarrow> status_recorder \<Rightarrow> status_recorder" where
  "record_op (SetHeader k v) s = pass_on (SetHeader k v) s"
| "record_op (WriteHeader status) s = record_header status s"
| "record_op (Write payload) s =
     (let s' = (if sr_status s = 0 then record_header 200 s else s);
          n = written (write_header 200 (sr_writer s')) payload
      in (pass_on (Write payload) s')\<lparr>sr_bytes := sr_bytes s' + int n\<rparr>)"

definition recorded :: "response_writer \<Rightarrow> write_op list \<Rightarrow> status_recorder" where
  "recorded w ops = fold record_op ops \<lparr>sr_status = 0, sr_bytes = 0, sr_writer = w, sr_inner = []\<rparr>"

definition AccessLogger :: "http_handler \<Rightarrow> http_handler" where
  "AccessLogger next_handler = (\<lambda>correlation w. let (ops, logs, panics) = next_handler correlation w; s = recorded w ops
     in (sr_inner s, if panics then logs else logs @ [AccessLog correlation (if sr_status s = 0 then 200 else sr_status s) (sr_bytes s)], panics))"

definition middleware_chain :: "correlation_env \<Rightarrow> (jmap \<Rightarrow> string) \<Rightarrow> string \<Rightarrow> http_handler \<Rightarrow> response_writer \<Rightarrow> outcome" where
  "middleware_chain e encode header handler w = CorrelationID e header (SecureHeaders (AccessLogger (Recoverer encode handler))) w"

section \<open>Properties\<close>

lemma hex_digit_correlation: "correlation_char (hex_digit n)"
proof -
  have "hex_digit n \<in> set ''0123456789abcdef''" unfolding hex_digit_def by (rule nth_mem) simp
  moreover have "list_all correlation_char ''0123456789abcdef''" by (simp add: correlation_char_def is_digit_def byte_of_def)
  ultimately show ?thesis unfolding list_all_iff by blast
qed

lemma base36_digit_correlation: "correlation_char (base36_digit n)"
proof -
  have "base36_digit n \<in> set ''0123456789abcdefghijklmnopqrstuvwxyz''" unfolding base36_digit_def by (rule nth_mem) simp
  moreover have "list_all correlation_char ''0123456789abcdefghijklmnopqrstuvwxyz''" by (simp add: correlation_char_def is_digit_def byte_of_def)
  ultimately show ?thesis unfolding list_all_iff by blast
qed

lemma pad_correlation: "list_all correlation_char (pad k n)"
  using pad_digits [of k n] by (auto simp: list_all_iff correlation_char_def)

lemma base36_correlation: "list_all correlation_char (base36 n) \<and> base36 n \<noteq> []"
proof (induction n rule: base36.induct)
  case (1 n)
  show ?case
  proof (cases "n < 36")
    case True
    then show ?thesis by (subst base36.simps) (simp add: base36_digit_correlation, subst base36.simps, simp)
  next
    case False
    then show ?thesis using 1 by (subst base36.simps) (simp add: base36_digit_correlation, subst base36.simps, simp)
  qed
qed

lemma base36_length: "n < 36 ^ Suc k \<Longrightarrow> length (base36 n) \<le> Suc k"
proof (induction k arbitrary: n)
  case 0
  then show ?case by (subst base36.simps) simp
next
  case (Suc k)
  have "n div 36 < 36 ^ Suc k" using Suc.prems by (simp add: less_mult_imp_div_less)
  then show ?case using Suc.IH by (subst base36.simps) simp
qed

lemma year_text_digits:
  assumes "0 \<le> y" "y < 10000"
  shows "year_text y = pad 4 (nat y)"
  using assms by (simp add: year_text_def)

lemma compact_time_correlation:
  assumes "four_digit_year t"
  shows "list_all correlation_char (compact_time t) \<and> length (compact_time t) = 25"
proof -
  obtain y m d where c: "civil (t div day_ns) = (y, m, d)" by (metis prod_cases3)
  then have "year_text y = pad 4 (nat y)" using assms by (simp add: four_digit_year_def year_text_digits)
  moreover have "correlation_char (CHR ''T'')" "correlation_char (CHR ''.'')" by (simp_all add: correlation_char_def byte_of_def)
  ultimately show ?thesis unfolding compact_time_def c by (simp add: Let_def pad_correlation)
qed

text \<open>Every identifier that a request gets is valid.\<close>

lemma correlation_valid:
  assumes "\<And>bs. co_rand e = Some bs \<Longrightarrow> length bs = 16" "four_digit_year (co_now e)"
  shows "validCorrelationID (correlation_of e header)"
proof -
  have "validCorrelationID (fst (newCorrelationID e))"
  proof (cases "co_rand e")
    case (Some bs)
    have "list_all correlation_char (hex_encode bs')" for bs' by (induction bs') (simp_all add: hex_encode_def hex_digit_correlation)
    moreover have "length (hex_encode bs) = 32" "hex_encode bs \<noteq> []" using assms(1) [OF Some] length_hex_encode [of bs] by (auto simp del: length_hex_encode)
    ultimately show ?thesis using Some by (simp add: newCorrelationID_def validCorrelationID_def maxCorrelationIDLength_def)
  next
    case None
    have "(co_sequence e + 1) mod 2 ^ 64 < 36 ^ Suc 12" by (rule less_trans [of _ "2 ^ 64"]) simp_all
    from base36_length [OF this] have "length (base36 ((co_sequence e + 1) mod 2 ^ 64)) \<le> 13" by simp
    moreover have "list_all correlation_char ''request-''" "correlation_char (CHR ''-'')" by (simp_all add: correlation_char_def byte_of_def)
    ultimately show ?thesis using None compact_time_correlation [OF assms(2)] base36_correlation
      by (simp add: newCorrelationID_def validCorrelationID_def maxCorrelationIDLength_def Let_def)
  qed
  then show ?thesis by (simp add: correlation_of_def Let_def)
qed

text \<open>The specification of an identifier, by its characters.\<close>

definition identifier_chars :: string where
  "identifier_chars = ''abcdefghijklmnopqrstuvwxyzABCDEFGHIJKLMNOPQRSTUVWXYZ0123456789._:-''"

definition safe_identifier :: "string \<Rightarrow> bool" where
  "safe_identifier s \<longleftrightarrow> 1 \<le> length s \<and> length s \<le> 128
     \<and> set s \<subseteq> set identifier_chars"

lemma correlation_chars:
  "correlation_char c \<longleftrightarrow> c \<in> set identifier_chars"
proof -
  define codes where "codes = [97..<123] @ [65..<91] @ [48..<58] @ [46, 95, 58, 45 :: nat]"
  have alphabet: "identifier_chars = map char_of codes" unfolding codes_def by code_simp
  have code: "c \<in> char_of ` set codes \<longleftrightarrow> of_char c \<in> set codes"
  proof
    assume "c \<in> char_of ` set codes"
    then obtain n where "n \<in> set codes" "c = char_of n" by blast
    moreover have "list_all (\<lambda>n. n < 256) codes" unfolding codes_def by code_simp
    ultimately show "of_char c \<in> set codes" by (auto simp: list_all_iff of_char_of)
  qed (metis char_of_char imageI)
  have punctuation: "c \<in> set ''._:-'' \<longleftrightarrow> of_char c \<in> {46, 95, 58, 45 :: nat}"
  proof -
    have "c = char_of n \<longleftrightarrow> of_char c = n" if "n < 256" for n :: nat using that by (metis char_of_char of_char_of mod_less)
    moreover have "''._:-'' = map char_of [46, 95, 58, 45 :: nat]" by code_simp
    ultimately show ?thesis by simp
  qed
  have "n \<in> set codes \<longleftrightarrow> n \<in> {97..<123} \<or> n \<in> {65..<91} \<or> n \<in> {48..<58} \<or> n \<in> {46, 95, 58, 45}" for n
    unfolding codes_def set_append set_upt by auto
  then show ?thesis unfolding alphabet set_map code correlation_char_def punctuation byte_of_def is_digit_def by force
qed

lemma safe_identifier: "safe_identifier s \<longleftrightarrow> validCorrelationID s"
  unfolding safe_identifier_def validCorrelationID_def maxCorrelationIDLength_def list_all_iff correlation_chars [abs_def] by (cases s) auto

text \<open>The recorder is transparent, and what it keeps is what was sent.\<close>

definition statuses_ok :: "write_op list \<Rightarrow> bool" where
  "statuses_ok ops \<longleftrightarrow> list_all (\<lambda>op. case op of WriteHeader n \<Rightarrow> 200 \<le> n | _ \<Rightarrow> True) ops"

definition recorder_ok :: "status_recorder \<Rightarrow> bool" where
  "recorder_ok s \<longleftrightarrow> sr_status s = wr_status (sr_writer s) \<and> (\<not> wr_head (sr_writer s) \<longrightarrow> sr_bytes s = int (length (wr_body (sr_writer s))))"

lemma record_op_step:
  assumes "case op of WriteHeader n \<Rightarrow> 200 \<le> n | _ \<Rightarrow> True" "recorder_ok s"
  shows "sr_writer (record_op op s) = do_op op (sr_writer s) \<and> recorder_ok (record_op op s)"
  using assms
  by (cases op) (auto simp: recorder_ok_def record_header_def pass_on_def write_header_def informational_def written_def Let_def)

lemma record_ops:
  assumes "statuses_ok ops" "recorder_ok s"
  shows "sr_writer (fold record_op ops s) = fold do_op ops (sr_writer s) \<and> recorder_ok (fold record_op ops s)"
  using assms
proof (induction ops arbitrary: s)
  case (Cons op ops)
  have "case op of WriteHeader n \<Rightarrow> 200 \<le> n | _ \<Rightarrow> True" "statuses_ok ops" using Cons.prems(1) by (simp_all add: statuses_ok_def)
  with record_op_step [OF this(1) Cons.prems(2)] Cons.IH [of "record_op op s"] show ?case by simp
qed simp

lemma inner_ops: "fold do_op (sr_inner s) w = sr_writer s \<Longrightarrow> fold do_op (sr_inner (fold record_op ops s)) w = sr_writer (fold record_op ops s)"
proof (induction ops arbitrary: s)
  case (Cons op ops)
  have "fold do_op (sr_inner (record_op op s)) w = sr_writer (record_op op s)"
    using Cons.prems by (cases op) (simp_all add: record_header_def pass_on_def Let_def)
  then show ?case using Cons.IH by simp
qed simp

lemma recorded_transparent:
  assumes "statuses_ok ops" "wr_status w = 0" "wr_body w = []"
  shows "fold do_op (sr_inner (recorded w ops)) w = fold do_op ops w" "sr_status (recorded w ops) = wr_status (fold do_op ops w)"
    "\<not> wr_head (fold do_op ops w) \<Longrightarrow> sr_bytes (recorded w ops) = int (length (wr_body (fold do_op ops w)))"
proof -
  let ?s = "\<lparr>sr_status = 0, sr_bytes = 0, sr_writer = w, sr_inner = []\<rparr>"
  have ok: "sr_writer (fold record_op ops ?s) = fold do_op ops w" "recorder_ok (fold record_op ops ?s)"
    using record_ops [OF assms(1), of ?s] assms(2,3) by (simp_all add: recorder_ok_def)
  then show "fold do_op (sr_inner (recorded w ops)) w = fold do_op ops w" "sr_status (recorded w ops) = wr_status (fold do_op ops w)"
    "\<not> wr_head (fold do_op ops w) \<Longrightarrow> sr_bytes (recorded w ops) = int (length (wr_body (fold do_op ops w)))"
    using inner_ops [of ?s w ops] by (simp_all add: recorded_def recorder_ok_def)
qed

lemma fold_head [simp]: "wr_head (fold do_op ops w) = wr_head w"
proof (induction ops arbitrary: w)
  case (Cons op ops)
  have "wr_head (do_op op w) = wr_head w" by (cases op) (simp_all add: write_header_def Let_def)
  then show ?case using Cons by simp
qed simp

text \<open>A header that a handler does not set is sent as it was.\<close>

definition leaves :: "string \<Rightarrow> write_op list \<Rightarrow> bool" where
  "leaves k ops \<longleftrightarrow> list_all (\<lambda>op. case op of SetHeader k' _ \<Rightarrow> k' \<noteq> k | _ \<Rightarrow> True) ops"

definition holds :: "string \<Rightarrow> string \<Rightarrow> response_writer \<Rightarrow> bool" where
  "holds k v w \<longleftrightarrow> map_of (wr_header w) k = Some v \<and> (wr_status w \<noteq> 0 \<longrightarrow> map_of (wr_sent w) k = Some v)"

lemma holds_fold: "leaves k ops \<Longrightarrow> holds k v w \<Longrightarrow> holds k v (fold do_op ops w)"
proof (induction ops arbitrary: w)
  case (Cons op ops)
  have "holds k v (do_op op w)" using Cons.prems
    by (cases op) (auto simp: holds_def leaves_def write_header_def informational_def gomap Let_def)
  then show ?case using Cons by (simp add: leaves_def)
qed simp

lemma holds_respond: "holds k v w \<Longrightarrow> map_of (wr_sent (write_header 200 w)) k = Some v"
  by (auto simp: holds_def write_header_def informational_def)

lemma set_headers:
  "fold do_op (map (\<lambda>(k, v). SetHeader k v) hs) w = w\<lparr>wr_header := fold (\<lambda>(k, v). AList.update k v) hs (wr_header w)\<rparr>"
  by (induction hs arbitrary: w) auto

lemma header_names: "distinct (''X-Correlation-ID'' # map fst secure_headers)"
  by (simp add: secure_headers_def)

lemma fold_updates:
  "distinct (map fst hs) \<Longrightarrow> (k, v) \<in> set hs \<Longrightarrow> map_of (fold (\<lambda>(k, v). AList.update k v) hs m) k = Some v"
proof (induction hs arbitrary: m)
  case (Cons h hs)
  have other: "k \<notin> set (map fst hs) \<Longrightarrow> map_of (fold (\<lambda>(k, v). AList.update k v) hs m') k = map_of m' k" for m' k
    by (induction hs arbitrary: m') (auto simp: gomap split: prod.splits)
  show ?case
  proof (cases "(k, v) \<in> set hs")
    case False
    then have "h = (k, v)" "k \<notin> set (map fst hs)" using Cons.prems by (auto simp: image_iff)
    then show ?thesis by (simp add: other gomap)
  qed (use Cons in auto)
qed simp

definition envelope :: "(jmap \<Rightarrow> string) \<Rightarrow> string \<Rightarrow> string" where
  "envelope encode correlation = encode [(''error'', JObj ([(''code'', JStr ''INTERNAL_ERROR''), (''message'', JStr ''The request could not be completed.'')]
     @ (if correlation = [] then [] else [(''correlationId'', JStr correlation)])))]"

text \<open>The envelope on a writer: it fixes status 500 when there is none, and what it adds to the body.\<close>

definition final_status :: "bool \<Rightarrow> response_writer \<Rightarrow> int" where
  "final_status panics w = (if wr_status w \<noteq> 0 then wr_status w else if panics then 500 else 200)"

lemma write_effect:
  assumes "wr_status w \<noteq> 0"
  shows "wr_status (do_op (Write payload) w) = wr_status w"
    "wr_body (do_op (Write payload) w) = wr_body w @ (if wr_head w \<or> \<not> body_allowed (wr_status w) then [] else take (wr_room w) payload)"
  using assms by (auto simp: write_header_def written_def Let_def min_def)

lemma error_ops_effect:
  fixes encode c w
  defines "w' \<equiv> fold do_op (error_ops encode c 500 ''INTERNAL_ERROR'' ''The request could not be completed.'') w"
  shows "wr_status w' = final_status True w"
    "wr_body w' = wr_body w @ (if wr_head w \<or> \<not> body_allowed (final_status True w) then [] else take (wr_room w) (envelope encode c))"
proof -
  define w1 where "w1 = do_op (WriteHeader 500) (do_op (SetHeader ''Content-Type'' ''application/json; charset=utf-8'') w)"
  have w1: "wr_status w1 = final_status True w" "wr_head w1 = wr_head w" "wr_room w1 = wr_room w" "wr_body w1 = wr_body w" "wr_status w1 \<noteq> 0"
    by (simp_all add: w1_def write_header_def informational_def final_status_def)
  have "w' = do_op (Write (envelope encode c)) w1" by (simp add: w'_def w1_def error_ops_def WriteError_def envelope_def del: do_op.simps)
  then show "wr_status w' = final_status True w"
    "wr_body w' = wr_body w @ (if wr_head w \<or> \<not> body_allowed (final_status True w) then [] else take (wr_room w) (envelope encode c))"
    by (simp_all only: write_effect [OF w1(5)] w1(1-4))
qed

text \<open>Status and body do not depend on the headers that are set already.\<close>

definition same_course :: "response_writer \<Rightarrow> response_writer \<Rightarrow> bool" where
  "same_course w w' \<longleftrightarrow> wr_head w = wr_head w' \<and> wr_room w = wr_room w' \<and> wr_status w = wr_status w' \<and> wr_body w = wr_body w'"

lemma ops_headers: "same_course w w' \<Longrightarrow> same_course (fold do_op ops w) (fold do_op ops w')"
proof (induction ops arbitrary: w w')
  case (Cons op ops)
  have "same_course (do_op op w) (do_op op w')"
    using Cons.prems by (cases op) (auto simp: same_course_def write_header_def written_def Let_def)
  then show ?case unfolding fold_simps by (rule Cons.IH)
qed simp

text \<open>What \<open>Recoverer\<close> makes of the operations of a handler, and how they end on a writer with headers set.\<close>

definition recovered_ops :: "(jmap \<Rightarrow> string) \<Rightarrow> string \<Rightarrow> write_op list \<Rightarrow> bool \<Rightarrow> write_op list" where
  "recovered_ops encode c ops panics =
     ops @ (if panics then error_ops encode c 500 ''INTERNAL_ERROR'' ''The request could not be completed.'' else [])"

lemma recovered_effect:
  assumes "same_course w w0"
  shows "wr_status (write_header 200 (fold do_op (recovered_ops encode c ops panics) w)) = final_status panics (fold do_op ops w0)"
    "wr_body (write_header 200 (fold do_op (recovered_ops encode c ops panics) w)) = wr_body (fold do_op ops w0)
       @ (if \<not> panics \<or> wr_head w0 \<or> \<not> body_allowed (final_status panics (fold do_op ops w0)) then []
          else take (wr_room (fold do_op ops w0)) (envelope encode c))"
proof -
  have same: "same_course (fold do_op ops w) (fold do_op ops w0)" by (rule ops_headers [OF assms])
  have header: "wr_status (write_header 200 x) = (if wr_status x = 0 then 200 else wr_status x)" "wr_body (write_header 200 x) = wr_body x" for x
    by (simp_all add: write_header_def informational_def)
  show "wr_status (write_header 200 (fold do_op (recovered_ops encode c ops panics) w)) = final_status panics (fold do_op ops w0)"
    "wr_body (write_header 200 (fold do_op (recovered_ops encode c ops panics) w)) = wr_body (fold do_op ops w0)
       @ (if \<not> panics \<or> wr_head w0 \<or> \<not> body_allowed (final_status panics (fold do_op ops w0)) then []
          else take (wr_room (fold do_op ops w0)) (envelope encode c))"
    using same assms by (cases panics; simp add: recovered_ops_def header error_ops_effect same_course_def final_status_def)+
qed

lemma recovered_leaves: "leaves k ops \<Longrightarrow> k \<noteq> ''Content-Type'' \<Longrightarrow> leaves k (recovered_ops encode c ops panics)"
  by (auto simp: recovered_ops_def leaves_def error_ops_def)

lemma recovered_statuses: "statuses_ok ops \<Longrightarrow> statuses_ok (recovered_ops encode c ops panics)"
  by (simp add: recovered_ops_def statuses_ok_def error_ops_def)

text \<open>The writer when the two outer middlewares have set their headers.\<close>

definition safe_writer :: "string \<Rightarrow> response_writer \<Rightarrow> response_writer" where
  "safe_writer c w = fold do_op (SetHeader ''X-Correlation-ID'' c # map (\<lambda>(k, v). SetHeader k v) secure_headers) w"

lemma safe_writer_simps: "wr_status (safe_writer c w) = wr_status w" "wr_body (safe_writer c w) = wr_body w" "same_course (safe_writer c w) w"
  "wr_header (safe_writer c w) = fold (\<lambda>(k, v). AList.update k v) ((''X-Correlation-ID'', c) # secure_headers) (wr_header w)"
  by (simp_all add: safe_writer_def set_headers same_course_def)

lemma safe_writer_holds:
  assumes "(k, v) \<in> set ((''X-Correlation-ID'', c) # secure_headers)" "\<forall>k \<in> set (''X-Correlation-ID'' # map fst secure_headers). leaves k ops"
  shows "holds k v (fold do_op (recovered_ops encode c ops panics) (safe_writer c (empty_writer head room)))"
proof (intro holds_fold recovered_leaves)
  have k: "k \<in> set (''X-Correlation-ID'' # map fst secure_headers)" using assms(1) by (force simp: image_iff)
  then show "leaves k ops" using assms(2) by blast
  have "''Content-Type'' \<notin> set (''X-Correlation-ID'' # map fst secure_headers)" by (simp add: secure_headers_def)
  then show "k \<noteq> ''Content-Type''" using k by blast
  have "map_of (wr_header (safe_writer c (empty_writer head room))) k = Some v" unfolding safe_writer_simps using assms(1) header_names by (intro fold_updates) simp_all
  then show "holds k v (safe_writer c (empty_writer head room))" by (simp add: holds_def safe_writer_simps empty_writer_def)
qed

text \<open>
  C37. In the years 0 to 9999, and with a random source that fails or gives as many bytes as it is asked for,
  whatever handler is behind the middleware that declares no content length and sends final statuses
  only, the request gets a correlation identifier of 1 to 128 letters, digits and characters of . _ : -, which is the client's own when
  that is one; provided the handler leaves these headers alone, the response carries the identifier and the
  seven security headers; a panic does not get past the middleware; the access log has one entry, with the
  identifier, the status that was sent and, except for a HEAD request, the number of bytes of the body that
  the connection took. A handler that panics before it writes is answered 500 with the error envelope; one that
  has begun its response keeps the status it sent, and the envelope is appended to its body, where the method and
  the status allow one and as far as the connection takes it.
\<close>

theorem middleware_contract:
  fixes head room
  defines "w \<equiv> empty_writer head room"
  assumes rand: "\<And>bs. co_rand e = Some bs \<Longrightarrow> length bs = 16" and year: "four_digit_year (co_now e)"
    and handler: "handler (correlation_of e header) (safe_writer (correlation_of e header) w) = (ops, logs, panics)" and ok: "statuses_ok ops"
    and leaves: "\<forall>k \<in> set (''Content-Length'' # ''X-Correlation-ID'' # map fst secure_headers). leaves k ops"
  shows "\<exists>ops' logs' n. middleware_chain e encode header handler w = (ops', logs @ logs', False)
    \<and> safe_identifier (correlation_of e header)
    \<and> (safe_identifier (TrimSpace header) \<longrightarrow> correlation_of e header = TrimSpace header)
    \<and> map_of (wr_sent (respond w ops')) ''X-Correlation-ID'' = Some (correlation_of e header)
    \<and> (\<forall>(k, v) \<in> set secure_headers. map_of (wr_sent (respond w ops')) k = Some v)
    \<and> map fst secure_headers = [''X-Content-Type-Options'', ''X-Frame-Options'', ''Referrer-Policy'', ''Content-Security-Policy'',
         ''Permissions-Policy'', ''Strict-Transport-Security'', ''X-Permitted-Cross-Domain-Policies'']
    \<and> logs' = (if panics then [PanicLog (correlation_of e header)] else []) @ [AccessLog (correlation_of e header) (wr_status (respond w ops')) n]
    \<and> (\<not> head \<longrightarrow> n = int (length (wr_body (respond w ops'))))
    \<and> wr_status (respond w ops') = (if panics \<and> wr_status (fold do_op ops w) = 0 then 500 else wr_status (respond w ops))
    \<and> wr_body (respond w ops') = wr_body (respond w ops)
        @ (if panics \<and> \<not> head \<and> body_allowed (wr_status (respond w ops')) then take (wr_room (respond w ops)) (envelope encode (correlation_of e header)) else [])"
proof -
  let ?c = "correlation_of e header"
  define ops1 where "ops1 = recovered_ops encode ?c ops panics"
  define ops' where "ops' = SetHeader ''X-Correlation-ID'' ?c # map (\<lambda>(k, v). SetHeader k v) secure_headers @ sr_inner (recorded (safe_writer ?c w) ops1)"
  have fresh: "wr_status (safe_writer ?c w) = 0" "wr_body (safe_writer ?c w) = []" "wr_head (safe_writer ?c w) = head"
    using safe_writer_simps(3) [of ?c w] by (simp_all add: safe_writer_simps w_def empty_writer_def same_course_def)
  note rec = recorded_transparent [OF recovered_statuses [OF ok] fresh(1,2), of encode ?c panics, folded ops1_def]
  have "fold do_op ops' w = fold do_op (sr_inner (recorded (safe_writer ?c w) ops1)) (safe_writer ?c w)" by (simp add: ops'_def safe_writer_def)
  then have r: "respond w ops' = write_header 200 (fold do_op ops1 (safe_writer ?c w))" by (simp only: respond_def rec(1))
  have chain: "middleware_chain e encode header handler w = (ops', logs @ (if panics then [PanicLog ?c] else [])
      @ [AccessLog ?c (if sr_status (recorded (safe_writer ?c w) ops1) = 0 then 200 else sr_status (recorded (safe_writer ?c w) ops1))
          (sr_bytes (recorded (safe_writer ?c w) ops1))], False)"
    using handler by (simp add: middleware_chain_def CorrelationID_def SecureHeaders_def AccessLogger_def Recoverer_def Let_def
        ops1_def recovered_ops_def ops'_def safe_writer_def)
  have status: "wr_status (respond w ops') = (if sr_status (recorded (safe_writer ?c w) ops1) = 0 then 200 else sr_status (recorded (safe_writer ?c w) ops1))"
    "\<not> head \<Longrightarrow> int (length (wr_body (respond w ops'))) = sr_bytes (recorded (safe_writer ?c w) ops1)"
    using rec(2,3) fresh(3) unfolding r by (simp_all add: write_header_def informational_def)
  have sent: "map_of (wr_sent (respond w ops')) k = Some v" if "(k, v) \<in> set ((''X-Correlation-ID'', ?c) # secure_headers)" for k v
    unfolding r unfolding ops1_def w_def by (rule holds_respond [OF safe_writer_holds [OF that]]) (use leaves in simp)
  have base: "wr_status (respond w ops) = (if wr_status (fold do_op ops w) = 0 then 200 else wr_status (fold do_op ops w))"
    "wr_body (respond w ops) = wr_body (fold do_op ops w)" "wr_room (respond w ops) = wr_room (fold do_op ops w)"
    by (simp_all add: respond_def write_header_def informational_def)
  have wh: "wr_head w = head" by (simp add: w_def empty_writer_def)
  note eff = recovered_effect [OF safe_writer_simps(3), of encode ?c ops panics ?c w, folded ops1_def, folded r]
  have e1: "wr_status (respond w ops') = (if panics \<and> wr_status (fold do_op ops w) = 0 then 500 else wr_status (respond w ops))"
    using eff(1) base(1) by (simp add: final_status_def)
  have e2: "wr_body (respond w ops') = wr_body (respond w ops)
        @ (if panics \<and> \<not> head \<and> body_allowed (wr_status (respond w ops')) then take (wr_room (respond w ops)) (envelope encode ?c) else [])"
    unfolding base(2,3) eff(1) using eff(2) wh by auto
  have "safe_identifier (TrimSpace header) \<longrightarrow> ?c = TrimSpace header" by (simp add: correlation_of_def Let_def safe_identifier)
  moreover have "map fst secure_headers = [''X-Content-Type-Options'', ''X-Frame-Options'', ''Referrer-Policy'', ''Content-Security-Policy'',
         ''Permissions-Policy'', ''Strict-Transport-Security'', ''X-Permitted-Cross-Domain-Policies'']" by (simp add: secure_headers_def)
  ultimately show ?thesis
    using chain correlation_valid [OF rand year, of header, folded safe_identifier] sent status e1 e2
    by (intro exI [of _ ops'] exI [of _ "(if panics then [PanicLog ?c] else []) @ [AccessLog ?c (wr_status (respond w ops')) (sr_bytes (recorded (safe_writer ?c w) ops1))]"]
        exI [of _ "sr_bytes (recorded (safe_writer ?c w) ops1)"] conjI) auto
qed

definition correlation0 :: correlation_env where
  "correlation0 = \<lparr>co_rand = Some (replicate 16 0), co_now = 0, co_sequence = 0\<rparr>"

theorem middleware_contract_witness:
  "\<exists>ops' logs'. middleware_chain correlation0 (\<lambda>_. ''e'') ''id-1'' (\<lambda>_ _. ([Write ''a''], [], True)) (empty_writer False 9) = (ops', logs', False)
     \<and> map_of (wr_sent (respond (empty_writer False 9) ops')) ''X-Correlation-ID'' = Some ''id-1'' \<and> wr_status (respond (empty_writer False 9) ops') = 200
     \<and> wr_body (respond (empty_writer False 9) ops') = ''a'' @ ''e'' \<and> logs' = [PanicLog ''id-1'', AccessLog ''id-1'' 200 2]"
proof -
  have c: "correlation_of correlation0 ''id-1'' = ''id-1''" by code_simp
  have y: "four_digit_year (co_now correlation0)" by code_simp
  have r: "wr_status (respond (empty_writer False 9) [Write ''a'']) = 200" "wr_body (respond (empty_writer False 9) [Write ''a'']) = ''a''"
    "wr_room (respond (empty_writer False 9) [Write ''a'']) = 8" "wr_status (fold do_op [Write ''a''] (empty_writer False 9)) = 200" "body_allowed 200" by code_simp+
  have "length bs = 16" if "co_rand correlation0 = Some bs" for bs using that by (auto simp: correlation0_def)
  from middleware_contract [OF this y, of "\<lambda>_ _. ([Write ''a''], [], True)" "''id-1''" False 9 "[Write ''a'']" "[]" True "\<lambda>_. ''e''"]
  show ?thesis unfolding c r by (auto simp: statuses_ok_def leaves_def envelope_def body_allowed_def)
qed

text \<open>
  What the log says of a HEAD request: here a status 404 with a body of one byte, which is counted and not sent.
\<close>

lemma head_bytes_logged:
  "let (ops, logs, panics) = middleware_chain correlation0 (\<lambda>_. ''e'') ''id-1'' (\<lambda>_ _. ([WriteHeader 404, Write ''a''], [], False)) (empty_writer True 9)
   in logs = [AccessLog ''id-1'' 404 1] \<and> wr_body (respond (empty_writer True 9) ops) = []"
  by code_simp

end
