(* ===== verification/Agents.thy ===== *)
theory Agents
  imports RunRoutes RunFixtures KeyProps SessionProps
begin

text \<open>
  Agent registrations (internal/browserauth/agents.go and internal/persistence/mysql/agents.go): an agent
  registers itself through the API key of its customer, and a browser user with the capability approves
  it. The table is the one that a claim of a run consults.
\<close>

section \<open>The repository\<close>

record agent_row =
  ag_id :: int
  ag_tenant :: int
  ag_agentId :: string
  ag_status :: string
  ag_version :: "string option"
  ag_runtimes :: "json option"
  ag_capabilities :: "json option"
  ag_identityProof :: "json option"
  ag_maxConcurrency :: int
  ag_health :: string
  ag_lastSeenAt :: "instant option"
  ag_createdAt :: "instant option"
  ag_updatedAt :: "instant option"

record agent_db =
  agent_rows :: "agent_row list"
  next_agent :: int

record agent_env =
  ge_fails :: "string \<Rightarrow> bool"
  ge_now :: instant

datatype agent_error = ErrAgentNotFound | AgentFailure string

record AgentRegistration =
  ar_ID :: int
  ar_AgentID :: string
  ar_Status :: string
  ar_Version :: "string option"
  ar_Runtimes :: json
  ar_Capabilities :: json
  ar_IdentityProof :: json
  ar_MaxConcurrency :: int
  ar_Health :: string
  ar_LastSeenAt :: "instant option"
  ar_CreatedAt :: "instant option"
  ar_UpdatedAt :: "instant option"

record AgentRegistrationInput =
  ai_AgentID :: string
  ai_Version :: "string option"
  ai_Runtimes :: json
  ai_Capabilities :: json
  ai_IdentityProof :: json
  ai_MaxConcurrency :: int
  ai_Health :: string

definition decodeJSONValue :: "json option \<Rightarrow> json" where
  "decodeJSONValue column = (case column of None \<Rightarrow> JArr [] | Some v \<Rightarrow> v)"

definition scanAgent :: "agent_row \<Rightarrow> AgentRegistration" where
  "scanAgent r = \<lparr>ar_ID = ag_id r, ar_AgentID = ag_agentId r, ar_Status = ag_status r, ar_Version = ag_version r,
     ar_Runtimes = decodeJSONValue (ag_runtimes r), ar_Capabilities = decodeJSONValue (ag_capabilities r),
     ar_IdentityProof = decodeJSONValue (ag_identityProof r), ar_MaxConcurrency = ag_maxConcurrency r, ar_Health = ag_health r,
     ar_LastSeenAt = ag_lastSeenAt r, ar_CreatedAt = ag_createdAt r, ar_UpdatedAt = ag_updatedAt r\<rparr>"

definition ListAgents :: "agent_env \<Rightarrow> int \<Rightarrow> agent_db \<Rightarrow> agent_error + AgentRegistration list" where
  "ListAgents e tenantID d =
     (if ge_fails e ''list agents'' then Inl (AgentFailure ''list agents'')
      else if ge_fails e ''list agents rows'' then Inl (AgentFailure ''list agents rows'')
      else Inr (map scanAgent (sort_key ag_agentId (filter (\<lambda>r. ag_tenant r = tenantID) (agent_rows d)))))"

text \<open>The columns that a registration writes: nil becomes an empty array, no health \<open>unknown\<close>, no limit 1.\<close>

definition array_or :: "json \<Rightarrow> json option" where
  "array_or v = (if v = JNull then Some (JArr []) else Some v)"

definition refresh_agent :: "agent_env \<Rightarrow> AgentRegistrationInput \<Rightarrow> agent_row \<Rightarrow> agent_row" where
  "refresh_agent e inp r = r\<lparr>ag_version := (case ai_Version inp of None \<Rightarrow> ag_version r | Some v \<Rightarrow> Some v),
     ag_runtimes := array_or (ai_Runtimes inp), ag_capabilities := array_or (ai_Capabilities inp),
     ag_identityProof := array_or (ai_IdentityProof inp), ag_maxConcurrency := (if ai_MaxConcurrency inp = 0 then 1 else ai_MaxConcurrency inp),
     ag_health := (if ai_Health inp = [] then ''unknown'' else ai_Health inp), ag_lastSeenAt := Some (ge_now e), ag_updatedAt := Some (ge_now e)\<rparr>"

definition new_agent :: "agent_env \<Rightarrow> int \<Rightarrow> AgentRegistrationInput \<Rightarrow> int \<Rightarrow> agent_row" where
  "new_agent e tenantID inp ident =
     \<lparr>ag_id = ident, ag_tenant = tenantID, ag_agentId = ai_AgentID inp, ag_status = ''pending'', ag_version = ai_Version inp,
      ag_runtimes = array_or (ai_Runtimes inp), ag_capabilities = array_or (ai_Capabilities inp), ag_identityProof = array_or (ai_IdentityProof inp),
      ag_maxConcurrency = (if ai_MaxConcurrency inp = 0 then 1 else ai_MaxConcurrency inp),
      ag_health = (if ai_Health inp = [] then ''unknown'' else ai_Health inp), ag_lastSeenAt = Some (ge_now e),
      ag_createdAt = Some (ge_now e), ag_updatedAt = Some (ge_now e)\<rparr>"

definition RegisterAgent :: "agent_env \<Rightarrow> int \<Rightarrow> AgentRegistrationInput \<Rightarrow> agent_db \<Rightarrow> (agent_error + AgentRegistration \<times> bool) \<times> agent_db" where
  "RegisterAgent e tenantID inp d =
     (let fail = (\<lambda>label. (Inl (AgentFailure label), d))
      in if ge_fails e ''start agent registration'' then fail ''start agent registration''
         else if ge_fails e ''find agent registration'' then fail ''find agent registration''
         else let (created, ident, d') =
                (case find (\<lambda>r. ag_tenant r = tenantID \<and> ag_agentId r = ai_AgentID inp) (agent_rows d) of
                   None \<Rightarrow> (True, next_agent d,
                     d\<lparr>agent_rows := agent_rows d @ [new_agent e tenantID inp (next_agent d)], next_agent := next_agent d + 1\<rparr>)
                 | Some r \<Rightarrow> (False, ag_id r,
                     d\<lparr>agent_rows := upd_rows (\<lambda>x. ag_id x = ag_id r \<and> ag_tenant x = tenantID) (refresh_agent e inp) (agent_rows d)\<rparr>))
              in if ge_fails e ''save agent registration'' then fail ''save agent registration''
                 else if created \<and> ge_fails e ''read agent registration'' then fail ''read agent registration''
                 else if ge_fails e ''scan agent registration'' then fail ''scan agent registration''
                 else (case find (\<lambda>x. ag_id x = ident \<and> ag_tenant x = tenantID) (agent_rows d') of
                   None \<Rightarrow> fail ''scan agent registration''
                 | Some saved \<Rightarrow>
                     if ge_fails e ''commit agent registration'' then fail ''commit agent registration''
                     else (Inr (scanAgent saved, created), d')))"

text \<open>MySQL counts the rows that an update changes.\<close>

definition RepoUpdateAgentStatus :: "agent_env \<Rightarrow> int \<Rightarrow> int \<Rightarrow> string \<Rightarrow> agent_db \<Rightarrow> (agent_error + AgentRegistration) \<times> agent_db" where
  "RepoUpdateAgentStatus e tenantID ident status d =
     (let mine = (\<lambda>r. ag_id r = ident \<and> ag_tenant r = tenantID);
          set_row = (\<lambda>r. r\<lparr>ag_status := status, ag_updatedAt := Some (ge_now e)\<rparr>);
          d' = d\<lparr>agent_rows := upd_rows mine set_row (agent_rows d)\<rparr>
      in if ge_fails e ''update agent status'' then (Inl (AgentFailure ''update agent status''), d)
         else if \<not> list_ex (\<lambda>r. mine r \<and> set_row r \<noteq> r) (agent_rows d) then (Inl ErrAgentNotFound, d')
         else if ge_fails e ''scan agent registration'' then (Inl (AgentFailure ''scan agent registration''), d')
         else (case find mine (agent_rows d') of
           None \<Rightarrow> (Inl (AgentFailure ''scan agent registration''), d')
         | Some saved \<Rightarrow> (Inr (scanAgent saved), d')))"

section \<open>The handlers\<close>

datatype agent_value = AgentList "AgentRegistration list" | AgentData AgentRegistration

definition invalid_data :: "'v reply" where
  "invalid_data = message_reply 422 ''The given data was invalid.''"

definition validAgentStatus :: "string \<Rightarrow> bool" where
  "validAgentStatus s \<longleftrightarrow> s = ''approved'' \<or> s = ''maintenance'' \<or> s = ''draining'' \<or> s = ''disabled''"

definition validAgentHealth :: "string \<Rightarrow> bool" where
  "validAgentHealth s \<longleftrightarrow> s = '''' \<or> s = ''unknown'' \<or> s = ''healthy'' \<or> s = ''unhealthy''"

definition requireCapability :: "auth_env \<Rightarrow> http_request \<Rightarrow> auth_db \<Rightarrow> string \<Rightarrow> 'v sent + User" where
  "requireCapability ae request a capability =
     (case authenticatedUser ae request a of
        Inl s \<Rightarrow> Inl s
      | Inr user \<Rightarrow> if capability \<in> set (capabilitiesForRole (us_Role user)) then Inr user else Inl ([], forbidden))"

definition HandleAgents :: "auth_env \<Rightarrow> agent_env \<Rightarrow> http_request \<Rightarrow> auth_db \<Rightarrow> agent_db \<Rightarrow> agent_value sent" where
  "HandleAgents ae e request a d =
     (case requireCapability ae request a ''agents.read'' of
        Inl s \<Rightarrow> s
      | Inr user \<Rightarrow> (case ListAgents e (ActiveTenant user) d of
          Inl _ \<Rightarrow> ([], internalError)
        | Inr listed \<Rightarrow> ([], Value 200 (AgentList listed))))"

definition HandleUpdateAgentStatus :: "auth_env \<Rightarrow> agent_env \<Rightarrow> http_request \<Rightarrow> auth_db \<Rightarrow> agent_db \<Rightarrow> agent_value sent \<times> agent_db" where
  "HandleUpdateAgentStatus ae e request a d =
     (case requireCapability ae request a ''agents.manage'' of
        Inl s \<Rightarrow> (s, d)
      | Inr user \<Rightarrow> (case ParseInt (rq_path request ''agentRegistration'') of
          None \<Rightarrow> (([], notFound), d)
        | Some ident \<Rightarrow> (case decodePlain request [(''status'', KStr)] of
            None \<Rightarrow> (([], invalid_data), d)
          | Some body \<Rightarrow>
              if \<not> validAgentStatus (get_str body ''status'') then (([], invalid_data), d)
              else (case RepoUpdateAgentStatus e (ActiveTenant user) ident (get_str body ''status'') d of
                (Inl ErrAgentNotFound, d') \<Rightarrow> (([], notFound), d')
              | (Inl (AgentFailure _), d') \<Rightarrow> (([], internalError), d')
              | (Inr agent, d') \<Rightarrow> (([], Value 200 (AgentData agent)), d')))))"

definition registration_fields :: field_types where
  "registration_fields = [(''agentId'', KStr), (''version'', KStrPtr), (''runtimes'', KAny), (''capabilities'', KAny), (''identityProof'', KAny),
     (''maxConcurrency'', KInt), (''health'', KStr)]"

definition registration_of :: "decoded \<Rightarrow> AgentRegistrationInput" where
  "registration_of body =
     \<lparr>ai_AgentID = get_str body ''agentId'', ai_Version = (case body ''version'' of Some (JStr s) \<Rightarrow> Some s | _ \<Rightarrow> None),
      ai_Runtimes = get_any body ''runtimes'', ai_Capabilities = get_any body ''capabilities'', ai_IdentityProof = get_any body ''identityProof'',
      ai_MaxConcurrency = get_int body ''maxConcurrency'', ai_Health = get_str body ''health''\<rparr>"

definition CLRegisterAgent :: "agent_env \<Rightarrow> http_request \<Rightarrow> agent_db \<Rightarrow> agent_value reply \<times> agent_db" where
  "CLRegisterAgent e request d =
     (case rq_tenant request of
        None \<Rightarrow> (unauthorized, d)
      | Some tenantID \<Rightarrow> (case decodePlain request registration_fields of
          None \<Rightarrow> (invalid_data, d)
        | Some body \<Rightarrow>
            let inp = registration_of body
            in if TrimSpace (ai_AgentID inp) = [] \<or> length (ai_AgentID inp) > 128 \<or> ai_MaxConcurrency inp < 0 \<or> ai_MaxConcurrency inp > 256
                  \<or> \<not> validAgentHealth (ai_Health inp)
               then (invalid_data, d)
               else (case RegisterAgent e tenantID inp d of
                 (Inl _, d') \<Rightarrow> (internalError, d')
               | (Inr (agent, created), d') \<Rightarrow> (Value (if created then 201 else 200) (AgentData agent), d'))))"

definition serve_register :: "key_env \<Rightarrow> agent_env \<Rightarrow> http_request \<Rightarrow> key_db \<Rightarrow> agent_db \<Rightarrow> agent_value reply \<times> key_db \<times> agent_db" where
  "serve_register ke e = Middleware ke (CLRegisterAgent e)"

text \<open>The columns of the table that a claim reads.\<close>

definition claim_view :: "agent_row \<Rightarrow> agent" where
  "claim_view r = \<lparr>a_tenant = ag_tenant r, a_agentId = ag_agentId r, a_status = ag_status r, a_health = ag_health r, a_identity = ag_identityProof r\<rparr>"

section \<open>Properties\<close>

text \<open>Identifiers and the pairs of customer and agent name are distinct, and columns are in their ranges.\<close>

definition agent_row_ok :: "agent_row \<Rightarrow> bool" where
  "agent_row_ok r \<longleftrightarrow> ag_status r \<in> {''pending'', ''approved'', ''maintenance'', ''draining'', ''disabled''}
     \<and> ag_health r \<in> {''unknown'', ''healthy'', ''unhealthy''} \<and> 1 \<le> ag_maxConcurrency r \<and> ag_maxConcurrency r \<le> 256"

definition agents_ok :: "agent_db \<Rightarrow> bool" where
  "agents_ok d \<longleftrightarrow> distinct (map (\<lambda>r. (ag_tenant r, ag_agentId r)) (agent_rows d)) \<and> distinct (map ag_id (agent_rows d))
     \<and> (\<forall>r \<in> set (agent_rows d). ag_id r < next_agent d \<and> agent_row_ok r)"

text \<open>What a registration does to the table.\<close>

lemma register_effect:
  assumes "RegisterAgent e T inp d = (x, d')"
  shows "d' = d \<or> (\<exists>r. find (\<lambda>r. ag_tenant r = T \<and> ag_agentId r = ai_AgentID inp) (agent_rows d) = Some r
      \<and> d' = d\<lparr>agent_rows := upd_rows (\<lambda>x. ag_id x = ag_id r \<and> ag_tenant x = T) (refresh_agent e inp) (agent_rows d)\<rparr>)
    \<or> find (\<lambda>r. ag_tenant r = T \<and> ag_agentId r = ai_AgentID inp) (agent_rows d) = None
      \<and> d' = d\<lparr>agent_rows := agent_rows d @ [new_agent e T inp (next_agent d)], next_agent := next_agent d + 1\<rparr>"
  using assms unfolding RegisterAgent_def Let_def by (auto split: if_splits option.splits prod.splits)

lemma register_handler_effect:
  assumes "serve_register ke e request k d = (reply, k', d')"
  shows "d' = d \<or> (\<exists>T inp x. RegisterAgent e T inp d = (x, d') \<and> 0 \<le> ai_MaxConcurrency inp \<and> ai_MaxConcurrency inp \<le> 256 \<and> validAgentHealth (ai_Health inp))"
  using assms unfolding serve_register_def Middleware_def CLRegisterAgent_def Let_def
  by (auto simp: not_less split: option.splits prod.splits sum.splits if_splits)


lemma refresh_agent_simps [simp]:
  "ag_id (refresh_agent e inp r) = ag_id r" "ag_tenant (refresh_agent e inp r) = ag_tenant r"
  "ag_agentId (refresh_agent e inp r) = ag_agentId r" "ag_status (refresh_agent e inp r) = ag_status r"
  by (simp_all add: refresh_agent_def)

lemma register_rows_ok:
  assumes "0 \<le> ai_MaxConcurrency inp \<and> ai_MaxConcurrency inp \<le> 256 \<and> validAgentHealth (ai_Health inp)"
  shows "agent_row_ok (new_agent e T inp n)" "agent_row_ok r \<Longrightarrow> agent_row_ok (refresh_agent e inp r)"
  using assms by (auto simp: agent_row_ok_def new_agent_def refresh_agent_def validAgentHealth_def)

text \<open>The states that registrations of any customers lead to.\<close>

inductive registered :: "agent_db \<Rightarrow> agent_db \<Rightarrow> bool" where
  start: "registered d d"
| register: "registered d d1 \<Longrightarrow> serve_register ke e request k d1 = (reply, k', d2) \<Longrightarrow> registered d d2"

text \<open>A registration keeps customer, name and status of the rows, and new rows are pending.\<close>

lemma register_keeps:
  assumes "serve_register ke e request k d = (reply, k', d')"
  shows "\<exists>added. map (\<lambda>r. (ag_id r, ag_tenant r, ag_agentId r, ag_status r)) (agent_rows d')
      = map (\<lambda>r. (ag_id r, ag_tenant r, ag_agentId r, ag_status r)) (agent_rows d) @ map (\<lambda>(i, T, a). (i, T, a, ''pending'')) added"
proof -
  consider "d' = d" | T inp x where "RegisterAgent e T inp d = (x, d')" using register_handler_effect [OF assms] by blast
  then show ?thesis
  proof cases
    case 2
    from register_effect [OF 2] show ?thesis
    proof (elim disjE exE conjE)
      assume "d' = d\<lparr>agent_rows := agent_rows d @ [new_agent e T inp (next_agent d)], next_agent := next_agent d + 1\<rparr>"
      then show ?thesis by (intro exI [of _ "[(next_agent d, T, ai_AgentID inp)]"]) (simp add: new_agent_def)
    qed (intro exI [of _ "[]"], simp)+
  qed (intro exI [of _ "[]"], simp)
qed

lemma registered_statuses:
  assumes "registered d d'"
  shows "\<forall>r' \<in> set (agent_rows d'). ag_status r' = ''pending'' \<or>
    (\<exists>r \<in> set (agent_rows d). ag_tenant r = ag_tenant r' \<and> ag_agentId r = ag_agentId r' \<and> ag_status r = ag_status r')"
  using assms
proof (induction rule: registered.induct)
  case (register d d1 ke e request k reply k' d2)
  let ?f = "\<lambda>r. (ag_id r, ag_tenant r, ag_agentId r, ag_status r)"
  obtain added where "map ?f (agent_rows d2) = map ?f (agent_rows d1) @ map (\<lambda>(i, T, a). (i, T, a, ''pending'')) added"
    using register_keeps [OF register.hyps(2)] by blast
  then have "set (map ?f (agent_rows d2)) = set (map ?f (agent_rows d1) @ map (\<lambda>(i, T, a). (i, T, a, ''pending'')) added)" by (rule arg_cong)
  then have "?f r' \<in> ?f ` set (agent_rows d1) \<union> (\<lambda>(i, T, a). (i, T, a, ''pending'')) ` set added" if "r' \<in> set (agent_rows d2)" for r'
    using imageI [OF that, of ?f] by (simp only: set_map set_append)
  then show ?case using register.IH by fastforce
qed blast

lemma claim_view_simps [simp]:
  "a_tenant (claim_view r) = ag_tenant r" "a_agentId (claim_view r) = ag_agentId r" "a_status (claim_view r) = ag_status r"
  by (simp_all add: claim_view_def)

lemma claim_row_found:
  assumes "\<exists>r \<in> set rows. ag_tenant r = T \<and> ag_agentId r = name"
  shows "\<exists>r \<in> set rows. find (\<lambda>a. a_tenant a = T \<and> a_agentId a = name) (map claim_view rows) = Some (claim_view r)
    \<and> ag_tenant r = T \<and> ag_agentId r = name"
  using assms by (induction rows) auto

lemma manage_roles: "''agents.manage'' \<in> set (capabilitiesForRole role) \<Longrightarrow> role \<in> {1, 2}"
  by (simp add: capabilitiesForRole_def split: if_splits)

lemma status_update_rows:
  assumes "RepoUpdateAgentStatus e T i status d = (x, d')"
  shows "filter (\<lambda>r. ag_tenant r \<noteq> T) (agent_rows d') = filter (\<lambda>r. ag_tenant r \<noteq> T) (agent_rows d)"
proof -
  have "filter (\<lambda>r. ag_tenant r \<noteq> T) (upd_rows (\<lambda>r. ag_id r = i \<and> ag_tenant r = T) (\<lambda>r. r\<lparr>ag_status := status, ag_updatedAt := u\<rparr>) rows)
      = filter (\<lambda>r. ag_tenant r \<noteq> T) rows" for u rows
    by (rule filter_upd_rows_other) simp_all
  then show ?thesis using assms unfolding RepoUpdateAgentStatus_def Let_def by (auto split: if_splits option.splits)
qed

lemma status_update_authority:
  assumes "snd (HandleUpdateAgentStatus ae e request a d) \<noteq> d"
  shows "\<exists>user. authenticatedUser ae request a = (Inr user :: agent_value sent + User) \<and> us_Role user \<in> {1, 2}
    \<and> filter (\<lambda>r. ag_tenant r \<noteq> ActiveTenant user) (agent_rows (snd (HandleUpdateAgentStatus ae e request a d)))
      = filter (\<lambda>r. ag_tenant r \<noteq> ActiveTenant user) (agent_rows d)"
proof -
  obtain user i status x d' where u: "requireCapability ae request a ''agents.manage'' = (Inr user :: agent_value sent + User)"
    and w: "RepoUpdateAgentStatus e (ActiveTenant user) i status d = (x, d')" "snd (HandleUpdateAgentStatus ae e request a d) = d'"
    using assms unfolding HandleUpdateAgentStatus_def
    by (auto split: sum.splits option.splits if_splits prod.splits agent_error.splits)
  from u have "authenticatedUser ae request a = (Inr user :: agent_value sent + User)" "us_Role user \<in> {1, 2}"
    unfolding requireCapability_def by (auto split: sum.splits if_splits dest: manage_roles)
  then show ?thesis using status_update_rows [OF w(1)] w(2) by blast
qed

text \<open>
  C16. Registering is not enough to run anything: starting from a table in which an agent is absent or not
  approved, after any registrations of any customers the agent, once it is in the table, is refused
  every claim; only a status update can approve it, and that is refused to a user whose role lacks
  \<open>agents.manage\<close>, and reaches the rows of the user's active tenant only.
\<close>

theorem agent_needs_approval:
  assumes "registered d d'" "\<forall>r \<in> set (agent_rows d). ag_tenant r = T \<and> ag_agentId r = name \<longrightarrow> ag_status r \<noteq> ''approved''"
    and "\<exists>r \<in> set (agent_rows d'). ag_tenant r = T \<and> ag_agentId r = name"
    and "agents rd = map claim_view (agent_rows d')" "cl_TenantID input = T" "cl_WorkerID input = name"
  shows "(\<exists>x. claim_guard ce input rd s = Inl x)
    \<and> (snd (HandleUpdateAgentStatus ae e request a d') \<noteq> d' \<longrightarrow>
        (\<exists>user. authenticatedUser ae request a = (Inr user :: agent_value sent + User) \<and> us_Role user \<in> {1, 2}
          \<and> filter (\<lambda>r. ag_tenant r \<noteq> ActiveTenant user) (agent_rows (snd (HandleUpdateAgentStatus ae e request a d')))
            = filter (\<lambda>r. ag_tenant r \<noteq> ActiveTenant user) (agent_rows d')))"
proof -
  obtain r where r: "find (\<lambda>a. a_tenant a = T \<and> a_agentId a = name) (agents rd) = Some (claim_view r)" "r \<in> set (agent_rows d')"
    "ag_tenant r = T" "ag_agentId r = name"
    using claim_row_found [OF assms(3)] unfolding assms(4) by blast
  have "ag_status r \<noteq> ''approved''" using registered_statuses [OF assms(1)] assms(2) r(2-4) by fastforce
  then have v: "\<exists>x. validateParallelRunAgent ce input rd = Inl x"
    using r(1) assms(5,6) by (simp add: validateParallelRunAgent_def claim_view_def Let_def)
  then show ?thesis using status_update_authority [of ae e request a d'] by (auto simp: claim_guard_def)
qed

text \<open>Fixtures: an empty table, and agent \<open>a\<close> of customer 7 registering with the key of that customer.\<close>

definition genv0 :: agent_env where
  "genv0 = \<lparr>ge_fails = (\<lambda>_. False), ge_now = 0\<rparr>"

definition gdb0 :: agent_db where
  "gdb0 = \<lparr>agent_rows = [], next_agent = 1\<rparr>"

definition register_request :: http_request where
  "register_request = (key_request [''x''])\<lparr>rq_body := BDoc (JObj [(''agentId'', JStr ''a'')])\<rparr>"

definition gdb1 :: agent_db where
  "gdb1 = snd (snd (serve_register kenv0 genv0 register_request kdb0 gdb0))"

theorem agent_needs_approval_witness:
  "(\<exists>x. claim_guard env0 (claim0 ''a'' [] 0) (db0\<lparr>agents := map claim_view (agent_rows gdb1)\<rparr>) (hd (schedules db1)) = Inl x)
     \<and> map ag_status (agent_rows gdb1) = [''pending'']"
proof -
  let ?s = "serve_register kenv0 genv0 register_request kdb0 gdb0"
  have rows: "map (\<lambda>r. (ag_tenant r, ag_agentId r)) (agent_rows gdb1) = [(7, ''a'')]" "map ag_status (agent_rows gdb1) = [''pending'']"
    by code_simp+
  have "?s = (fst ?s, fst (snd ?s), gdb1)" by (simp add: gdb1_def)
  then have "registered gdb0 gdb1" by (rule registered.register [OF registered.start])
  moreover have "\<exists>r \<in> set (agent_rows gdb1). ag_tenant r = 7 \<and> ag_agentId r = ''a''" using rows(1) by (auto simp: Cons_eq_map_conv)
  ultimately show ?thesis
    using rows(2) agent_needs_approval [of gdb0 gdb1 7 "''a''" "db0\<lparr>agents := map claim_view (agent_rows gdb1)\<rparr>" "claim0 ''a'' [] 0" env0 "hd (schedules db1)"
      aenv0 genv0 request0 adb0]
    by (simp add: gdb0_def claim0_def)
qed

text \<open>Every registration keeps the identifiers and columns of the table in order.\<close>

lemma register_ok:
  assumes "serve_register ke e request k d = (reply, k', d')" "agents_ok d"
  shows "agents_ok d'"
proof -
  from register_handler_effect [OF assms(1)] show ?thesis
  proof (elim disjE exE)
    fix T inp x
    assume r: "RegisterAgent e T inp d = (x, d') \<and> 0 \<le> ai_MaxConcurrency inp \<and> ai_MaxConcurrency inp \<le> 256 \<and> validAgentHealth (ai_Health inp)"
    then have rows: "agent_row_ok (new_agent e T inp n)" "agent_row_ok y \<Longrightarrow> agent_row_ok (refresh_agent e inp y)" for n y
      using register_rows_ok by blast+
    have "RegisterAgent e T inp d = (x, d')" using r by blast
    from register_effect [OF this] show "agents_ok d'"
    proof (elim disjE exE conjE)
      assume "find (\<lambda>r. ag_tenant r = T \<and> ag_agentId r = ai_AgentID inp) (agent_rows d) = None"
        "d' = d\<lparr>agent_rows := agent_rows d @ [new_agent e T inp (next_agent d)], next_agent := next_agent d + 1\<rparr>"
      then show ?thesis using assms(2) rows(1) by (fastforce simp: agents_ok_def new_agent_def find_None_iff)
    next
      fix r
      assume "d' = d\<lparr>agent_rows := upd_rows (\<lambda>x. ag_id x = ag_id r \<and> ag_tenant x = T) (refresh_agent e inp) (agent_rows d)\<rparr>"
      then show ?thesis using assms(2) rows(2) by (fastforce simp: agents_ok_def set_upd_rows)
    qed (use assms(2) in simp)
  qed (use assms(2) in simp)
qed

text \<open>
  Setting the status that an agent already has, within the second of its last change, changes no row,
  and the repository reports an agent that exists as not found.
\<close>

lemma repeated_status_not_found:
  assumes "RepoUpdateAgentStatus e T i status d = (Inr agent, d')" "\<not> ge_fails e ''update agent status''"
  shows "RepoUpdateAgentStatus e T i status d' = (Inl ErrAgentNotFound, d')"
proof -
  let ?u = "\<lambda>r. r\<lparr>ag_status := status, ag_updatedAt := Some (ge_now e)\<rparr>"
  have d': "d' = d\<lparr>agent_rows := upd_rows (\<lambda>r. ag_id r = i \<and> ag_tenant r = T) ?u (agent_rows d)\<rparr>"
    using assms unfolding RepoUpdateAgentStatus_def Let_def by (auto split: if_splits option.splits)
  have u: "?u (?u r) = ?u r" for r by simp
  have same: "(ag_id r = i \<and> ag_tenant r = T) \<longrightarrow> ?u r = r" if "r \<in> set (agent_rows d')" for r
    using that u unfolding d' by (auto simp: set_upd_rows)
  then have "upd_rows (\<lambda>r. ag_id r = i \<and> ag_tenant r = T) ?u (agent_rows d') = agent_rows d'"
    unfolding upd_rows_def by (intro map_idI) simp
  moreover have "\<not> list_ex (\<lambda>r. (ag_id r = i \<and> ag_tenant r = T) \<and> ?u r \<noteq> r) (agent_rows d')"
    using same by (auto simp only: list_ex_iff)
  ultimately show ?thesis using assms(2) unfolding RepoUpdateAgentStatus_def Let_def by (simp only: if_False if_True simp_thms) simp
qed

end
