(* ===== verification/RawRequests.thy ===== *)
theory RawRequests
  imports Sessions LegacyKeys
begin

text \<open>
  What the handlers of internal/identity and internal/serviceaccounts share: the request with its method
  and the bytes of its body, which they read under limits of their own, and the session test with the
  error replies of internal/httpx.
\<close>

record raw_request =
  ir_http :: http_request
  ir_method :: string
  ir_raw :: string

text \<open>
  The JSON parser: \<open>je_first\<close> is the value with which a stream begins, as \<open>Decoder.Decode\<close> finds it, and
  \<open>je_whole\<close> the value that the bytes are, for \<open>json.Unmarshal\<close>.
\<close>

record json_env =
  je_first :: "string \<Rightarrow> json option"
  je_whole :: "string \<Rightarrow> json option"

text \<open>\<open>json.NewDecoder(http.MaxBytesReader(\<dots>, limit)).Decode\<close>: a value that does not end within the limit is an error.\<close>

definition decode_limited :: "json_env \<Rightarrow> nat \<Rightarrow> string \<Rightarrow> field_types \<Rightarrow> decoded option" where
  "decode_limited e limit raw fs = (case je_first e (take limit raw) of None \<Rightarrow> None | Some v \<Rightarrow> decode_struct fs False v)"

definition unmarshal :: "json_env \<Rightarrow> string \<Rightarrow> field_types \<Rightarrow> decoded option" where
  "unmarshal e raw fs = (case je_whole e raw of None \<Rightarrow> None | Some v \<Rightarrow> decode_struct fs False v)"

definition unauthenticated :: "string \<Rightarrow> 'v reply" where
  "unauthenticated correlation = WriteError correlation 401 ''UNAUTHENTICATED'' ''An active browser session is required.''"

lemma status_WriteError [http, simp]: "http_status (WriteError c s code m) = s"
  by (simp add: WriteError_def)

lemma status_unauthenticated [http, simp]: "http_status (unauthenticated c) = 401"
  by (simp add: unauthenticated_def)

lemma AuthenticateRequest_active: "AuthenticateRequest ae r now a = Some u \<Longrightarrow> us_Status u = ''active''"
  by (auto simp: AuthenticateRequest_def split: option.splits sum.splits if_splits)

end
