(* ===== verification/IdentityStore.thy ===== *)
theory IdentityStore
  imports RawRequests Secrets
begin

text \<open>
  The repositories behind the identity handlers: sso_state.go, mfa.go, scim.go and identity_providers.go
  of internal/persistence/mysql, and the break-glass calls of browser_auth.go.
\<close>

section \<open>Tables and environment\<close>

text \<open>The columns of \<open>users\<close> that only these calls read, by user identifier.\<close>

record user_columns =
  uc_mfaSecret :: "string option"
  uc_mfaConfirmedAt :: "instant option"
  uc_breakGlassReason :: "string option"
  uc_breakGlassExpiresAt :: "instant option"
  uc_updatedAt :: "instant option"

definition no_columns :: user_columns where
  "no_columns = \<lparr>uc_mfaSecret = None, uc_mfaConfirmedAt = None, uc_breakGlassReason = None, uc_breakGlassExpiresAt = None, uc_updatedAt = None\<rparr>"

record provider_row =
  pr_id :: int
  pr_tenant :: int
  pr_type :: string
  pr_name :: string
  pr_issuer :: "string option"
  pr_audience :: "string option"
  pr_status :: string

record sso_row =
  st_tenant :: int
  st_provider :: int
  st_state :: string
  st_challenge :: string
  st_expiresAt :: instant
  st_consumedAt :: "instant option"

record identity_audit =
  ia_tenant :: int
  ia_action :: string
  ia_target :: int
  ia_result :: string

record identity_db =
  id_auth :: auth_db
  id_columns :: "int \<Rightarrow> user_columns"
  next_user :: int
  provider_rows :: "provider_row list"
  next_provider :: int
  sso_rows :: "sso_row list"
  identity_audits :: "identity_audit list"

text \<open>
  Which statement fails, bcrypt, the rounding of time columns, \<open>NOW()\<close>, the clock at the k-th reading of
  a request, the random bytes of its k-th draw, the process environment, the message authentication
  codes, AES-GCM, the JSON parser and the correlation identifier.
\<close>

record identity_env =
  ie_fails :: "string \<Rightarrow> bool"
  ie_generate :: "string \<Rightarrow> string option"
  ie_column_time :: "instant \<Rightarrow> instant"
  ie_dbnow :: instant
  ie_clock :: "nat \<Rightarrow> instant"
  ie_rand :: "nat \<Rightarrow> nat \<Rightarrow> string option"
  ie_getenv :: "string \<Rightarrow> string"
  ie_hmac_sha256 :: "string \<Rightarrow> string \<Rightarrow> string"
  ie_hmac_sha1 :: "string \<Rightarrow> string \<Rightarrow> string"
  ie_seal :: "string \<Rightarrow> string \<Rightarrow> string \<Rightarrow> string"
  ie_open :: "string \<Rightarrow> string \<Rightarrow> string \<Rightarrow> string option"
  ie_json :: json_env
  ie_correlation :: string

datatype identity_error = NoRows | ErrUserNotFound | ErrProviderNotFound | StateSpent | IdentityFailure string

text \<open>The audit rows are best effort: their error is ignored.\<close>

definition record_audit :: "identity_env \<Rightarrow> int \<Rightarrow> string \<Rightarrow> int \<Rightarrow> string \<Rightarrow> identity_db \<Rightarrow> identity_db" where
  "record_audit e tenant action target result d =
     (if ie_fails e action then d
      else d\<lparr>identity_audits := identity_audits d @ [\<lparr>ia_tenant = tenant, ia_action = action, ia_target = target, ia_result = result\<rparr>]\<rparr>)"

section \<open>Break glass\<close>

definition user_in :: "int \<Rightarrow> int \<Rightarrow> identity_db \<Rightarrow> bool" where
  "user_in tenant ident d \<longleftrightarrow> list_ex (\<lambda>u. ur_id u = ident \<and> ur_tenant u = tenant) (users (id_auth d))"

definition SetBreakGlass :: "identity_env \<Rightarrow> int \<Rightarrow> int \<Rightarrow> string \<Rightarrow> instant \<Rightarrow> instant \<Rightarrow> identity_db \<Rightarrow> (identity_error + unit) \<times> identity_db" where
  "SetBreakGlass e tenant target reason expires now d =
     (let c = id_columns d target;
          c' = c\<lparr>uc_breakGlassReason := Some reason, uc_breakGlassExpiresAt := Some (ie_column_time e expires), uc_updatedAt := Some (ie_column_time e now)\<rparr>
      in if ie_fails e ''set break-glass control'' then (Inl (IdentityFailure ''set break-glass control''), d)
         else if \<not> user_in tenant target d \<or> c' = c then (Inl ErrUserNotFound, d)
         else (Inr (), record_audit e tenant ''identity.break_glass.enabled'' target ''success'' (d\<lparr>id_columns := (id_columns d)(target := c')\<rparr>)))"

definition TestBreakGlass :: "identity_env \<Rightarrow> int \<Rightarrow> int \<Rightarrow> instant \<Rightarrow> identity_db \<Rightarrow> (identity_error + bool) \<times> identity_db" where
  "TestBreakGlass e tenant target now d =
     (if ie_fails e ''test break-glass control'' then (Inl (IdentityFailure ''test break-glass control''), d)
      else if \<not> list_ex (\<lambda>u. ur_id u = target \<and> ur_tenant u = tenant \<and> ur_status u = ''active'') (users (id_auth d)) then (Inl ErrUserNotFound, d)
      else let valid = (case uc_breakGlassExpiresAt (id_columns d target) of None \<Rightarrow> False | Some t \<Rightarrow> t > now)
           in (Inr valid, record_audit e tenant ''identity.break_glass.test'' target (if valid then ''success'' else ''failure'') d))"

section \<open>Single sign-on states\<close>

definition CreateSSOState :: "identity_env \<Rightarrow> int \<Rightarrow> int \<Rightarrow> string \<Rightarrow> string \<Rightarrow> instant \<Rightarrow> identity_db \<Rightarrow> (identity_error + unit) \<times> identity_db" where
  "CreateSSOState e tenant provider state challenge expires d =
     (if ie_fails e ''persist SSO state'' \<or> list_ex (\<lambda>r. st_state r = state) (sso_rows d) then (Inl (IdentityFailure ''persist SSO state''), d)
      else (Inr (), d\<lparr>sso_rows := sso_rows d @ [\<lparr>st_tenant = tenant, st_provider = provider, st_state = state, st_challenge = challenge,
             st_expiresAt = ie_column_time e expires, st_consumedAt = None\<rparr>]\<rparr>))"

definition open_state :: "string \<Rightarrow> instant \<Rightarrow> sso_row \<Rightarrow> bool" where
  "open_state state now r \<longleftrightarrow> st_state r = state \<and> st_consumedAt r = None \<and> st_expiresAt r > now"

definition ConsumeSSOState :: "identity_env \<Rightarrow> string \<Rightarrow> instant \<Rightarrow> identity_db \<Rightarrow> (identity_error + int \<times> int) \<times> identity_db" where
  "ConsumeSSOState e state now d =
     (if ie_fails e ''consume SSO state'' then (Inl (IdentityFailure ''consume SSO state''), d)
      else let d' = d\<lparr>sso_rows := upd_rows (open_state state now) (\<lambda>r. r\<lparr>st_consumedAt := Some (ie_column_time e now)\<rparr>) (sso_rows d)\<rparr>
           in if \<not> list_ex (open_state state now) (sso_rows d) then (Inl StateSpent, d')
              else if ie_fails e ''load SSO state'' then (Inl (IdentityFailure ''load SSO state''), d')
              else (case find (\<lambda>r. st_state r = state) (sso_rows d') of
                      None \<Rightarrow> (Inl (IdentityFailure ''load SSO state''), d')
                    | Some r \<Rightarrow> (Inr (st_tenant r, st_provider r), d')))"

definition SSOState :: "identity_env \<Rightarrow> string \<Rightarrow> instant \<Rightarrow> identity_db \<Rightarrow> identity_error + int \<times> int" where
  "SSOState e state now d =
     (if ie_fails e ''inspect SSO state'' then Inl (IdentityFailure ''inspect SSO state'')
      else case find (open_state state now) (sso_rows d) of
             None \<Rightarrow> Inl StateSpent | Some r \<Rightarrow> Inr (st_tenant r, st_provider r))"

record Provider =
  pv_ID :: int
  pv_Type :: string
  pv_Name :: string
  pv_Issuer :: string
  pv_Audience :: string
  pv_Status :: string

definition text_or_empty :: "string option \<Rightarrow> string" where
  "text_or_empty column = (case column of None \<Rightarrow> [] | Some s \<Rightarrow> s)"

definition provider_of :: "provider_row \<Rightarrow> Provider" where
  "provider_of r = \<lparr>pv_ID = pr_id r, pv_Type = pr_type r, pv_Name = pr_name r, pv_Issuer = text_or_empty (pr_issuer r),
     pv_Audience = text_or_empty (pr_audience r), pv_Status = pr_status r\<rparr>"

text \<open>The tenant is passed as text, the decimal digits of a customer identifier.\<close>

definition ProviderByName :: "identity_env \<Rightarrow> string \<Rightarrow> string \<Rightarrow> identity_db \<Rightarrow> identity_error + Provider" where
  "ProviderByName e tenant name d =
     (if ie_fails e ''load identity provider'' then Inl (IdentityFailure ''load identity provider'')
      else case find (\<lambda>r. itoa (pr_tenant r) = tenant \<and> (pr_name r = name \<or> itoa (pr_id r) = name)) (provider_rows d) of
             None \<Rightarrow> Inl ErrProviderNotFound | Some r \<Rightarrow> Inr (provider_of r))"

section \<open>Multi-factor secrets\<close>

definition active_user :: "int \<Rightarrow> identity_db \<Rightarrow> bool" where
  "active_user ident d \<longleftrightarrow> list_ex (\<lambda>u. ur_id u = ident \<and> ur_status u = ''active'') (users (id_auth d))"

definition set_columns :: "int \<Rightarrow> (user_columns \<Rightarrow> user_columns) \<Rightarrow> identity_db \<Rightarrow> identity_db" where
  "set_columns user f d = (if active_user user d then d\<lparr>id_columns := (id_columns d)(user := f (id_columns d user))\<rparr> else d)"

definition SetMFASecret :: "identity_env \<Rightarrow> int \<Rightarrow> string \<Rightarrow> identity_db \<Rightarrow> (identity_error + unit) \<times> identity_db" where
  "SetMFASecret e user encrypted d =
     (if ie_fails e ''store MFA secret'' then (Inl (IdentityFailure ''store MFA secret''), d)
      else (Inr (), set_columns user (\<lambda>c. c\<lparr>uc_mfaSecret := Some encrypted, uc_mfaConfirmedAt := None\<rparr>) d))"

definition GetMFASecret :: "identity_env \<Rightarrow> int \<Rightarrow> identity_db \<Rightarrow> identity_error + string" where
  "GetMFASecret e user d =
     (if ie_fails e ''load MFA secret'' \<or> \<not> active_user user d then Inl (IdentityFailure ''load MFA secret'')
      else case uc_mfaSecret (id_columns d user) of
             None \<Rightarrow> Inl NoRows | Some v \<Rightarrow> if v = [] then Inl NoRows else Inr v)"

definition MarkMFAConfirmed :: "identity_env \<Rightarrow> int \<Rightarrow> instant \<Rightarrow> identity_db \<Rightarrow> (identity_error + unit) \<times> identity_db" where
  "MarkMFAConfirmed e user at d =
     (if ie_fails e ''confirm MFA'' then (Inl (IdentityFailure ''confirm MFA''), d)
      else (Inr (), set_columns user (\<lambda>c. c\<lparr>uc_mfaConfirmedAt := Some (ie_column_time e at)\<rparr>) d))"

section \<open>SCIM users\<close>

definition scim_status :: "bool \<Rightarrow> string" where
  "scim_status active = (if active then ''active'' else ''disabled'')"

definition scim_user :: "int \<Rightarrow> int \<Rightarrow> string \<Rightarrow> string \<Rightarrow> bool \<Rightarrow> User" where
  "scim_user ident tenant email name active =
     \<lparr>us_ID = ident, us_TenantID = tenant, us_ActiveTenantID = tenant, us_Name = name, us_Email = email, us_Role = 3, us_PasswordHash = [],
      us_Status = scim_status active, us_ImpersonationReason = None, us_ImpersonationExpiresAt = None\<rparr>"

text \<open>The address of a user is unique.\<close>

definition CreateSCIMUser :: "identity_env \<Rightarrow> int \<Rightarrow> string \<Rightarrow> string \<Rightarrow> bool \<Rightarrow> identity_db \<Rightarrow> (identity_error + User) \<times> identity_db" where
  "CreateSCIMUser e tenant email name active d =
     (case ie_generate e ''scim-disabled-login'' of
        None \<Rightarrow> (Inl (IdentityFailure ''bcrypt''), d)
      | Some hash \<Rightarrow>
          if ie_fails e ''create SCIM user'' \<or> list_ex (\<lambda>u. ur_email u = email) (users (id_auth d)) then (Inl (IdentityFailure ''create SCIM user''), d)
          else let ident = next_user d;
                   row = \<lparr>ur_id = ident, ur_tenant = tenant, ur_name = name, ur_email = email, ur_role = 3, ur_password = hash, ur_status = scim_status active\<rparr>;
                   d' = d\<lparr>id_auth := (id_auth d)\<lparr>users := users (id_auth d) @ [row]\<rparr>, next_user := ident + 1,
                          id_columns := (id_columns d)(ident := no_columns\<lparr>uc_updatedAt := Some (ie_dbnow e)\<rparr>)\<rparr>
               in (Inr (scim_user ident tenant email name active), record_audit e tenant ''scim.user.created'' ident ''success'' d'))"

definition UpdateSCIMUser :: "identity_env \<Rightarrow> int \<Rightarrow> int \<Rightarrow> string \<Rightarrow> string \<Rightarrow> bool \<Rightarrow> identity_db \<Rightarrow> (identity_error + User) \<times> identity_db" where
  "UpdateSCIMUser e tenant ident email name active d =
     (let mine = (\<lambda>u. ur_id u = ident \<and> ur_tenant u = tenant);
          put = (\<lambda>u. u\<lparr>ur_name := name, ur_email := email, ur_status := scim_status active\<rparr>);
          touch = (\<lambda>c. c\<lparr>uc_updatedAt := Some (ie_dbnow e)\<rparr>);
          rows = users (id_auth d)
      in if ie_fails e ''update SCIM user'' \<or> (list_ex mine rows \<and> list_ex (\<lambda>u. \<not> mine u \<and> ur_email u = email) rows)
         then (Inl (IdentityFailure ''update SCIM user''), d)
         else if \<not> list_ex (\<lambda>u. mine u \<and> (put u \<noteq> u \<or> touch (id_columns d ident) \<noteq> id_columns d ident)) rows then (Inl NoRows, d)
         else (Inr (scim_user ident tenant email name active),
               record_audit e tenant ''scim.user.updated'' ident ''success''
                 (d\<lparr>id_auth := (id_auth d)\<lparr>users := upd_rows mine put rows\<rparr>, id_columns := (id_columns d)(ident := touch (id_columns d ident))\<rparr>)))"

definition DeleteSCIMUser :: "identity_env \<Rightarrow> int \<Rightarrow> int \<Rightarrow> identity_db \<Rightarrow> (identity_error + unit) \<times> identity_db" where
  "DeleteSCIMUser e tenant ident d =
     (let mine = (\<lambda>u. ur_id u = ident \<and> ur_tenant u = tenant); rows = users (id_auth d)
      in if ie_fails e ''delete SCIM user'' then (Inl (IdentityFailure ''delete SCIM user''), d)
         else if \<not> list_ex mine rows then (Inl NoRows, d)
         else (Inr (), record_audit e tenant ''scim.user.deleted'' ident ''success'' (d\<lparr>id_auth := (id_auth d)\<lparr>users := filter (\<lambda>u. \<not> mine u) rows\<rparr>\<rparr>)))"

section \<open>Identity providers\<close>

definition ListProviders :: "identity_env \<Rightarrow> int \<Rightarrow> identity_db \<Rightarrow> identity_error + Provider list" where
  "ListProviders e tenant d =
     (if ie_fails e ''list identity providers'' then Inl (IdentityFailure ''list identity providers'')
      else if ie_fails e ''scan identity providers'' then Inl (IdentityFailure ''scan identity providers'')
      else if ie_fails e ''read identity providers'' then Inl (IdentityFailure ''read identity providers'')
      else Inr (map provider_of (sort_key pr_id (filter (\<lambda>r. pr_tenant r = tenant) (provider_rows d)))))"

definition CreateProvider :: "identity_env \<Rightarrow> int \<Rightarrow> Provider \<Rightarrow> identity_db \<Rightarrow> (identity_error + Provider) \<times> identity_db" where
  "CreateProvider e tenant p d =
     (if ie_fails e ''create identity provider''
         \<or> list_ex (\<lambda>r. pr_tenant r = tenant \<and> pr_type r = pv_Type p \<and> pr_name r = pv_Name p) (provider_rows d)
      then (Inl (IdentityFailure ''create identity provider''), d)
      else let ident = next_provider d;
               row = \<lparr>pr_id = ident, pr_tenant = tenant, pr_type = pv_Type p, pr_name = pv_Name p, pr_issuer = Some (pv_Issuer p),
                      pr_audience = Some (pv_Audience p), pr_status = ''active''\<rparr>
           in (Inr (p\<lparr>pv_ID := ident, pv_Status := ''active''\<rparr>),
               record_audit e tenant ''identity_provider.created'' ident ''success'' (d\<lparr>provider_rows := provider_rows d @ [row], next_provider := ident + 1\<rparr>)))"

end
