(* ===== verification/IdentityCrypto.thy ===== *)
theory IdentityCrypto
  imports IdentityStore "HOL-Library.Word" "HOL-Library.Signed_Division"
begin

text \<open>
  The credentials of internal/identity/handler.go: one-time passwords and the encryption of their secret,
  the verification of workload tokens, and the signature with a single-use nonce in front of the identity
  callbacks. HMAC and AES-GCM are parameters; base32, base64url, the truncation of a one-time password
  and the structure of a token are definitions. A byte slice is a \<open>string\<close>.
\<close>

section \<open>Encodings of the standard library\<close>

text \<open>\<open>strings.ToUpper\<close>: the ASCII letters, and the two runes outside ASCII whose upper case is an ASCII letter.\<close>

definition upper_char :: "char \<Rightarrow> char" where
  "upper_char c = (if 97 \<le> byte_of c \<and> byte_of c \<le> 122 then char_of (byte_of c - 32) else c)"

fun ToUpper :: "string \<Rightarrow> string" where
  "ToUpper [] = []"
| "ToUpper (a # s) =
     (if byte_of a = 196 \<and> take 1 s = [char_of (177::nat)] then CHR ''I'' # ToUpper (drop 1 s)
      else if byte_of a = 197 \<and> take 1 s = [char_of (191::nat)] then CHR ''S'' # ToUpper (drop 1 s)
      else upper_char a # ToUpper s)"

text \<open>\<open>base32.StdEncoding.WithPadding(base32.NoPadding)\<close>: blocks of five bytes and eight digits.\<close>

definition base32_alphabet :: string where
  "base32_alphabet = ''ABCDEFGHIJKLMNOPQRSTUVWXYZ234567''"

definition base32_digit :: "nat \<Rightarrow> char" where
  "base32_digit n = base32_alphabet ! (n mod 32)"

fun base32_values :: "nat list \<Rightarrow> nat list" where
  "base32_values [] = []"
| "base32_values [a] = [a div 8, a mod 8 * 4]"
| "base32_values [a, b] = [a div 8, a mod 8 * 4 + b div 64, b div 2 mod 32, b mod 2 * 16]"
| "base32_values [a, b, c] = [a div 8, a mod 8 * 4 + b div 64, b div 2 mod 32, b mod 2 * 16 + c div 16, c mod 16 * 2]"
| "base32_values [a, b, c, d] =
     [a div 8, a mod 8 * 4 + b div 64, b div 2 mod 32, b mod 2 * 16 + c div 16, c mod 16 * 2 + d div 128, d div 4 mod 32, d mod 4 * 8]"
| "base32_values (a # b # c # d # e # bs) =
     [a div 8, a mod 8 * 4 + b div 64, b div 2 mod 32, b mod 2 * 16 + c div 16, c mod 16 * 2 + d div 128, d div 4 mod 32,
      d mod 4 * 8 + e div 32, e mod 32] @ base32_values bs"

definition base32_encode :: "string \<Rightarrow> string" where
  "base32_encode bs = map base32_digit (base32_values (map byte_of bs))"

text \<open>The last block may be short; one, three or six digits of it give no byte.\<close>

fun base32_bytes :: "nat list \<Rightarrow> nat list" where
  "base32_bytes (a # b # c # d # e # f # g # h # vs) =
     [a * 8 + b div 4, b mod 4 * 64 + c * 2 + d div 16, d mod 16 * 16 + e div 2, e mod 2 * 128 + f * 4 + g div 8, g mod 8 * 32 + h]
       @ base32_bytes vs"
| "base32_bytes [a, b, c, d, e, f, g] =
     [a * 8 + b div 4, b mod 4 * 64 + c * 2 + d div 16, d mod 16 * 16 + e div 2, e mod 2 * 128 + f * 4 + g div 8]"
| "base32_bytes [a, b, c, d, e] = [a * 8 + b div 4, b mod 4 * 64 + c * 2 + d div 16, d mod 16 * 16 + e div 2]"
| "base32_bytes [a, b, c, d] = [a * 8 + b div 4, b mod 4 * 64 + c * 2 + d div 16]"
| "base32_bytes [a, b] = [a * 8 + b div 4]"
| "base32_bytes _ = []"

definition all_values :: "('a \<Rightarrow> 'b option) \<Rightarrow> 'a list \<Rightarrow> 'b list option" where
  "all_values f xs = (if list_all (\<lambda>x. f x \<noteq> None) xs then Some (map (\<lambda>x. the (f x)) xs) else None)"

definition base32_decode :: "string \<Rightarrow> string option" where
  "base32_decode s =
     map_option (\<lambda>vs. map char_of (base32_bytes vs)) (all_values (\<lambda>c. index_of c base32_alphabet) (filter (\<lambda>c. \<not> line_break c) s))"

text \<open>\<open>base64.RawURLEncoding.DecodeString\<close>: no padding; a single digit in the last block is an error.\<close>

definition url_alphabet :: string where
  "url_alphabet = ''ABCDEFGHIJKLMNOPQRSTUVWXYZabcdefghijklmnopqrstuvwxyz0123456789-_''"

fun url_bytes :: "nat list \<Rightarrow> nat list option" where
  "url_bytes [] = Some []"
| "url_bytes [a] = None"
| "url_bytes [a, b] = Some [a * 4 + b div 16]"
| "url_bytes [a, b, c] = Some [a * 4 + b div 16, b mod 16 * 16 + c div 4]"
| "url_bytes (a # b # c # d # vs) =
     map_option (\<lambda>bs. [a * 4 + b div 16, b mod 16 * 16 + c div 4, c mod 4 * 64 + d] @ bs) (url_bytes vs)"

definition url_decode :: "string \<Rightarrow> string option" where
  "url_decode s =
     (case all_values (\<lambda>c. index_of c url_alphabet) (filter (\<lambda>c. \<not> line_break c) s) of
        None \<Rightarrow> None | Some vs \<Rightarrow> map_option (map char_of) (url_bytes vs))"

text \<open>\<open>strings.Split(s, ".")\<close>, and the bytes that \<open>hex.DecodeString\<close> returns, before an error if there is one.\<close>

fun split_dots :: "string \<Rightarrow> string list" where
  "split_dots [] = [[]]"
| "split_dots (c # s) = (if c = CHR ''.'' then [] # split_dots s else (c # hd (split_dots s)) # tl (split_dots s))"

fun hex_prefix :: "string \<Rightarrow> string" where
  "hex_prefix (a # b # s) =
     (case (hex_value a, hex_value b) of (Some x, Some y) \<Rightarrow> char_of (x * 16 + y) # hex_prefix s | _ \<Rightarrow> [])"
| "hex_prefix _ = []"

section \<open>One-time passwords\<close>

definition newTOTPSecret :: "identity_env \<Rightarrow> string option" where
  "newTOTPSecret e = map_option base32_encode (ie_rand e 0 20)"

definition encryptionKey :: "identity_env \<Rightarrow> string option" where
  "encryptionKey e = (let b = hex_prefix (ie_getenv e ''IDELIUM_MFA_ENCRYPTION_KEY'') in if length b = 32 then Some b else None)"

text \<open>A nonce that cannot be drawn stays zero: the error of \<open>rand.Read\<close> is ignored.\<close>

definition encryptSecret :: "identity_env \<Rightarrow> string \<Rightarrow> string" where
  "encryptSecret e secret =
     (case encryptionKey e of
        None \<Rightarrow> []
      | Some key \<Rightarrow>
          let nonce = (case ie_rand e 1 12 of None \<Rightarrow> replicate 12 (char_of (0::nat)) | Some n \<Rightarrow> n)
          in to_hex (nonce @ ie_seal e key nonce secret))"

definition decryptSecret :: "identity_env \<Rightarrow> string \<Rightarrow> string option" where
  "decryptSecret e stored =
     (case encryptionKey e of
        None \<Rightarrow> None
      | Some key \<Rightarrow> (case from_hex stored of
          None \<Rightarrow> None
        | Some raw \<Rightarrow> if length raw < 12 then None else ie_open e key (take 12 raw) (drop 12 raw)))"

text \<open>The counter as eight bytes, and the dynamic truncation of its code.\<close>

definition counter_bytes :: "64 word \<Rightarrow> string" where
  "counter_bytes counter = map (\<lambda>i. char_of (unat (take_bit 8 (drop_bit (8 * (7 - i)) counter)))) [0..<8]"

definition totp_code :: "identity_env \<Rightarrow> string \<Rightarrow> 64 word \<Rightarrow> string" where
  "totp_code e key counter =
     (let sum = map byte_of (ie_hmac_sha1 e key (counter_bytes counter));
          n = last sum mod 16;
          number = (sum ! n * 2 ^ 24 + sum ! (n + 1) * 2 ^ 16 + sum ! (n + 2) * 2 ^ 8 + sum ! (n + 3)) mod 2 ^ 31
      in pad 6 (number mod 1000000))"

definition totp_step :: "instant \<Rightarrow> int" where
  "totp_step now = now div second sdiv 30"

definition validTOTP :: "identity_env \<Rightarrow> string \<Rightarrow> string \<Rightarrow> instant \<Rightarrow> bool" where
  "validTOTP e secret code now =
     (case base32_decode (ToUpper (TrimSpace secret)) of
        None \<Rightarrow> False
      | Some key \<Rightarrow> length code = 6 \<and> list_ex (\<lambda>offset. totp_code e key (word_of_int (totp_step now + offset)) = code) [-1, 0, 1])"

section \<open>Workload tokens\<close>

record oidcClaims =
  oc_Issuer :: string
  oc_Subject :: string
  oc_Audience :: json
  oc_Exp :: int
  oc_Nonce :: string
  oc_Email :: string

definition claim_fields :: field_types where
  "claim_fields = [(''iss'', KStr), (''sub'', KStr), (''aud'', KAny), (''exp'', KInt), (''nonce'', KStr), (''email'', KStr)]"

definition claims_of :: "decoded \<Rightarrow> oidcClaims" where
  "claims_of body = \<lparr>oc_Issuer = get_str body ''iss'', oc_Subject = get_str body ''sub'', oc_Audience = get_any body ''aud'',
     oc_Exp = get_int body ''exp'', oc_Nonce = get_str body ''nonce'', oc_Email = get_str body ''email''\<rparr>"

definition audience_ok :: "json \<Rightarrow> string \<Rightarrow> bool" where
  "audience_ok aud expected =
     (case aud of
        JStr a \<Rightarrow> a = expected
      | JArr vs \<Rightarrow> list_ex (\<lambda>v. (case v of JStr s \<Rightarrow> s | _ \<Rightarrow> []) = expected) vs
      | _ \<Rightarrow> False)"

text \<open>The clock is read once, at the test of the expiry.\<close>

definition validateOIDCJWTForProvider :: "identity_env \<Rightarrow> instant \<Rightarrow> string \<Rightarrow> string \<Rightarrow> string \<Rightarrow> string \<Rightarrow> string + oidcClaims" where
  "validateOIDCJWTForProvider e now token expectedNonce expectedIssuer expectedAudience =
     (case split_dots token of
        [p0, p1, p2] \<Rightarrow> (case url_decode p0 of
          None \<Rightarrow> Inl ''malformed JWT header''
        | Some head \<Rightarrow>
            if (case unmarshal (ie_json e) head [(''alg'', KStr)] of None \<Rightarrow> True | Some h \<Rightarrow> get_str h ''alg'' \<noteq> ''HS256'') then Inl ''unsupported JWT algorithm''
            else (case url_decode p1 of
              None \<Rightarrow> Inl ''malformed JWT claims''
            | Some payload \<Rightarrow> (case unmarshal (ie_json e) payload claim_fields of
                None \<Rightarrow> Inl ''invalid JWT claims''
              | Some body \<Rightarrow>
                  let c = claims_of body; issuer = TrimSpace expectedIssuer; audience = TrimSpace expectedAudience;
                      secret = ie_getenv e ''IDELIUM_OIDC_HS256_SECRET''
                  in if oc_Issuer c = [] \<or> oc_Subject c = [] \<or> oc_Exp c \<le> now div second \<or> oc_Nonce c \<noteq> expectedNonce then Inl ''invalid JWT claims''
                     else if issuer = [] \<or> oc_Issuer c \<noteq> issuer then Inl ''invalid JWT issuer''
                     else if audience = [] then Inl ''OIDC audience is not configured''
                     else if \<not> audience_ok (oc_Audience c) audience then Inl ''invalid JWT audience''
                     else if secret = [] then Inl ''OIDC verification key unavailable''
                     else if url_decode p2 \<noteq> Some (ie_hmac_sha256 e secret (p0 @ ''.'' @ p1)) then Inl ''invalid JWT signature''
                     else Inr c)))
      | _ \<Rightarrow> Inl ''malformed JWT'')"

definition validateOIDCJWT :: "identity_env \<Rightarrow> instant \<Rightarrow> string \<Rightarrow> string \<Rightarrow> string + oidcClaims" where
  "validateOIDCJWT e now token expectedNonce =
     validateOIDCJWTForProvider e now token expectedNonce (ie_getenv e ''IDELIUM_OIDC_ISSUER'') (ie_getenv e ''IDELIUM_OIDC_AUDIENCE'')"

section \<open>Signed payloads\<close>

text \<open>The replay cache is a map of the process from nonces to the time they were used.\<close>

type_synonym nonce_cache = "(string \<times> instant) list"

definition validateSignedPayload :: "identity_env \<Rightarrow> raw_request \<Rightarrow> nonce_cache \<Rightarrow> 'v reply option \<times> nonce_cache" where
  "validateSignedPayload e request cache =
     (let secret = ie_getenv e ''IDELIUM_IDENTITY_CALLBACK_SECRET'';
          nonce = TrimSpace (rq_header (ir_http request) ''Idelium-Identity-Nonce'');
          signature = TrimSpace (rq_header (ir_http request) ''Idelium-Identity-Signature'');
          refuse = (\<lambda>status code message. Some (WriteError (ie_correlation e) status code message))
      in if secret = [] \<or> nonce = [] \<or> signature = [] \<or> length (ir_raw request) > 262144
         then (refuse 401 ''IDENTITY_SIGNATURE_REQUIRED'' ''A signed identity payload is required.'', cache)
         else if signature \<noteq> to_hex (ie_hmac_sha256 e secret (ir_raw request))
         then (refuse 401 ''IDENTITY_SIGNATURE_INVALID'' ''The identity payload signature is invalid.'', cache)
         else let now = ie_clock e 0; kept = filter (\<lambda>(key, at). \<not> now - at > 10 * minute) cache
              in if nonce \<in> fst ` set kept then (refuse 409 ''IDENTITY_REPLAY_DETECTED'' ''The identity payload nonce was already used.'', kept)
                 else if length kept \<ge> 10000
                 then (refuse 503 ''IDENTITY_REPLAY_CACHE_FULL'' ''Identity replay protection is temporarily unavailable.'', kept)
                 else (None, kept @ [(nonce, now)]))"

end
