(* ===== verification/ServiceAccounts.thy ===== *)
theory ServiceAccounts
  imports RawRequests
begin

text \<open>
  Service accounts (internal/serviceaccounts/handler.go and
  internal/persistence/mysql/service_accounts.go): a browser user lists, creates and revokes the accounts
  of the active tenant, and the exchange of workload tokens asks whether an account is active.
\<close>

section \<open>The repository\<close>

record service_account_row =
  sa_id :: int
  sa_tenant :: int
  sa_project :: "int option"
  sa_name :: string
  sa_credentialId :: string
  sa_secretHash :: string
  sa_scopes :: "json option"
  sa_expiresAt :: "instant option"
  sa_revokedAt :: "instant option"
  sa_lastUsedAt :: "instant option"
  sa_updatedAt :: "instant option"

record account_audit =
  aa_tenant :: int
  aa_action :: string
  aa_target :: int

record account_db =
  account_rows :: "service_account_row list"
  next_account :: int
  account_audits :: "account_audit list"

text \<open>
  Which statement fails, the 32 random bytes of a request, bcrypt, the rounding of time columns, the
  clock at the k-th reading, the database's \<open>NOW()\<close>, the correlation identifier and the JSON parser.
\<close>

record account_env =
  se_fails :: "string \<Rightarrow> bool"
  se_rand :: "nat list option"
  se_generate :: "string \<Rightarrow> string option"
  se_column_time :: "instant \<Rightarrow> instant"
  se_clock :: "nat \<Rightarrow> instant"
  se_dbnow :: instant
  se_correlation :: string
  se_json :: json_env

record Account =
  ac_ID :: int
  ac_Name :: string
  ac_CredentialID :: string
  ac_ProjectID :: "int option"
  ac_Scopes :: "string list option"
  ac_ExpiresAt :: "instant option"
  ac_RevokedAt :: "instant option"
  ac_LastUsedAt :: "instant option"

datatype account_error = ErrAccountNotFound | AccountFailure string

text \<open>\<open>json.Unmarshal\<close> into the scopes, its error ignored: elements that are no text stay empty.\<close>

definition scopes_of :: "json option \<Rightarrow> string list option" where
  "scopes_of column = (case column of Some (JArr xs) \<Rightarrow> Some (map (\<lambda>x. case x of JStr s \<Rightarrow> s | _ \<Rightarrow> []) xs) | _ \<Rightarrow> None)"

definition scopes_column :: "string list option \<Rightarrow> json" where
  "scopes_column scopes = (case scopes of None \<Rightarrow> JNull | Some xs \<Rightarrow> JArr (map JStr xs))"

definition account_of :: "service_account_row \<Rightarrow> Account" where
  "account_of r = \<lparr>ac_ID = sa_id r, ac_Name = sa_name r, ac_CredentialID = sa_credentialId r, ac_ProjectID = sa_project r,
     ac_Scopes = scopes_of (sa_scopes r), ac_ExpiresAt = sa_expiresAt r, ac_RevokedAt = sa_revokedAt r, ac_LastUsedAt = sa_lastUsedAt r\<rparr>"

definition ListAccounts :: "account_env \<Rightarrow> int \<Rightarrow> account_db \<Rightarrow> account_error + Account list" where
  "ListAccounts e tenant d =
     (if se_fails e ''list service accounts'' then Inl (AccountFailure ''list service accounts'')
      else if se_fails e ''scan service accounts'' then Inl (AccountFailure ''scan service accounts'')
      else if se_fails e ''read service accounts'' then Inl (AccountFailure ''read service accounts'')
      else Inr (map account_of (sort_key sa_id (filter (\<lambda>r. sa_tenant r = tenant) (account_rows d)))))"

definition account_row :: "account_env \<Rightarrow> int \<Rightarrow> Account \<Rightarrow> string \<Rightarrow> int \<Rightarrow> service_account_row" where
  "account_row e tenant a hash ident =
     \<lparr>sa_id = ident, sa_tenant = tenant, sa_project = ac_ProjectID a, sa_name = ac_Name a, sa_credentialId = ac_CredentialID a,
      sa_secretHash = hash, sa_scopes = Some (scopes_column (ac_Scopes a)), sa_expiresAt = map_option (se_column_time e) (ac_ExpiresAt a),
      sa_revokedAt = None, sa_lastUsedAt = None, sa_updatedAt = Some (se_dbnow e)\<rparr>"

definition audit_account :: "int \<Rightarrow> string \<Rightarrow> int \<Rightarrow> account_db \<Rightarrow> account_db" where
  "audit_account tenant action target d =
     d\<lparr>account_audits := account_audits d @ [\<lparr>aa_tenant = tenant, aa_action = action, aa_target = target\<rparr>]\<rparr>"

text \<open>There is no transaction: an account stays when the audit row cannot be written. \<open>credentialId\<close> is unique.\<close>

definition CreateAccount :: "account_env \<Rightarrow> int \<Rightarrow> Account \<Rightarrow> string \<Rightarrow> account_db \<Rightarrow> (account_error + Account) \<times> account_db" where
  "CreateAccount e tenant a secret d =
     (case se_generate e secret of
        None \<Rightarrow> (Inl (AccountFailure ''hash service account secret''), d)
      | Some hash \<Rightarrow>
          if se_fails e ''create service account'' \<or> list_ex (\<lambda>r. sa_credentialId r = ac_CredentialID a) (account_rows d)
          then (Inl (AccountFailure ''create service account''), d)
          else let ident = next_account d;
                   d' = d\<lparr>account_rows := account_rows d @ [account_row e tenant a hash ident], next_account := ident + 1\<rparr>
               in if se_fails e ''audit service account creation'' then (Inl (AccountFailure ''audit service account creation''), d')
                  else (Inr (a\<lparr>ac_ID := ident\<rparr>), audit_account tenant ''service_account.created'' ident d'))"

definition revocable :: "int \<Rightarrow> int \<Rightarrow> service_account_row \<Rightarrow> bool" where
  "revocable tenant ident r \<longleftrightarrow> sa_id r = ident \<and> sa_tenant r = tenant \<and> sa_revokedAt r = None"

definition RevokeAccount :: "account_env \<Rightarrow> int \<Rightarrow> int \<Rightarrow> instant \<Rightarrow> account_db \<Rightarrow> (account_error + unit) \<times> account_db" where
  "RevokeAccount e tenant ident now d =
     (if se_fails e ''revoke service account'' then (Inl (AccountFailure ''revoke service account''), d)
      else let t = Some (se_column_time e now);
               d' = d\<lparr>account_rows := upd_rows (revocable tenant ident) (\<lambda>r. r\<lparr>sa_revokedAt := t, sa_updatedAt := t\<rparr>) (account_rows d)\<rparr>
           in if \<not> list_ex (revocable tenant ident) (account_rows d) then (Inl ErrAccountNotFound, d')
              else if se_fails e ''audit service account revocation'' then (Inl (AccountFailure ''audit service account revocation''), d')
              else (Inr (), audit_account tenant ''service_account.revoked'' ident d'))"

definition account_active :: "int \<Rightarrow> string \<Rightarrow> instant \<Rightarrow> service_account_row \<Rightarrow> bool" where
  "account_active tenant subject now r \<longleftrightarrow> sa_tenant r = tenant \<and> sa_credentialId r = subject \<and> sa_revokedAt r = None
     \<and> (case sa_expiresAt r of None \<Rightarrow> True | Some t \<Rightarrow> t > now)"

definition ActiveServiceAccount :: "account_env \<Rightarrow> int \<Rightarrow> string \<Rightarrow> instant \<Rightarrow> account_db \<Rightarrow> account_error + bool" where
  "ActiveServiceAccount e tenant subject now d =
     (if se_fails e ''validate OIDC service-account binding'' then Inl (AccountFailure ''validate OIDC service-account binding'')
      else case find (account_active tenant subject now) (account_rows d) of
             None \<Rightarrow> Inr False | Some r \<Rightarrow> Inr (sa_id r > 0))"

section \<open>The handlers\<close>

text \<open>Which of the two dependencies \<open>NewHandler\<close> was given.\<close>

record account_handler =
  sh_sessions :: bool
  sh_repository :: bool

datatype account_value = AccountList "Account list" | AccountCreated Account string | AccountRevoked

definition unavailable :: "account_env \<Rightarrow> int \<Rightarrow> string \<Rightarrow> 'v reply" where
  "unavailable e status message = WriteError (se_correlation e) status ''SERVICE_ACCOUNT_UNAVAILABLE'' message"

definition account_user :: "account_handler \<Rightarrow> auth_env \<Rightarrow> account_env \<Rightarrow> http_request \<Rightarrow> auth_db \<Rightarrow> account_value reply + User" where
  "account_user h ae e request a =
     (if \<not> sh_repository h then Inl (unavailable e 503 ''Service-account storage is unavailable.'')
      else if \<not> sh_sessions h \<or> \<not> sh_repository h then Inl (unavailable e 503 ''Service-account storage is unavailable.'')
      else case AuthenticateRequest ae request (se_clock e 0) a of
             None \<Rightarrow> Inl (unauthenticated (se_correlation e))
           | Some u \<Rightarrow> Inr u)"

definition HandleIndex :: "account_handler \<Rightarrow> auth_env \<Rightarrow> account_env \<Rightarrow> raw_request \<Rightarrow> auth_db \<Rightarrow> account_db \<Rightarrow> account_value reply" where
  "HandleIndex h ae e request a d =
     (case account_user h ae e (ir_http request) a of
        Inl reply \<Rightarrow> reply
      | Inr u \<Rightarrow> (case ListAccounts e (ActiveTenant u) d of
          Inl _ \<Rightarrow> unavailable e 500 ''Service accounts could not be loaded.''
        | Inr v \<Rightarrow> Value 200 (AccountList v)))"

definition account_fields :: field_types where
  "account_fields = [(''name'', KStr), (''idProject'', KIntPtr), (''scopes'', KStrs), (''expiresAt'', KTimePtr)]"

definition new_account :: "decoded \<Rightarrow> nat list \<Rightarrow> Account" where
  "new_account body b =
     \<lparr>ac_ID = 0, ac_Name = TrimSpace (get_str body ''name''), ac_CredentialID = base64_raw (take 12 b), ac_ProjectID = get_intptr body ''idProject'',
      ac_Scopes = get_strs body ''scopes'', ac_ExpiresAt = get_time body ''expiresAt'', ac_RevokedAt = None, ac_LastUsedAt = None\<rparr>"

definition HandleStore :: "account_handler \<Rightarrow> auth_env \<Rightarrow> account_env \<Rightarrow> raw_request \<Rightarrow> auth_db \<Rightarrow> account_db \<Rightarrow> account_value reply \<times> account_db" where
  "HandleStore h ae e request a d =
     (case account_user h ae e (ir_http request) a of
        Inl reply \<Rightarrow> (reply, d)
      | Inr u \<Rightarrow> (case decode_limited (se_json e) 65536 (ir_raw request) account_fields of
          None \<Rightarrow> (WriteError (se_correlation e) 400 ''INVALID_SERVICE_ACCOUNT'' ''The service-account name is required.'', d)
        | Some body \<Rightarrow>
            if TrimSpace (get_str body ''name'') = []
            then (WriteError (se_correlation e) 400 ''INVALID_SERVICE_ACCOUNT'' ''The service-account name is required.'', d)
            else (case se_rand e of
              None \<Rightarrow> (unavailable e 500 ''Service account could not be created.'', d)
            | Some b \<Rightarrow> (case CreateAccount e (ActiveTenant u) (new_account body b) (base64_raw b) d of
                (Inl _, d') \<Rightarrow> (unavailable e 500 ''Service account could not be created.'', d')
              | (Inr created, d') \<Rightarrow> (Value 201 (AccountCreated created (base64_raw b)), d')))))"

definition HandleRevoke :: "account_handler \<Rightarrow> auth_env \<Rightarrow> account_env \<Rightarrow> raw_request \<Rightarrow> auth_db \<Rightarrow> account_db \<Rightarrow> account_value reply \<times> account_db" where
  "HandleRevoke h ae e request a d =
     (case parsePathID (rq_path (ir_http request) ''serviceAccount'') of
        None \<Rightarrow> (WriteError (se_correlation e) 400 ''INVALID_SERVICE_ACCOUNT'' ''The service-account identifier is required.'', d)
      | Some ident \<Rightarrow> (case account_user h ae e (ir_http request) a of
          Inl reply \<Rightarrow> (reply, d)
        | Inr u \<Rightarrow> (case RevokeAccount e (ActiveTenant u) ident (se_clock e 1) d of
            (Inl ErrAccountNotFound, d') \<Rightarrow> (WriteError (se_correlation e) 404 ''SERVICE_ACCOUNT_NOT_FOUND'' ''Service account not found.'', d')
          | (Inl (AccountFailure _), d') \<Rightarrow> (unavailable e 500 ''Service account could not be revoked.'', d')
          | (Inr _, d') \<Rightarrow> (Value 200 AccountRevoked, d'))))"

end
