(* ===== verification/Identity.thy ===== *)
theory Identity
  imports IdentityCrypto ServiceAccounts
begin

text \<open>
  The handlers of internal/identity/handler.go: identity providers, break glass, SCIM, multi-factor
  authentication, workload tokens and single sign-on, with the assembly of their dependencies.
\<close>

section \<open>Dependencies\<close>

text \<open>
  The interface of the single sign-on states, as the handlers call it. \<open>so_SSOState\<close> is the optional
  interface \<open>SSOStateInspector\<close>.
\<close>

record sso_ops =
  so_CreateSSOState :: "int \<Rightarrow> int \<Rightarrow> string \<Rightarrow> string \<Rightarrow> instant \<Rightarrow> identity_db \<Rightarrow> (identity_error + unit) \<times> identity_db"
  so_ConsumeSSOState :: "string \<Rightarrow> instant \<Rightarrow> identity_db \<Rightarrow> (identity_error + int \<times> int) \<times> identity_db"
  so_Provider :: "int \<Rightarrow> string \<Rightarrow> identity_db \<Rightarrow> identity_error + Provider"
  so_SSOState :: "(string \<Rightarrow> instant \<Rightarrow> identity_db \<Rightarrow> identity_error + int \<times> int) option"

record identity_handler =
  ih_sessions :: bool
  ih_providers :: bool
  ih_mfa :: bool
  ih_scim :: bool
  ih_users :: bool
  ih_sso :: "sso_ops option"
  ih_service :: bool
  ih_breakglass :: bool

text \<open>
  A method set lists the methods with their types, and a type assertion to an interface holds when the
  dynamic type has all of its methods. The two interfaces of browserauth are represented by a flag each.
  \<open>dp_sso\<close> are the methods of a type as the interface of the sign-on states calls them, if it has them with
  the types of that interface.
\<close>

type_synonym method_set = "(string \<times> string) list"

record dependency =
  dp_SessionRepository :: bool
  dp_Repository :: bool
  dp_methods :: method_set
  dp_sso :: "sso_ops option"

definition implements :: "dependency option \<Rightarrow> method_set \<Rightarrow> bool" where
  "implements dep interface = (case dep of None \<Rightarrow> False | Some p \<Rightarrow> list_all (\<lambda>m. m \<in> set (dp_methods p)) interface)"

definition ProviderRepository :: method_set where
  "ProviderRepository = [(''ListProviders'', ''(Context, int64) ([]Provider, error)''), (''CreateProvider'', ''(Context, int64, Provider) (Provider, error)'')]"

definition MFARepository :: method_set where
  "MFARepository = [(''SetMFASecret'', ''(Context, int64, string) error''), (''GetMFASecret'', ''(Context, int64) (string, error)''),
     (''MarkMFAConfirmed'', ''(Context, int64, Time) error'')]"

definition SCIMRepository :: method_set where
  "SCIMRepository = [(''CreateSCIMUser'', ''(Context, int64, string, string, bool) (User, error)''),
     (''UpdateSCIMUser'', ''(Context, int64, int64, string, string, bool) (User, error)''), (''DeleteSCIMUser'', ''(Context, int64, int64) error'')]"

definition SSOStateRepository :: method_set where
  "SSOStateRepository = [(''CreateSSOState'', ''(Context, int64, int64, string, string, Time) error''),
     (''ConsumeSSOState'', ''(Context, string, Time) (int64, int64, error)''), (''Provider'', ''(Context, int64, string) (Provider, error)'')]"

definition ServiceAccountBinding :: method_set where
  "ServiceAccountBinding = [(''ActiveServiceAccount'', ''(Context, int64, string, Time) (bool, error)'')]"

definition BreakGlassRepository :: method_set where
  "BreakGlassRepository = [(''SetBreakGlass'', ''(Context, int64, int64, string, Time, Time) error''),
     (''TestBreakGlass'', ''(Context, int64, int64, Time) (bool, error)'')]"

text \<open>\<open>NewHandler\<close>: a dependency that is absent, nil or of another type leaves its field nil.\<close>

definition dep_at :: "dependency option list \<Rightarrow> nat \<Rightarrow> dependency option" where
  "dep_at deps k = (if k < length deps then deps ! k else None)"

definition NewIdentityHandler :: "dependency option list \<Rightarrow> identity_handler" where
  "NewIdentityHandler deps =
     \<lparr>ih_sessions = (case dep_at deps 0 of None \<Rightarrow> False | Some p \<Rightarrow> dp_SessionRepository p),
      ih_providers = implements (dep_at deps 1) ProviderRepository, ih_mfa = implements (dep_at deps 2) MFARepository,
      ih_scim = implements (dep_at deps 3) SCIMRepository,
      ih_users = (case dep_at deps 0 of None \<Rightarrow> False | Some p \<Rightarrow> dp_Repository p),
      ih_sso = (if implements (dep_at deps 4) SSOStateRepository then Option.bind (dep_at deps 4) dp_sso else None),
      ih_service = implements (dep_at deps 5) ServiceAccountBinding,
      ih_breakglass = implements (dep_at deps (if length deps > 7 then 7 else 6)) BreakGlassRepository\<rparr>"

text \<open>
  The types that the program passes: \<open>BrowserAuthRepository\<close>, whose \<open>Provider\<close> takes the tenant as text,
  the provider repository and the service-account repository, in the order of the router.
\<close>

definition BrowserAuthRepository :: dependency where
  "BrowserAuthRepository = \<lparr>dp_SessionRepository = True, dp_Repository = True,
     dp_methods = MFARepository @ SCIMRepository @ BreakGlassRepository @
       [(''CreateSSOState'', ''(Context, int64, int64, string, string, Time) error''),
        (''ConsumeSSOState'', ''(Context, string, Time) (int64, int64, error)''), (''SSOState'', ''(Context, string, Time) (int64, int64, error)''),
        (''Provider'', ''(Context, string, string) (Provider, error)'')], dp_sso = None\<rparr>"

definition IdentityProviderRepository :: dependency where
  "IdentityProviderRepository = \<lparr>dp_SessionRepository = False, dp_Repository = False, dp_methods = ProviderRepository, dp_sso = None\<rparr>"

definition ServiceAccountRepository :: dependency where
  "ServiceAccountRepository = \<lparr>dp_SessionRepository = False, dp_Repository = False, dp_methods = ServiceAccountBinding, dp_sso = None\<rparr>"

definition identityHandler :: identity_handler where
  "identityHandler = (let browser = Some BrowserAuthRepository
     in NewIdentityHandler [browser, Some IdentityProviderRepository, browser, browser, browser, Some ServiceAccountRepository, browser])"

section \<open>State and replies\<close>

record identity_state =
  is_db :: identity_db
  is_nonces :: nonce_cache
  is_accounts :: account_db

datatype identity_value =
    ProviderList "Provider list" | ProviderCreated Provider
  | BreakGlassSet int instant | BreakGlassValid int
  | ScimDeleted int | ScimUser int string bool
  | MFAEnrolled string | MFAVerified bool
  | OIDCValidated "(int \<times> int) option" oidcClaims
  | SSOStarted string string instant string | SSOSession int

type_synonym identity_result = "identity_value sent \<times> identity_state"

definition id_error :: "identity_env \<Rightarrow> int \<Rightarrow> string \<Rightarrow> string \<Rightarrow> identity_value sent" where
  "id_error e status code message = ([], WriteError (ie_correlation e) status code message)"

definition writeMigrationDisabled :: "identity_env \<Rightarrow> identity_value sent" where
  "writeMigrationDisabled e = id_error e 409 ''IDENTITY_LARAVEL_OWNER'' ''Advanced identity operations remain owned by the Laravel runtime.''"

text \<open>
  The session of a request. Without a session repository a request with a cookie panics, which the
  recovering middleware answers with status 500.
\<close>

definition id_session :: "identity_handler \<Rightarrow> auth_env \<Rightarrow> identity_env \<Rightarrow> nat \<Rightarrow> raw_request \<Rightarrow> identity_db \<Rightarrow> identity_value sent + User" where
  "id_session h ae e k request d =
     (if \<not> ih_sessions h \<and> (case rq_cookie (ir_http request) of None \<Rightarrow> False | Some c \<Rightarrow> c \<noteq> [])
      then Inl (id_error e 500 ''INTERNAL_ERROR'' ''The request could not be completed.'')
      else case AuthenticateRequest ae (ir_http request) (ie_clock e k) (id_auth d) of
             None \<Rightarrow> Inl ([], unauthenticated (ie_correlation e))
           | Some u \<Rightarrow> Inr u)"

definition hasPathParam :: "raw_request \<Rightarrow> string \<Rightarrow> bool" where
  "hasPathParam request name \<longleftrightarrow> rq_path (ir_http request) name \<noteq> []"

section \<open>Identity providers\<close>

definition provider_fields :: field_types where
  "provider_fields = [(''id'', KInt), (''type'', KStr), (''name'', KStr), (''issuer'', KStr), (''audience'', KStr), (''status'', KStr)]"

definition provider_input :: "decoded \<Rightarrow> Provider" where
  "provider_input body = \<lparr>pv_ID = get_int body ''id'', pv_Type = ToLower (TrimSpace (get_str body ''type'')), pv_Name = TrimSpace (get_str body ''name''),
     pv_Issuer = get_str body ''issuer'', pv_Audience = get_str body ''audience'', pv_Status = get_str body ''status''\<rparr>"

definition HandleProviders :: "identity_handler \<Rightarrow> auth_env \<Rightarrow> identity_env \<Rightarrow> raw_request \<Rightarrow> identity_state \<Rightarrow> identity_result" where
  "HandleProviders h ae e request s =
     (if ih_sessions h \<and> ih_providers h then
        (case id_session h ae e 0 request (is_db s) of
           Inl r \<Rightarrow> (r, s)
         | Inr user \<Rightarrow>
             if ir_method request = ''GET'' then
               (case ListProviders e (ActiveTenant user) (is_db s) of
                  Inl _ \<Rightarrow> (id_error e 500 ''IDENTITY_UNAVAILABLE'' ''Identity providers could not be loaded.'', s)
                | Inr v \<Rightarrow> (([], Value 200 (ProviderList v)), s))
             else (case decode_limited (ie_json e) 65536 (ir_raw request) provider_fields of
               None \<Rightarrow> (id_error e 400 ''INVALID_IDENTITY_PROVIDER'' ''Provider type and name are required.'', s)
             | Some body \<Rightarrow>
                 if TrimSpace (get_str body ''type'') = [] \<or> TrimSpace (get_str body ''name'') = []
                 then (id_error e 400 ''INVALID_IDENTITY_PROVIDER'' ''Provider type and name are required.'', s)
                 else (case CreateProvider e (ActiveTenant user) (provider_input body) (is_db s) of
                   (Inl _, d') \<Rightarrow> (id_error e 500 ''IDENTITY_UNAVAILABLE'' ''Identity provider could not be created.'', s\<lparr>is_db := d'\<rparr>)
                 | (Inr created, d') \<Rightarrow> (([], Value 201 (ProviderCreated created)), s\<lparr>is_db := d'\<rparr>))))
      else (writeMigrationDisabled e, s))"

section \<open>Break glass\<close>

text \<open>What both handlers test first.\<close>

definition break_glass_actor :: "identity_handler \<Rightarrow> auth_env \<Rightarrow> identity_env \<Rightarrow> raw_request \<Rightarrow> identity_db \<Rightarrow> identity_value sent + User \<times> int" where
  "break_glass_actor h ae e request d =
     (if \<not> hasPathParam request ''user'' then Inl (id_error e 400 ''INVALID_USER'' ''The user identifier is required.'')
      else if \<not> ih_breakglass h \<or> \<not> ih_sessions h then Inl (id_error e 503 ''BREAK_GLASS_UNAVAILABLE'' ''Break-glass storage is unavailable.'')
      else case id_session h ae e 0 request d of
             Inl r \<Rightarrow> Inl r
           | Inr actor \<Rightarrow> (case parsePathID (rq_path (ir_http request) ''user'') of
               None \<Rightarrow> Inl (id_error e 400 ''INVALID_USER'' ''The user identifier is required.'')
             | Some target \<Rightarrow> Inr (actor, target)))"

definition HandleBreakGlass :: "identity_handler \<Rightarrow> auth_env \<Rightarrow> identity_env \<Rightarrow> raw_request \<Rightarrow> identity_state \<Rightarrow> identity_result" where
  "HandleBreakGlass h ae e request s =
     (let invalid = (id_error e 422 ''INVALID_BREAK_GLASS'' ''Reason and an expiry within one hour are required.'', s)
      in case break_glass_actor h ae e request (is_db s) of
           Inl r \<Rightarrow> (r, s)
         | Inr (actor, target) \<Rightarrow> (case decode_limited (ie_json e) 16384 (ir_raw request) [(''reason'', KStr), (''expiresAt'', KTime)] of
             None \<Rightarrow> invalid
           | Some body \<Rightarrow> (case get_time body ''expiresAt'' of
               None \<Rightarrow> invalid
             | Some expires \<Rightarrow>
                 if TrimSpace (get_str body ''reason'') = [] \<or> \<not> expires > ie_clock e 1 \<or> expires > ie_clock e 2 + hour then invalid
                 else (case SetBreakGlass e (ActiveTenant actor) target (TrimSpace (get_str body ''reason'')) expires (ie_clock e 3) (is_db s) of
                   (Inl _, d') \<Rightarrow> (id_error e 404 ''USER_NOT_FOUND'' ''User not found.'', s\<lparr>is_db := d'\<rparr>)
                 | (Inr _, d') \<Rightarrow> (([], Value 200 (BreakGlassSet target expires)), s\<lparr>is_db := d'\<rparr>)))))"

definition HandleBreakGlassTest :: "identity_handler \<Rightarrow> auth_env \<Rightarrow> identity_env \<Rightarrow> raw_request \<Rightarrow> identity_state \<Rightarrow> identity_result" where
  "HandleBreakGlassTest h ae e request s =
     (case break_glass_actor h ae e request (is_db s) of
        Inl r \<Rightarrow> (r, s)
      | Inr (actor, target) \<Rightarrow> (case TestBreakGlass e (ActiveTenant actor) target (ie_clock e 1) (is_db s) of
          (Inl _, d') \<Rightarrow> (id_error e 404 ''USER_NOT_FOUND'' ''User not found.'', s\<lparr>is_db := d'\<rparr>)
        | (Inr valid, d') \<Rightarrow>
            (if \<not> valid then id_error e 409 ''BREAK_GLASS_INACTIVE'' ''Break-glass control is inactive or expired.''
             else ([], Value 200 (BreakGlassValid target)), s\<lparr>is_db := d'\<rparr>)))"

section \<open>SCIM\<close>

definition scim_fields :: field_types where
  "scim_fields = [(''id'', KInt), (''name'', KStr), (''email'', KStr), (''active'', KBoolPtr)]"

text \<open>\<open>UpdateSCIMUser\<close> with the replies of both places that call it.\<close>

definition scim_update :: "identity_env \<Rightarrow> int \<Rightarrow> int \<Rightarrow> decoded \<Rightarrow> bool \<Rightarrow> identity_state \<Rightarrow> identity_result" where
  "scim_update e tenant ident body active s =
     (case UpdateSCIMUser e tenant ident (TrimSpace (get_str body ''email'')) (TrimSpace (get_str body ''name'')) active (is_db s) of
        (Inl _, d') \<Rightarrow> (id_error e 404 ''SCIM_USER_NOT_FOUND'' ''SCIM user not found.'', s\<lparr>is_db := d'\<rparr>)
      | (Inr u, d') \<Rightarrow> (([], Value 200 (ScimUser (us_ID u) (us_Email u) active)), s\<lparr>is_db := d'\<rparr>))"

definition scim_lifecycle :: "identity_env \<Rightarrow> int \<Rightarrow> raw_request \<Rightarrow> identity_state \<Rightarrow> identity_result" where
  "scim_lifecycle e tenant request s =
     (let userID = path_number (rq_path (ir_http request) ''user'');
          no_id = (id_error e 400 ''INVALID_SCIM_USER'' ''The SCIM user identifier is required.'', s);
          no_email = (id_error e 400 ''INVALID_SCIM_USER'' ''A valid SCIM email is required.'', s)
      in if ir_method request = ''DELETE'' then
           (if userID \<le> 0 then no_id
            else (case DeleteSCIMUser e tenant userID (is_db s) of
              (Inl _, d') \<Rightarrow> (id_error e 404 ''SCIM_USER_NOT_FOUND'' ''SCIM user not found.'', s\<lparr>is_db := d'\<rparr>)
            | (Inr _, d') \<Rightarrow> (([], Value 200 (ScimDeleted userID)), s\<lparr>is_db := d'\<rparr>)))
         else (case decode_limited (ie_json e) 65536 (ir_raw request) scim_fields of
           None \<Rightarrow> no_email
         | Some body \<Rightarrow>
             let active = (case get_boolptr body ''active'' of None \<Rightarrow> True | Some b \<Rightarrow> b)
             in if \<not> Contains (get_str body ''email'') ''@'' then no_email
                else if ir_method request = ''PUT'' \<or> ir_method request = ''PATCH'' then
                  (let ident = (if userID \<le> 0 then get_int body ''id'' else userID)
                   in if ident \<le> 0 then no_id else scim_update e tenant ident body active s)
                else if get_int body ''id'' > 0 then scim_update e tenant (get_int body ''id'') body active s
                else (case CreateSCIMUser e tenant (TrimSpace (get_str body ''email'')) (TrimSpace (get_str body ''name'')) active (is_db s) of
                  (Inl _, d') \<Rightarrow> (id_error e 500 ''SCIM_UNAVAILABLE'' ''SCIM user could not be persisted.'', s\<lparr>is_db := d'\<rparr>)
                | (Inr u, d') \<Rightarrow> (([], Value 201 (ScimUser (us_ID u) (us_Email u) active)), s\<lparr>is_db := d'\<rparr>))))"

definition HandleSCIMUsers :: "identity_handler \<Rightarrow> auth_env \<Rightarrow> identity_env \<Rightarrow> raw_request \<Rightarrow> identity_state \<Rightarrow> identity_result" where
  "HandleSCIMUsers h ae e request s =
     (let missing = id_error e 404 ''IDENTITY_PROVIDER_NOT_FOUND'' ''Identity provider not found.''
      in if \<not> hasPathParam request ''identityProvider'' then (id_error e 400 ''INVALID_IDENTITY_PROVIDER'' ''The identity provider identifier is required.'', s)
         else case validateSignedPayload e request (is_nonces s) of
           (Some reply, cache) \<Rightarrow> (([], reply), s\<lparr>is_nonces := cache\<rparr>)
         | (None, cache) \<Rightarrow>
             let s = s\<lparr>is_nonces := cache\<rparr>
             in if \<not> ih_scim h then (writeMigrationDisabled e, s)
                else (case id_session h ae e 1 request (is_db s) of
                  Inl r \<Rightarrow> (r, s)
                | Inr user \<Rightarrow> (case parsePathID (rq_path (ir_http request) ''identityProvider'') of
                    None \<Rightarrow> (missing, s)
                  | Some providerID \<Rightarrow>
                      if \<not> ih_providers h then (missing, s)
                      else (case ListProviders e (ActiveTenant user) (is_db s) of
                        Inl _ \<Rightarrow> (missing, s)
                      | Inr providers \<Rightarrow>
                          if \<not> list_ex (\<lambda>p. pv_ID p = providerID \<and> pv_Status p = ''active'') providers then (missing, s)
                          else scim_lifecycle e (ActiveTenant user) request s))))"

section \<open>Multi-factor authentication\<close>

definition HandleMFAEnroll :: "identity_handler \<Rightarrow> auth_env \<Rightarrow> identity_env \<Rightarrow> raw_request \<Rightarrow> identity_state \<Rightarrow> identity_result" where
  "HandleMFAEnroll h ae e request s =
     (if ih_mfa h \<and> ih_sessions h then
        (let failed = id_error e 500 ''MFA_UNAVAILABLE'' ''MFA enrollment could not be started.''
         in case id_session h ae e 0 request (is_db s) of
              Inl r \<Rightarrow> (r, s)
            | Inr user \<Rightarrow> (case newTOTPSecret e of
                None \<Rightarrow> (failed, s)
              | Some secret \<Rightarrow> (case SetMFASecret e (us_ID user) (encryptSecret e secret) (is_db s) of
                  (Inl _, d') \<Rightarrow> (failed, s\<lparr>is_db := d'\<rparr>)
                | (Inr _, d') \<Rightarrow> (([], Value 201 (MFAEnrolled secret)), s\<lparr>is_db := d'\<rparr>))))
      else (writeMigrationDisabled e, s))"

text \<open>\<open>None\<close> stands for false, after which the caller writes the migration reply.\<close>

definition verifyMFA :: "identity_handler \<Rightarrow> auth_env \<Rightarrow> identity_env \<Rightarrow> raw_request \<Rightarrow> bool \<Rightarrow> identity_state \<Rightarrow> identity_result option" where
  "verifyMFA h ae e request confirm s =
     (if \<not> ih_mfa h \<or> \<not> ih_sessions h then None
      else Some (case id_session h ae e 0 request (is_db s) of
        Inl r \<Rightarrow> (r, s)
      | Inr u \<Rightarrow> (case decode_limited (ie_json e) 4096 (ir_raw request) [(''code'', KStr)] of
          None \<Rightarrow> (id_error e 400 ''INVALID_MFA_CODE'' ''A six-digit MFA code is required.'', s)
        | Some body \<Rightarrow>
            if length (get_str body ''code'') \<noteq> 6 then (id_error e 400 ''INVALID_MFA_CODE'' ''A six-digit MFA code is required.'', s)
            else (case GetMFASecret e (us_ID u) (is_db s) of
              Inl _ \<Rightarrow> (id_error e 400 ''MFA_NOT_ENROLLED'' ''MFA enrollment is required.'', s)
            | Inr enc \<Rightarrow>
                if (case decryptSecret e enc of None \<Rightarrow> True | Some secret \<Rightarrow> \<not> validTOTP e secret (get_str body ''code'') (ie_clock e 1))
                then (id_error e 401 ''INVALID_MFA_CODE'' ''The MFA code is invalid.'', s)
                else if confirm then
                  (case MarkMFAConfirmed e (us_ID u) (ie_clock e 2) (is_db s) of
                     (Inl _, d') \<Rightarrow> (id_error e 500 ''MFA_UNAVAILABLE'' ''MFA confirmation could not be saved.'', s\<lparr>is_db := d'\<rparr>)
                   | (Inr _, d') \<Rightarrow> (([], Value 200 (MFAVerified (\<not> confirm))), s\<lparr>is_db := d'\<rparr>))
                else (([], Value 200 (MFAVerified (\<not> confirm))), s)))))"

definition HandleMFAConfirm :: "identity_handler \<Rightarrow> auth_env \<Rightarrow> identity_env \<Rightarrow> raw_request \<Rightarrow> identity_state \<Rightarrow> identity_result" where
  "HandleMFAConfirm h ae e request s = (case verifyMFA h ae e request True s of Some r \<Rightarrow> r | None \<Rightarrow> (writeMigrationDisabled e, s))"

definition HandleMFAStepUp :: "identity_handler \<Rightarrow> auth_env \<Rightarrow> identity_env \<Rightarrow> raw_request \<Rightarrow> identity_state \<Rightarrow> identity_result" where
  "HandleMFAStepUp h ae e request s = (case verifyMFA h ae e request False s of Some r \<Rightarrow> r | None \<Rightarrow> (writeMigrationDisabled e, s))"

section \<open>Workload tokens\<close>

definition exchange_fields :: field_types where
  "exchange_fields = [(''id_token'', KStr), (''state'', KStr), (''nonce'', KStr)]"

definition exchange_token :: "identity_handler \<Rightarrow> sso_ops \<Rightarrow> account_env \<Rightarrow> identity_env \<Rightarrow> decoded \<Rightarrow> identity_state \<Rightarrow> identity_result" where
  "exchange_token h sso se e body s =
     (let state = get_str body ''state''; bad_state = id_error e 401 ''INVALID_OIDC_STATE'' ''The OIDC state is invalid or expired.''
      in case so_SSOState sso of
           Some inspect \<Rightarrow> (case inspect state (ie_clock e 1) (is_db s) of
             Inl _ \<Rightarrow> (bad_state, s)
           | Inr (tenantID, providerID) \<Rightarrow> (case so_Provider sso tenantID (itoa providerID) (is_db s) of
               Inl _ \<Rightarrow> (id_error e 401 ''INVALID_OIDC_PROVIDER'' ''The OIDC provider binding is invalid.'', s)
             | Inr provider \<Rightarrow>
                 if pv_Status provider \<noteq> ''active'' \<or> pv_Issuer provider = [] \<or> pv_Audience provider = []
                 then (id_error e 401 ''INVALID_OIDC_PROVIDER'' ''The OIDC provider binding is invalid.'', s)
                 else (case validateOIDCJWTForProvider e (ie_clock e 2) (get_str body ''id_token'') (get_str body ''nonce'') (pv_Issuer provider) (pv_Audience provider) of
                   Inl problem \<Rightarrow> (id_error e 401 ''INVALID_OIDC_TOKEN'' problem, s)
                 | Inr claims \<Rightarrow>
                     if \<not> ih_service h then (id_error e 503 ''OIDC_UNAVAILABLE'' ''Service-account binding is unavailable.'', s)
                     else if ActiveServiceAccount se tenantID (oc_Subject claims) (ie_clock e 3) (is_accounts s) \<noteq> Inr True
                     then (id_error e 401 ''INVALID_SERVICE_ACCOUNT'' ''The OIDC subject is not bound to an active service account.'', s)
                     else (case so_ConsumeSSOState sso state (ie_clock e 4) (is_db s) of
                       (Inl _, d') \<Rightarrow> (bad_state, s\<lparr>is_db := d'\<rparr>)
                     | (Inr _, d') \<Rightarrow> (([], Value 200 (OIDCValidated (Some (tenantID, providerID)) claims)), s\<lparr>is_db := d'\<rparr>)))))
         | None \<Rightarrow> (case validateOIDCJWT e (ie_clock e 1) (get_str body ''id_token'') (get_str body ''nonce'') of
             Inl problem \<Rightarrow> (id_error e 401 ''INVALID_OIDC_TOKEN'' problem, s)
           | Inr claims \<Rightarrow> (case so_ConsumeSSOState sso state (ie_clock e 2) (is_db s) of
               (Inl _, d') \<Rightarrow> (bad_state, s\<lparr>is_db := d'\<rparr>)
             | (Inr _, d') \<Rightarrow> (([], Value 200 (OIDCValidated None claims)), s\<lparr>is_db := d'\<rparr>))))"

definition HandleOIDCTokenExchange :: "identity_handler \<Rightarrow> account_env \<Rightarrow> identity_env \<Rightarrow> raw_request \<Rightarrow> identity_state \<Rightarrow> identity_result" where
  "HandleOIDCTokenExchange h se e request s =
     (let invalid = id_error e 400 ''INVALID_OIDC_REQUEST'' ''id_token, state and nonce are required.''
      in case validateSignedPayload e request (is_nonces s) of
           (Some reply, cache) \<Rightarrow> (([], reply), s\<lparr>is_nonces := cache\<rparr>)
         | (None, cache) \<Rightarrow>
             let s = s\<lparr>is_nonces := cache\<rparr>
             in case decode_limited (ie_json e) (length (ir_raw request)) (ir_raw request) exchange_fields of
                  None \<Rightarrow> (invalid, s)
                | Some body \<Rightarrow>
                    if get_str body ''id_token'' = [] \<or> get_str body ''state'' = [] \<or> get_str body ''nonce'' = [] then (invalid, s)
                    else (case ih_sso h of
                      None \<Rightarrow> (id_error e 503 ''OIDC_UNAVAILABLE'' ''OIDC state storage is unavailable.'', s)
                    | Some sso \<Rightarrow> exchange_token h sso se e body s))"

section \<open>Single sign-on\<close>

definition HandleSSOStart :: "identity_handler \<Rightarrow> auth_env \<Rightarrow> identity_env \<Rightarrow> raw_request \<Rightarrow> identity_state \<Rightarrow> identity_result" where
  "HandleSSOStart h ae e request s =
     (let failed = (\<lambda>message. id_error e 500 ''SSO_UNAVAILABLE'' message)
      in if \<not> hasPathParam request ''identityProvider'' then (id_error e 400 ''INVALID_IDENTITY_PROVIDER'' ''The identity provider identifier is required.'', s)
         else if \<not> ih_sessions h then (writeMigrationDisabled e, s)
         else case ih_sso h of
           None \<Rightarrow> (writeMigrationDisabled e, s)
         | Some sso \<Rightarrow> (case id_session h ae e 0 request (is_db s) of
             Inl r \<Rightarrow> (r, s)
           | Inr user \<Rightarrow> (case so_Provider sso (ActiveTenant user) (rq_path (ir_http request) ''identityProvider'') (is_db s) of
               Inl _ \<Rightarrow> (id_error e 404 ''IDENTITY_PROVIDER_NOT_FOUND'' ''Identity provider not found.'', s)
             | Inr provider \<Rightarrow>
                 if pv_Status provider \<noteq> ''active'' then (id_error e 404 ''IDENTITY_PROVIDER_NOT_FOUND'' ''Identity provider not found.'', s)
                 else (case (ie_rand e 0 32, ie_rand e 1 32) of
                   (Some stateBytes, Some challengeBytes) \<Rightarrow>
                     let state = to_hex stateBytes; challenge = to_hex challengeBytes; expires = ie_clock e 1 + 10 * minute
                     in (case so_CreateSSOState sso (ActiveTenant user) (pv_ID provider) state challenge expires (is_db s) of
                          (Inl _, d') \<Rightarrow> (failed ''SSO state could not be persisted.'', s\<lparr>is_db := d'\<rparr>)
                        | (Inr _, d') \<Rightarrow> (([], Value 200 (SSOStarted state challenge expires (pv_Name provider))), s\<lparr>is_db := d'\<rparr>))
                 | _ \<Rightarrow> (failed ''SSO state could not be created.'', s)))))"

definition validateCallbackBinding :: "identity_handler \<Rightarrow> identity_env \<Rightarrow> raw_request \<Rightarrow> identity_state \<Rightarrow> identity_value sent option \<times> identity_state" where
  "validateCallbackBinding h e request s =
     (let bad_state = Some (id_error e 401 ''INVALID_OIDC_STATE'' ''The SSO state is invalid or expired.'')
      in case ih_sso h of
           None \<Rightarrow> (Some (id_error e 503 ''SSO_UNAVAILABLE'' ''SSO state storage is unavailable.''), s)
         | Some sso \<Rightarrow> (case so_SSOState sso of
             None \<Rightarrow> (Some (id_error e 503 ''SSO_UNAVAILABLE'' ''SSO state inspection is unavailable.''), s)
           | Some inspect \<Rightarrow>
               if length (ir_raw request) > 65536 then (Some (id_error e 400 ''INVALID_SSO_ASSERTION'' ''The SSO assertion is invalid.''), s)
               else (case unmarshal (ie_json e) (ir_raw request) [(''state'', KStr)] of
                 None \<Rightarrow> (Some (id_error e 400 ''INVALID_SSO_ASSERTION'' ''A valid SSO state is required.''), s)
               | Some body \<Rightarrow>
                   if TrimSpace (get_str body ''state'') = [] then (Some (id_error e 400 ''INVALID_SSO_ASSERTION'' ''A valid SSO state is required.''), s)
                   else (case inspect (get_str body ''state'') (ie_clock e 1) (is_db s) of
                     Inl _ \<Rightarrow> (bad_state, s)
                   | Inr (tenant, provider) \<Rightarrow> (case so_Provider sso tenant (rq_path (ir_http request) ''identityProvider'') (is_db s) of
                       Inl _ \<Rightarrow> (Some (id_error e 401 ''INVALID_OIDC_PROVIDER'' ''The SSO provider binding is invalid.''), s)
                     | Inr configured \<Rightarrow>
                         if pv_ID configured \<noteq> provider \<or> pv_Status configured \<noteq> ''active''
                         then (Some (id_error e 401 ''INVALID_OIDC_PROVIDER'' ''The SSO provider binding is invalid.''), s)
                         else (case so_ConsumeSSOState sso (get_str body ''state'') (ie_clock e 2) (is_db s) of
                           (Inl _, d') \<Rightarrow> (bad_state, s\<lparr>is_db := d'\<rparr>)
                         | (Inr _, d') \<Rightarrow> (None, s\<lparr>is_db := d'\<rparr>)))))))"

definition sso_cookies :: "string \<Rightarrow> string \<Rightarrow> cookie list" where
  "sso_cookies sessionID csrf =
     [\<lparr>ck_Name = sessionCookieName, ck_Value = sessionID, ck_MaxAge = 0, ck_HttpOnly = True\<rparr>,
      \<lparr>ck_Name = csrfCookieName, ck_Value = csrf, ck_MaxAge = 0, ck_HttpOnly = False\<rparr>]"

definition issueSSOSession :: "auth_env \<Rightarrow> identity_env \<Rightarrow> raw_request \<Rightarrow> identity_state \<Rightarrow> identity_result" where
  "issueSSOSession ae e request s =
     (let failed = id_error e 500 ''SSO_UNAVAILABLE'' ''SSO session could not be created.'';
          invalid = id_error e 400 ''INVALID_SSO_ASSERTION'' ''A validated subject email is required.'';
          a = id_auth (is_db s)
      in case decode_limited (ie_json e) 16384 (ir_raw request) [(''email'', KStr)] of
           None \<Rightarrow> (invalid, s)
         | Some body \<Rightarrow>
             if \<not> Contains (get_str body ''email'') ''@'' then (invalid, s)
             else (case FindByEmail ae (TrimSpace (get_str body ''email'')) a of
               Inl _ \<Rightarrow> (id_error e 401 ''SSO_USER_NOT_FOUND'' ''The validated SSO subject is not an active user.'', s)
             | Inr user \<Rightarrow>
                 if us_Status user \<noteq> ''active'' then (id_error e 401 ''SSO_USER_NOT_FOUND'' ''The validated SSO subject is not an active user.'', s)
                 else (case (ie_rand e 0 32, ie_rand e 1 32) of
                   (Some sid, Some csrf) \<Rightarrow>
                     (case Create ae (to_hex sid) (us_ID user) (us_TenantID user) (to_hex csrf) (ie_clock e 3 + 8 * hour) a of
                        (Inl _, a') \<Rightarrow> (failed, s\<lparr>is_db := (is_db s)\<lparr>id_auth := a'\<rparr>\<rparr>)
                      | (Inr _, a') \<Rightarrow> ((sso_cookies (to_hex sid) (to_hex csrf), Value 200 (SSOSession (us_ID user))), s\<lparr>is_db := (is_db s)\<lparr>id_auth := a'\<rparr>\<rparr>))
                 | _ \<Rightarrow> (failed, s))))"

text \<open>\<open>OIDCCallback\<close> and \<open>SAMLCallback\<close> have the same body.\<close>

definition HandleCallback :: "identity_handler \<Rightarrow> auth_env \<Rightarrow> identity_env \<Rightarrow> raw_request \<Rightarrow> identity_state \<Rightarrow> identity_result" where
  "HandleCallback h ae e request s =
     (if \<not> hasPathParam request ''identityProvider'' then (id_error e 400 ''INVALID_IDENTITY_PROVIDER'' ''The identity provider identifier is required.'', s)
      else case validateSignedPayload e request (is_nonces s) of
        (Some reply, cache) \<Rightarrow> (([], reply), s\<lparr>is_nonces := cache\<rparr>)
      | (None, cache) \<Rightarrow> (case validateCallbackBinding h e request (s\<lparr>is_nonces := cache\<rparr>) of
          (Some r, s') \<Rightarrow> (r, s')
        | (None, s') \<Rightarrow> if ih_users h then issueSSOSession ae e request s' else (writeMigrationDisabled e, s')))"

end
