(* ===== verification/MfaProps.thy ===== *)
theory MfaProps
  imports Identity SecretProps SessionProps
begin

text \<open>
  Multi-factor authentication: the round trip of an enrolled secret through base32, AES-GCM, hexadecimal
  and the database, the window in which a one-time password is accepted, and what an enrolment does when
  no encryption key is configured.
\<close>

named_theorems totp \<open>encodings and truncation of one-time passwords\<close>

section \<open>Base32\<close>

lemma base32_values_bound: "v \<in> set (base32_values bs) \<Longrightarrow> \<forall>b \<in> set bs. b < 256 \<Longrightarrow> v < 32"
  by (induction bs rule: base32_values.induct) auto

lemma low_digit:
  fixes x y k :: nat
  assumes "y < k"
  shows "(x * k + y) div k = x" "(x * k + y) mod k = y"
  using assms by simp_all

lemma byte_parts:
  fixes n :: nat
  assumes "n < 256"
  shows "n div 64 < 4" "n div 16 < 16" "n div 128 < 2" "n div 32 < 8" "n div 64 * 64 + n div 2 mod 32 * 2 + n mod 2 = n"
    "n div 128 * 128 + n div 4 mod 32 * 4 + n mod 4 = n"
proof -
  show "n div 64 < 4" "n div 16 < 16" "n div 128 < 2" "n div 32 < 8" using assms by simp_all
  show "n div 64 * 64 + n div 2 mod 32 * 2 + n mod 2 = n" "n div 128 * 128 + n div 4 mod 32 * 4 + n mod 4 = n"
    using mod_mult2_eq [of n 2 32] mod_mult2_eq [of n 4 32] div_mult_mod_eq [of n 64] div_mult_mod_eq [of n 128] by simp_all
qed

lemma base32_block:
  fixes a b c d e :: nat
  assumes "a < 256" "b < 256" "c < 256" "d < 256" "e < 256"
  shows "a div 8 * 8 + (a mod 8 * 4 + b div 64) div 4 = a"
    "(a mod 8 * 4 + b div 64) mod 4 * 64 + b div 2 mod 32 * 2 + (b mod 2 * 16 + c div 16) div 16 = b"
    "(b mod 2 * 16 + c div 16) mod 16 * 16 + (c mod 16 * 2 + d div 128) div 2 = c"
    "(c mod 16 * 2 + d div 128) mod 2 * 128 + d div 4 mod 32 * 4 + (d mod 4 * 8 + e div 32) div 8 = d"
    "(d mod 4 * 8 + e div 32) mod 8 * 32 + e mod 32 = e"
  by (simp_all only: low_digit byte_parts assms div_mult_mod_eq)

lemma base32_bytes_values:
  assumes "\<forall>b \<in> set bs. b < 256"
  shows "base32_bytes (base32_values bs) = bs"
  using assms
proof (induction bs rule: base32_values.induct)
  case (6 a b c d e bs)
  then have "base32_bytes (base32_values bs) = bs" by simp
  then show ?case using 6(2) base32_block [of a b c d e] by simp
qed (auto simp: byte_parts)

text \<open>Printable ASCII text has no space to trim.\<close>

definition graphic :: "char \<Rightarrow> bool" where
  "graphic c \<longleftrightarrow> 33 \<le> byte_of c \<and> byte_of c \<le> 126"

lemma strip_prefix_None: "list_all (\<lambda>r. r \<noteq> [] \<and> hd r \<noteq> c) rs \<Longrightarrow> strip_prefix rs (c # s) = None"
  by (induction rs) (auto simp: prefix_Cons)

lemma strip_prefix_Nil: "[] \<notin> set rs \<Longrightarrow> strip_prefix rs [] = None"
  by (induction rs) auto

lemma space_edges: "list_all (\<lambda>r. r \<noteq> [] \<and> \<not> graphic (hd r)) space_runes" "list_all (\<lambda>r. r \<noteq> [] \<and> \<not> graphic (hd r)) (map rev space_runes)"
  by code_simp+

lemma trim_with_graphic:
  assumes "list_all (\<lambda>r. r \<noteq> [] \<and> \<not> graphic (hd r)) rs" "list_all graphic s"
  shows "trim_with rs s = s"
proof -
  have "strip_prefix rs s = None"
  proof (cases s)
    case Nil
    then show ?thesis using assms(1) by (auto simp: list_all_iff intro: strip_prefix_Nil)
  next
    case (Cons c s')
    then have "list_all (\<lambda>r. r \<noteq> [] \<and> hd r \<noteq> c) rs" using assms by (auto simp: list_all_iff)
    then show ?thesis unfolding Cons by (rule strip_prefix_None)
  qed
  then show ?thesis by (subst trim_with.simps) simp
qed

lemma TrimSpace_graphic: "list_all graphic s \<Longrightarrow> TrimSpace s = s"
  using trim_with_graphic [OF space_edges(1), of s] trim_with_graphic [OF space_edges(2), of "rev s"] by (simp add: TrimSpace_def)

lemma ToUpper_ascii: "list_all (\<lambda>c. graphic c \<and> upper_char c = c) s \<Longrightarrow> ToUpper s = s"
  by (induction s) (auto simp: graphic_def)

text \<open>The digits: each is found at its place, and none is changed by trimming or upper case.\<close>

lemma base32_digits [totp]:
  assumes "v < 32"
  shows "index_of (base32_digit v) base32_alphabet = Some v" "\<not> line_break (base32_digit v)" "upper_char (base32_digit v) = base32_digit v"
    "graphic (base32_digit v)"
proof -
  have "list_all (\<lambda>v. index_of (base32_digit v) base32_alphabet = Some v \<and> \<not> line_break (base32_digit v) \<and> upper_char (base32_digit v) = base32_digit v
      \<and> graphic (base32_digit v)) [0..<32]" by code_simp
  then show "index_of (base32_digit v) base32_alphabet = Some v" "\<not> line_break (base32_digit v)" "upper_char (base32_digit v) = base32_digit v"
    "graphic (base32_digit v)" using assms by (auto simp: list_all_iff)
qed

lemma base32_round_trip [totp]: "base32_decode (ToUpper (TrimSpace (base32_encode bs))) = Some bs"
proof -
  let ?vs = "base32_values (map byte_of bs)"
  have bound: "v < 32" if "v \<in> set ?vs" for v using base32_values_bound [OF that] by (auto simp: byte_of_less)
  have "list_all graphic (base32_encode bs)" "list_all (\<lambda>c. graphic c \<and> upper_char c = c) (base32_encode bs)"
    by (auto simp: list_all_iff base32_encode_def totp dest: bound)
  then have same: "ToUpper (TrimSpace (base32_encode bs)) = base32_encode bs" by (simp add: TrimSpace_graphic ToUpper_ascii)
  have "filter (\<lambda>c. \<not> line_break c) (base32_encode bs) = base32_encode bs"
    by (rule filter_True) (auto simp: base32_encode_def totp dest: bound)
  moreover have "all_values (\<lambda>c. index_of c base32_alphabet) (base32_encode bs) = Some ?vs"
    by (auto simp: all_values_def base32_encode_def list_all_iff totp bound intro!: map_idI dest: bound)
  moreover have "base32_bytes ?vs = map byte_of bs" by (rule base32_bytes_values) (auto simp: byte_of_less)
  moreover have "map char_of (map byte_of bs) = bs" unfolding map_map by (intro map_idI) (simp add: byte_of_def)
  ultimately show ?thesis unfolding same base32_decode_def by simp
qed

section \<open>Enrolment\<close>

text \<open>What the packages document: random bytes come in the length asked for, and opening a sealed text gives it back.\<close>

definition mfa_rand_law :: "identity_env \<Rightarrow> bool" where
  "mfa_rand_law e \<longleftrightarrow> (\<forall>k n bs. ie_rand e k n = Some bs \<longrightarrow> length bs = n)"

definition gcm_law :: "identity_env \<Rightarrow> identity_env \<Rightarrow> bool" where
  "gcm_law e e' \<longleftrightarrow> (\<forall>key nonce plain. ie_open e' key nonce (ie_seal e key nonce plain) = Some plain)"

lemma id_session_active:
  assumes "id_session h ae e k request d = Inr u"
  shows "active_user (us_ID u) d"
proof -
  from assms obtain sid now where "Get ae sid now (id_auth d) = Inr u"
    by (auto simp: id_session_def AuthenticateRequest_def split: if_splits option.splits sum.splits)
  then show ?thesis
    by (auto simp: Get_def session_user_def user_of_row_def active_user_def list_ex_iff split: if_splits option.splits dest!: find_SomeD)
qed

lemma secret_round_trip_mfa:
  assumes "encryptionKey e = Some key" "encryptionKey e' = Some key" "gcm_law e e'" "mfa_rand_law e"
  shows "decryptSecret e' (encryptSecret e secret) = Some secret" "encryptSecret e secret \<noteq> []"
proof -
  define nonce where "nonce = (case ie_rand e 1 12 of None \<Rightarrow> replicate 12 (char_of (0::nat)) | Some n \<Rightarrow> n)"
  have len: "length nonce = 12" using assms(4) by (auto simp: nonce_def mfa_rand_law_def split: option.splits)
  have enc: "encryptSecret e secret = to_hex (nonce @ ie_seal e key nonce secret)"
    using assms(1) by (simp add: encryptSecret_def nonce_def Let_def)
  have "from_hex (encryptSecret e secret) = Some (nonce @ ie_seal e key nonce secret)" unfolding enc by (rule hex_round_trip)
  then show "decryptSecret e' (encryptSecret e secret) = Some secret"
    using assms(2,3) len by (simp add: decryptSecret_def gcm_law_def)
  show "encryptSecret e secret \<noteq> []" unfolding enc using len by (cases nonce) (auto simp: to_hex_def hex_encode_def)
qed

lemma enrolled_column:
  assumes "HandleMFAEnroll h ae e request s = (([], Value 201 (MFAEnrolled secret)), s')"
  obtains u bytes where "id_session h ae e 0 request (is_db s) = Inr u" "ie_rand e 0 20 = Some bytes" "secret = base32_encode bytes"
    "is_db s' = set_columns (us_ID u) (\<lambda>c. c\<lparr>uc_mfaSecret := Some (encryptSecret e secret), uc_mfaConfirmedAt := None\<rparr>) (is_db s)"
  using assms that
  by (auto simp: HandleMFAEnroll_def Let_def id_error_def WriteError_def writeMigrationDisabled_def newTOTPSecret_def SetMFASecret_def id_session_def
      unauthenticated_def split: if_splits sum.splits option.splits prod.splits)

lemma totp_code_length [totp]: "length (totp_code e key c) = 6"
  by (simp add: totp_code_def Let_def)

text \<open>
  The one-time password of RFC 4226, as a reference: the counter as eight bytes, most significant first, is
  authenticated; the low four bits of the last of the twenty bytes of the digest select four bytes, whose
  lower 31 bits, taken modulo a million, are written with six digits.
\<close>

definition hotp_reference :: "(string \<Rightarrow> string) \<Rightarrow> nat \<Rightarrow> string" where
  "hotp_reference mac n =
     (let digest = mac (map (\<lambda>i. char_of (n div 256 ^ (7 - i) mod 256)) [0..<8]);
          offset = byte_of (digest ! 19) mod 16;
          number = foldl (\<lambda>a c. 256 * a + byte_of c) 0 (take 4 (drop offset digest)) mod 2 ^ 31
      in pad 6 (number mod 10 ^ 6))"

lemma counter_bytes_div: "counter_bytes w = map (\<lambda>i. char_of (unat w div 256 ^ (7 - i) mod 256)) [0..<8]"
proof -
  have "unat (take_bit 8 (drop_bit (8 * k) w)) = unat w div 256 ^ k mod 256" for k
  proof -
    have "unat (take_bit 8 (drop_bit (8 * k) w)) = take_bit 8 (drop_bit (8 * k) (unat w))"
      by (simp only: unsigned_take_bit_eq unat_drop_bit_eq)
    also have "\<dots> = unat w div 256 ^ k mod 256" by (simp add: take_bit_eq_mod drop_bit_eq_div power_mult)
    finally show ?thesis .
  qed
  then show ?thesis unfolding counter_bytes_def by simp
qed

lemma unat_of_int64: "unat (word_of_int n :: 64 word) = nat (n mod 2 ^ 64)"
  by (simp add: unsigned_of_int take_bit_eq_mod)

lemma take4:
  assumes "k + 4 \<le> length xs"
  shows "take 4 (drop k xs) = [xs ! k, xs ! (k + 1), xs ! (k + 2), xs ! (k + 3)]"
  using assms by (intro nth_equalityI) (auto simp: less_Suc_eq numeral_eq_Suc nth_append)

lemma totp_code_reference:
  assumes "\<And>m. length (ie_hmac_sha1 e key m) = 20"
  shows "totp_code e key w = hotp_reference (ie_hmac_sha1 e key) (unat w)"
proof -
  define digest where "digest = ie_hmac_sha1 e key (counter_bytes w)"
  have len: "length digest = 20" using assms by (simp add: digest_def)
  define n where "n = byte_of (digest ! 19) mod 16"
  have n: "n + 4 \<le> length digest" unfolding n_def len by simp
  have last: "last (map byte_of digest) = byte_of (digest ! 19)" using len by (cases "digest = []") (auto simp: last_conv_nth)
  have four: "foldl (\<lambda>a c. 256 * a + byte_of c) 0 (take 4 (drop n digest))
      = byte_of (digest ! n) * 2 ^ 24 + byte_of (digest ! (n + 1)) * 2 ^ 16 + byte_of (digest ! (n + 2)) * 2 ^ 8 + byte_of (digest ! (n + 3))"
    unfolding take4 [OF n] by simp
  show ?thesis using n four
    unfolding totp_code_def hotp_reference_def Let_def counter_bytes_div [symmetric] digest_def [symmetric] last n_def [symmetric] by simp
qed

text \<open>What crypto/hmac documents of SHA-1: the digest has twenty bytes.\<close>

definition sha1_law :: "identity_env \<Rightarrow> bool" where
  "sha1_law e \<longleftrightarrow> (\<forall>key m. length (ie_hmac_sha1 e key m) = 20)"

text \<open>
  C34. Enrolment and verification agree: when an encryption key of 32 bytes is configured, an enrolment has
  answered with a secret, the same key is configured later, no statement of the verification fails, and AES-GCM,
  the random source and HMAC-SHA1 do what they document, then in the state that the enrolment left a request of the same user with a
  six-character code is confirmed exactly when the code is the one-time password of RFC 4226 of the enrolled
  key for the number of the current period of 30 seconds or of one of its two neighbours; the confirmation is
  then recorded, and otherwise nothing changes.
\<close>

theorem mfa_enrolled_code:
  assumes "HandleMFAEnroll h ae e request s = (([], Value 201 (MFAEnrolled secret)), s')"
    and "encryptionKey e = Some key" "encryptionKey e' = Some key" "gcm_law e e'" "mfa_rand_law e" "sha1_law e'" "\<And>label. \<not> ie_fails e' label"
    and "id_session h ae e 0 request (is_db s) = Inr u" "id_session h ae' e' 0 request' (is_db s') = Inr u'" "us_ID u' = us_ID u"
    and "decode_limited (ie_json e') 4096 (ir_raw request') [(''code'', KStr)] = Some body" "length (get_str body ''code'') = 6"
  shows "\<exists>totp_key. ie_rand e 0 20 = Some totp_key \<and> secret = base32_encode totp_key
    \<and> (let period = ie_clock e' 1 div second sdiv 30; (sent, s'') = HandleMFAConfirm h ae' e' request' s' in
        if \<exists>offset \<in> {-1, 0, 1}. get_str body ''code'' = hotp_reference (ie_hmac_sha1 e' totp_key) (nat ((period + offset) mod 2 ^ 64))
        then sent = ([], Value 200 (MFAVerified False)) \<and> uc_mfaConfirmedAt (id_columns (is_db s'') (us_ID u)) = Some (ie_column_time e' (ie_clock e' 2))
        else http_status (snd sent) = 401 \<and> s'' = s')"
proof -
  obtain bytes where b: "ie_rand e 0 20 = Some bytes" "secret = base32_encode bytes"
    and d': "is_db s' = set_columns (us_ID u) (\<lambda>c. c\<lparr>uc_mfaSecret := Some (encryptSecret e secret), uc_mfaConfirmedAt := None\<rparr>) (is_db s)"
    using enrolled_column [OF assms(1)] assms(8) by (metis sum.inject(2))
  have h: "ih_mfa h" "ih_sessions h" using assms(1)
    by (auto simp: HandleMFAEnroll_def writeMigrationDisabled_def id_error_def WriteError_def split: if_splits)
  have act: "active_user (us_ID u) (is_db s)" "active_user (us_ID u) (is_db s')"
    using id_session_active [OF assms(8)] id_session_active [OF assms(9)] assms(10) by simp_all
  have stored: "GetMFASecret e' (us_ID u') (is_db s') = Inr (encryptSecret e secret)"
    using act secret_round_trip_mfa(2) [OF assms(2-5)] assms(7,10) by (simp add: GetMFASecret_def d' set_columns_def)
  have dec: "decryptSecret e' (encryptSecret e secret) = Some secret" using secret_round_trip_mfa(1) [OF assms(2-5)] .
  have valid: "validTOTP e' secret c t \<longleftrightarrow> length c = 6 \<and> (\<exists>offset \<in> {-1, 0, 1}. c = hotp_reference (ie_hmac_sha1 e' bytes) (nat ((t div second sdiv 30 + offset) mod 2 ^ 64)))" for c t
  proof -
    have "totp_code e' bytes (word_of_int n) = hotp_reference (ie_hmac_sha1 e' bytes) (nat (n mod 2 ^ 64))" for n
      using totp_code_reference [of e' bytes "word_of_int n"] assms(6) by (simp add: sha1_law_def unat_of_int64)
    then show ?thesis unfolding validTOTP_def b(2) base32_round_trip totp_step_def by (auto simp del: of_int_add of_int_minus)
  qed
  have "HandleMFAConfirm h ae' e' request' s' =
      (if validTOTP e' secret (get_str body ''code'') (ie_clock e' 1)
       then (([], Value 200 (MFAVerified False)), s'\<lparr>is_db := set_columns (us_ID u) (\<lambda>c. c\<lparr>uc_mfaConfirmedAt := Some (ie_column_time e' (ie_clock e' 2))\<rparr>) (is_db s')\<rparr>)
       else (id_error e' 401 ''INVALID_MFA_CODE'' ''The MFA code is invalid.'', s'))"
    using h assms(7,9-12) stored dec by (simp add: HandleMFAConfirm_def verifyMFA_def MarkMFAConfirmed_def)
  then show ?thesis using b act(2) assms(12) unfolding valid
    by (simp add: Let_def set_columns_def id_error_def del: of_int_add of_int_minus)
qed

text \<open>
  Without a configured key the enrolment answers with a secret all the same, stores nothing of it and
  discards the confirmation of an earlier one: every later verification finds the user not enrolled.
\<close>

lemma mfa_lost_without_key:
  assumes "HandleMFAEnroll h ae e request s = (([], Value 201 (MFAEnrolled secret)), s')" "encryptionKey e = None"
    and "id_session h ae e 0 request (is_db s) = Inr u"
  shows "uc_mfaConfirmedAt (id_columns (is_db s') (us_ID u)) = None \<and> (\<exists>x. GetMFASecret e' (us_ID u) (is_db s') = Inl x)"
proof -
  have "is_db s' = set_columns (us_ID u) (\<lambda>c. c\<lparr>uc_mfaSecret := Some (encryptSecret e secret), uc_mfaConfirmedAt := None\<rparr>) (is_db s)"
    using enrolled_column [OF assms(1)] assms(3) by (metis sum.inject(2))
  then show ?thesis using id_session_active [OF assms(3)] assms(2) by (simp add: set_columns_def GetMFASecret_def encryptSecret_def)
qed

text \<open>Fixtures: the user of the session fixtures enrols and confirms with the code of an all-zero digest.\<close>

definition ienv0 :: identity_env where
  "ienv0 = \<lparr>ie_fails = (\<lambda>_. False), ie_generate = (\<lambda>s. Some s), ie_column_time = (\<lambda>t. t), ie_dbnow = 0, ie_clock = (\<lambda>_. 60 * second),
     ie_rand = (\<lambda>k n. Some (replicate n (char_of (0::nat)))), ie_getenv = (\<lambda>_. replicate 64 (CHR ''0'')), ie_hmac_sha256 = (\<lambda>k m. m),
     ie_hmac_sha1 = (\<lambda>k m. replicate 20 (char_of (0::nat))), ie_seal = (\<lambda>k n p. p), ie_open = (\<lambda>k n c. Some c),
     ie_json = \<lparr>je_first = (\<lambda>_. Some (JObj [(''code'', JStr ''000000'')])), je_whole = (\<lambda>_. None)\<rparr>, ie_correlation = []\<rparr>"

definition idb0 :: identity_db where
  "idb0 = \<lparr>id_auth = adb1, id_columns = (\<lambda>_. no_columns), next_user = 6, provider_rows = [], next_provider = 1, sso_rows = [], identity_audits = []\<rparr>"

definition istate0 :: identity_state where
  "istate0 = \<lparr>is_db = idb0, is_nonces = [], is_accounts = \<lparr>account_rows = [], next_account = 1, account_audits = []\<rparr>\<rparr>"

definition ihandler0 :: identity_handler where
  "ihandler0 = \<lparr>ih_sessions = True, ih_providers = True, ih_mfa = True, ih_scim = True, ih_users = True, ih_sso = None, ih_service = True, ih_breakglass = True\<rparr>"

definition mfa_request :: raw_request where
  "mfa_request = \<lparr>ir_http = request0\<lparr>rq_cookie := Some sid0\<rparr>, ir_method = ''POST'', ir_raw = []\<rparr>"

definition istate1 :: identity_state where
  "istate1 = snd (HandleMFAEnroll ihandler0 aenv0 ienv0 mfa_request istate0)"

definition mfa_user0 :: User where
  "mfa_user0 = \<lparr>us_ID = 5, us_TenantID = 1, us_ActiveTenantID = 1, us_Name = ''n'', us_Email = ''m'', us_Role = 1, us_PasswordHash = ''p'',
     us_Status = ''active'', us_ImpersonationReason = None, us_ImpersonationExpiresAt = None\<rparr>"

lemma session_adb1: "AuthenticateRequest aenv0 (request0\<lparr>rq_cookie := Some sid0\<rparr>) (60 * second) adb1 = Some mfa_user0"
  by code_simp

lemma id_session_idb0: "id_auth d = adb1 \<Longrightarrow> id_session ihandler0 aenv0 ienv0 0 mfa_request d = Inr mfa_user0"
  using session_adb1 by (simp add: id_session_def ihandler0_def mfa_request_def ienv0_def)

lemma enrolled_fixture:
  "HandleMFAEnroll ihandler0 aenv0 ienv0 mfa_request istate0 = (([], Value 201 (MFAEnrolled (base32_encode (replicate 20 (char_of (0::nat)))))), istate1)"
proof -
  have "id_session ihandler0 aenv0 ienv0 0 mfa_request (is_db istate0) = Inr mfa_user0"
    by (rule id_session_idb0) (simp add: istate0_def idb0_def)
  then have "fst (HandleMFAEnroll ihandler0 aenv0 ienv0 mfa_request istate0) = ([], Value 201 (MFAEnrolled (base32_encode (replicate 20 (char_of (0::nat))))))"
    by (simp add: HandleMFAEnroll_def ihandler0_def newTOTPSecret_def SetMFASecret_def ienv0_def)
  then show ?thesis by (simp add: istate1_def prod_eq_iff)
qed

lemma key_fixture: "encryptionKey ienv0 = Some (replicate 32 (char_of (0::nat)))"
  by code_simp

theorem mfa_enrolled_code_witness:
  "fst (HandleMFAConfirm ihandler0 aenv0 ienv0 mfa_request istate1) = ([], Value 200 (MFAVerified False))"
proof -
  have s: "id_session ihandler0 aenv0 ienv0 0 mfa_request (is_db istate0) = Inr mfa_user0"
    by (rule id_session_idb0) (simp add: istate0_def idb0_def)
  have "id_auth (is_db istate1) = adb1"
    by (rule enrolled_column [OF enrolled_fixture]) (simp add: set_columns_def istate0_def idb0_def)
  then have s1: "id_session ihandler0 aenv0 ienv0 0 mfa_request (is_db istate1) = Inr mfa_user0" by (rule id_session_idb0)
  have body: "decode_limited (ie_json ienv0) 4096 (ir_raw mfa_request) [(''code'', KStr)] = Some (Map.empty(''code'' \<mapsto> JStr ''000000''))"
    by (simp add: decode_limited_def ienv0_def mfa_request_def decode_struct_def decode_entry_def field_for_def)
  have code: "hotp_reference (ie_hmac_sha1 ienv0 k) n = ''000000''" for k n
  proof -
    have "pad 6 0 = ''000000''" "byte_of (replicate 20 (char_of (0::nat)) ! 19) = 0"
      "foldl (\<lambda>a c. 256 * a + byte_of c) 0 (take 4 (drop 0 (replicate 20 (char_of (0::nat))))) = 0" by code_simp+
    then show ?thesis by (simp add: hotp_reference_def ienv0_def Let_def del: nth_replicate take_replicate)
  qed
  have laws: "gcm_law ienv0 ienv0" "mfa_rand_law ienv0" "sha1_law ienv0" "\<not> ie_fails ienv0 label" for label
    by (simp_all add: gcm_law_def mfa_rand_law_def sha1_law_def ienv0_def)
  show ?thesis
    using mfa_enrolled_code [OF enrolled_fixture key_fixture key_fixture laws s s1 refl body] code
    by (auto simp: get_str_def Let_def split: prod.splits if_splits)
qed

end
