(* ===== verification/ServiceAccountProps.thy ===== *)
theory ServiceAccountProps
  imports ServiceAccounts SessionProps
begin

text \<open>
  Service accounts: what the handlers do to the table, the invariant of the table, that a revoked account
  is never active again, and what the credential identifier tells of the secret.
\<close>

section \<open>The handlers as steps of the table\<close>

text \<open>The effects: an account with a fresh identifier and credential is added, or accounts of a tenant are revoked.\<close>

inductive account_effect :: "int \<Rightarrow> account_db \<Rightarrow> account_db \<Rightarrow> bool" where
  none: "account_rows d' = account_rows d \<Longrightarrow> next_account d' = next_account d \<Longrightarrow> account_effect T d d'"
| create: "account_rows d' = account_rows d @ [r] \<Longrightarrow> next_account d' = next_account d + 1 \<Longrightarrow> sa_id r = next_account d
    \<Longrightarrow> sa_tenant r = T \<Longrightarrow> sa_revokedAt r = None \<Longrightarrow> sa_credentialId r \<notin> sa_credentialId ` set (account_rows d) \<Longrightarrow> account_effect T d d'"
| revoke: "account_rows d' = upd_rows (revocable T i) (\<lambda>r. r\<lparr>sa_revokedAt := Some t, sa_updatedAt := Some t\<rparr>) (account_rows d)
    \<Longrightarrow> next_account d' = next_account d \<Longrightarrow> account_effect T d d'"

lemma CreateAccount_cases:
  assumes "CreateAccount e T a secret d = (x, d')"
  shows "d' = d \<or> (\<exists>hash. account_rows d' = account_rows d @ [account_row e T a hash (next_account d)] \<and> next_account d' = next_account d + 1
    \<and> ac_CredentialID a \<notin> sa_credentialId ` set (account_rows d))"
proof -
  have fresh: "\<not> list_ex (\<lambda>r. sa_credentialId r = ac_CredentialID a) (account_rows d) \<longleftrightarrow> ac_CredentialID a \<notin> sa_credentialId ` set (account_rows d)"
    by (force simp: list_ex_iff)
  have d': "snd (CreateAccount e T a secret d) = d'" using assms by simp
  show ?thesis
  proof (cases "se_generate e secret")
    case (Some hash)
    then show ?thesis using fresh unfolding d' [symmetric] CreateAccount_def Let_def audit_account_def by auto
  qed (use d' in \<open>simp add: CreateAccount_def\<close>)
qed

lemma CreateAccount_effect:
  assumes "CreateAccount e T a secret d = (x, d')"
  shows "account_effect T d d'"
  using CreateAccount_cases [OF assms]
proof (elim disjE exE conjE)
  fix hash
  assume "account_rows d' = account_rows d @ [account_row e T a hash (next_account d)]" "next_account d' = next_account d + 1"
    "ac_CredentialID a \<notin> sa_credentialId ` set (account_rows d)"
  then show ?thesis by (intro account_effect.create [where r = "account_row e T a hash (next_account d)"]) (simp_all add: account_row_def)
qed (simp add: account_effect.none)

lemma RevokeAccount_effect:
  assumes "RevokeAccount e T i now d = (x, d')"
  shows "account_effect T d d'"
proof -
  consider "d' = d" | t where "account_rows d' = upd_rows (revocable T i) (\<lambda>r. r\<lparr>sa_revokedAt := Some t, sa_updatedAt := Some t\<rparr>) (account_rows d)"
      "next_account d' = next_account d"
    using assms by (auto simp: RevokeAccount_def Let_def audit_account_def split: if_splits)
  then show ?thesis by cases (auto intro: account_effect.none account_effect.revoke)
qed

text \<open>Every change of the table is made for the active tenant of a live session.\<close>

lemma account_user_session: "account_user h ae e request a = Inr u \<Longrightarrow> live_session ae request (se_clock e 0) a u"
  by (auto simp: account_user_def split: if_splits option.splits intro: AuthenticateRequest_live)

datatype account_route = StoreRoute | RevokeRoute

fun account_serve :: "account_route \<Rightarrow> account_handler \<Rightarrow> auth_env \<Rightarrow> account_env \<Rightarrow> raw_request \<Rightarrow> auth_db \<Rightarrow> account_db \<Rightarrow> account_value reply \<times> account_db" where
  "account_serve StoreRoute = HandleStore"
| "account_serve RevokeRoute = HandleRevoke"

lemma account_serve_effect:
  assumes "account_serve route h ae e request a d = (reply, d')"
  shows "d' = d \<or> (\<exists>u. live_session ae (ir_http request) (se_clock e 0) a u \<and> account_effect (ActiveTenant u) d d')"
proof (cases route)
  case StoreRoute
  then consider "d' = d" | u acc secret x where "account_user h ae e (ir_http request) a = Inr u" "CreateAccount e (ActiveTenant u) acc secret d = (x, d')"
    using assms by (auto simp: HandleStore_def split: sum.splits option.splits if_splits prod.splits)
  then show ?thesis by cases (auto dest!: account_user_session CreateAccount_effect)
next
  case RevokeRoute
  then consider "d' = d" | u i now x where "account_user h ae e (ir_http request) a = Inr u" "RevokeAccount e (ActiveTenant u) i now d = (x, d')"
    using assms by (auto simp: HandleRevoke_def split: sum.splits option.splits prod.splits account_error.splits)
  then show ?thesis by cases (auto dest!: account_user_session RevokeAccount_effect)
qed

text \<open>The states that requests of any users of any tenants lead to.\<close>

inductive accounts_served :: "account_db \<Rightarrow> account_db \<Rightarrow> bool" where
  start: "accounts_served d d"
| serve: "accounts_served d d1 \<Longrightarrow> account_serve route h ae e request a d1 = (reply, d2) \<Longrightarrow> accounts_served d d2"

section \<open>Invariant and lifecycle\<close>

definition accounts_ok :: "account_db \<Rightarrow> bool" where
  "accounts_ok d \<longleftrightarrow> distinct (map sa_credentialId (account_rows d)) \<and> distinct (map sa_id (account_rows d)) \<and> 0 < next_account d
     \<and> (\<forall>r \<in> set (account_rows d). 0 < sa_id r \<and> sa_id r < next_account d)"

lemma account_effect_ok:
  assumes "account_effect T d d'" "accounts_ok d"
  shows "accounts_ok d'"
  using assms by (induction rule: account_effect.induct) (fastforce simp: accounts_ok_def set_upd_rows)+

lemma accounts_served_ok: "accounts_served d d' \<Longrightarrow> accounts_ok d \<Longrightarrow> accounts_ok d'"
  by (induction rule: accounts_served.induct) (auto dest!: account_serve_effect account_effect_ok)

text \<open>A credential is dead when a row carries it and no row that carries it is unrevoked.\<close>

definition credential_dead :: "string \<Rightarrow> account_db \<Rightarrow> bool" where
  "credential_dead credential d \<longleftrightarrow> credential \<in> sa_credentialId ` set (account_rows d)
     \<and> (\<forall>r \<in> set (account_rows d). sa_credentialId r = credential \<longrightarrow> sa_revokedAt r \<noteq> None)"

lemma account_effect_dead:
  assumes "account_effect T d d'" "credential_dead credential d"
  shows "credential_dead credential d'"
  using assms
proof (induction rule: account_effect.induct)
  case (revoke d' T i t d)
  have "sa_credentialId ` set (account_rows d') = sa_credentialId ` set (account_rows d)"
    unfolding revoke.hyps(1) set_map [symmetric] by simp
  then show ?case using revoke by (auto simp: credential_dead_def set_upd_rows)
qed (auto simp: credential_dead_def)

lemma credential_dead_inactive: "credential_dead credential d \<Longrightarrow> ActiveServiceAccount e T credential now d \<noteq> Inr True"
  by (auto simp: credential_dead_def ActiveServiceAccount_def account_active_def split: option.splits if_splits dest!: find_SomeD)

lemma accounts_served_dead: "accounts_served d d' \<Longrightarrow> credential_dead credential d \<Longrightarrow> credential_dead credential d'"
  by (induction rule: accounts_served.induct) (auto dest!: account_serve_effect intro: account_effect_dead)

lemma revoke_kills:
  assumes "RevokeAccount e T i now d = (Inr (), d')" "accounts_ok d"
  shows "\<exists>r \<in> set (account_rows d). sa_id r = i \<and> sa_tenant r = T \<and> sa_revokedAt r = None \<and> credential_dead (sa_credentialId r) d'"
proof -
  let ?u = "\<lambda>r. r\<lparr>sa_revokedAt := Some (se_column_time e now), sa_updatedAt := Some (se_column_time e now)\<rparr>"
  from assms(1) obtain r where r: "r \<in> set (account_rows d)" "revocable T i r" and d': "account_rows d' = upd_rows (revocable T i) ?u (account_rows d)"
    by (auto simp: RevokeAccount_def Let_def audit_account_def list_ex_iff split: if_splits)
  have one: "q = r" if "q \<in> set (account_rows d)" "sa_credentialId q = sa_credentialId r" for q
    using that r(1) assms(2) by (auto simp: accounts_ok_def distinct_map inj_on_def)
  have "sa_credentialId ` set (account_rows d') = sa_credentialId ` set (account_rows d)"
    unfolding d' set_map [symmetric] by simp
  moreover have "sa_revokedAt q' \<noteq> None" if "q' \<in> set (account_rows d')" "sa_credentialId q' = sa_credentialId r" for q'
  proof -
    obtain q where "q \<in> set (account_rows d)" "q' = (if revocable T i q then ?u q else q)" using \<open>q' \<in> _\<close> unfolding d' set_upd_rows by blast
    then show ?thesis using one [of q] r(2) that(2) by (auto split: if_splits)
  qed
  ultimately have "credential_dead (sa_credentialId r) d'" using r(1) by (auto simp: credential_dead_def)
  then show ?thesis using r by (auto simp: revocable_def)
qed

text \<open>
  C35. Revocation is final: in every state that served requests reach from a table with unique account numbers
  and credentials, when the revocation of an account is confirmed, the request was one of a session
  that was live at that moment, the account that its path names was an unrevoked account of the active tenant of
  that session, and whatever the users of any tenants do with accounts afterwards,
  its credential is never again taken for an active account, for any tenant and at any time.
\<close>

theorem revoked_account_dead:
  assumes "accounts_ok d0" "accounts_served d0 d" "HandleRevoke h ae e request a d = (Value 200 AccountRevoked, d')" "accounts_served d' d''"
  shows "\<exists>u r. r \<in> set (account_rows d) \<and> sa_tenant r = ActiveTenant u \<and> sa_revokedAt r = None
    \<and> live_session ae (ir_http request) (se_clock e 0) a u
    \<and> parsePathID (rq_path (ir_http request) ''serviceAccount'') = Some (sa_id r)
    \<and> (\<forall>e' T t. ActiveServiceAccount e' T (sa_credentialId r) t d'' \<noteq> Inr True)"
proof -
  from assms(3) obtain u i where u: "account_user h ae e (ir_http request) a = Inr u" "parsePathID (rq_path (ir_http request) ''serviceAccount'') = Some i"
    and rev: "RevokeAccount e (ActiveTenant u) i (se_clock e 1) d = (Inr (), d')"
    by (auto simp: HandleRevoke_def unavailable_def WriteError_def account_user_def unauthenticated_def
      split: option.splits sum.splits prod.splits account_error.splits if_splits)
  obtain r where r: "r \<in> set (account_rows d)" "sa_id r = i" "sa_tenant r = ActiveTenant u" "sa_revokedAt r = None" "credential_dead (sa_credentialId r) d'"
    using revoke_kills [OF rev accounts_served_ok [OF assms(2,1)]] by blast
  have "credential_dead (sa_credentialId r) d''" using accounts_served_dead [OF assms(4) r(5)] .
  then show ?thesis using r u(2) account_user_session [OF u(1)] credential_dead_inactive by blast
qed

text \<open>Fixtures: one account of tenant 1, and the request of its user to revoke it.\<close>

definition senv0 :: account_env where
  "senv0 = \<lparr>se_fails = (\<lambda>_. False), se_rand = Some (replicate 32 0), se_generate = Some, se_column_time = (\<lambda>t. t), se_clock = (\<lambda>_. 0),
     se_dbnow = 0, se_correlation = [], se_json = \<lparr>je_first = (\<lambda>_. None), je_whole = (\<lambda>_. None)\<rparr>\<rparr>"

definition sdb0 :: account_db where
  "sdb0 = \<lparr>account_rows = [\<lparr>sa_id = 2, sa_tenant = 1, sa_project = None, sa_name = ''s'', sa_credentialId = ''c'', sa_secretHash = ''h'',
       sa_scopes = None, sa_expiresAt = None, sa_revokedAt = None, sa_lastUsedAt = None, sa_updatedAt = None\<rparr>], next_account = 3, account_audits = []\<rparr>"

definition revoke_request :: raw_request where
  "revoke_request = \<lparr>ir_http = request0\<lparr>rq_cookie := Some sid0\<rparr>, ir_method = ''POST'', ir_raw = []\<rparr>"

definition shandler0 :: account_handler where
  "shandler0 = \<lparr>sh_sessions = True, sh_repository = True\<rparr>"

definition sdb1 :: account_db where
  "sdb1 = snd (HandleRevoke shandler0 aenv0 senv0 revoke_request adb1 sdb0)"

lemma revoked_sdb1: "fst (HandleRevoke shandler0 aenv0 senv0 revoke_request adb1 sdb0) = Value 200 AccountRevoked"
  by code_simp

theorem revoked_account_dead_witness:
  "ActiveServiceAccount senv0 1 ''c'' 0 sdb0 = Inr True \<and> ActiveServiceAccount senv0 1 ''c'' 0 sdb1 = Inr False"
proof -
  have ok: "accounts_ok sdb0" by (simp add: accounts_ok_def sdb0_def)
  have rev: "HandleRevoke shandler0 aenv0 senv0 revoke_request adb1 sdb0 = (Value 200 AccountRevoked, sdb1)"
    using revoked_sdb1 by (simp add: sdb1_def prod_eq_iff)
  have "ActiveServiceAccount senv0 1 ''c'' 0 sdb1 \<noteq> Inr True"
    using revoked_account_dead [OF ok accounts_served.start rev accounts_served.start] by (auto simp: sdb0_def)
  moreover have "\<not> isl (ActiveServiceAccount senv0 1 ''c'' 0 sdb1)"
    by (simp add: ActiveServiceAccount_def senv0_def split: option.splits)
  moreover have "ActiveServiceAccount senv0 1 ''c'' 0 sdb0 = Inr True"
    by (simp add: ActiveServiceAccount_def senv0_def sdb0_def account_active_def)
  ultimately show ?thesis by (cases "ActiveServiceAccount senv0 1 ''c'' 0 sdb1") auto
qed

text \<open>Until then an account that was created is active, to its expiry.\<close>

lemma created_account_active:
  assumes "CreateAccount e T a secret d = (Inr created, d')" "accounts_ok d" "\<not> se_fails e' ''validate OIDC service-account binding''"
    and "case ac_ExpiresAt a of None \<Rightarrow> True | Some t \<Rightarrow> se_column_time e t > now"
  shows "ActiveServiceAccount e' T (ac_CredentialID created) now d' = Inr True"
proof -
  from assms(1) obtain hash where rows: "account_rows d' = account_rows d @ [account_row e T a hash (next_account d)]"
    and fresh: "\<not> list_ex (\<lambda>r. sa_credentialId r = ac_CredentialID a) (account_rows d)" and c: "ac_CredentialID created = ac_CredentialID a"
    by (cases "se_generate e secret") (auto simp: CreateAccount_def Let_def audit_account_def split: if_splits)
  have "find (account_active T (ac_CredentialID a) now) (account_rows d) = None"
    using fresh by (auto simp: find_None_iff list_ex_iff account_active_def)
  moreover have "account_active T (ac_CredentialID a) now (account_row e T a hash (next_account d))"
    using assms(4) by (simp add: account_active_def account_row_def split: option.splits)
  ultimately show ?thesis using assms(2,3) c
    by (simp add: ActiveServiceAccount_def rows find_append accounts_ok_def account_row_def)
qed

section \<open>The credential and the secret\<close>

lemma base64_raw_take:
  assumes "3 * k \<le> length b"
  shows "base64_raw (take (3 * k) b) = take (4 * k) (base64_raw b)"
  using assms
proof (induction b arbitrary: k rule: base64_raw.induct)
  case (4 a b c bs)
  show ?case
  proof (cases k)
    case (Suc n)
    have n: "3 * k = Suc (Suc (Suc (3 * n)))" "4 * k = Suc (Suc (Suc (Suc (4 * n))))" using Suc by simp_all
    then show ?thesis using 4 unfolding n by (simp only: take_Suc_Cons base64_raw.simps append_Cons append_Nil list.inject simp_thms) simp
  qed simp
qed (auto simp: le_Suc_eq)

text \<open>
  The identifier of a credential, which every later listing shows, is the first 16 characters of the
  secret: of its 32 random bytes it discloses 12.
\<close>

lemma credential_prefix:
  assumes "HandleStore h ae e request a d = (Value 201 (AccountCreated created secret), d')" "\<And>b. se_rand e = Some b \<Longrightarrow> length b = 32"
  shows "ac_CredentialID created = take 16 secret"
proof -
  from assms(1) obtain u body b where b: "se_rand e = Some b" "secret = base64_raw b"
    and c: "CreateAccount e (ActiveTenant u) (new_account body b) (base64_raw b) d = (Inr created, d')"
    by (auto simp: HandleStore_def unavailable_def WriteError_def account_user_def unauthenticated_def
      split: option.splits sum.splits prod.splits if_splits)
  then have "ac_CredentialID created = base64_raw (take 12 b)"
    by (cases "se_generate e secret") (auto simp: CreateAccount_def Let_def new_account_def split: if_splits)
  then show ?thesis using base64_raw_take [of 4 b] assms(2) [OF b(1)] b(2) by simp
qed

text \<open>No role is asked for: a user of any role with a live session creates an account.\<close>

lemma account_any_role:
  assumes "AuthenticateRequest ae (ir_http request) (se_clock e 0) a = Some u" "sh_repository h" "sh_sessions h"
    and "decode_limited (se_json e) 65536 (ir_raw request) account_fields = Some body" "TrimSpace (get_str body ''name'') \<noteq> []"
    and "se_rand e = Some b" "CreateAccount e (ActiveTenant u) (new_account body b) (base64_raw b) d = (Inr created, d')"
  shows "HandleStore h ae e request a d = (Value 201 (AccountCreated created (base64_raw b)), d')"
  using assms by (simp add: HandleStore_def account_user_def)

end
