(* ===== verification/IdentityProps.thy ===== *)
theory IdentityProps
  imports MfaProps ServiceAccountProps
begin

text \<open>
  The identity routes together: the assembly of the handler that the program makes, which leaves single
  sign-on without its repository, and the single use of a sign-on state over any sequence of calls.
\<close>

section \<open>The routes\<close>

datatype identity_route = RProviders | RBreakGlass | RBreakGlassTest | RSCIM | REnroll | RConfirm | RStepUp | RExchange | RStart | RCallback

fun identity_serve :: "identity_route \<Rightarrow> identity_handler \<Rightarrow> auth_env \<Rightarrow> account_env \<Rightarrow> identity_env \<Rightarrow> raw_request \<Rightarrow> identity_state \<Rightarrow> identity_result" where
  "identity_serve RProviders h ae se e request s = HandleProviders h ae e request s"
| "identity_serve RBreakGlass h ae se e request s = HandleBreakGlass h ae e request s"
| "identity_serve RBreakGlassTest h ae se e request s = HandleBreakGlassTest h ae e request s"
| "identity_serve RSCIM h ae se e request s = HandleSCIMUsers h ae e request s"
| "identity_serve REnroll h ae se e request s = HandleMFAEnroll h ae e request s"
| "identity_serve RConfirm h ae se e request s = HandleMFAConfirm h ae e request s"
| "identity_serve RStepUp h ae se e request s = HandleMFAStepUp h ae e request s"
| "identity_serve RExchange h ae se e request s = HandleOIDCTokenExchange h se e request s"
| "identity_serve RStart h ae se e request s = HandleSSOStart h ae e request s"
| "identity_serve RCallback h ae se e request s = HandleCallback h ae e request s"

lemmas identity_handlers = HandleProviders_def HandleBreakGlass_def HandleBreakGlassTest_def HandleSCIMUsers_def HandleMFAEnroll_def
  HandleMFAConfirm_def HandleMFAStepUp_def verifyMFA_def HandleOIDCTokenExchange_def exchange_token_def HandleSSOStart_def HandleCallback_def
  validateCallbackBinding_def issueSSOSession_def scim_lifecycle_def scim_update_def break_glass_actor_def

text \<open>The effect of the repository calls on the tables of users and states.\<close>

lemma audit_simps [simp]:
  "id_auth (record_audit e T a i r d) = id_auth d" "sso_rows (record_audit e T a i r d) = sso_rows d"
  "id_columns (record_audit e T a i r d) = id_columns d" "provider_rows (record_audit e T a i r d) = provider_rows d"
  by (simp_all add: record_audit_def)

lemma set_columns_simps [simp]: "id_auth (set_columns u f d) = id_auth d" "sso_rows (set_columns u f d) = sso_rows d"
  by (simp_all add: set_columns_def)

lemma repo_sso_rows [simp]:
  "sso_rows (snd (SetBreakGlass e T i r x n d)) = sso_rows d" "sso_rows (snd (TestBreakGlass e T i n d)) = sso_rows d"
  "sso_rows (snd (CreateSCIMUser e T m nm b d)) = sso_rows d" "sso_rows (snd (UpdateSCIMUser e T i m nm b d)) = sso_rows d"
  "sso_rows (snd (DeleteSCIMUser e T i d)) = sso_rows d" "sso_rows (snd (SetMFASecret e i v d)) = sso_rows d"
  "sso_rows (snd (MarkMFAConfirmed e i t d)) = sso_rows d" "sso_rows (snd (CreateProvider e T p d)) = sso_rows d"
  by (simp_all add: SetBreakGlass_def TestBreakGlass_def CreateSCIMUser_def UpdateSCIMUser_def DeleteSCIMUser_def SetMFASecret_def
      MarkMFAConfirmed_def CreateProvider_def Let_def split: option.splits)

lemma repo_users [simp]:
  "id_auth (snd (SetBreakGlass e T i r x n d)) = id_auth d" "id_auth (snd (TestBreakGlass e T i n d)) = id_auth d"
  "id_auth (snd (SetMFASecret e i v d)) = id_auth d" "id_auth (snd (MarkMFAConfirmed e i t d)) = id_auth d" "id_auth (snd (CreateProvider e T p d)) = id_auth d"
  "id_auth (snd (CreateSSOState e T pid st c x d)) = id_auth d" "id_auth (snd (ConsumeSSOState e st n d)) = id_auth d"
  by (simp_all add: SetBreakGlass_def TestBreakGlass_def SetMFASecret_def MarkMFAConfirmed_def CreateProvider_def CreateSSOState_def
      ConsumeSSOState_def Let_def split: option.splits)

section \<open>Assembly\<close>

lemma identityHandler_fields:
  "ih_sessions (identityHandler)" "ih_providers (identityHandler)" "ih_mfa (identityHandler)" "ih_scim (identityHandler)"
  "ih_users (identityHandler)" "ih_service (identityHandler)" "ih_breakglass (identityHandler)" "ih_sso (identityHandler) = None"
proof -
  have "\<not> implements (Some (BrowserAuthRepository)) SSOStateRepository"
    by (simp add: implements_def BrowserAuthRepository_def SSOStateRepository_def MFARepository_def SCIMRepository_def BreakGlassRepository_def)
  then show "ih_sso (identityHandler) = None" by (simp add: identityHandler_def NewIdentityHandler_def dep_at_def Let_def)
qed (auto simp: identityHandler_def NewIdentityHandler_def dep_at_def Let_def implements_def BrowserAuthRepository_def IdentityProviderRepository_def
    ServiceAccountRepository_def list_all_iff)



section \<open>Sign-on states\<close>

text \<open>What a store of one-time states promises.\<close>

locale one_time_states =
  fixes create :: "int \<Rightarrow> int \<Rightarrow> string \<Rightarrow> string \<Rightarrow> instant \<Rightarrow> 'd \<Rightarrow> ('x + unit) \<times> 'd"
    and consume :: "string \<Rightarrow> instant \<Rightarrow> 'd \<Rightarrow> ('x + int \<times> int) \<times> 'd"
    and inspect :: "string \<Rightarrow> instant \<Rightarrow> 'd \<Rightarrow> 'x + int \<times> int"
    and ok :: "'d \<Rightarrow> bool" and spent :: "string \<Rightarrow> 'd \<Rightarrow> bool"
  assumes create_ok: "ok d \<Longrightarrow> ok (snd (create T p st c t d))" and consume_ok: "ok d \<Longrightarrow> ok (snd (consume st t d))"
    and create_keeps: "spent x d \<Longrightarrow> spent x (snd (create T p st c t d))" and consume_keeps: "spent x d \<Longrightarrow> spent x (snd (consume st t d))"
    and consume_spends: "ok d \<Longrightarrow> fst (consume st t d) = Inr b \<Longrightarrow> spent st (snd (consume st t d))"
    and consume_binding: "ok d \<Longrightarrow> fst (consume st t d) = Inr b \<Longrightarrow> inspect st t d = Inr b' \<Longrightarrow> b = b'"
    and spent_refused: "spent st d \<Longrightarrow> isl (fst (consume st t d)) \<and> isl (inspect st t d)"
begin

text \<open>A state that was consumed stays spent under operations that keep spent states.\<close>

lemma consumed_stays:
  assumes "ok d" "fst (consume st t d) = Inr b" "R\<^sup>*\<^sup>* (snd (consume st t d)) d'" "\<And>x d d'. R d d' \<Longrightarrow> spent x d \<Longrightarrow> spent x d'"
  shows "spent st d'"
  using assms(3) consume_spends [OF assms(1,2)] by (induction rule: rtranclp_induct) (auto dest: assms(4))

end

definition states_ok :: "identity_db \<Rightarrow> bool" where
  "states_ok d \<longleftrightarrow> distinct (map st_state (sso_rows d))"

definition state_spent :: "string \<Rightarrow> identity_db \<Rightarrow> bool" where
  "state_spent x d \<longleftrightarrow> x \<in> st_state ` set (sso_rows d) \<and> (\<forall>r \<in> set (sso_rows d). st_state r = x \<longrightarrow> st_consumedAt r \<noteq> None)"

lemma consume_rows: "sso_rows (snd (ConsumeSSOState e st t d)) =
    (if ie_fails e ''consume SSO state'' then sso_rows d else upd_rows (open_state st t) (\<lambda>r. r\<lparr>st_consumedAt := Some (ie_column_time e t)\<rparr>) (sso_rows d))"
  by (simp add: ConsumeSSOState_def Let_def split: option.splits)

lemma create_rows: "sso_rows (snd (CreateSSOState e T p st c t d)) = sso_rows d
    \<or> (\<exists>r. st_state r = st \<and> sso_rows (snd (CreateSSOState e T p st c t d)) = sso_rows d @ [r]) \<and> st \<notin> st_state ` set (sso_rows d)"
  by (auto simp: CreateSSOState_def list_ex_iff)

lemma consume_succeeds:
  assumes "fst (ConsumeSSOState e st t d) = Inr b"
  shows "\<not> ie_fails e ''consume SSO state''" "\<exists>r \<in> set (sso_rows d). open_state st t r"
    "\<exists>r. find (\<lambda>r. st_state r = st) (sso_rows d) = Some r \<and> b = (st_tenant r, st_provider r)"
proof -
  show "\<not> ie_fails e ''consume SSO state''" "\<exists>r \<in> set (sso_rows d). open_state st t r"
    using assms by (auto simp: ConsumeSSOState_def Let_def list_ex_iff split: if_splits)
  let ?f = "\<lambda>r. r\<lparr>st_consumedAt := Some (ie_column_time e t)\<rparr>"
  have "find (\<lambda>r. st_state r = st) (upd_rows (open_state st t) ?f rows)
      = map_option (\<lambda>r. if open_state st t r then ?f r else r) (find (\<lambda>r. st_state r = st) rows)" for rows
    by (induction rows) (auto simp: upd_rows_def)
  then show "\<exists>r. find (\<lambda>r. st_state r = st) (sso_rows d) = Some r \<and> b = (st_tenant r, st_provider r)"
    using assms by (auto simp: ConsumeSSOState_def Let_def split: if_splits option.splits)
qed

lemma one_row:
  assumes "states_ok d" "r \<in> set (sso_rows d)" "q \<in> set (sso_rows d)" "st_state q = st_state r"
  shows "q = r"
  using assms by (auto simp: states_ok_def distinct_map inj_on_def)

lemma find_state_unique:
  assumes "states_ok d" "find P (sso_rows d) = Some r" "find Q (sso_rows d) = Some q" "st_state q = st_state r"
  shows "q = r"
  using one_row [OF assms(1) _ _ assms(4)] assms(2,3) by (auto dest!: find_SomeD)

interpretation mysql_states: one_time_states "CreateSSOState e" "ConsumeSSOState e" "SSOState e" states_ok state_spent for e
proof unfold_locales
  fix d :: identity_db and T p :: int and st c x :: string and t :: instant and b b' :: "int \<times> int"
  show "states_ok (snd (CreateSSOState e T p st c t d))" if "states_ok d"
    using that create_rows [of e T p st c t d] by (auto simp: states_ok_def)
  show "states_ok (snd (ConsumeSSOState e st t d))" if "states_ok d" using that by (simp add: states_ok_def consume_rows)
  show "state_spent x (snd (CreateSSOState e T p st c t d))" if "state_spent x d"
    using that create_rows [of e T p st c t d] by (auto simp: state_spent_def)
  show "state_spent x (snd (ConsumeSSOState e st t d))" if "state_spent x d"
  proof -
    have "map st_state (sso_rows (snd (ConsumeSSOState e st t d))) = map st_state (sso_rows d)" by (simp add: consume_rows)
    from arg_cong [OF this, of set] have "x \<in> st_state ` set (sso_rows (snd (ConsumeSSOState e st t d)))"
      using that unfolding set_map state_spent_def by simp
    moreover have "st_consumedAt r \<noteq> None" if "r \<in> set (sso_rows (snd (ConsumeSSOState e st t d)))" "st_state r = x" for r
      using that \<open>state_spent x d\<close> by (auto simp: state_spent_def consume_rows set_upd_rows split: if_splits)
    ultimately show ?thesis by (auto simp: state_spent_def)
  qed
  show "state_spent st (snd (ConsumeSSOState e st t d))" if ok: "states_ok d" and c: "fst (ConsumeSSOState e st t d) = Inr b"
  proof -
    obtain r where r: "r \<in> set (sso_rows d)" "open_state st t r" using consume_succeeds(2) [OF c] by blast
    then have st: "st_state r = st" by (simp add: open_state_def)
    have one: "q = r" if "q \<in> set (sso_rows d)" "st_state q = st" for q using one_row [OF ok r(1) that(1)] that(2) st by simp
    have rows: "sso_rows (snd (ConsumeSSOState e st t d)) = upd_rows (open_state st t) (\<lambda>r. r\<lparr>st_consumedAt := Some (ie_column_time e t)\<rparr>) (sso_rows d)"
      using consume_succeeds(1) [OF c] by (simp add: consume_rows)
    have "st_consumedAt q' \<noteq> None" if q': "q' \<in> set (sso_rows (snd (ConsumeSSOState e st t d)))" "st_state q' = st" for q'
    proof -
      obtain q where q: "q \<in> set (sso_rows d)" "q' = (if open_state st t q then q\<lparr>st_consumedAt := Some (ie_column_time e t)\<rparr> else q)"
        using q'(1) unfolding rows set_upd_rows by blast
      then have "q = r" using one [of q] q'(2) by (auto split: if_splits)
      then show ?thesis using q(2) r(2) by simp
    qed
    moreover have "st \<in> st_state ` set (sso_rows (snd (ConsumeSSOState e st t d)))"
      unfolding rows by (rule image_eqI [where x = "r\<lparr>st_consumedAt := Some (ie_column_time e t)\<rparr>"]) (use r st in \<open>auto simp: set_upd_rows\<close>)
    ultimately show ?thesis by (simp add: state_spent_def)
  qed
  show "b = b'" if ok: "states_ok d" and c: "fst (ConsumeSSOState e st t d) = Inr b" and i: "SSOState e st t d = Inr b'"
  proof -
    obtain r where r: "find (\<lambda>r. st_state r = st) (sso_rows d) = Some r" "b = (st_tenant r, st_provider r)" using consume_succeeds(3) [OF c] by blast
    obtain q where q: "find (open_state st t) (sso_rows d) = Some q" "b' = (st_tenant q, st_provider q)"
      using i by (auto simp: SSOState_def split: if_splits option.splits)
    have "st_state q = st_state r" using r(1) q(1) by (auto simp: open_state_def dest!: find_SomeD)
    from find_state_unique [OF ok r(1) q(1) this] show ?thesis using r(2) q(2) by simp
  qed
  show "isl (fst (ConsumeSSOState e st t d)) \<and> isl (SSOState e st t d)" if "state_spent st d"
  proof -
    have "\<not> open_state st t r" if "r \<in> set (sso_rows d)" for r using that \<open>state_spent st d\<close> by (auto simp: state_spent_def open_state_def)
    then have "\<not> list_ex (open_state st t) (sso_rows d)" "find (open_state st t) (sso_rows d) = None" by (auto simp: list_ex_iff find_None_iff)
    then show ?thesis by (simp add: ConsumeSSOState_def SSOState_def Let_def)
  qed
qed

lemma repo_calls:
  "SetBreakGlass e T i r x n d = (y, d') \<Longrightarrow> sso_rows d' = sso_rows d" "TestBreakGlass e T i n d = (y', d') \<Longrightarrow> sso_rows d' = sso_rows d"
  "CreateSCIMUser e T m nm b d = (u, d') \<Longrightarrow> sso_rows d' = sso_rows d" "UpdateSCIMUser e T i m nm b d = (u, d') \<Longrightarrow> sso_rows d' = sso_rows d"
  "DeleteSCIMUser e T i d = (y, d') \<Longrightarrow> sso_rows d' = sso_rows d" "SetMFASecret e i v d = (y, d') \<Longrightarrow> sso_rows d' = sso_rows d"
  "MarkMFAConfirmed e i t d = (y, d') \<Longrightarrow> sso_rows d' = sso_rows d" "CreateProvider e T p d = (q, d') \<Longrightarrow> sso_rows d' = sso_rows d"
  using repo_sso_rows by (metis snd_conv)+

lemma admin_routes_rows:
  assumes "identity_serve route h ae se e request s = (sent, s')" "route \<in> {RProviders, RBreakGlass, RBreakGlassTest, RSCIM, REnroll, RConfirm, RStepUp}"
  shows "sso_rows (is_db s') = sso_rows (is_db s)"
  using assms by (elim insertE emptyE; simp only: identity_serve.simps)
    (auto simp: identity_handlers Let_def split: if_splits sum.splits option.splits prod.splits dest!: repo_calls)

text \<open>Without a repository of sign-on states the sign-on routes change no table.\<close>

lemma unwired_routes:
  assumes "ih_sso h = None" "identity_serve route h ae se e request s = (sent, s')" "route \<in> {RStart, RCallback, RExchange}"
  shows "is_db s' = is_db s"
  using assms(3,1,2)
  by (elim insertE emptyE; simp only: identity_serve.simps)
    (auto simp: HandleSSOStart_def HandleCallback_def validateCallbackBinding_def HandleOIDCTokenExchange_def Let_def
      split: if_splits option.splits prod.splits)

lemma served_rows:
  assumes "identity_serve route identityHandler ae se e request s = (sent, s')"
  shows "sso_rows (is_db s') = sso_rows (is_db s)"
proof (cases "route \<in> {RStart, RCallback, RExchange}")
  case True
  then show ?thesis using unwired_routes [OF identityHandler_fields(8) assms] by simp
next
  case False
  then have "route \<in> {RProviders, RBreakGlass, RBreakGlassTest, RSCIM, REnroll, RConfirm, RStepUp}" by (cases route) auto
  then show ?thesis by (rule admin_routes_rows [OF assms])
qed

text \<open>One call on the states, with any arguments, or one identity request to the handler of the program.\<close>

inductive sso_step :: "identity_db \<Rightarrow> identity_db \<Rightarrow> bool" where
  create: "CreateSSOState e T p st c t d = (x, d') \<Longrightarrow> sso_step d d'"
| consume: "ConsumeSSOState e st t d = (y, d') \<Longrightarrow> sso_step d d'"
| serve: "identity_serve route identityHandler ae se e request s = (sent, s') \<Longrightarrow> sso_step (is_db s) (is_db s')"

lemma sso_step_spent: "sso_step d d' \<Longrightarrow> state_spent x d \<Longrightarrow> state_spent x d'"
proof (induction rule: sso_step.induct)
  case (serve route ae se e request s sent s')
  then show ?case using served_rows [OF serve(1)] by (simp add: state_spent_def)
qed (metis mysql_states.create_keeps mysql_states.consume_keeps snd_conv)+

text \<open>
  C12. A sign-on state of the repository is consumed once: in a table without two rows of the same state, a call
  that consumes a state has found its unconsumed and unexpired row, whose tenant and provider it returns, and
  whatever states are created and consumed and whatever identity requests are served afterwards, every later call that consumes or inspects the
  same state is refused. (The handlers of the program never come to make these calls: the
  repository is not wired into them.)
\<close>

theorem sso_state_single_use:
  assumes "states_ok d" "ConsumeSSOState e st t d = (Inr (T, p), d')" "sso_step\<^sup>*\<^sup>* d' d''"
  shows "(\<exists>r \<in> set (sso_rows d). st_state r = st \<and> st_consumedAt r = None \<and> t < st_expiresAt r \<and> T = st_tenant r \<and> p = st_provider r)
    \<and> isl (fst (ConsumeSSOState e' st t' d'')) \<and> isl (SSOState e' st t' d'')"
proof -
  have c: "fst (ConsumeSSOState e st t d) = Inr (T, p)" "snd (ConsumeSSOState e st t d) = d'" using assms(2) by simp_all
  obtain r where r: "r \<in> set (sso_rows d)" "open_state st t r" using consume_succeeds(2) [OF c(1)] by blast
  obtain q where q: "find (\<lambda>r. st_state r = st) (sso_rows d) = Some q" "(T, p) = (st_tenant q, st_provider q)"
    using consume_succeeds(3) [OF c(1)] by blast
  have "q = r" using one_row [OF assms(1) r(1), of q] r(2) find_SomeD [OF q(1)] by (simp add: open_state_def)
  then have "\<exists>r \<in> set (sso_rows d). st_state r = st \<and> st_consumedAt r = None \<and> t < st_expiresAt r \<and> T = st_tenant r \<and> p = st_provider r"
    using r q(2) by (auto simp: open_state_def)
  moreover have "state_spent st d''"
    by (rule mysql_states.consumed_stays [OF assms(1) c(1), of sso_step]) (use assms(3) c(2) sso_step_spent in auto)
  then have "isl (fst (ConsumeSSOState e' st t' d'')) \<and> isl (SSOState e' st t' d'')" by (rule mysql_states.spent_refused)
  ultimately show ?thesis by blast
qed

text \<open>Fixtures: an open state of tenant 1 and its provider, and a signed request with the session of the session fixtures.\<close>

definition sso_state0 :: identity_state where
  "sso_state0 = istate0\<lparr>is_db := idb0\<lparr>
     provider_rows := [\<lparr>pr_id = 2, pr_tenant = 1, pr_type = ''oidc'', pr_name = ''p'', pr_issuer = None, pr_audience = None, pr_status = ''active''\<rparr>],
     sso_rows := [\<lparr>st_tenant = 1, st_provider = 2, st_state = ''x'', st_challenge = ''c'', st_expiresAt = 600 * second, st_consumedAt = None\<rparr>]\<rparr>\<rparr>"

definition signed_request0 :: "string \<Rightarrow> raw_request" where
  "signed_request0 nonce = \<lparr>ir_http = request0\<lparr>rq_cookie := Some sid0,
       rq_header := (\<lambda>name. if name = ''Idelium-Identity-Nonce'' then nonce else to_hex ''r'')\<rparr>, ir_method = ''POST'', ir_raw = ''r''\<rparr>"

definition consumed0 :: identity_db where
  "consumed0 = snd (ConsumeSSOState ienv0 ''x'' 5 (is_db sso_state0))"

theorem sso_state_single_use_witness:
  "isl (fst (ConsumeSSOState ienv0 ''x'' 6 (snd (CreateSSOState ienv0 1 2 ''x'' ''c'' 9 consumed0)))) \<and> fst (ConsumeSSOState ienv0 ''x'' 5 (is_db sso_state0)) = Inr (1, 2)"
proof -
  have ok: "states_ok (is_db sso_state0)" by (simp add: states_ok_def sso_state0_def)
  have f: "fst (ConsumeSSOState ienv0 ''x'' 5 (is_db sso_state0)) = Inr (1, 2)"
    by (simp add: ConsumeSSOState_def sso_state0_def ienv0_def open_state_def Let_def upd_rows_def)
  have run: "ConsumeSSOState ienv0 ''x'' 5 (is_db sso_state0) = (Inr (1, 2), consumed0)"
    using f by (simp add: consumed0_def prod_eq_iff)
  have "sso_step consumed0 (snd (CreateSSOState ienv0 1 2 ''x'' ''c'' 9 consumed0))" by (rule sso_step.create [OF prod.collapse [symmetric]])
  then have "sso_step\<^sup>*\<^sup>* consumed0 (snd (CreateSSOState ienv0 1 2 ''x'' ''c'' 9 consumed0))" by blast
  from sso_state_single_use [OF ok run this] f show ?thesis by blast
qed

end
