(* ===== verification/IdentityAccess.thy ===== *)
theory IdentityAccess
  imports IdentityProps
begin

text \<open>
  Who may do what through the identity routes: the conditions of a token exchange, the single use of the
  nonce of a signed payload and what the signature leaves open, the tenant whose users a request can
  change, and two ways into an account that the code leaves open.
\<close>

section \<open>Token exchange\<close>

lemma jwt_sound:
  assumes "validateOIDCJWTForProvider e now token nonce issuer audience = Inr c"
  shows "\<exists>p0 p1 p2. split_dots token = [p0, p1, p2] \<and> ie_getenv e ''IDELIUM_OIDC_HS256_SECRET'' \<noteq> []
      \<and> url_decode p2 = Some (ie_hmac_sha256 e (ie_getenv e ''IDELIUM_OIDC_HS256_SECRET'') (p0 @ ''.'' @ p1))
    \<and> oc_Issuer c = TrimSpace issuer \<and> audience_ok (oc_Audience c) (TrimSpace audience) \<and> oc_Nonce c = nonce \<and> oc_Exp c > now div second
    \<and> oc_Subject c \<noteq> []"
  using assms unfolding validateOIDCJWTForProvider_def Let_def
  by (auto split: list.splits option.splits if_splits)

lemma signed_payload_sound:
  assumes "validateSignedPayload e request cache = (None :: 'v reply option, cache')"
  shows "TrimSpace (rq_header (ir_http request) ''Idelium-Identity-Signature'')
      = to_hex (ie_hmac_sha256 e (ie_getenv e ''IDELIUM_IDENTITY_CALLBACK_SECRET'') (ir_raw request))
    \<and> ie_getenv e ''IDELIUM_IDENTITY_CALLBACK_SECRET'' \<noteq> []"
    "TrimSpace (rq_header (ir_http request) ''Idelium-Identity-Nonce'') \<notin> fst ` set (filter (\<lambda>(key, at). \<not> ie_clock e 0 - at > 10 * minute) cache)"
    "cache' = filter (\<lambda>(key, at). \<not> ie_clock e 0 - at > 10 * minute) cache @ [(TrimSpace (rq_header (ir_http request) ''Idelium-Identity-Nonce''), ie_clock e 0)]"
  using assms unfolding validateSignedPayload_def Let_def by (simp_all split: if_splits)

text \<open>
  Whatever implementation of the interface of sign-on states the handler has, it grants an exchange only when
  that implementation finds the state and its active provider, the token is valid for the issuer and the
  audience of the provider, its subject is an active service account of the tenant of the state, and the state
  is consumed.
\<close>

lemma exchange_cases:
  assumes "exchange_token h sso se e body s = (([], Value 200 (OIDCValidated (Some (T, p)) claims)), s')"
  obtains find_state provider b where "so_SSOState sso = Some find_state" "find_state (get_str body ''state'') (ie_clock e 1) (is_db s) = Inr (T, p)"
    "so_Provider sso T (itoa p) (is_db s) = Inr provider" "pv_Status provider = ''active''"
    "validateOIDCJWTForProvider e (ie_clock e 2) (get_str body ''id_token'') (get_str body ''nonce'') (pv_Issuer provider) (pv_Audience provider) = Inr claims"
    "ActiveServiceAccount se T (oc_Subject claims) (ie_clock e 3) (is_accounts s) = Inr True"
    "so_ConsumeSSOState sso (get_str body ''state'') (ie_clock e 4) (is_db s) = (Inr b, is_db s')"
  using assms that unfolding exchange_token_def Let_def
  by (auto simp: id_error_def WriteError_def split: option.splits sum.splits if_splits prod.splits)

section \<open>Signed payloads\<close>

text \<open>Requests that one process validates in turn.\<close>

fun validate_all :: "(identity_env \<times> raw_request) list \<Rightarrow> nonce_cache \<Rightarrow> nonce_cache" where
  "validate_all [] cache = cache"
| "validate_all ((e, request) # later) cache = validate_all later (snd (validateSignedPayload e request cache :: identity_value reply option \<times> nonce_cache))"

lemma cache_keeps:
  assumes "(nonce, at) \<in> set cache" "ie_clock e 0 - at \<le> 10 * minute"
  shows "(nonce, at) \<in> set (snd (validateSignedPayload e request cache :: 'v reply option \<times> nonce_cache))"
  using assms by (simp add: validateSignedPayload_def Let_def)

lemma validate_all_keeps:
  assumes "(nonce, at) \<in> set cache" "\<forall>(e, request) \<in> set later. ie_clock e 0 - at \<le> 10 * minute"
  shows "(nonce, at) \<in> set (validate_all later cache)"
  using assms
proof (induction later cache rule: validate_all.induct)
  case (2 e request later cache)
  then show ?case using cache_keeps [of nonce at cache e request, where 'v = identity_value] by auto
qed simp

text \<open>
  C14. A signed identity payload is accepted on its signature and once per nonce: an accepted request carries
  the hexadecimal HMAC of its body of at most 256 KiB under the configured callback secret, which is not
  empty, and a nonce that is not empty; and every later request with the same nonce that the process reads
  within ten minutes of it is refused, whatever other requests it has validated in between.
\<close>

theorem signed_payload_once:
  assumes "validateSignedPayload e request cache = (None :: identity_value reply option, cache')"
    and "\<forall>(e', request') \<in> set later. ie_clock e' 0 - ie_clock e 0 \<le> 10 * minute" "ie_clock e2 0 - ie_clock e 0 \<le> 10 * minute"
    and "TrimSpace (rq_header (ir_http request2) ''Idelium-Identity-Nonce'') = TrimSpace (rq_header (ir_http request) ''Idelium-Identity-Nonce'')"
  shows "TrimSpace (rq_header (ir_http request) ''Idelium-Identity-Signature'')
      = to_hex (ie_hmac_sha256 e (ie_getenv e ''IDELIUM_IDENTITY_CALLBACK_SECRET'') (ir_raw request))
    \<and> ie_getenv e ''IDELIUM_IDENTITY_CALLBACK_SECRET'' \<noteq> [] \<and> length (ir_raw request) \<le> 256 * 1024
    \<and> TrimSpace (rq_header (ir_http request) ''Idelium-Identity-Nonce'') \<noteq> []
    \<and> fst (validateSignedPayload e2 request2 (validate_all later cache')) \<noteq> (None :: identity_value reply option)"
proof -
  have "fst (validateSignedPayload e2 request2 (validate_all later cache')) \<noteq> (None :: identity_value reply option)"
  proof
    assume "fst (validateSignedPayload e2 request2 (validate_all later cache')) = (None :: identity_value reply option)"
    then obtain c where "validateSignedPayload e2 request2 (validate_all later cache') = (None :: identity_value reply option, c)" by (metis prod.collapse)
    note fresh = signed_payload_sound(2) [OF this]
    have "(TrimSpace (rq_header (ir_http request) ''Idelium-Identity-Nonce''), ie_clock e 0) \<in> set (validate_all later cache')"
      using signed_payload_sound(3) [OF assms(1)] assms(2) by (intro validate_all_keeps) auto
    then show False using fresh assms(3,4) by force
  qed
  moreover have "length (ir_raw request) \<le> 256 * 1024" "TrimSpace (rq_header (ir_http request) ''Idelium-Identity-Nonce'') \<noteq> []"
    using assms(1) unfolding validateSignedPayload_def Let_def by (auto split: if_splits)
  ultimately show ?thesis using signed_payload_sound(1) [OF assms(1)] by blast
qed

lemma signed_fixture: "validateSignedPayload ienv0 (signed_request0 ''n'') [] = (None :: identity_value reply option, [(''n'', 60 * second)])"
  by code_simp

theorem signed_payload_once_witness:
  "fst (validateSignedPayload ienv0 (signed_request0 '' n'') (validate_all [(ienv0, signed_request0 ''o'')] [(''n'', 60 * second)])) \<noteq> (None :: identity_value reply option)
   \<and> fst (validateSignedPayload ienv0 (signed_request0 ''p'') (validate_all [(ienv0, signed_request0 ''o'')] [(''n'', 60 * second)])) = (None :: identity_value reply option)"
proof -
  have "TrimSpace (rq_header (ir_http (signed_request0 '' n'')) ''Idelium-Identity-Nonce'') = TrimSpace (rq_header (ir_http (signed_request0 ''n'')) ''Idelium-Identity-Nonce'')"
    by code_simp
  moreover have "\<forall>(e', request') \<in> set [(ienv0, signed_request0 ''o'')]. ie_clock e' 0 - ie_clock ienv0 0 \<le> 10 * minute" "ie_clock ienv0 0 - ie_clock ienv0 0 \<le> 10 * minute"
    by simp_all
  moreover have "fst (validateSignedPayload ienv0 (signed_request0 ''p'') (validate_all [(ienv0, signed_request0 ''o'')] [(''n'', 60 * second)])) = (None :: identity_value reply option)"
    by code_simp
  ultimately show ?thesis using signed_payload_once [OF signed_fixture, of "[(ienv0, signed_request0 ''o'')]" ienv0 "signed_request0 '' n''"] by blast
qed

text \<open>
  The signature covers the body and not the nonce: a payload that was accepted once is accepted again
  under every other nonce that is not in the cache.
\<close>

lemma signature_ignores_nonce:
  assumes "validateSignedPayload e request cache = (None :: 'v reply option, cache')" "ir_raw request2 = ir_raw request" "ie_clock e2 0 = now"
    and "rq_header (ir_http request2) ''Idelium-Identity-Signature'' = rq_header (ir_http request) ''Idelium-Identity-Signature''"
    and "ie_getenv e2 = ie_getenv e" "ie_hmac_sha256 e2 = ie_hmac_sha256 e"
    and "TrimSpace (rq_header (ir_http request2) ''Idelium-Identity-Nonce'') \<notin> insert [] (fst ` set cache2)" "length cache2 < 10000"
  shows "fst (validateSignedPayload e2 request2 cache2) = (None :: 'v reply option)"
proof -
  let ?kept = "filter (\<lambda>(key, at). \<not> now - at > 10 * minute) cache2"
  have "TrimSpace (rq_header (ir_http request2) ''Idelium-Identity-Nonce'') \<notin> fst ` set ?kept" "length ?kept < 10000"
    using assms(7) le_less_trans [OF length_filter_le assms(8)] by auto
  then show ?thesis using assms unfolding validateSignedPayload_def Let_def by (auto split: if_splits)
qed

section \<open>Tenants\<close>

lemma scim_repo_users:
  "CreateSCIMUser e T m nm b d = (x, d') \<Longrightarrow> filter (\<lambda>r. ur_tenant r \<noteq> T) (users (id_auth d')) = filter (\<lambda>r. ur_tenant r \<noteq> T) (users (id_auth d))"
  "UpdateSCIMUser e T i m nm b d = (x, d') \<Longrightarrow> filter (\<lambda>r. ur_tenant r \<noteq> T) (users (id_auth d')) = filter (\<lambda>r. ur_tenant r \<noteq> T) (users (id_auth d))"
  "DeleteSCIMUser e T i d = (y, d') \<Longrightarrow> filter (\<lambda>r. ur_tenant r \<noteq> T) (users (id_auth d')) = filter (\<lambda>r. ur_tenant r \<noteq> T) (users (id_auth d))"
proof -
  have upd: "filter (\<lambda>r. ur_tenant r \<noteq> T) (upd_rows (\<lambda>u. ur_id u = i \<and> ur_tenant u = T) (\<lambda>u. u\<lparr>ur_name := nm, ur_email := m, ur_status := st\<rparr>) rows)
      = filter (\<lambda>r. ur_tenant r \<noteq> T) rows" for i st rows nm m
    by (rule filter_upd_rows_other) simp_all
  have del: "filter (\<lambda>r. ur_tenant r \<noteq> T) (filter (\<lambda>u. \<not> (ur_id u = i \<and> ur_tenant u = T)) rows) = filter (\<lambda>r. ur_tenant r \<noteq> T) rows" for rows
    by (induction rows) auto
  show "CreateSCIMUser e T m nm b d = (x, d') \<Longrightarrow> filter (\<lambda>r. ur_tenant r \<noteq> T) (users (id_auth d')) = filter (\<lambda>r. ur_tenant r \<noteq> T) (users (id_auth d))"
    by (auto simp: CreateSCIMUser_def Let_def split: option.splits if_splits)
  show "UpdateSCIMUser e T i m nm b d = (x, d') \<Longrightarrow> filter (\<lambda>r. ur_tenant r \<noteq> T) (users (id_auth d')) = filter (\<lambda>r. ur_tenant r \<noteq> T) (users (id_auth d))"
    by (auto simp: UpdateSCIMUser_def Let_def upd split: if_splits)
  show "DeleteSCIMUser e T i d = (y, d') \<Longrightarrow> filter (\<lambda>r. ur_tenant r \<noteq> T) (users (id_auth d')) = filter (\<lambda>r. ur_tenant r \<noteq> T) (users (id_auth d))"
    by (auto simp: DeleteSCIMUser_def Let_def del simp del: filter_filter de_Morgan_conj split: if_splits)
qed

lemma id_session_live: "id_session h ae e k request d = Inr u \<Longrightarrow> live_session ae (ir_http request) (ie_clock e k) (id_auth d) u"
  by (auto simp: id_session_def split: if_splits option.splits intro: AuthenticateRequest_live)

lemma scim_lifecycle_users:
  assumes "scim_lifecycle e T request s = (sent, s')"
  shows "filter (\<lambda>r. ur_tenant r \<noteq> T) (users (id_auth (is_db s'))) = filter (\<lambda>r. ur_tenant r \<noteq> T) (users (id_auth (is_db s)))"
  using assms unfolding scim_lifecycle_def scim_update_def Let_def
  by (auto split: if_splits option.splits sum.splits prod.splits dest!: scim_repo_users)

text \<open>The columns of users that a call changes.\<close>

definition columns_within :: "(int \<Rightarrow> bool) \<Rightarrow> identity_db \<Rightarrow> identity_db \<Rightarrow> bool" where
  "columns_within P d d' \<longleftrightarrow> (\<forall>i. id_columns d' i \<noteq> id_columns d i \<longrightarrow> P i)"

lemma columns_refl [simp]: "columns_within P d d"
  by (simp add: columns_within_def)

lemma updated_member:
  assumes "u \<in> set rows"
  shows "\<exists>x \<in> set (upd_rows (\<lambda>v. ur_id v = ur_id u \<and> ur_tenant v = ur_tenant u) (\<lambda>v. v\<lparr>ur_name := nm, ur_email := m, ur_status := st\<rparr>) rows).
    ur_id x = ur_id u \<and> ur_tenant x = ur_tenant u"
  using assms by (intro bexI [where x = "u\<lparr>ur_name := nm, ur_email := m, ur_status := st\<rparr>"]) (auto simp: set_upd_rows)

lemma repo_columns:
  "SetBreakGlass e T i r x n d = (y, d') \<Longrightarrow> columns_within (\<lambda>i. user_in T i d') d d'"
  "TestBreakGlass e T i n d = (y', d') \<Longrightarrow> columns_within P d d'"
  "CreateSCIMUser e T m nm b d = (u, d') \<Longrightarrow> columns_within (\<lambda>i. user_in T i d') d d'"
  "UpdateSCIMUser e T i m nm b d = (u, d') \<Longrightarrow> columns_within (\<lambda>i. user_in T i d') d d'"
  "DeleteSCIMUser e T i d = (y, d') \<Longrightarrow> columns_within P d d'"
  "SetMFASecret e i v d = (y, d') \<Longrightarrow> columns_within (\<lambda>j. j = i) d d'"
  "MarkMFAConfirmed e i t d = (y, d') \<Longrightarrow> columns_within (\<lambda>j. j = i) d d'"
  "CreateProvider e T p d = (q, d') \<Longrightarrow> columns_within P d d'"
  "CreateSSOState e T pid st c t d = (y, d') \<Longrightarrow> columns_within P d d'"
  "ConsumeSSOState e st t d = (z, d') \<Longrightarrow> columns_within P d d'"
  by (auto simp: SetBreakGlass_def TestBreakGlass_def CreateSCIMUser_def UpdateSCIMUser_def DeleteSCIMUser_def SetMFASecret_def set_columns_def
      MarkMFAConfirmed_def CreateProvider_def CreateSSOState_def ConsumeSSOState_def columns_within_def user_in_def list_ex_iff set_upd_rows Let_def
      split: option.splits if_splits intro: updated_member)

lemma same_columns:
  "TestBreakGlass e T i n d = (y', d') \<Longrightarrow> id_columns d' = id_columns d \<and> id_auth d' = id_auth d"
  "CreateProvider e T p d = (q, d') \<Longrightarrow> id_columns d' = id_columns d \<and> id_auth d' = id_auth d"
  "CreateSSOState e T pid st c t d = (y, d') \<Longrightarrow> id_columns d' = id_columns d \<and> id_auth d' = id_auth d"
  "ConsumeSSOState e st t d = (z, d') \<Longrightarrow> id_columns d' = id_columns d \<and> id_auth d' = id_auth d"
  by (auto simp: TestBreakGlass_def CreateProvider_def CreateSSOState_def ConsumeSSOState_def Let_def split: option.splits if_splits)

text \<open>The routes that write neither users nor their columns.\<close>

lemma reading_routes:
  assumes "identity_serve route h ae se e request s = (sent, s')" "route \<in> {RProviders, RBreakGlassTest, RStepUp}"
  shows "id_columns (is_db s') = id_columns (is_db s) \<and> users (id_auth (is_db s')) = users (id_auth (is_db s))"
  using assms(2,1) by (elim insertE emptyE; simp only: identity_serve.simps)
    (auto simp: HandleProviders_def HandleBreakGlassTest_def HandleMFAStepUp_def verifyMFA_def Let_def
      split: if_splits sum.splits option.splits prod.splits dest!: same_columns)

lemma enrol_routes:
  assumes "identity_serve route h ae se e request s = (sent, s')" "route \<in> {REnroll, RConfirm}"
  shows "id_auth (is_db s') = id_auth (is_db s) \<and> (is_db s' = is_db s \<or> (\<exists>u. id_session h ae e 0 request (is_db s) = Inr u \<and> columns_within (\<lambda>i. i = us_ID u) (is_db s) (is_db s')))"
  using assms(2,1) by (elim insertE emptyE; simp only: identity_serve.simps)
    (auto simp: HandleMFAEnroll_def HandleMFAConfirm_def verifyMFA_def SetMFASecret_def MarkMFAConfirmed_def set_columns_def columns_within_def Let_def
      split: if_splits sum.splits option.splits prod.splits)

lemma break_glass_route:
  assumes "HandleBreakGlass h ae e request s = (sent, s')"
  shows "id_auth (is_db s') = id_auth (is_db s) \<and> (is_db s' = is_db s \<or> (\<exists>u. id_session h ae e 0 request (is_db s) = Inr u
    \<and> columns_within (\<lambda>i. user_in (ActiveTenant u) i (is_db s')) (is_db s) (is_db s')))"
proof -
  have set: "id_auth d' = id_auth d \<and> columns_within (\<lambda>i. user_in T i d') d d'" if "SetBreakGlass e T i r x n d = (y, d')" for T i r x n d y d'
    using that repo_columns(1) [OF that] by (auto simp: SetBreakGlass_def Let_def split: if_splits)
  show ?thesis using assms unfolding HandleBreakGlass_def break_glass_actor_def Let_def
    by (auto split: if_splits sum.splits option.splits prod.splits dest!: set)
qed

lemma scim_route:
  assumes "HandleSCIMUsers h ae e request s = (sent, s')"
  shows "is_db s' = is_db s \<or> (\<exists>u cache p. id_session h ae e 1 request (is_db s) = Inr u
    \<and> validateSignedPayload e request (is_nonces s) = (None :: identity_value reply option, cache)
    \<and> p \<in> set (provider_rows (is_db s)) \<and> parsePathID (rq_path (ir_http request) ''identityProvider'') = Some (pr_id p)
    \<and> pr_tenant p = ActiveTenant u \<and> pr_status p = ''active''
    \<and> scim_lifecycle e (ActiveTenant u) request (s\<lparr>is_nonces := cache\<rparr>) = (sent, s'))"
proof -
  have list: "\<exists>p \<in> set (provider_rows d). pr_id p = i \<and> pr_tenant p = T \<and> pr_status p = ''active''"
    if "ListProviders e T d = Inr ps" "list_ex (\<lambda>p. pv_ID p = i \<and> pv_Status p = ''active'') ps" for T d ps i
    using that by (force simp: ListProviders_def list_ex_iff provider_of_def split: if_splits)
  show ?thesis using assms unfolding HandleSCIMUsers_def Let_def
    by (auto split: if_splits sum.splits option.splits prod.splits dest!: list)
qed

text \<open>The users of a tenant, as rows of the table after a request.\<close>

lemma user_in_row: "user_in T i d \<longleftrightarrow> (\<exists>r \<in> set (users (id_auth d)). ur_id r = i \<and> ur_tenant r = T)"
  by (auto simp: user_in_def list_ex_iff)

text \<open>
  C13. An identity request to the handler of the program changes users of one tenant only: the table of users
  stays as it is, or the request is a SCIM request of a session that is live when it is read, signed with the
  callback secret, whose path names an active provider of the session's active tenant, and the users of every
  other tenant are untouched. Multi-factor and break-glass columns change only for the user of a live
  session, by enrolment and confirmation, and for users of its active tenant, by break glass and SCIM.
\<close>

theorem identity_isolation:
  assumes "identity_serve route identityHandler ae se e request s = (sent, s')"
  shows "(users (id_auth (is_db s')) = users (id_auth (is_db s)) \<or> route = RSCIM \<and> (\<exists>u p.
      live_session ae (ir_http request) (ie_clock e 1) (id_auth (is_db s)) u
      \<and> TrimSpace (rq_header (ir_http request) ''Idelium-Identity-Signature'')
          = to_hex (ie_hmac_sha256 e (ie_getenv e ''IDELIUM_IDENTITY_CALLBACK_SECRET'') (ir_raw request))
      \<and> p \<in> set (provider_rows (is_db s)) \<and> parsePathID (rq_path (ir_http request) ''identityProvider'') = Some (pr_id p)
      \<and> pr_tenant p = ActiveTenant u \<and> pr_status p = ''active''
      \<and> filter (\<lambda>r. ur_tenant r \<noteq> ActiveTenant u) (users (id_auth (is_db s'))) = filter (\<lambda>r. ur_tenant r \<noteq> ActiveTenant u) (users (id_auth (is_db s)))))
    \<and> (id_columns (is_db s') = id_columns (is_db s) \<or> (\<exists>u. live_session ae (ir_http request) (ie_clock e (if route = RSCIM then 1 else 0)) (id_auth (is_db s)) u
      \<and> (\<forall>i. id_columns (is_db s') i \<noteq> id_columns (is_db s) i \<longrightarrow> route \<in> {REnroll, RConfirm} \<and> i = us_ID u
          \<or> route \<in> {RBreakGlass, RSCIM} \<and> (\<exists>r \<in> set (users (id_auth (is_db s'))). ur_id r = i \<and> ur_tenant r = ActiveTenant u))))"
proof -
  consider "route \<in> {RProviders, RBreakGlassTest, RStepUp}" | "route \<in> {RStart, RCallback, RExchange}" | "route \<in> {REnroll, RConfirm}" | "route = RBreakGlass" | "route = RSCIM"
    by (cases route) auto
  then show ?thesis
  proof cases
    case 1
    then show ?thesis using reading_routes [OF assms] by blast
  next
    case 2
    then show ?thesis using unwired_routes [OF identityHandler_fields(8) assms] by simp
  next
    case 3
    from enrol_routes [OF assms 3] 3 show ?thesis
      by (auto dest!: id_session_live simp: columns_within_def)
  next
    case 4
    then have "HandleBreakGlass identityHandler ae e request s = (sent, s')" using assms by simp
    from break_glass_route [OF this] 4 show ?thesis by (auto dest!: id_session_live simp: columns_within_def user_in_row)
  next
    case 5
    then have "HandleSCIMUsers identityHandler ae e request s = (sent, s')" using assms by simp
    from scim_route [OF this] show ?thesis
    proof (elim disjE exE conjE)
      fix u cache p
      assume sc: "id_session identityHandler ae e 1 request (is_db s) = Inr u" "validateSignedPayload e request (is_nonces s) = (None :: identity_value reply option, cache)"
        "p \<in> set (provider_rows (is_db s))" "parsePathID (rq_path (ir_http request) ''identityProvider'') = Some (pr_id p)" "pr_tenant p = ActiveTenant u" "pr_status p = ''active''"
        "scim_lifecycle e (ActiveTenant u) request (s\<lparr>is_nonces := cache\<rparr>) = (sent, s')"
      have "columns_within (\<lambda>i. user_in (ActiveTenant u) i (is_db s')) (is_db s) (is_db s')" using sc(7)
        unfolding scim_lifecycle_def scim_update_def Let_def by (auto split: if_splits option.splits sum.splits prod.splits dest!: repo_columns)
      then have "\<forall>i. id_columns (is_db s') i \<noteq> id_columns (is_db s) i \<longrightarrow> (\<exists>r \<in> set (users (id_auth (is_db s'))). ur_id r = i \<and> ur_tenant r = ActiveTenant u)"
        by (simp add: columns_within_def user_in_row)
      then show ?thesis using scim_lifecycle_users [OF sc(7)] signed_payload_sound(1) [OF sc(2)] sc(3-6) id_session_live [OF sc(1)] 5 by auto
    qed simp
  qed
qed

text \<open>Fixtures: a signed SCIM request of the session of the fixtures that creates a user of tenant 1.\<close>

definition scimenv0 :: identity_env where
  "scimenv0 = ienv0\<lparr>ie_json := \<lparr>je_first = (\<lambda>_. Some (JObj [(''email'', JStr ''a@'')])), je_whole = (\<lambda>_. None)\<rparr>\<rparr>"

definition scim_state0 :: identity_state where
  "scim_state0 = istate0\<lparr>is_db := idb0\<lparr>provider_rows := provider_rows (is_db sso_state0)\<rparr>\<rparr>"

definition scimmed :: identity_result where
  "scimmed = identity_serve RSCIM identityHandler aenv0 senv0 scimenv0 (signed_request0 ''n'') scim_state0"

lemma scimmed_users: "map ur_id (users (id_auth (is_db (snd scimmed)))) = [5, 6]"
  by code_simp

theorem identity_isolation_witness:
  "\<exists>u p. live_session aenv0 (ir_http (signed_request0 ''n'')) (60 * second) (id_auth (is_db scim_state0)) u \<and> p \<in> set (provider_rows (is_db scim_state0))
     \<and> pr_tenant p = ActiveTenant u
     \<and> filter (\<lambda>r. ur_tenant r \<noteq> ActiveTenant u) (users (id_auth (is_db (snd scimmed)))) = filter (\<lambda>r. ur_tenant r \<noteq> ActiveTenant u) (users (id_auth (is_db scim_state0)))"
proof -
  have run: "identity_serve RSCIM identityHandler aenv0 senv0 scimenv0 (signed_request0 ''n'') scim_state0 = (fst scimmed, snd scimmed)" by (simp add: scimmed_def)
  have "map ur_id (users (id_auth (is_db scim_state0))) = [5]" by code_simp
  then have "users (id_auth (is_db (snd scimmed))) \<noteq> users (id_auth (is_db scim_state0))" using scimmed_users by auto
  moreover have "ie_clock scimenv0 1 = 60 * second" by (simp add: scimenv0_def ienv0_def)
  ultimately show ?thesis using identity_isolation [OF run] by auto
qed

section \<open>Ways into an account\<close>

text \<open>
  A user whom SCIM creates as active can log in with a password that is a constant of the source: it is
  stored as the bcrypt hash of the text \<open>scim-disabled-login\<close>.
\<close>

lemma scim_known_password:
  assumes "CreateSCIMUser e T email name True d = (Inr u, d')" "\<And>hash. ie_generate e ''scim-disabled-login'' = Some hash \<Longrightarrow> ae_bcrypt ae hash ''scim-disabled-login''"
    and "decodeJSON request login_fields = Some body" "TrimSpace (get_str body ''email'') = email" "email \<noteq> []" "get_str body ''password'' = ''scim-disabled-login''"
    and "\<And>label. \<not> ae_fails ae label" "randomToken ae 0 = Some sid" "randomToken ae 1 = Some csrf" "\<not> list_ex (\<lambda>s. sn_idHash s = tokenHash ae sid) (sessions (id_auth d))"
  shows "http_status (snd (fst (Login ae request (id_auth d')))) = 200"
proof -
  from assms(1) obtain hash where hash: "ie_generate e ''scim-disabled-login'' = Some hash"
    and fresh: "\<not> list_ex (\<lambda>u. ur_email u = email) (users (id_auth d))"
    and auth: "id_auth d' = (id_auth d)\<lparr>users := users (id_auth d) @
      [\<lparr>ur_id = next_user d, ur_tenant = T, ur_name = name, ur_email = email, ur_role = 3, ur_password = hash, ur_status = ''active''\<rparr>]\<rparr>"
    by (auto simp: CreateSCIMUser_def Let_def scim_status_def split: option.splits if_splits)
  have "find (\<lambda>u. ur_email u = email) (users (id_auth d)) = None" using fresh by (auto simp: find_None_iff list_ex_iff)
  then have "FindByEmail ae email (id_auth d') = Inr (user_of_row \<lparr>ur_id = next_user d, ur_tenant = T, ur_name = name, ur_email = email, ur_role = 3, ur_password = hash, ur_status = ''active''\<rparr>)"
    using assms(7) by (simp add: FindByEmail_def auth find_append)
  then show ?thesis using assms(2) [OF hash] assms(3-10) by (simp add: Login_def user_of_row_def Create_def auth)
qed

text \<open>
  The session that a callback opens is for the user with the address in the body, whatever the tenant of the
  state and of its provider: the function that opens it does not read either.
\<close>

lemma sso_session_ignores_binding:
  "fst (issueSSOSession ae e request (s\<lparr>is_db := (is_db s)\<lparr>sso_rows := states, provider_rows := providers\<rparr>\<rparr>)) = fst (issueSSOSession ae e request s)
   \<and> sessions (id_auth (is_db (snd (issueSSOSession ae e request (s\<lparr>is_db := (is_db s)\<lparr>sso_rows := states, provider_rows := providers\<rparr>\<rparr>)))))
     = sessions (id_auth (is_db (snd (issueSSOSession ae e request s))))"
  by (simp add: issueSSOSession_def Let_def split: option.splits sum.splits prod.splits)

end
