(* ===== verification/Accounts.thy ===== *)
theory Accounts
  imports Agents
begin

text \<open>
  Account administration: the repository calls of internal/persistence/mysql/browser_auth.go on roles,
  profiles and accounts, and the handlers of internal/browserauth/admin.go in front of them. A handler that
  changes an account lists the accounts afterwards, with a session test and a query of its own.
\<close>

section \<open>Tables and environment\<close>

record role_row =
  ro_id :: int
  ro_name :: string
  ro_createdAt :: "instant option"
  ro_updatedAt :: "instant option"

record costumer_row =
  co_id :: int
  co_costumer :: string
  co_description :: "string option"
  co_license :: "instant option"
  co_apiKey :: "string option"
  co_apiKeyCreatedAt :: "instant option"
  co_apiKeyExpiresAt :: "instant option"
  co_apiKeyLastUsedAt :: "instant option"
  co_createdAt :: "instant option"
  co_updatedAt :: "instant option"

text \<open>\<open>ad_updated\<close> is the column \<open>updated_at\<close> of the users, by their identifier.\<close>

record admin_db =
  ad_auth :: auth_db
  ad_updated :: "int \<Rightarrow> instant option"
  ad_roles :: "role_row list"
  ad_costumers :: "costumer_row list"
  ad_nextUser :: int
  ad_nextCostumer :: int

abbreviation ad_users :: "admin_db \<Rightarrow> user_row list" where
  "ad_users d \<equiv> users (ad_auth d)"

text \<open>The tables that the session code reads.\<close>

definition auth_of :: "admin_db \<Rightarrow> auth_db" where
  "auth_of d = (ad_auth d)\<lparr>customers := map co_id (ad_costumers d)\<rparr>"

record BrowserAccount =
  ba_ID :: int
  ba_Email :: string
  ba_Name :: string
  ba_Role :: int
  ba_IDCostumer :: int
  ba_Costumer :: string
  ba_RoleName :: string
  ba_Status :: string

text \<open>
  The environment of a request: the session code's own, failing statements by their label, bcrypt, the
  random source, the Unicode upper case of \<open>strings.ToUpper\<close>, and what MySQL decides: the comparison and
  the \<open>LIKE\<close> of text columns under their collation, the order of a result by a column, which columns a
  table has, what a \<open>TIMESTAMP\<close> column keeps, and whether a negative \<open>OFFSET\<close> is refused or read as a large
  unsigned number.
\<close>

record admin_env =
  am_auth :: auth_env
  am_fails :: "string \<Rightarrow> bool"
  am_hash :: "string \<Rightarrow> string option"
  am_rand :: "nat \<Rightarrow> nat list option"
  am_upper :: "string \<Rightarrow> string"
  am_same :: "string \<Rightarrow> string \<Rightarrow> bool"
  am_like :: "string \<Rightarrow> string \<Rightarrow> bool"
  am_order :: "string \<Rightarrow> bool \<Rightarrow> BrowserAccount list \<Rightarrow> BrowserAccount list"
  am_orderCostumers :: "string \<Rightarrow> bool \<Rightarrow> costumer_row list \<Rightarrow> costumer_row list"
  am_column :: "string \<Rightarrow> string \<Rightarrow> bool"
  am_now :: instant
  am_column_time :: "instant \<Rightarrow> instant"
  am_refuses_offset :: bool

datatype admin_error = ErrForbidden | ErrMissing | AdminFailure string

definition stamp :: "admin_env \<Rightarrow> instant" where
  "stamp e = am_column_time e (am_now e)"

section \<open>Statements\<close>

text \<open>
  \<open>UPDATE users SET \<dots>, updated_at = ? WHERE p\<close>. MySQL counts the rows that an update changes, and
  \<open>requireAffected\<close> wants one.
\<close>

definition update_users :: "admin_env \<Rightarrow> (user_row \<Rightarrow> bool) \<Rightarrow> (user_row \<Rightarrow> user_row) \<Rightarrow> admin_db \<Rightarrow> admin_db" where
  "update_users e p f d =
     d\<lparr>ad_auth := (ad_auth d)\<lparr>users := upd_rows p f (ad_users d)\<rparr>,
       ad_updated := (\<lambda>i. if list_ex (\<lambda>u. p u \<and> ur_id u = i) (ad_users d) then Some (stamp e) else ad_updated d i)\<rparr>"

definition changes_user :: "admin_env \<Rightarrow> (user_row \<Rightarrow> bool) \<Rightarrow> (user_row \<Rightarrow> user_row) \<Rightarrow> admin_db \<Rightarrow> bool" where
  "changes_user e p f d = list_ex (\<lambda>u. p u \<and> (f u \<noteq> u \<or> ad_updated d (ur_id u) \<noteq> Some (stamp e))) (ad_users d)"

definition requireAffected :: "admin_env \<Rightarrow> bool \<Rightarrow> admin_error + unit" where
  "requireAffected e affected =
     (if am_fails e ''count browser account mutation'' then Inl (AdminFailure ''count browser account mutation'')
      else if \<not> affected then Inl ErrMissing else Inr ())"

definition exec_users :: "admin_env \<Rightarrow> string \<Rightarrow> (user_row \<Rightarrow> bool) \<Rightarrow> (user_row \<Rightarrow> user_row) \<Rightarrow> admin_db \<Rightarrow> (admin_error + unit) \<times> admin_db" where
  "exec_users e label p f d =
     (if am_fails e label then (Inl (AdminFailure label), d)
      else (requireAffected e (changes_user e p f d), update_users e p f d))"

definition insert_user :: "admin_env \<Rightarrow> user_row \<Rightarrow> admin_db \<Rightarrow> admin_db" where
  "insert_user e u d =
     d\<lparr>ad_auth := (ad_auth d)\<lparr>users := ad_users d @ [u\<lparr>ur_id := ad_nextUser d\<rparr>]\<rparr>,
       ad_updated := (ad_updated d)(ad_nextUser d := Some (stamp e)), ad_nextUser := ad_nextUser d + 1\<rparr>"

definition existsByID :: "admin_env \<Rightarrow> int list \<Rightarrow> int \<Rightarrow> admin_error + bool" where
  "existsByID e ids ident =
     (if am_fails e ''check browser reference'' then Inl (AdminFailure ''check browser reference'') else Inr (ident \<in> set ids))"

text \<open>\<open>LIMIT ? OFFSET ?\<close>; \<open>None\<close> is a refused statement.\<close>

definition limit_rows :: "admin_env \<Rightarrow> int \<Rightarrow> int \<Rightarrow> 'a list \<Rightarrow> 'a list option" where
  "limit_rows e count offset rows =
     (if offset \<ge> 0 then Some (take (nat count) (drop (nat offset) rows))
      else if am_refuses_offset e then None else Some [])"

definition boundedSearch :: "string \<Rightarrow> string" where
  "boundedSearch search = take 200 (TrimSpace search)"

section \<open>Pages\<close>

record PageMeta =
  pm_Page :: int
  pm_PageSize :: int
  pm_Total :: int
  pm_LastPage :: int
  pm_HasNextPage :: bool
  pm_HasPreviousPage :: bool
  pm_Sort :: string
  pm_Direction :: string

record 'a admin_page =
  pg_Data :: "'a list"
  pg_Meta :: "PageMeta option"

record AccountQuery =
  aq_ActorTenantID :: int
  aq_ActorRole :: int
  aq_Page :: int
  aq_PageSize :: int
  aq_Paged :: bool
  aq_Search :: string
  aq_Sort :: string
  aq_Direction :: string

definition page_meta :: "int \<Rightarrow> int \<Rightarrow> int \<Rightarrow> string \<Rightarrow> string \<Rightarrow> PageMeta" where
  "page_meta page pageSize entries order direction =
     (let pages = (entries + pageSize - 1) div pageSize; lastPage = (if pages = 0 then 1 else pages)
      in \<lparr>pm_Page = page, pm_PageSize = pageSize, pm_Total = entries, pm_LastPage = lastPage, pm_HasNextPage = page < lastPage,
          pm_HasPreviousPage = page > 1, pm_Sort = order, pm_Direction = direction\<rparr>)"

definition positiveQueryInt :: "http_request \<Rightarrow> string \<Rightarrow> int \<Rightarrow> int \<times> bool" where
  "positiveQueryInt request key fallback =
     (if rq_query request key = [] then (fallback, False)
      else case ParseInt (rq_query request key) of
             None \<Rightarrow> (fallback, True)
           | Some n \<Rightarrow> if n \<le> 0 then (fallback, True) else (n, True))"

definition parseAccountQuery :: "http_request \<Rightarrow> User \<Rightarrow> AccountQuery" where
  "parseAccountQuery request user =
     (let (page, pageSet) = positiveQueryInt request ''page'' 1;
          (pageSize, pageSizeSet) = positiveQueryInt request ''pageSize'' 25;
          order = rq_query request ''sort''
      in \<lparr>aq_ActorTenantID = ActiveTenant user, aq_ActorRole = us_Role user, aq_Page = page,
          aq_PageSize = (if pageSize > 100 then 100 else pageSize), aq_Paged = (pageSet \<or> pageSizeSet),
          aq_Search = TrimSpace (rq_query request ''search''), aq_Sort = (if order = [] then ''email'' else order),
          aq_Direction = (if ToLower (rq_query request ''direction'') \<noteq> ''desc'' then ''asc'' else ''desc'')\<rparr>)"

section \<open>Roles and profiles\<close>

record Role =
  rl_ID :: int
  rl_Name :: string
  rl_CreatedAt :: "instant option"
  rl_UpdatedAt :: "instant option"

text \<open>The second component is \<open>legacyOK\<close>.\<close>

definition ListRoles :: "admin_env \<Rightarrow> User \<Rightarrow> admin_db \<Rightarrow> admin_error + Role list \<times> bool" where
  "ListRoles e actor d =
     (if us_Role actor > 2 then Inr ([], True)
      else if am_fails e ''inspect browser role schema'' then Inl (AdminFailure ''inspect browser role schema'')
      else if am_fails e ''list browser roles'' then Inl (AdminFailure ''list browser roles'')
      else if am_fails e ''scan browser roles'' then Inl (AdminFailure ''scan browser roles'')
      else if am_fails e ''read browser roles'' then Inl (AdminFailure ''read browser roles'')
      else Inr (map (\<lambda>r. \<lparr>rl_ID = ro_id r, rl_Name = ro_name r,
                    rl_CreatedAt = (if am_column e ''roles'' ''created_at'' then ro_createdAt r else None),
                    rl_UpdatedAt = (if am_column e ''roles'' ''updated_at'' then ro_updatedAt r else None)\<rparr>)
             (sort_key ro_id (filter (\<lambda>r. us_Role actor = 2 \<longrightarrow> ro_id r > 1) (ad_roles d))), False))"

record Profile =
  pf_Email :: string
  pf_Name :: string
  pf_CompanyName :: string
  pf_RoleName :: string

definition RepoProfile :: "admin_env \<Rightarrow> User \<Rightarrow> admin_db \<Rightarrow> admin_error + Profile" where
  "RepoProfile e actor d =
     (if am_fails e ''load browser profile'' then Inl (AdminFailure ''load browser profile'')
      else case [\<lparr>pf_Email = ur_email u, pf_Name = ur_name u, pf_CompanyName = co_costumer c, pf_RoleName = ro_name r\<rparr>.
                   u \<leftarrow> ad_users d, ur_id u = us_ID actor \<and> ur_tenant u = us_TenantID actor,
                   c \<leftarrow> ad_costumers d, co_id c = ur_tenant u, r \<leftarrow> ad_roles d, ro_id r = ur_role u] of
             [] \<Rightarrow> Inl ErrMissing | p # _ \<Rightarrow> Inr p)"

definition UpdateProfilePassword :: "admin_env \<Rightarrow> User \<Rightarrow> string \<Rightarrow> admin_db \<Rightarrow> (admin_error + Profile) \<times> admin_db" where
  "UpdateProfilePassword e actor password d =
     (case am_hash e password of
        None \<Rightarrow> (Inl (AdminFailure ''bcrypt''), d)
      | Some hash \<Rightarrow>
          let p = (\<lambda>u. ur_id u = us_ID actor \<and> ur_tenant u = us_TenantID actor);
              f = (\<lambda>u. u\<lparr>ur_password := hash\<rparr>);
              d' = update_users e p f d
          in if am_fails e ''update browser profile password'' then (Inl (AdminFailure ''update browser profile password''), d)
             else if am_fails e ''count browser profile password update'' then (Inl (AdminFailure ''count browser profile password update''), d')
             else if \<not> changes_user e p f d then (Inl ErrMissing, d')
             else (RepoProfile e actor d', d'))"

section \<open>Accounts\<close>

definition accountScope :: "User \<Rightarrow> BrowserAccount \<Rightarrow> bool" where
  "accountScope actor a \<longleftrightarrow> us_Role actor = 1 \<or> ba_Role a > 1 \<and> ba_IDCostumer a = ActiveTenant actor"

definition canManageAccount :: "User \<Rightarrow> int \<Rightarrow> int \<Rightarrow> bool" where
  "canManageAccount actor targetRole targetTenant \<longleftrightarrow>
     us_Role actor = 1 \<or> us_Role actor = 2 \<and> targetRole > 1 \<and> targetTenant = ActiveTenant actor"

text \<open>\<open>users JOIN costumers JOIN roles\<close>.\<close>

definition account_join :: "admin_db \<Rightarrow> BrowserAccount list" where
  "account_join d =
     [\<lparr>ba_ID = ur_id u, ba_Email = ur_email u, ba_Name = ur_name u, ba_Role = ur_role u, ba_IDCostumer = ur_tenant u,
       ba_Costumer = co_costumer c, ba_RoleName = ro_name r, ba_Status = ur_status u\<rparr>.
      u \<leftarrow> ad_users d, c \<leftarrow> ad_costumers d, co_id c = ur_tenant u, r \<leftarrow> ad_roles d, ro_id r = ur_role u]"

definition account_search :: "admin_env \<Rightarrow> string \<Rightarrow> BrowserAccount \<Rightarrow> bool" where
  "account_search e search a \<longleftrightarrow> search = [] \<or>
     (let pattern = ''%'' @ boundedSearch search @ ''%''
      in am_like e (ba_Email a) pattern \<or> am_like e (ba_Name a) pattern \<or> am_like e (ba_Costumer a) pattern \<or> am_like e (ba_RoleName a) pattern)"

definition countAccounts :: "admin_env \<Rightarrow> (BrowserAccount \<Rightarrow> bool) \<Rightarrow> admin_db \<Rightarrow> admin_error + int" where
  "countAccounts e p d =
     (if am_fails e ''count browser accounts'' then Inl (AdminFailure ''count browser accounts'')
      else Inr (int (length (filter p (account_join d)))))"

definition accountSortColumn :: "string \<Rightarrow> string" where
  "accountSortColumn order =
     (if order = ''id'' then ''users.id'' else if order = ''name'' then ''users.name'' else if order = ''role'' then ''users.role''
      else if order = ''idCostumer'' then ''users.idCostumer'' else if order = ''costumer'' then ''costumers.costumer''
      else if order = ''roleName'' then ''roles.name'' else ''users.email'')"

definition RepoListAccounts :: "admin_env \<Rightarrow> User \<Rightarrow> AccountQuery \<Rightarrow> admin_db \<Rightarrow> admin_error + BrowserAccount admin_page" where
  "RepoListAccounts e actor query d =
     (let p = (\<lambda>a. accountScope actor a \<and> account_search e (aq_Search query) a)
      in case countAccounts e p d of
           Inl x \<Rightarrow> Inl x
         | Inr entries \<Rightarrow>
             let rows = am_order e (accountSortColumn (aq_Sort query)) (aq_Direction query = ''desc'') (filter p (account_join d))
             in if am_fails e ''list browser accounts'' then Inl (AdminFailure ''list browser accounts'')
                else (case (if aq_Paged query then limit_rows e (aq_PageSize query) (wrap64 ((aq_Page query - 1) * aq_PageSize query)) rows else Some rows) of
                  None \<Rightarrow> Inl (AdminFailure ''list browser accounts'')
                | Some accounts \<Rightarrow>
                    if am_fails e ''scan browser account'' then Inl (AdminFailure ''scan browser account'')
                    else if am_fails e ''read browser accounts'' then Inl (AdminFailure ''read browser accounts'')
                    else Inr \<lparr>pg_Data = accounts, pg_Meta = (if aq_Paged query
                      then Some (page_meta (aq_Page query) (aq_PageSize query) entries (aq_Sort query) (aq_Direction query)) else None)\<rparr>))"

definition target_query :: AccountQuery where
  "target_query = \<lparr>aq_ActorTenantID = 0, aq_ActorRole = 0, aq_Page = 1, aq_PageSize = 1, aq_Paged = False, aq_Search = [],
     aq_Sort = ''email'', aq_Direction = ''asc''\<rparr>"

definition accountTarget :: "admin_env \<Rightarrow> User \<Rightarrow> int \<Rightarrow> admin_db \<Rightarrow> admin_error + BrowserAccount" where
  "accountTarget e actor accountID d =
     (case RepoListAccounts e actor target_query d of
        Inl x \<Rightarrow> Inl x
      | Inr page \<Rightarrow> (case find (\<lambda>a. ba_ID a = accountID) (pg_Data page) of None \<Rightarrow> Inl ErrMissing | Some a \<Rightarrow> Inr a))"

text \<open>\<open>randomUUID\<close>, a version 4 identifier.\<close>

definition randomUUID :: "admin_env \<Rightarrow> string" where
  "randomUUID e =
     (case am_rand e 16 of
        None \<Rightarrow> ''00000000-0000-4000-8000-000000000000''
      | Some b \<Rightarrow>
          let encoded = hex_encode (b[6 := b ! 6 mod 16 + 64, 8 := b ! 8 mod 64 + 128])
          in take 8 encoded @ ''-'' @ take 4 (drop 8 encoded) @ ''-'' @ take 4 (drop 12 encoded) @ ''-'' @ take 4 (drop 16 encoded)
             @ ''-'' @ drop 20 encoded)"

record AccountCreate =
  an_Name :: string
  an_Email :: string
  an_Role :: int
  an_IDCostumer :: int

text \<open>What \<open>CreateAccount\<close> and \<open>CreateAccountInvitation\<close> test before they insert: \<open>None\<close> when they go on.\<close>

definition creation_guard :: "admin_env \<Rightarrow> User \<Rightarrow> AccountCreate \<Rightarrow> string \<Rightarrow> admin_db \<Rightarrow> admin_error option" where
  "creation_guard e actor a label d =
     (if \<not> canManageAccount actor (an_Role a) (an_IDCostumer a) then Some ErrForbidden
      else case existsByID e (map ro_id (ad_roles d)) (an_Role a) of
        Inl x \<Rightarrow> Some x
      | Inr False \<Rightarrow> Some ErrForbidden
      | Inr True \<Rightarrow> (case existsByID e (map co_id (ad_costumers d)) (an_IDCostumer a) of
          Inl x \<Rightarrow> Some x
        | Inr False \<Rightarrow> Some ErrForbidden
        | Inr True \<Rightarrow>
            if am_fails e label then Some (AdminFailure label)
            else if list_ex (\<lambda>u. am_same e (ur_email u) (an_Email a)) (ad_users d) then Some ErrForbidden
            else None))"

definition new_user :: "AccountCreate \<Rightarrow> string \<Rightarrow> string \<Rightarrow> user_row" where
  "new_user a hash status = \<lparr>ur_id = 0, ur_tenant = an_IDCostumer a, ur_name = an_Name a, ur_email = an_Email a,
     ur_role = an_Role a, ur_password = hash, ur_status = status\<rparr>"

definition RepoCreateAccount :: "admin_env \<Rightarrow> User \<Rightarrow> AccountCreate \<Rightarrow> string \<Rightarrow> admin_db \<Rightarrow> (admin_error + unit) \<times> admin_db" where
  "RepoCreateAccount e actor a password d =
     (case creation_guard e actor a ''check browser account email'' d of
        Some x \<Rightarrow> (Inl x, d)
      | None \<Rightarrow> (case am_hash e password of
          None \<Rightarrow> (Inl (AdminFailure ''bcrypt''), d)
        | Some hash \<Rightarrow>
            if am_fails e ''create browser account'' then (Inl (AdminFailure ''create browser account''), d)
            else (Inr (), insert_user e (new_user a hash ''active'') d)))"

definition RepoCreateAccountInvitation :: "admin_env \<Rightarrow> User \<Rightarrow> AccountCreate \<Rightarrow> admin_db \<Rightarrow> (admin_error + unit) \<times> admin_db" where
  "RepoCreateAccountInvitation e actor a d =
     (case creation_guard e actor a ''check browser invitation email'' d of
        Some x \<Rightarrow> (Inl x, d)
      | None \<Rightarrow> (case am_hash e (randomUUID e) of
          None \<Rightarrow> (Inl (AdminFailure ''bcrypt''), d)
        | Some hash \<Rightarrow>
            if am_fails e ''create browser account invitation'' then (Inl (AdminFailure ''create browser account invitation''), d)
            else (Inr (), insert_user e (new_user a hash ''invited'') d)))"

definition RepoUpdateAccount :: "admin_env \<Rightarrow> User \<Rightarrow> int \<Rightarrow> string \<Rightarrow> string \<Rightarrow> bool \<Rightarrow> admin_db \<Rightarrow> (admin_error + unit) \<times> admin_db" where
  "RepoUpdateAccount e actor accountID name password forceActivate d =
     (case accountTarget e actor accountID d of
        Inl x \<Rightarrow> (Inl x, d)
      | Inr target \<Rightarrow>
          if \<not> canManageAccount actor (ba_Role target) (ba_IDCostumer target) then (Inl ErrForbidden, d)
          else if password = [] \<and> forceActivate
          then exec_users e ''activate invited browser account'' (\<lambda>u. ur_id u = accountID \<and> ur_status u = ''invited'')
                 (\<lambda>u. u\<lparr>ur_name := name, ur_status := ''active''\<rparr>) d
          else if password = []
          then exec_users e ''update browser account profile'' (\<lambda>u. ur_id u = accountID) (\<lambda>u. u\<lparr>ur_name := name\<rparr>) d
          else (case am_hash e password of
            None \<Rightarrow> (Inl (AdminFailure ''bcrypt''), d)
          | Some hash \<Rightarrow> exec_users e ''update browser account'' (\<lambda>u. ur_id u = accountID)
              (\<lambda>u. u\<lparr>ur_name := name, ur_password := hash, ur_status := (if ur_status u = ''invited'' then ''active'' else ur_status u)\<rparr>) d))"

definition RepoUpdateAccountRole :: "admin_env \<Rightarrow> User \<Rightarrow> int \<Rightarrow> int \<Rightarrow> admin_db \<Rightarrow> (admin_error + unit) \<times> admin_db" where
  "RepoUpdateAccountRole e actor accountID roleID d =
     (case accountTarget e actor accountID d of
        Inl x \<Rightarrow> (Inl x, d)
      | Inr target \<Rightarrow>
          if \<not> canManageAccount actor roleID (ba_IDCostumer target) then (Inl ErrForbidden, d)
          else (case existsByID e (map ro_id (ad_roles d)) roleID of
            Inl x \<Rightarrow> (Inl x, d)
          | Inr False \<Rightarrow> (Inl ErrForbidden, d)
          | Inr True \<Rightarrow> exec_users e ''change browser account role''
              (\<lambda>u. ur_id u = accountID \<and> ur_tenant u = ba_IDCostumer target) (\<lambda>u. u\<lparr>ur_role := roleID\<rparr>) d))"

definition RepoDeleteAccount :: "admin_env \<Rightarrow> User \<Rightarrow> int \<Rightarrow> admin_db \<Rightarrow> (admin_error + unit) \<times> admin_db" where
  "RepoDeleteAccount e actor accountID d =
     (case accountTarget e actor accountID d of
        Inl x \<Rightarrow> (Inl x, d)
      | Inr target \<Rightarrow>
          if \<not> canManageAccount actor (ba_Role target) (ba_IDCostumer target) then (Inl ErrForbidden, d)
          else if am_fails e ''delete browser account'' then (Inl (AdminFailure ''delete browser account''), d)
          else (requireAffected e (list_ex (\<lambda>u. ur_id u = accountID) (ad_users d)),
                d\<lparr>ad_auth := (ad_auth d)\<lparr>users := filter (\<lambda>u. ur_id u \<noteq> accountID) (ad_users d)\<rparr>\<rparr>))"

end
