(* ===== verification/AccountHandlers.thy ===== *)
theory AccountHandlers
  imports Accounts
begin

text \<open>
  The handlers of internal/browserauth/admin.go for roles, profiles, accounts and customers, the password
  policy and the customer calls of internal/persistence/mysql/browser_auth.go, and their routes. A handler
  that changes something ends by calling the handler of the list; \<open>e'\<close> is the environment of that second
  part of the request.
\<close>

section \<open>Validation\<close>

text \<open>A JSON string is valid UTF-8: its runes are the bytes that do not continue one.\<close>

definition rune_count :: "string \<Rightarrow> nat" where
  "rune_count s = length (filter (\<lambda>c. \<not> (128 \<le> byte_of c \<and> byte_of c < 192)) s)"

definition lower_case :: string where "lower_case = ''abcdefghijklmnopqrstuvwxyz''"
definition upper_case :: string where "upper_case = ''ABCDEFGHIJKLMNOPQRSTUVWXYZ''"
definition decimal :: string where "decimal = ''0123456789''"

definition containsSymbol :: "string \<Rightarrow> bool" where
  "containsSymbol s = list_ex (\<lambda>c. let b = byte_of c in (b < 65 \<or> b > 90) \<and> (b < 97 \<or> b > 122) \<and> (b < 48 \<or> b > 57)) s"

definition common_passwords :: "string list" where
  "common_passwords = [''admin'', ''password'', ''password1'', ''password123'', ''qwerty'', ''qwerty123'', ''letmein'', ''welcome'',
     ''welcome1'', ''changeme'', ''idelium'', ''idelium123'']"

definition passwordViolations :: "string \<Rightarrow> string list" where
  "passwordViolations password =
     (if rune_count password < 12 then [''The password must be at least 12 characters.''] else [])
     @ (if \<not> ContainsAny password lower_case \<or> \<not> ContainsAny password upper_case
        then [''The password must contain both uppercase and lowercase letters.''] else [])
     @ (if \<not> ContainsAny password decimal then [''The password must contain at least one number.''] else [])
     @ (if \<not> containsSymbol password then [''The password must contain at least one symbol.''] else [])
     @ (if ToLower (TrimSpace password) \<in> set common_passwords then [''The password is too common.''] else [])"

definition accountValidation :: "string \<Rightarrow> string \<Rightarrow> string \<Rightarrow> int \<Rightarrow> string list gomap" where
  "accountValidation name email password role =
     (if TrimSpace name = [] then [(''name'', [''The name field is required.''])] else [])
     @ (if \<not> Contains email ''@'' then [(''email'', [''The email must be a valid email address.''])] else [])
     @ (if role \<le> 0 then [(''role'', [''The role field is required.''])] else [])
     @ (if password = [] then [(''password'', [''The password field is required.''])]
        else if passwordViolations password \<noteq> [] then [(''password'', passwordViolations password)] else [])"

text \<open>\<open>validationErrors\<close> of a map: its keys are written in order.\<close>

definition validationErrorMap :: "string list gomap \<Rightarrow> 'v reply" where
  "validationErrorMap m = Message 422 [(''message'', JStr ''The given data was invalid.''),
     (''errors'', JObj (map (\<lambda>k. (k, JArr (map JStr (case map_of m k of None \<Rightarrow> [] | Some ms \<Rightarrow> ms)))) (sorted_keys m)))]"

section \<open>Customers: the repository\<close>

record CustomerQuery =
  cq_Page :: int
  cq_PageSize :: int
  cq_Paged :: bool
  cq_Search :: string
  cq_Sort :: string
  cq_Direction :: string

record AdminCustomer =
  cm_ID :: int
  cm_Costumer :: string
  cm_Description :: "string option"
  cm_LicenseExpiration :: "instant option"
  cm_CreatedAt :: "instant option"
  cm_UpdatedAt :: "instant option"

definition parseCustomerQuery :: "http_request \<Rightarrow> CustomerQuery" where
  "parseCustomerQuery request =
     (let (page, pageSet) = positiveQueryInt request ''page'' 1;
          (pageSize, pageSizeSet) = positiveQueryInt request ''pageSize'' 25;
          order = rq_query request ''sort''
      in \<lparr>cq_Page = page, cq_PageSize = (if pageSize > 100 then 100 else pageSize), cq_Paged = (pageSet \<or> pageSizeSet),
          cq_Search = TrimSpace (rq_query request ''search''), cq_Sort = (if order = [] then ''created_at'' else order),
          cq_Direction = (if ToLower (rq_query request ''direction'') \<noteq> ''desc'' then ''asc'' else ''desc'')\<rparr>)"

definition customer_of :: "costumer_row \<Rightarrow> AdminCustomer" where
  "customer_of c = \<lparr>cm_ID = co_id c, cm_Costumer = co_costumer c, cm_Description = co_description c,
     cm_LicenseExpiration = co_license c, cm_CreatedAt = co_createdAt c, cm_UpdatedAt = co_updatedAt c\<rparr>"

definition customer_search :: "admin_env \<Rightarrow> string \<Rightarrow> costumer_row \<Rightarrow> bool" where
  "customer_search e search c \<longleftrightarrow> search = [] \<or>
     (let pattern = ''%'' @ boundedSearch search @ ''%''
      in am_like e (co_costumer c) pattern \<or> (case co_description c of None \<Rightarrow> False | Some t \<Rightarrow> am_like e t pattern))"

definition customerSortColumn :: "string \<Rightarrow> string" where
  "customerSortColumn order =
     (if order \<in> {''id'', ''costumer'', ''description'', ''licenseExpiration'', ''updated_at''} then order else ''created_at'')"

definition ListAdminCustomers :: "admin_env \<Rightarrow> CustomerQuery \<Rightarrow> admin_db \<Rightarrow> admin_error + AdminCustomer admin_page" where
  "ListAdminCustomers e query d =
     (if am_fails e ''count browser customers'' then Inl (AdminFailure ''count browser customers'')
      else if am_fails e ''list browser customers'' then Inl (AdminFailure ''list browser customers'')
      else let found = filter (customer_search e (cq_Search query)) (ad_costumers d);
               rows = am_orderCostumers e (customerSortColumn (cq_Sort query)) (cq_Direction query = ''desc'') found
           in case (if cq_Paged query then limit_rows e (cq_PageSize query) (wrap64 ((cq_Page query - 1) * cq_PageSize query)) rows else Some rows) of
             None \<Rightarrow> Inl (AdminFailure ''list browser customers'')
           | Some kept \<Rightarrow>
               if am_fails e ''scan browser customer'' then Inl (AdminFailure ''scan browser customer'')
               else if am_fails e ''read browser customers'' then Inl (AdminFailure ''read browser customers'')
               else Inr \<lparr>pg_Data = map customer_of kept, pg_Meta = (if cq_Paged query
                 then Some (page_meta (cq_Page query) (cq_PageSize query) (int (length found)) (cq_Sort query) (cq_Direction query)) else None)\<rparr>)"

definition randomAPIKey :: "admin_env \<Rightarrow> string option" where
  "randomAPIKey e = map_option hex_encode (am_rand e 32)"

definition RepoCreateCustomer :: "admin_env \<Rightarrow> string \<Rightarrow> string \<Rightarrow> instant \<Rightarrow> admin_db \<Rightarrow> (admin_error + unit) \<times> admin_db" where
  "RepoCreateCustomer e costumer description now d =
     (case randomAPIKey e of
        None \<Rightarrow> (Inl (AdminFailure ''rand''), d)
      | Some apiKey \<Rightarrow>
          if am_fails e ''create browser customer'' then (Inl (AdminFailure ''create browser customer''), d)
          else let t = Some (am_column_time e now)
               in (Inr (), d\<lparr>ad_costumers := ad_costumers d @
                    [\<lparr>co_id = ad_nextCostumer d, co_costumer = am_upper e costumer, co_description = Some (am_upper e description),
                      co_license = Some (am_column_time e (now + 365 * day_ns)), co_apiKey = Some apiKey, co_apiKeyCreatedAt = t,
                      co_apiKeyExpiresAt = None, co_apiKeyLastUsedAt = None, co_createdAt = t, co_updatedAt = t\<rparr>],
                    ad_nextCostumer := ad_nextCostumer d + 1\<rparr>))"

definition RepoUpdateCustomer :: "admin_env \<Rightarrow> int \<Rightarrow> string \<Rightarrow> string \<Rightarrow> admin_db \<Rightarrow> (admin_error + unit) \<times> admin_db" where
  "RepoUpdateCustomer e customerID costumer description d =
     (let f = (\<lambda>c. c\<lparr>co_costumer := am_upper e costumer, co_description := Some (am_upper e description), co_updatedAt := Some (stamp e)\<rparr>)
      in if am_fails e ''update browser customer'' then (Inl (AdminFailure ''update browser customer''), d)
         else (requireAffected e (list_ex (\<lambda>c. co_id c = customerID \<and> f c \<noteq> c) (ad_costumers d)),
               d\<lparr>ad_costumers := upd_rows (\<lambda>c. co_id c = customerID) f (ad_costumers d)\<rparr>))"

definition RepoDeleteCustomer :: "admin_env \<Rightarrow> int \<Rightarrow> admin_db \<Rightarrow> (admin_error + unit) \<times> admin_db" where
  "RepoDeleteCustomer e customerID d =
     (if am_fails e ''delete browser customer'' then (Inl (AdminFailure ''delete browser customer''), d)
      else (requireAffected e (list_ex (\<lambda>c. co_id c = customerID) (ad_costumers d)),
            d\<lparr>ad_costumers := filter (\<lambda>c. co_id c \<noteq> customerID) (ad_costumers d)\<rparr>))"

section \<open>The handlers of roles and profiles\<close>

datatype admin_value =
    RolesText string
  | RoleRows "Role list"
  | ProfileData Profile
  | AccountRows "BrowserAccount list"
  | AccountPages "BrowserAccount admin_page"
  | CustomerRows "AdminCustomer list"
  | CustomerPages "AdminCustomer admin_page"

type_synonym admin_result = "admin_value sent \<times> admin_db"

definition HandleRoles :: "admin_env \<Rightarrow> http_request \<Rightarrow> admin_db \<Rightarrow> admin_value sent" where
  "HandleRoles e request d =
     (case authenticatedUser (am_auth e) request (auth_of d) of
        Inl s \<Rightarrow> s
      | Inr user \<Rightarrow> (case ListRoles e user d of
          Inl _ \<Rightarrow> ([], internalError)
        | Inr (roles, legacyOK) \<Rightarrow> ([], Value 200 (if legacyOK then RolesText ''ok'' else RoleRows roles))))"

definition HandleProfile :: "admin_env \<Rightarrow> http_request \<Rightarrow> admin_db \<Rightarrow> admin_value sent" where
  "HandleProfile e request d =
     (case authenticatedUser (am_auth e) request (auth_of d) of
        Inl s \<Rightarrow> s
      | Inr user \<Rightarrow> (case RepoProfile e user d of
          Inl _ \<Rightarrow> ([], internalError)
        | Inr profile \<Rightarrow> ([], Value 200 (ProfileData profile))))"

definition HandleUpdateProfile :: "admin_env \<Rightarrow> http_request \<Rightarrow> admin_db \<Rightarrow> admin_result" where
  "HandleUpdateProfile e request d =
     (case authenticatedUser (am_auth e) request (auth_of d) of
        Inl s \<Rightarrow> (s, d)
      | Inr user \<Rightarrow> (case decodeJSON request [(''password'', KStr)] of
          None \<Rightarrow> (([], validationError ''password'' ''The password field is required.''), d)
        | Some body \<Rightarrow>
            let password = get_str body ''password''
            in if password = [] then (([], validationError ''password'' ''The password field is required.''), d)
               else if passwordViolations password \<noteq> [] then (([], validationErrorMap [(''password'', passwordViolations password)]), d)
               else (case UpdateProfilePassword e user password d of
                 (Inl _, d') \<Rightarrow> (([], internalError), d')
               | (Inr profile, d') \<Rightarrow> (([], Value 200 (ProfileData profile)), d'))))"

section \<open>The handlers of accounts\<close>

definition HandleAccounts :: "admin_env \<Rightarrow> http_request \<Rightarrow> admin_db \<Rightarrow> admin_value sent" where
  "HandleAccounts e request d =
     (case requireCapability (am_auth e) request (auth_of d) ''accounts.manage'' of
        Inl s \<Rightarrow> s
      | Inr user \<Rightarrow>
          let query = parseAccountQuery request user
          in (case RepoListAccounts e user query d of
                Inl _ \<Rightarrow> ([], internalError)
              | Inr page \<Rightarrow> ([], Value 200 (if aq_Paged query then AccountPages page else AccountRows (pg_Data page)))))"

text \<open>The end of a creation: the reply on success depends on the tables.\<close>

definition account_created :: "(admin_db \<Rightarrow> admin_value sent) \<Rightarrow> (admin_error + unit) \<times> admin_db \<Rightarrow> admin_result" where
  "account_created success outcome =
     (case outcome of
        (Inl ErrForbidden, d') \<Rightarrow> (([], forbidden), d')
      | (Inl _, d') \<Rightarrow> (([], internalError), d')
      | (Inr _, d') \<Rightarrow> (success d', d'))"

definition new_account_fields :: field_types where
  "new_account_fields = [(''name'', KStr), (''email'', KStr), (''password'', KStr), (''role'', KInt), (''idCostumer'', KInt)]"

definition HandleCreateAccount :: "admin_env \<Rightarrow> admin_env \<Rightarrow> http_request \<Rightarrow> admin_db \<Rightarrow> admin_result" where
  "HandleCreateAccount e e' request d =
     (case requireCapability (am_auth e) request (auth_of d) ''accounts.manage'' of
        Inl s \<Rightarrow> (s, d)
      | Inr user \<Rightarrow> (case decodeJSON request new_account_fields of
          None \<Rightarrow> (([], validationError ''payload'' ''The request payload is invalid.''), d)
        | Some body \<Rightarrow>
            let errors0 = accountValidation (get_str body ''name'') (get_str body ''email'') (get_str body ''password'') (get_int body ''role'');
                errors1 = (if us_Role user = 1 \<and> get_int body ''idCostumer'' \<le> 0
                  then AList.update ''idCostumer'' [''The id costumer field is required.''] errors0 else errors0);
                tenantID = (if us_Role user \<noteq> 1 then ActiveTenant user else get_int body ''idCostumer'')
            in if errors1 \<noteq> [] then (([], validationErrorMap errors1), d)
               else account_created (HandleAccounts e' request)
                 (RepoCreateAccount e user \<lparr>an_Name = TrimSpace (get_str body ''name''), an_Email = TrimSpace (get_str body ''email''),
                    an_Role = get_int body ''role'', an_IDCostumer = tenantID\<rparr> (get_str body ''password'') d)))"

definition invitation_fields :: field_types where
  "invitation_fields = [(''displayName'', KStr), (''email'', KStr), (''roleId'', KStr), (''teamId'', KStr), (''tenantId'', KStr)]"

definition invitation_tenant :: "User \<Rightarrow> decoded \<Rightarrow> int \<Rightarrow> int" where
  "invitation_tenant user body teamID =
     (if us_Role user \<noteq> 1 then ActiveTenant user
      else if TrimSpace (get_str body ''tenantId'') = [] then teamID
      else case ParseInt (TrimSpace (get_str body ''tenantId'')) of None \<Rightarrow> teamID | Some n \<Rightarrow> n)"

definition HandleCreateInvitation :: "admin_env \<Rightarrow> http_request \<Rightarrow> admin_db \<Rightarrow> admin_result" where
  "HandleCreateInvitation e request d =
     (case requireCapability (am_auth e) request (auth_of d) ''accounts.manage'' of
        Inl s \<Rightarrow> (s, d)
      | Inr user \<Rightarrow> (case decodeJSON request invitation_fields of
          None \<Rightarrow> (([], validationError ''payload'' ''The request payload is invalid.''), d)
        | Some body \<Rightarrow> (case (ParseInt (TrimSpace (get_str body ''roleId'')), ParseInt (TrimSpace (get_str body ''teamId''))) of
            (Some roleID, Some teamID) \<Rightarrow>
              let name = TrimSpace (get_str body ''displayName''); tenantID = invitation_tenant user body teamID
              in if name = [] \<or> \<not> Contains (get_str body ''email'') ''@''
                 then (([], validationError ''invitation'' ''The invitation details are invalid.''), d)
                 else if tenantID \<le> 0 then (([], validationError ''tenantId'' ''The tenant id field is required.''), d)
                 else account_created (\<lambda>_. ([], Message 201 [(''status'', JStr ''invited'')]))
                   (RepoCreateAccountInvitation e user \<lparr>an_Name = name, an_Email = TrimSpace (get_str body ''email''),
                      an_Role = roleID, an_IDCostumer = tenantID\<rparr> d)
          | _ \<Rightarrow> (([], validationError ''invitation'' ''The invitation details are invalid.''), d))))"

text \<open>The end of a change of an account: what is not allowed is not found.\<close>

definition account_changed :: "admin_env \<Rightarrow> http_request \<Rightarrow> (admin_error + unit) \<times> admin_db \<Rightarrow> admin_result" where
  "account_changed e' request outcome =
     (case outcome of
        (Inl (AdminFailure _), d') \<Rightarrow> (([], internalError), d')
      | (Inl _, d') \<Rightarrow> (([], notFound), d')
      | (Inr _, d') \<Rightarrow> (HandleAccounts e' request d', d'))"

definition HandleUpdateAccount :: "admin_env \<Rightarrow> admin_env \<Rightarrow> http_request \<Rightarrow> admin_db \<Rightarrow> admin_result" where
  "HandleUpdateAccount e e' request d =
     (case requireCapability (am_auth e) request (auth_of d) ''accounts.manage'' of
        Inl s \<Rightarrow> (s, d)
      | Inr user \<Rightarrow> (case parsePathID (rq_path request ''idUser'') of
          None \<Rightarrow> (([], notFound), d)
        | Some accountID \<Rightarrow> (case decodeJSON request [(''name'', KStr), (''password'', KStr), (''forceActivate'', KBool)] of
            None \<Rightarrow> (([], validationError ''payload'' ''The request payload is invalid.''), d)
          | Some body \<Rightarrow>
              let name = TrimSpace (get_str body ''name''); password = get_str body ''password'';
                  errs = (if name = [] then [(''name'', [''The name field is required.''])] else [])
                    @ (if password \<noteq> [] \<and> passwordViolations password \<noteq> [] then [(''password'', passwordViolations password)] else [])
              in if errs \<noteq> [] then (([], validationErrorMap errs), d)
                 else account_changed e' request (RepoUpdateAccount e user accountID name password (get_bool body ''forceActivate'') d))))"

definition role_number :: "json \<Rightarrow> int" where
  "role_number v =
     (case v of
        JNum n \<Rightarrow> n
      | JFloat _ (Some n) \<Rightarrow> n
      | JStr s \<Rightarrow> path_number (TrimSpace s)
      | _ \<Rightarrow> 0)"

definition role_fields :: field_types where
  "role_fields = [(''accountId'', KAny), (''operation'', KStr), (''reason'', KStr), (''replacementAdminId'', KAny), (''roleId'', KAny),
     (''tenantId'', KAny), (''audit'', KMap)]"

definition HandleChangeAccountRole :: "admin_env \<Rightarrow> admin_env \<Rightarrow> http_request \<Rightarrow> admin_db \<Rightarrow> admin_result" where
  "HandleChangeAccountRole e e' request d =
     (case requireCapability (am_auth e) request (auth_of d) ''account.role.assign'' of
        Inl s \<Rightarrow> (s, d)
      | Inr user \<Rightarrow> (case parsePathID (rq_path request ''idUser'') of
          None \<Rightarrow> (([], notFound), d)
        | Some accountID \<Rightarrow> (case decodeJSON request role_fields of
            None \<Rightarrow> (([], validationError ''roleId'' ''The role id field is required.''), d)
          | Some body \<Rightarrow>
              let roleID = role_number (get_any body ''roleId'')
              in if roleID \<le> 0 then (([], validationError ''roleId'' ''The role id field is required.''), d)
                 else account_changed e' request (RepoUpdateAccountRole e user accountID roleID d))))"

definition HandleDeleteAccount :: "admin_env \<Rightarrow> admin_env \<Rightarrow> http_request \<Rightarrow> admin_db \<Rightarrow> admin_result" where
  "HandleDeleteAccount e e' request d =
     (case requireCapability (am_auth e) request (auth_of d) ''accounts.manage'' of
        Inl s \<Rightarrow> (s, d)
      | Inr user \<Rightarrow> (case parsePathID (rq_path request ''idUser'') of
          None \<Rightarrow> (([], notFound), d)
        | Some accountID \<Rightarrow> account_changed e' request (RepoDeleteAccount e user accountID d)))"

section \<open>The handlers of customers\<close>

definition HandleCustomers :: "admin_env \<Rightarrow> http_request \<Rightarrow> admin_db \<Rightarrow> admin_value sent" where
  "HandleCustomers e request d =
     (case requireCapability (am_auth e) request (auth_of d) ''customers.manage'' of
        Inl s \<Rightarrow> s
      | Inr _ \<Rightarrow>
          let query = parseCustomerQuery request
          in (case ListAdminCustomers e query d of
                Inl _ \<Rightarrow> ([], internalError)
              | Inr page \<Rightarrow> ([], Value 200 (if cq_Paged query then CustomerPages page else CustomerRows (pg_Data page)))))"

definition customer_fields :: field_types where
  "customer_fields = [(''costumer'', KStr), (''description'', KStr)]"

definition HandleCreateCustomer :: "admin_env \<Rightarrow> admin_env \<Rightarrow> http_request \<Rightarrow> admin_db \<Rightarrow> admin_result" where
  "HandleCreateCustomer e e' request d =
     (case requireCapability (am_auth e) request (auth_of d) ''customers.manage'' of
        Inl s \<Rightarrow> (s, d)
      | Inr _ \<Rightarrow> (case decodeJSON request customer_fields of
          None \<Rightarrow> (([], validationError ''costumer'' ''The costumer field is required.''), d)
        | Some body \<Rightarrow>
            let costumer = TrimSpace (get_str body ''costumer'')
            in if costumer = [] then (([], validationError ''costumer'' ''The costumer field is required.''), d)
               else (case RepoCreateCustomer e costumer (TrimSpace (get_str body ''description'')) (am_now e) d of
                 (Inl _, d') \<Rightarrow> (([], internalError), d')
               | (Inr _, d') \<Rightarrow> (HandleCustomers e' request d', d'))))"

definition customer_errors :: "'v reply" where
  "customer_errors = validationErrors [(''costumer'', ''The costumer field is required.''), (''description'', ''The description field is required.'')]"

definition customer_changed :: "admin_env \<Rightarrow> http_request \<Rightarrow> (admin_error + unit) \<times> admin_db \<Rightarrow> admin_result" where
  "customer_changed e' request outcome =
     (case outcome of
        (Inl ErrMissing, d') \<Rightarrow> (([], notFound), d')
      | (Inl _, d') \<Rightarrow> (([], internalError), d')
      | (Inr _, d') \<Rightarrow> (HandleCustomers e' request d', d'))"

definition HandleUpdateCustomer :: "admin_env \<Rightarrow> admin_env \<Rightarrow> http_request \<Rightarrow> admin_db \<Rightarrow> admin_result" where
  "HandleUpdateCustomer e e' request d =
     (case requireCapability (am_auth e) request (auth_of d) ''customers.manage'' of
        Inl s \<Rightarrow> (s, d)
      | Inr _ \<Rightarrow> (case parsePathID (rq_path request ''idCostumer'') of
          None \<Rightarrow> (([], notFound), d)
        | Some customerID \<Rightarrow> (case decodeJSON request customer_fields of
            None \<Rightarrow> (([], customer_errors), d)
          | Some body \<Rightarrow>
              let costumer = TrimSpace (get_str body ''costumer''); description = TrimSpace (get_str body ''description'')
              in if costumer = [] \<or> description = [] then (([], customer_errors), d)
                 else customer_changed e' request (RepoUpdateCustomer e customerID costumer description d))))"

definition HandleDeleteCustomer :: "admin_env \<Rightarrow> admin_env \<Rightarrow> http_request \<Rightarrow> admin_db \<Rightarrow> admin_result" where
  "HandleDeleteCustomer e e' request d =
     (case requireCapability (am_auth e) request (auth_of d) ''customers.manage'' of
        Inl s \<Rightarrow> (s, d)
      | Inr _ \<Rightarrow> (case parsePathID (rq_path request ''idCostumer'') of
          None \<Rightarrow> (([], notFound), d)
        | Some customerID \<Rightarrow> customer_changed e' request (RepoDeleteCustomer e customerID d)))"

section \<open>Routes\<close>

datatype admin_route =
    GetRoles | GetProfile | PutProfile | GetAccounts | PostAccount | PostInvitation | PutAccount | PostRoleChange | DeleteAccountRoute
  | GetCustomers | PostCustomer | PutCustomer | DeleteCustomerRoute

fun serve_admin :: "admin_env \<Rightarrow> admin_env \<Rightarrow> admin_route \<Rightarrow> http_request \<Rightarrow> admin_db \<Rightarrow> admin_result" where
  "serve_admin e e' GetRoles request d = (HandleRoles e request d, d)"
| "serve_admin e e' GetProfile request d = (HandleProfile e request d, d)"
| "serve_admin e e' PutProfile request d = HandleUpdateProfile e request d"
| "serve_admin e e' GetAccounts request d = (HandleAccounts e request d, d)"
| "serve_admin e e' PostAccount request d = HandleCreateAccount e e' request d"
| "serve_admin e e' PostInvitation request d = HandleCreateInvitation e request d"
| "serve_admin e e' PutAccount request d = HandleUpdateAccount e e' request d"
| "serve_admin e e' PostRoleChange request d = HandleChangeAccountRole e e' request d"
| "serve_admin e e' DeleteAccountRoute request d = HandleDeleteAccount e e' request d"
| "serve_admin e e' GetCustomers request d = (HandleCustomers e request d, d)"
| "serve_admin e e' PostCustomer request d = HandleCreateCustomer e e' request d"
| "serve_admin e e' PutCustomer request d = HandleUpdateCustomer e e' request d"
| "serve_admin e e' DeleteCustomerRoute request d = HandleDeleteCustomer e e' request d"

end
