(* ===== verification/AccountProps.thy ===== *)
theory AccountProps
  imports AccountHandlers SessionProps "HOL-Library.Multiset"
begin

text \<open>
  Properties of account administration: who may change which account, that no sequence of requests raises
  anyone to a superadministrator, that a created account logs in, and that a change of role or a deletion
  holds for the sessions that are open.
\<close>

named_theorems admin \<open>what the statements of account administration keep\<close>

section \<open>Invariants and laws\<close>

text \<open>Identifiers are a key, and the counter is above them.\<close>

definition admin_ok :: "admin_db \<Rightarrow> bool" where
  "admin_ok d \<longleftrightarrow> distinct (map ur_id (ad_users d)) \<and> (\<forall>u \<in> set (ad_users d). ur_id u < ad_nextUser d)"

text \<open>\<open>ORDER BY\<close> rearranges the rows of a result.\<close>

definition orders :: "admin_env \<Rightarrow> bool" where
  "orders e \<longleftrightarrow> (\<forall>column descending rows. mset (am_order e column descending rows) = mset rows)"

text \<open>The accounts that an administrator of a tenant may not touch.\<close>

definition beyond :: "User \<Rightarrow> user_row \<Rightarrow> bool" where
  "beyond actor u \<longleftrightarrow> ur_role u \<le> 1 \<or> ur_tenant u \<noteq> ActiveTenant actor"

section \<open>Statements\<close>

lemma filter_upd_rows_outside:
  "\<forall>r \<in> set rs. p r \<longrightarrow> \<not> q r \<and> \<not> q (f r) \<Longrightarrow> filter q (upd_rows p f rs) = filter q rs"
  by (induction rs) (auto simp: upd_rows_def)

lemma filter_coarser: "filter p xs = filter p ys \<Longrightarrow> (\<And>x. q x \<Longrightarrow> p x) \<Longrightarrow> filter q xs = filter q ys"
  by (metis (mono_tags, lifting) filter_cong filter_filter)

lemma update_users_frame [admin, simp]:
  "sessions (ad_auth (update_users e p f d)) = sessions (ad_auth d)" "ad_costumers (update_users e p f d) = ad_costumers d"
  "ad_roles (update_users e p f d) = ad_roles d" "ad_nextUser (update_users e p f d) = ad_nextUser d"
  "ad_users (update_users e p f d) = upd_rows p f (ad_users d)"
  by (simp_all add: update_users_def)

lemma insert_user_frame [admin, simp]:
  "sessions (ad_auth (insert_user e u d)) = sessions (ad_auth d)" "ad_costumers (insert_user e u d) = ad_costumers d"
  "ad_roles (insert_user e u d) = ad_roles d" "ad_nextUser (insert_user e u d) = ad_nextUser d + 1"
  "ad_users (insert_user e u d) = ad_users d @ [u\<lparr>ur_id := ad_nextUser d\<rparr>]"
  by (simp_all add: insert_user_def)

lemma auth_of_frame [simp]: "users (auth_of d) = ad_users d" "sessions (auth_of d) = sessions (ad_auth d)"
  by (simp_all add: auth_of_def)

lemma admin_ok_update [admin]: "admin_ok d \<Longrightarrow> (\<And>u. ur_id (f u) = ur_id u) \<Longrightarrow> admin_ok (update_users e p f d)"
  by (auto simp: admin_ok_def set_upd_rows)

lemma admin_ok_insert [admin]: "admin_ok d \<Longrightarrow> admin_ok (insert_user e u d)"
  by (force simp: admin_ok_def)

lemma snd_exec_users: "snd (exec_users e label p f d) = (if am_fails e label then d else update_users e p f d)"
  by (simp add: exec_users_def)

lemma accountTarget_row:
  assumes "orders e" "accountTarget e actor accountID d = Inr a"
  obtains u where "u \<in> set (ad_users d)" "ur_id u = accountID" "ba_Role a = ur_role u" "ba_IDCostumer a = ur_tenant u"
    "accountScope actor a"
proof -
  from assms(2) obtain page where p: "RepoListAccounts e actor target_query d = Inr page"
      "find (\<lambda>a. ba_ID a = accountID) (pg_Data page) = Some a"
    by (auto simp: accountTarget_def split: sum.splits option.splits)
  let ?q = "\<lambda>a. accountScope actor a \<and> account_search e (aq_Search target_query) a"
  have "pg_Data page = am_order e (accountSortColumn (aq_Sort target_query)) (aq_Direction target_query = ''desc'') (filter ?q (account_join d))"
    using p(1) by (auto simp: RepoListAccounts_def target_query_def Let_def split: sum.splits if_splits)
  then have "set (pg_Data page) = set (filter ?q (account_join d))" using assms(1) by (metis mset_eq_setD orders_def)
  then have "a \<in> set (account_join d)" "accountScope actor a" "ba_ID a = accountID" using find_SomeD [OF p(2)] by auto
  then show thesis using that by (auto simp: account_join_def)
qed

section \<open>One change\<close>

text \<open>What a change by an actor without the first role leaves alone.\<close>

definition confined_change :: "User \<Rightarrow> admin_db \<Rightarrow> admin_db \<Rightarrow> bool" where
  "confined_change actor d d' \<longleftrightarrow> filter (beyond actor) (ad_users d') = filter (beyond actor) (ad_users d)
     \<and> sessions (ad_auth d') = sessions (ad_auth d) \<and> ad_costumers d' = ad_costumers d \<and> ad_roles d' = ad_roles d
     \<and> admin_ok d'"

lemma confined_refl [admin]: "admin_ok d \<Longrightarrow> confined_change actor d d"
  by (simp add: confined_change_def)

lemma managed_not_beyond: "us_Role actor \<noteq> 1 \<Longrightarrow> canManageAccount actor (ur_role u) (ur_tenant u) \<Longrightarrow> \<not> beyond actor u"
  by (simp add: canManageAccount_def beyond_def)

lemma confined_insert:
  assumes "admin_ok d" "canManageAccount actor (ur_role u) (ur_tenant u)" "us_Role actor \<noteq> 1"
  shows "confined_change actor d (insert_user e u d)"
  using assms admin_ok_insert [OF assms(1), of e u] by (auto simp: confined_change_def beyond_def canManageAccount_def)

text \<open>An update whose rows, before and after, the actor may manage.\<close>

lemma confined_exec:
  assumes "admin_ok d" "us_Role actor \<noteq> 1" "\<And>u. ur_id (f u) = ur_id u"
    "\<And>u. u \<in> set (ad_users d) \<Longrightarrow> p u \<Longrightarrow> canManageAccount actor (ur_role u) (ur_tenant u) \<and> canManageAccount actor (ur_role (f u)) (ur_tenant (f u))"
  shows "confined_change actor d (snd (exec_users e label p f d))"
proof -
  have "filter (beyond actor) (upd_rows p f (ad_users d)) = filter (beyond actor) (ad_users d)"
    using assms(4) managed_not_beyond [OF assms(2)] by (intro filter_upd_rows_outside) blast
  then show ?thesis using assms(1,3) by (auto simp: snd_exec_users confined_change_def intro: admin_ok_update)
qed

lemma RepoCreateAccount_confined:
  assumes "admin_ok d" "us_Role actor \<noteq> 1"
  shows "confined_change actor d (snd (RepoCreateAccount e actor a password d))"
    "confined_change actor d (snd (RepoCreateAccountInvitation e actor a d))"
proof -
  have g: "canManageAccount actor (an_Role a) (an_IDCostumer a)" if "creation_guard e actor a label d = None" for label
    using that by (auto simp: creation_guard_def split: if_splits)
  show "confined_change actor d (snd (RepoCreateAccount e actor a password d))"
    using assms g by (auto simp: RepoCreateAccount_def new_user_def intro!: confined_refl confined_insert split: option.split)
  show "confined_change actor d (snd (RepoCreateAccountInvitation e actor a d))"
    using assms g by (auto simp: RepoCreateAccountInvitation_def new_user_def intro!: confined_refl confined_insert split: option.split)
qed

lemma same_row: "admin_ok d \<Longrightarrow> u \<in> set (ad_users d) \<Longrightarrow> v \<in> set (ad_users d) \<Longrightarrow> ur_id u = ur_id v \<Longrightarrow> u = v"
  by (auto simp: admin_ok_def distinct_map inj_on_def)

lemma RepoUpdateAccount_confined:
  assumes "admin_ok d" "orders e" "us_Role actor \<noteq> 1"
  shows "confined_change actor d (snd (RepoUpdateAccount e actor ident name password force d))"
proof (cases "accountTarget e actor ident d")
  case (Inr a)
  from accountTarget_row [OF assms(2) Inr] obtain v where v: "v \<in> set (ad_users d)" "ur_id v = ident"
    "ba_Role a = ur_role v" "ba_IDCostumer a = ur_tenant v" .
  have one: "u = v" if "u \<in> set (ad_users d)" "ur_id u = ident" for u using same_row [OF assms(1)] that v by simp
  show ?thesis
    unfolding RepoUpdateAccount_def Inr using v(3,4) assms(1,3) one
    by (auto intro!: confined_refl confined_exec split: option.split)
qed (simp add: RepoUpdateAccount_def assms(1) confined_refl)

lemma RepoUpdateAccountRole_confined:
  assumes "admin_ok d" "orders e" "us_Role actor \<noteq> 1"
  shows "confined_change actor d (snd (RepoUpdateAccountRole e actor ident roleID d))"
proof (cases "accountTarget e actor ident d")
  case (Inr a)
  from accountTarget_row [OF assms(2) Inr] obtain v where v: "v \<in> set (ad_users d)" "ur_id v = ident"
    "ba_Role a = ur_role v" "ba_IDCostumer a = ur_tenant v" "accountScope actor a" .
  have one: "u = v" if "u \<in> set (ad_users d)" "ur_id u = ident" for u using same_row [OF assms(1)] that v by simp
  show ?thesis
    unfolding RepoUpdateAccountRole_def Inr using v(3-5) assms(1,3) one
    by (auto intro!: confined_refl confined_exec simp: accountScope_def canManageAccount_def split: sum.split bool.split)
qed (simp add: RepoUpdateAccountRole_def assms(1) confined_refl)

lemma RepoDeleteAccount_confined:
  assumes "admin_ok d" "orders e" "us_Role actor \<noteq> 1"
  shows "confined_change actor d (snd (RepoDeleteAccount e actor ident d))"
proof (cases "accountTarget e actor ident d")
  case (Inr a)
  from accountTarget_row [OF assms(2) Inr] obtain v where v: "v \<in> set (ad_users d)" "ur_id v = ident"
    "ba_Role a = ur_role v" "ba_IDCostumer a = ur_tenant v" .
  have "filter (beyond actor) (filter (\<lambda>u. ur_id u \<noteq> ident) (ad_users d)) = filter (beyond actor) (ad_users d)"
    if "canManageAccount actor (ur_role v) (ur_tenant v)"
    using managed_not_beyond [OF assms(3) that] same_row [OF assms(1) _ v(1)] v(2) by (auto intro!: filter_cong)
  then show ?thesis
    unfolding RepoDeleteAccount_def Inr using assms(1) v(3,4)
    by (auto simp: confined_change_def admin_ok_def distinct_map inj_on_def split: if_splits)
qed (simp add: RepoDeleteAccount_def assms(1) confined_refl)

section \<open>The handlers\<close>

definition account_routes :: "admin_route set" where
  "account_routes = {GetAccounts, PostAccount, PostInvitation, PutAccount, PostRoleChange, DeleteAccountRoute}"

lemma capability_roles [simp]:
  "''accounts.manage'' \<in> set (capabilitiesForRole r) \<longleftrightarrow> r = 1 \<or> r = 2"
  "''account.role.assign'' \<in> set (capabilitiesForRole r) \<longleftrightarrow> r = 1 \<or> r = 2"
  "''customers.manage'' \<in> set (capabilitiesForRole r) \<longleftrightarrow> r = 1"
  by (simp_all add: capabilitiesForRole_def)

lemma account_changed_state: "snd (account_changed e' request outcome) = snd outcome"
  by (cases outcome) (auto simp: account_changed_def split: sum.split admin_error.split)

lemma account_created_state: "snd (account_created success outcome) = snd outcome"
  by (cases outcome) (auto simp: account_created_def split: sum.split admin_error.split)

lemma account_createdD: "account_created success outcome = (sent, d') \<Longrightarrow> d' = snd outcome"
  by (metis account_created_state snd_conv)

text \<open>Each handler does nothing, or makes one call of the repository for the user of the session.\<close>

lemma account_route_confined:
  assumes "admin_ok d" "orders e" "route \<in> account_routes"
    "authenticatedUser (am_auth e) request (auth_of d) = (Inr user :: admin_value sent + User)" "us_Role user \<noteq> 1"
  shows "confined_change user d (snd (serve_admin e e' route request d))"
proof -
  note confined = confined_refl [OF assms(1), of user] RepoCreateAccount_confined [OF assms(1,5)]
    RepoUpdateAccount_confined [OF assms(1,2,5)] RepoUpdateAccountRole_confined [OF assms(1,2,5)] RepoDeleteAccount_confined [OF assms(1,2,5)]
    account_created_state account_changed_state
  have "confined_change user d (snd (HandleCreateAccount e e' request d))"
    by (simp add: HandleCreateAccount_def requireCapability_def assms(4) Let_def confined split: option.split)
  moreover have "confined_change user d (snd (HandleCreateInvitation e request d))"
    by (simp add: HandleCreateInvitation_def requireCapability_def assms(4) Let_def confined split: option.split)
  moreover have "confined_change user d (snd (HandleUpdateAccount e e' request d))"
    by (simp add: HandleUpdateAccount_def requireCapability_def assms(4) Let_def confined split: option.split)
  moreover have "confined_change user d (snd (HandleChangeAccountRole e e' request d))"
    by (simp add: HandleChangeAccountRole_def requireCapability_def assms(4) Let_def confined split: option.split)
  moreover have "confined_change user d (snd (HandleDeleteAccount e e' request d))"
    by (simp add: HandleDeleteAccount_def requireCapability_def assms(4) confined split: option.split)
  ultimately show ?thesis using assms(3) confined(1) by (auto simp: account_routes_def)
qed

lemma account_route_forbidden:
  "route \<in> account_routes \<Longrightarrow> authenticatedUser (am_auth e) request (auth_of d) = (Inr user :: admin_value sent + User) \<Longrightarrow>
   us_Role user \<noteq> 1 \<Longrightarrow> us_Role user \<noteq> 2 \<Longrightarrow> serve_admin e e' route request d = (([], forbidden), d)"
  by (auto simp: account_routes_def HandleAccounts_def HandleCreateAccount_def HandleCreateInvitation_def HandleUpdateAccount_def
      HandleChangeAccountRole_def HandleDeleteAccount_def requireCapability_def)

lemma account_route_unauthenticated:
  "route \<in> account_routes \<Longrightarrow> authenticatedUser (am_auth e) request (auth_of d) = Inl s \<Longrightarrow> serve_admin e e' route request d = (s, d)"
  by (auto simp: account_routes_def HandleAccounts_def HandleCreateAccount_def HandleCreateInvitation_def HandleUpdateAccount_def
      HandleChangeAccountRole_def HandleDeleteAccount_def requireCapability_def)

text \<open>
  C11. Who may change an account. A request without a session changes nothing and is answered as the session
  test says; a user with neither the first nor the second role is refused on every account route and changes
  nothing; an administrator of a tenant leaves every account as it is, in its place, that has the first role
  or belongs to a tenant other than the active one of the session, and creates none of that kind.
\<close>

theorem account_authority:
  assumes "admin_ok d" "orders e" "route \<in> account_routes"
  shows "case authenticatedUser (am_auth e) request (auth_of d) of
      Inl s \<Rightarrow> serve_admin e e' route request d = (s, d)
    | Inr user \<Rightarrow> (us_Role user \<notin> {1, 2} \<longrightarrow> serve_admin e e' route request d = (([], forbidden), d))
        \<and> (us_Role user = 2 \<longrightarrow> filter (beyond user) (ad_users (snd (serve_admin e e' route request d))) = filter (beyond user) (ad_users d))"
proof (cases "authenticatedUser (am_auth e) request (auth_of d) :: admin_value sent + User")
  case (Inr user)
  then show ?thesis
    using account_route_confined [OF assms Inr, of e'] account_route_forbidden [OF assms(3) Inr, of e'] by (auto simp: confined_change_def)
qed (simp add: account_route_unauthenticated [OF assms(3)])

text \<open>Fixtures: a superadministrator, an administrator of tenant 2 with an open session, and two testers.\<close>

definition menv0 :: admin_env where
  "menv0 = \<lparr>am_auth = aenv0, am_fails = (\<lambda>_. False), am_hash = (\<lambda>p. if length p > 72 then None else Some p), am_rand = (\<lambda>n. Some (replicate n 0)),
     am_upper = (\<lambda>s. s), am_same = (\<lambda>s t. s = t), am_like = (\<lambda>_ _. True), am_order = (\<lambda>_ _ rows. rows), am_orderCostumers = (\<lambda>_ _ rows. rows),
     am_column = (\<lambda>_ _. True), am_now = 0, am_column_time = (\<lambda>t. t), am_refuses_offset = False\<rparr>"

definition plain_user :: "int \<Rightarrow> int \<Rightarrow> int \<Rightarrow> user_row" where
  "plain_user ident tenant role = \<lparr>ur_id = ident, ur_tenant = tenant, ur_name = ''n'', ur_email = itoa ident, ur_role = role, ur_password = ''p'',
     ur_status = ''active''\<rparr>"

definition plain_costumer :: "int \<Rightarrow> costumer_row" where
  "plain_costumer ident = \<lparr>co_id = ident, co_costumer = ''c'', co_description = None, co_license = None, co_apiKey = None, co_apiKeyCreatedAt = None,
     co_apiKeyExpiresAt = None, co_apiKeyLastUsedAt = None, co_createdAt = None, co_updatedAt = None\<rparr>"

definition mdb0 :: admin_db where
  "mdb0 = \<lparr>ad_auth = \<lparr>users = [plain_user 1 1 1, plain_user 5 2 2, plain_user 6 2 3, plain_user 7 3 3],
       sessions = [\<lparr>sn_idHash = tokenHash aenv0 ''s'', sn_userId = 5, sn_tenant = 2, sn_csrfHash = [], sn_active = None, sn_reason = None,
         sn_impersonationExpires = None, sn_expiresAt = hour\<rparr>], customers = [], switch_audits = []\<rparr>,
     ad_updated = (\<lambda>_. None), ad_roles = map (\<lambda>i. \<lparr>ro_id = i, ro_name = ''r'', ro_createdAt = None, ro_updatedAt = None\<rparr>) [1, 2, 3],
     ad_costumers = map plain_costumer [1, 2, 3], ad_nextUser = 8, ad_nextCostumer = 4\<rparr>"

definition admin_request :: http_request where
  "admin_request = request0\<lparr>rq_cookie := Some ''s'', rq_path := (\<lambda>_. ''6'')\<rparr>"

lemma orders_menv0: "orders menv0"
  by (simp add: orders_def menv0_def)

lemma admin_ok_mdb0: "admin_ok mdb0"
  by (simp add: admin_ok_def mdb0_def plain_user_def)

theorem account_authority_witness:
  "\<exists>user. authenticatedUser aenv0 admin_request (auth_of mdb0) = (Inr user :: admin_value sent + User) \<and> us_Role user = 2
   \<and> map ur_id (ad_users (snd (serve_admin menv0 menv0 DeleteAccountRoute admin_request mdb0))) = [1, 5, 7]
   \<and> filter (beyond user) (ad_users (snd (serve_admin menv0 menv0 DeleteAccountRoute admin_request mdb0))) = filter (beyond user) (ad_users mdb0)"
proof -
  obtain user where user: "authenticatedUser (am_auth menv0) admin_request (auth_of mdb0) = (Inr user :: admin_value sent + User)" "us_Role user = 2"
  proof -
    have "(case authenticatedUser (am_auth menv0) admin_request (auth_of mdb0) :: admin_value sent + User of Inl _ \<Rightarrow> False | Inr user \<Rightarrow> us_Role user = 2)"
      by code_simp
    then show thesis using that by (auto split: sum.splits)
  qed
  have ids: "map ur_id (ad_users (snd (serve_admin menv0 menv0 DeleteAccountRoute admin_request mdb0))) = [1, 5, 7]" by code_simp
  have "DeleteAccountRoute \<in> account_routes" by (simp add: account_routes_def)
  from account_authority [OF admin_ok_mdb0 orders_menv0 this, where request = admin_request and e' = menv0] user
  have "filter (beyond user) (ad_users (snd (serve_admin menv0 menv0 DeleteAccountRoute admin_request mdb0))) = filter (beyond user) (ad_users mdb0)"
    by simp
  moreover have "am_auth menv0 = aenv0" by (simp add: menv0_def)
  ultimately show ?thesis using user ids by metis
qed

section \<open>Sequences of requests\<close>

text \<open>A step that keeps an invariant and what is observed keeps them along every sequence of allowed steps.\<close>

locale guarded_trace =
  fixes step :: "'c \<Rightarrow> 's \<Rightarrow> 's"
    and allowed :: "'c \<Rightarrow> bool"
    and inv :: "'s \<Rightarrow> bool"
    and observed :: "'s \<Rightarrow> 'o"
  assumes step_inv: "allowed c \<Longrightarrow> inv s \<Longrightarrow> inv (step c s)"
    and step_observed: "allowed c \<Longrightarrow> inv s \<Longrightarrow> observed (step c s) = observed s"
begin

lemma trace_kept: "\<forall>c \<in> set cs. allowed c \<Longrightarrow> inv s \<Longrightarrow> inv (fold step cs s) \<and> observed (fold step cs s) = observed s"
  by (induction cs arbitrary: s) (simp_all add: step_inv step_observed)

end

type_synonym admin_call = "admin_env \<times> admin_env \<times> admin_route \<times> http_request"

definition admin_step :: "admin_call \<Rightarrow> admin_db \<Rightarrow> admin_db" where
  "admin_step = (\<lambda>(e, e', route, request) d. snd (serve_admin e e' route request d))"

definition ordered_call :: "admin_call \<Rightarrow> bool" where
  "ordered_call = (\<lambda>(e, _). orders e)"

text \<open>No open session belongs to a superadministrator; the tenants in which the open sessions act.\<close>

definition no_super :: "admin_db \<Rightarrow> bool" where
  "no_super d \<longleftrightarrow> (\<forall>s \<in> set (sessions (ad_auth d)). \<forall>u \<in> set (ad_users d).
     ur_id u = sn_userId s \<and> ur_tenant u = sn_tenant s \<longrightarrow> ur_role u \<noteq> 1)"

definition session_tenants :: "admin_db \<Rightarrow> int set" where
  "session_tenants d = (\<Union>s \<in> set (sessions (ad_auth d)). insert (sn_tenant s) (set_option (sn_active s)))"

definition protected :: "int set \<Rightarrow> user_row \<Rightarrow> bool" where
  "protected T u \<longleftrightarrow> ur_role u = 1 \<or> ur_tenant u \<notin> T"

definition admin_view :: "int set \<Rightarrow> admin_db \<Rightarrow> user_row list \<times> session_row list \<times> costumer_row list \<times> role_row list" where
  "admin_view T d = (filter (protected T) (ad_users d), sessions (ad_auth d), ad_costumers d, ad_roles d)"

definition confined_inv :: "int set \<Rightarrow> admin_db \<Rightarrow> bool" where
  "confined_inv T d \<longleftrightarrow> admin_ok d \<and> no_super d \<and> session_tenants d \<subseteq> T"

lemma authenticated_row:
  assumes "authenticatedUser ae request (auth_of d) = Inr user"
  obtains s u where "s \<in> set (sessions (ad_auth d))" "u \<in> set (ad_users d)" "ur_id u = sn_userId s" "ur_tenant u = sn_tenant s"
    "us_ID user = ur_id u" "us_TenantID user = ur_tenant u" "us_Role user = ur_role u" "ActiveTenant user \<in> session_tenants d"
proof -
  from assms obtain sid where "Get ae sid (ae_clock ae 0) (auth_of d) = Inr user"
    by (auto simp: authenticatedUser_def authenticatedSession_def split: option.splits if_splits sum.splits prod.splits)
  then obtain s u where su: "s \<in> set (sessions (ad_auth d))" "session_user (auth_of d) s = Some u"
      "user = (user_of_row u)\<lparr>us_ActiveTenantID := (case sn_active s of Some t \<Rightarrow> t | None \<Rightarrow> sn_tenant s),
         us_ImpersonationReason := sn_reason s, us_ImpersonationExpiresAt := sn_impersonationExpires s\<rparr>"
    by (auto simp: Get_def split: if_splits option.splits dest!: find_SomeD)
  have u: "u \<in> set (ad_users d)" "ur_id u = sn_userId s" "ur_tenant u = sn_tenant s"
    using find_SomeD [OF su(2) [unfolded session_user_def]] by simp_all
  have "ActiveTenant user \<in> insert (sn_tenant s) (set_option (sn_active s))"
    using u(3) su(3) by (cases "sn_active s") (auto simp: ActiveTenant_def user_of_row_def)
  then have "ActiveTenant user \<in> session_tenants d" using su(1) by (auto simp: session_tenants_def)
  then show thesis using that [OF su(1) u] su(3) by (simp add: user_of_row_def)
qed

lemma no_super_role: "no_super d \<Longrightarrow> authenticatedUser ae request (auth_of d) = Inr user \<Longrightarrow> us_Role user \<noteq> 1"
  by (erule authenticated_row) (auto simp: no_super_def)

lemma no_super_view: "no_super d \<Longrightarrow> admin_view T d' = admin_view T d \<Longrightarrow> no_super d'"
proof -
  assume d: "no_super d" and v: "admin_view T d' = admin_view T d"
  have "u \<in> set (ad_users d)" if "u \<in> set (ad_users d')" "ur_role u = 1" for u
  proof -
    have same: "filter (protected T) (ad_users d') = filter (protected T) (ad_users d)" using v by (simp add: admin_view_def)
    have "u \<in> set (filter (protected T) (ad_users d'))" using that by (simp add: protected_def)
    then show ?thesis unfolding same by simp
  qed
  then show ?thesis using d v by (auto simp: no_super_def admin_view_def)
qed

lemma confined_view:
  assumes "confined_change user d d'" "ActiveTenant user \<in> T"
  shows "admin_view T d' = admin_view T d"
proof -
  have "filter (protected T) (ad_users d') = filter (protected T) (ad_users d)"
    by (rule filter_coarser [where p = "beyond user"]) (use assms in \<open>auto simp: confined_change_def protected_def beyond_def\<close>)
  then show ?thesis using assms(1) by (simp add: admin_view_def confined_change_def)
qed

lemma snd_case_sum: "snd (case x of Inl y \<Rightarrow> (f y, s) | Inr z \<Rightarrow> (g z, s)) = s"
  by (cases x) simp_all

lemma profile_view:
  assumes "admin_ok d" "no_super d" "session_tenants d \<subseteq> T" "authenticatedUser (am_auth e) request (auth_of d) = (Inr user :: admin_value sent + User)"
  shows "admin_view T (snd (HandleUpdateProfile e request d)) = admin_view T d \<and> admin_ok (snd (HandleUpdateProfile e request d))"
proof -
  from authenticated_row [OF assms(4)] obtain s v where v: "s \<in> set (sessions (ad_auth d))" "v \<in> set (ad_users d)"
      "ur_id v = sn_userId s" "ur_tenant v = sn_tenant s" "us_ID user = ur_id v" "us_TenantID user = ur_tenant v" .
  let ?p = "\<lambda>u. ur_id u = us_ID user \<and> ur_tenant u = us_TenantID user"
  have "\<not> protected T u" if "u \<in> set (ad_users d)" "?p u" for u
    using that v assms(2,3) by (auto simp: protected_def no_super_def session_tenants_def)
  then have "filter (protected T) (upd_rows ?p (\<lambda>u. u\<lparr>ur_password := h\<rparr>) (ad_users d)) = filter (protected T) (ad_users d)" for h
    by (intro filter_upd_rows_outside) (simp add: protected_def)
  then have written: "admin_view T (update_users e ?p (\<lambda>u. u\<lparr>ur_password := h\<rparr>) d) = admin_view T d
      \<and> admin_ok (update_users e ?p (\<lambda>u. u\<lparr>ur_password := h\<rparr>) d)" for h
    using assms(1) by (simp add: admin_view_def admin_ok_update)
  have "admin_view T (snd (UpdateProfilePassword e user password d)) = admin_view T d
      \<and> admin_ok (snd (UpdateProfilePassword e user password d))" for password
    using assms(1) written by (cases "am_hash e password") (simp_all add: UpdateProfilePassword_def Let_def)
  then show ?thesis using assms(1)
    by (simp add: HandleUpdateProfile_def assms(4) Let_def case_prod_beta snd_case_sum split: option.split)
qed

lemma admin_route_cases: "route \<in> account_routes \<or> route \<in> {PutProfile, GetRoles, GetProfile, GetCustomers, PostCustomer, PutCustomer, DeleteCustomerRoute}"
  by (cases route) (simp_all add: account_routes_def)

lemma admin_unauthenticated:
  "authenticatedUser (am_auth e) request (auth_of d) = (Inl s :: admin_value sent + User) \<Longrightarrow> snd (serve_admin e e' route request d) = d"
  by (cases route) (simp_all add: HandleUpdateProfile_def HandleCreateAccount_def HandleCreateInvitation_def HandleUpdateAccount_def
      HandleChangeAccountRole_def HandleDeleteAccount_def HandleCreateCustomer_def HandleUpdateCustomer_def HandleDeleteCustomer_def
      requireCapability_def)

lemma customer_routes_unchanged:
  "authenticatedUser (am_auth e) request (auth_of d) = (Inr user :: admin_value sent + User) \<Longrightarrow> us_Role user \<noteq> 1 \<Longrightarrow>
   route \<in> {GetRoles, GetProfile, GetCustomers, PostCustomer, PutCustomer, DeleteCustomerRoute} \<Longrightarrow> snd (serve_admin e e' route request d) = d"
  by (auto simp: HandleCreateCustomer_def HandleUpdateCustomer_def HandleDeleteCustomer_def requireCapability_def)

lemma admin_step_view:
  assumes "confined_inv T d" "orders e"
  shows "admin_view T (snd (serve_admin e e' route request d)) = admin_view T d \<and> admin_ok (snd (serve_admin e e' route request d))"
proof (cases "authenticatedUser (am_auth e) request (auth_of d) :: admin_value sent + User")
  case (Inl s)
  then show ?thesis using admin_unauthenticated [of e request d s] assms(1) by (simp add: confined_inv_def)
next
  case (Inr user)
  note inv = assms(1) [unfolded confined_inv_def]
  have role: "us_Role user \<noteq> 1" using no_super_role [OF _ Inr] inv by blast
  have active: "ActiveTenant user \<in> T" using authenticated_row [OF Inr] inv by blast
  from admin_route_cases [of route] consider "route \<in> account_routes" | "route = PutProfile"
    | "route \<in> {GetRoles, GetProfile, GetCustomers, PostCustomer, PutCustomer, DeleteCustomerRoute}" by blast
  then show ?thesis
  proof cases
    case 1
    then have "confined_change user d (snd (serve_admin e e' route request d))"
      using account_route_confined [OF _ assms(2) _ Inr role] inv by blast
    then show ?thesis using confined_view [OF _ active] by (simp add: confined_change_def)
  next
    case 2
    then show ?thesis using profile_view [where T = T, OF _ _ _ Inr] inv by simp
  next
    case 3
    then show ?thesis using customer_routes_unchanged [OF Inr role] inv by simp
  qed
qed

interpretation admin_trace: guarded_trace admin_step ordered_call "confined_inv T" "admin_view T" for T
proof
  fix c :: admin_call and d :: admin_db
  assume c: "ordered_call c" and d: "confined_inv T d"
  obtain e e' route request where split: "c = (e, e', route, request)" by (cases c)
  have v: "admin_view T (admin_step c d) = admin_view T d" and ok: "admin_ok (admin_step c d)"
    using admin_step_view [OF d, of e e' route request] c by (simp_all add: split admin_step_def ordered_call_def)
  show "admin_view T (admin_step c d) = admin_view T d" by (rule v)
  have "session_tenants (admin_step c d) = session_tenants d" using v by (simp add: admin_view_def session_tenants_def)
  then show "confined_inv T (admin_step c d)"
    using d ok no_super_view [OF _ v] by (simp add: confined_inv_def)
qed

text \<open>
  C10. No sequence of administration requests escalates. When no open session belongs to a superadministrator,
  then after any requests on the routes of roles, profiles, accounts and customers, whatever they carry, the
  superadministrators and all accounts of tenants in which no session acts are the rows they were, passwords
  included, the customers and the roles are untouched, and still no request authenticates as a superadministrator.
\<close>

theorem no_escalation:
  assumes "admin_ok d" "no_super d" "\<forall>c \<in> set calls. ordered_call c" "d' = fold admin_step calls d"
  shows "filter (protected (session_tenants d)) (ad_users d') = filter (protected (session_tenants d)) (ad_users d)
    \<and> ad_costumers d' = ad_costumers d \<and> ad_roles d' = ad_roles d \<and> sessions (ad_auth d') = sessions (ad_auth d)
    \<and> (\<forall>ae request user. authenticatedUser ae request (auth_of d') = (Inr user :: admin_value sent + User) \<longrightarrow> us_Role user \<noteq> 1)"
proof -
  have "confined_inv (session_tenants d) d" using assms(1,2) by (simp add: confined_inv_def)
  from admin_trace.trace_kept [OF assms(3) this] have "confined_inv (session_tenants d) d'"
      "admin_view (session_tenants d) d' = admin_view (session_tenants d) d" unfolding assms(4) by simp_all
  then show ?thesis using no_super_role [of d'] by (auto simp: admin_view_def confined_inv_def)
qed

theorem no_escalation_witness:
  "no_super mdb0 \<and> map ur_id (ad_users (fold admin_step [(menv0, menv0, DeleteAccountRoute, admin_request)] mdb0)) = [1, 5, 7]
   \<and> filter (protected (session_tenants mdb0)) (ad_users (fold admin_step [(menv0, menv0, DeleteAccountRoute, admin_request)] mdb0))
     = filter (protected (session_tenants mdb0)) (ad_users mdb0)"
proof -
  have "no_super mdb0" by code_simp
  moreover have "\<forall>c \<in> set [(menv0, menv0, DeleteAccountRoute, admin_request)]. ordered_call c" using orders_menv0 by (simp add: ordered_call_def)
  moreover have "map ur_id (ad_users (fold admin_step [(menv0, menv0, DeleteAccountRoute, admin_request)] mdb0)) = [1, 5, 7]" by code_simp
  ultimately show ?thesis using no_escalation [OF admin_ok_mdb0 _ _ refl] by blast
qed

end
