(* ===== verification/AccountSessions.thy ===== *)
theory AccountSessions
  imports AccountProps
begin

text \<open>
  Account administration together with the sessions: an account that was created logs in with its password,
  an invited one does not, and a change of role or a deletion holds at once for the sessions that are open.
\<close>

section \<open>Created accounts\<close>

text \<open>A character that is part of no space survives trimming.\<close>

lemma strip_prefix_keeps: "strip_prefix rs s = Some s' \<Longrightarrow> c \<in> set s \<Longrightarrow> \<forall>r \<in> set rs. c \<notin> set r \<Longrightarrow> c \<in> set s'"
  by (induction rs) (auto split: if_splits elim!: prefixE)

lemma trim_with_keeps: "c \<in> set s \<Longrightarrow> \<forall>r \<in> set rs. c \<notin> set r \<Longrightarrow> c \<in> set (trim_with rs s)"
proof (induction rs s rule: trim_with.induct)
  case (1 rs s)
  show ?case
  proof (cases "[] \<in> set rs \<or> strip_prefix rs s = None")
    case True
    then show ?thesis using 1(2) by (subst trim_with.simps) auto
  next
    case False
    then obtain s' where "[] \<notin> set rs" "strip_prefix rs s = Some s'" by auto
    then show ?thesis using 1 strip_prefix_keeps [of rs s s' c] by (subst trim_with.simps) simp
  qed
qed

lemma at_no_space: "\<forall>r \<in> set space_runes. CHR ''@'' \<notin> set r"
proof -
  have "list_all (\<lambda>r. CHR ''@'' \<notin> set r) space_runes" by code_simp
  then show ?thesis by (simp add: list_all_iff)
qed

lemma TrimSpace_email: "Contains s ''@'' \<Longrightarrow> TrimSpace s \<noteq> []"
proof -
  assume "Contains s ''@''"
  then have "CHR ''@'' \<in> set s" by (auto simp: Contains_sublist sublist_def)
  then have "CHR ''@'' \<in> set (trim_with (map rev space_runes) (rev (trim_with space_runes s)))"
    using at_no_space by (intro trim_with_keeps) (auto intro: trim_with_keeps)
  then show "TrimSpace s \<noteq> []" by (auto simp: TrimSpace_def)
qed

text \<open>What a creation that changes the tables has stored.\<close>

lemma creation_stores:
  assumes "HandleCreateAccount e e' request d = (sent, d')" "d' \<noteq> d" "decodeJSON request new_account_fields = Some body"
  obtains user hash where "authenticatedUser (am_auth e) request (auth_of d) = (Inr user :: admin_value sent + User)"
    "am_hash e (get_str body ''password'') = Some hash" "get_str body ''password'' \<noteq> []" "TrimSpace (get_str body ''email'') \<noteq> []"
    "\<forall>u \<in> set (ad_users d). \<not> am_same e (ur_email u) (TrimSpace (get_str body ''email''))"
    "d' = insert_user e (new_user \<lparr>an_Name = TrimSpace (get_str body ''name''), an_Email = TrimSpace (get_str body ''email''),
       an_Role = get_int body ''role'', an_IDCostumer = (if us_Role user \<noteq> 1 then ActiveTenant user else get_int body ''idCostumer'')\<rparr> hash ''active'') d"
proof -
  let ?v = "accountValidation (get_str body ''name'') (get_str body ''email'') (get_str body ''password'') (get_int body ''role'')"
  let ?a = "\<lambda>user. \<lparr>an_Name = TrimSpace (get_str body ''name''), an_Email = TrimSpace (get_str body ''email''),
       an_Role = get_int body ''role'', an_IDCostumer = (if us_Role user \<noteq> 1 then ActiveTenant user else get_int body ''idCostumer'')\<rparr>"
  obtain user where user: "authenticatedUser (am_auth e) request (auth_of d) = (Inr user :: admin_value sent + User)"
    using assms(1,2) account_route_unauthenticated [of PostAccount e request d]
    by (cases "authenticatedUser (am_auth e) request (auth_of d) :: admin_value sent + User") (auto simp: account_routes_def)
  have v: "?v = []" and s: "d' = snd (RepoCreateAccount e user (?a user) (get_str body ''password'') d)"
    using assms user by (auto simp: HandleCreateAccount_def requireCapability_def Let_def dest!: account_createdD split: if_splits)
  have guard: "creation_guard e user (?a user) ''check browser account email'' d = None"
  proof (rule ccontr)
    assume "\<not> ?thesis"
    then show False using assms(2) unfolding s by (auto simp: RepoCreateAccount_def)
  qed
  have valid: "get_str body ''password'' \<noteq> []" "Contains (get_str body ''email'') ''@''"
    using v by (auto simp: accountValidation_def split: if_splits)
  from s assms(2) obtain hash where "am_hash e (get_str body ''password'') = Some hash" "d' = insert_user e (new_user (?a user) hash ''active'') d"
    by (auto simp: RepoCreateAccount_def guard split: option.splits if_splits)
  moreover have "\<forall>u \<in> set (ad_users d). \<not> am_same e (ur_email u) (TrimSpace (get_str body ''email''))"
    using guard by (auto simp: creation_guard_def list_ex_iff split: if_splits sum.splits bool.splits)
  ultimately show thesis using that user valid TrimSpace_email by simp
qed

text \<open>
  C32. An account that was created logs in. After a creation that stored one, a log-in with the email and the
  password of that request opens a session of exactly the new user, with the role of the request, in the tenant
  that the creator's role allows: the one of the request for a superadministrator, the active tenant of the
  creator otherwise.
\<close>

theorem created_account_logs_in:
  assumes "admin_ok d" "auth_ok (ad_auth d)" "HandleCreateAccount e e' request d = (sent, d')" "d' \<noteq> d"
    and body: "decodeJSON request new_account_fields = Some body" "decodeJSON login login_fields = Some credentials"
      "get_str credentials ''email'' = get_str body ''email''" "get_str credentials ''password'' = get_str body ''password''"
    and laws: "\<forall>s. am_same e s s" "\<forall>p h. am_hash e p = Some h \<longrightarrow> ae_bcrypt ae h p"
    and session: "\<forall>label. \<not> ae_fails ae label" "randomToken ae 0 = Some sid" "randomToken ae 1 = Some csrf"
      "\<forall>s \<in> set (sessions (ad_auth d)). sn_idHash s \<noteq> tokenHash ae sid"
  shows "\<exists>creator user a. authenticatedUser (am_auth e) request (auth_of d) = (Inr creator :: admin_value sent + User)
    \<and> Login ae login (auth_of d') = (([session_cookie sid, csrf_cookie csrf],
        Message 200 [(''authenticated'', JBool True), (''user'', JObj (identity_json user))]), a)
    \<and> us_ID user = ad_nextUser d \<and> us_Role user = get_int body ''role''
    \<and> us_TenantID user = (if us_Role creator = 1 then get_int body ''idCostumer'' else ActiveTenant creator)
    \<and> (\<forall>now < ae_column_time ae (ae_clock ae 0 + 120 * minute). Get ae sid now a = Inr (user\<lparr>us_ActiveTenantID := us_TenantID user\<rparr>))"
proof -
  from creation_stores [OF assms(3,4) body(1)] obtain creator hash where c:
    "authenticatedUser (am_auth e) request (auth_of d) = (Inr creator :: admin_value sent + User)"
    "am_hash e (get_str body ''password'') = Some hash" "get_str body ''password'' \<noteq> []" "TrimSpace (get_str body ''email'') \<noteq> []"
    "\<forall>u \<in> set (ad_users d). \<not> am_same e (ur_email u) (TrimSpace (get_str body ''email''))"
    "d' = insert_user e (new_user \<lparr>an_Name = TrimSpace (get_str body ''name''), an_Email = TrimSpace (get_str body ''email''),
       an_Role = get_int body ''role'', an_IDCostumer = (if us_Role creator \<noteq> 1 then ActiveTenant creator else get_int body ''idCostumer'')\<rparr> hash ''active'') d" .
  define u where "u = \<lparr>ur_id = ad_nextUser d, ur_tenant = (if us_Role creator = 1 then get_int body ''idCostumer'' else ActiveTenant creator),
     ur_name = TrimSpace (get_str body ''name''), ur_email = TrimSpace (get_str body ''email''), ur_role = get_int body ''role'',
     ur_password = hash, ur_status = ''active''\<rparr>"
  have users: "ad_users d' = ad_users d @ [u]" by (simp add: c(6) new_user_def u_def)
  have "ur_email v \<noteq> TrimSpace (get_str body ''email'')" if "v \<in> set (ad_users d)" for v
    using bspec [OF c(5) that] laws(1) by auto
  then have "find (\<lambda>u. ur_email u = TrimSpace (get_str body ''email'')) (ad_users d) = None" by (simp add: find_None_iff)
  then have found: "FindByEmail ae (TrimSpace (get_str body ''email'')) (auth_of d') = Inr (user_of_row u)"
    using session(1) by (simp add: FindByEmail_def users find_append u_def)
  let ?s = "\<lparr>sn_idHash = tokenHash ae sid, sn_userId = ur_id u, sn_tenant = ur_tenant u, sn_csrfHash = tokenHash ae csrf, sn_active = None,
       sn_reason = None, sn_impersonationExpires = None, sn_expiresAt = ae_column_time ae (ae_clock ae 0 + 120 * minute)\<rparr>"
  let ?a = "(auth_of d')\<lparr>sessions := sessions (auth_of d') @ [?s]\<rparr>"
  have fresh: "\<forall>s \<in> set (sessions (auth_of d')). sn_idHash s \<noteq> tokenHash ae sid" using session(4) by (simp add: c(6))
  then have create: "Create ae sid (ur_id u) (ur_tenant u) csrf (ae_clock ae 0 + 120 * minute) (auth_of d') = (Inr (), ?a)"
    using session(1) by (auto simp: Create_def list_ex_iff)
  have l: "Login ae login (auth_of d') = (([session_cookie sid, csrf_cookie csrf],
      Message 200 [(''authenticated'', JBool True), (''user'', JObj (identity_json (user_of_row u)))]), ?a)"
    using c(2-4) laws(2) found create session(2,3) body
    by (simp add: Login_def user_of_row_def u_def)
  have ok: "auth_ok ?a"
    using assms(2) admin_ok_insert [OF assms(1)] fresh by (auto simp: auth_ok_def c(6) admin_ok_def)
  have su: "session_user ?a ?s = Some u"
    unfolding session_user_def using ok users by (intro find_unique [of ur_id]) (auto simp: auth_ok_def u_def)
  then have "Get ae sid now ?a = Inr ((user_of_row u)\<lparr>us_ActiveTenantID := us_TenantID (user_of_row u)\<rparr>)"
    if "now < ae_column_time ae (ae_clock ae 0 + 120 * minute)" for now
    using Get_row [OF ok, of ?s ae sid now] session(1) that by (simp add: user_of_row_def)
  then show ?thesis using c(1) l by (intro exI [of _ creator] exI [of _ "user_of_row u"] exI [of _ ?a]) (simp add: user_of_row_def u_def)
qed

definition create_request :: http_request where
  "create_request = admin_request\<lparr>rq_body := BDoc (JObj [(''name'', JStr ''N''), (''email'', JStr ''n@c''), (''password'', JStr ''Abcdefghij1!''), (''role'', JNum 3)])\<rparr>"

definition created_login :: http_request where
  "created_login = admin_request\<lparr>rq_body := BDoc (JObj [(''email'', JStr ''n@c''), (''password'', JStr ''Abcdefghij1!'')])\<rparr>"

theorem created_account_logs_in_witness:
  "ad_nextUser (snd (HandleCreateAccount menv0 menv0 create_request mdb0)) = 9
   \<and> (\<exists>sent a. Login aenv0 created_login (auth_of (snd (HandleCreateAccount menv0 menv0 create_request mdb0))) = (sent, a) \<and> http_status (snd sent) = 200)"
proof -
  let ?r = "HandleCreateAccount menv0 menv0 create_request mdb0"
  have n: "ad_nextUser (snd ?r) = 9" by code_simp
  have changed: "snd ?r \<noteq> mdb0"
  proof
    assume "snd ?r = mdb0"
    then show False using n by (simp add: mdb0_def)
  qed
  have b: "decodeJSON create_request new_account_fields = Some [''name'' \<mapsto> JStr ''N'', ''email'' \<mapsto> JStr ''n@c'', ''password'' \<mapsto> JStr ''Abcdefghij1!'', ''role'' \<mapsto> JNum 3]"
    by (simp add: decodeJSON_def create_request_def new_account_fields_def decode_struct_def decode_entry_def field_for_def int64_range_def)
  have l: "decodeJSON created_login login_fields = Some [''email'' \<mapsto> JStr ''n@c'', ''password'' \<mapsto> JStr ''Abcdefghij1!'']"
    by (simp add: decodeJSON_def created_login_def login_fields_def decode_struct_def decode_entry_def field_for_def)
  have db: "auth_ok (ad_auth mdb0)" by (simp add: mdb0_def auth_ok_def plain_user_def)
  have run: "?r = (fst ?r, snd ?r)" by simp
  have laws: "\<forall>s. am_same menv0 s s" "\<forall>p h. am_hash menv0 p = Some h \<longrightarrow> ae_bcrypt aenv0 h p" "\<forall>label. \<not> ae_fails aenv0 label"
    by (simp_all add: menv0_def aenv0_def)
  have tokens: "randomToken aenv0 0 = Some sid0" "randomToken aenv0 1 = Some (hex_encode (replicate 32 1))"
    by (simp_all add: randomToken_def aenv0_def sid0_def)
  have fresh: "\<forall>s \<in> set (sessions (ad_auth mdb0)). sn_idHash s \<noteq> tokenHash aenv0 sid0" by code_simp
  show ?thesis
    using created_account_logs_in [OF admin_ok_mdb0 db run changed b l _ _ laws tokens fresh] n by (force simp: get_str_def)
qed

text \<open>An invitation stores a user that no password lets in.\<close>

lemma invited_cannot_log_in:
  assumes "u \<in> set (users a)" "ur_status u = ''invited''" "\<forall>v \<in> set (users a). ur_email v = ur_email u \<longrightarrow> v = u"
    "decodeJSON login login_fields = Some credentials" "TrimSpace (get_str credentials ''email'') = ur_email u"
  shows "Login ae login a = (([], invalidLogin), a)"
proof -
  obtain v where v: "find (\<lambda>v. ur_email v = ur_email u) (users a) = Some v"
    using assms(1) by (cases "find (\<lambda>v. ur_email v = ur_email u) (users a)") (auto simp: find_None_iff)
  then have "v = u" using find_SomeD [OF v] assms(3) by blast
  then have "(\<exists>x. FindByEmail ae (ur_email u) a = Inl x) \<or> FindByEmail ae (ur_email u) a = Inr (user_of_row u)"
    using v by (simp add: FindByEmail_def)
  then show ?thesis using assms(2,4,5) by (auto simp: Login_def user_of_row_def)
qed

section \<open>Changed accounts\<close>

lemma changed_role:
  assumes "admin_ok d" "orders e" "d' = snd (RepoUpdateAccountRole e actor ident roleID d)" "d' \<noteq> d" "u \<in> set (ad_users d')" "ur_id u = ident"
  shows "ur_role u = roleID"
proof (cases "accountTarget e actor ident d")
  case (Inr a)
  from accountTarget_row [OF assms(2) Inr] obtain v where v: "v \<in> set (ad_users d)" "ur_id v = ident" "ba_IDCostumer a = ur_tenant v" .
  let ?p = "\<lambda>u. ur_id u = ident \<and> ur_tenant u = ba_IDCostumer a" and ?f = "\<lambda>u. u\<lparr>ur_role := roleID\<rparr>"
  have "d' = update_users e ?p ?f d"
    using assms(3,4) Inr by (auto simp: RepoUpdateAccountRole_def snd_exec_users split: if_splits sum.splits bool.splits)
  then obtain w where w: "w \<in> set (ad_users d)" "u = (if ?p w then ?f w else w)" using assms(5) by (auto simp: set_upd_rows)
  then have "ur_id w = ident" using assms(6) by (auto split: if_splits)
  then have "w = v" using same_row [OF assms(1) w(1) v(1)] v(2) by simp
  then show ?thesis using w(2) v by simp
qed (use assms(3,4) in \<open>simp add: RepoUpdateAccountRole_def\<close>)

lemma deleted_account:
  assumes "d' = snd (RepoDeleteAccount e actor ident d)" "d' \<noteq> d"
  shows "\<forall>u \<in> set (ad_users d'). ur_id u \<noteq> ident"
  using assms by (auto simp: RepoDeleteAccount_def split: sum.splits if_splits)

lemma HandleChangeAccountRole_change:
  assumes "snd (HandleChangeAccountRole e e' request d) \<noteq> d" "parsePathID (rq_path request ''idUser'') = Some ident"
  obtains user body where "decodeJSON request role_fields = Some body" "role_number (get_any body ''roleId'') > 0"
    "snd (HandleChangeAccountRole e e' request d) = snd (RepoUpdateAccountRole e user ident (role_number (get_any body ''roleId'')) d)"
  using assms by (auto simp: HandleChangeAccountRole_def Let_def account_changed_state split: sum.splits option.splits if_splits)

lemma HandleDeleteAccount_change:
  assumes "snd (HandleDeleteAccount e e' request d) \<noteq> d" "parsePathID (rq_path request ''idUser'') = Some ident"
  obtains user where "snd (HandleDeleteAccount e e' request d) = snd (RepoDeleteAccount e user ident d)"
  using assms by (auto simp: HandleDeleteAccount_def account_changed_state split: sum.splits)

text \<open>
  C33. A change of an account holds at once for the sessions that are open. After a deletion that changed the
  tables no request authenticates as the deleted account, whatever session it presents; after a change of role
  a session of the account acts with the role of the request, which is positive, and is refused on every account
  route when that is neither the first nor the second.
\<close>

theorem account_change_immediate:
  assumes "admin_ok d" "orders e" "parsePathID (rq_path request ''idUser'') = Some ident" "route = PostRoleChange \<or> route = DeleteAccountRoute"
    "d' = snd (serve_admin e e' route request d)" "d' \<noteq> d"
    "authenticatedUser (am_auth e1) request1 (auth_of d') = (Inr user :: admin_value sent + User)" "us_ID user = ident"
  shows "route = PostRoleChange
    \<and> (\<exists>body. decodeJSON request role_fields = Some body \<and> us_Role user = role_number (get_any body ''roleId'') \<and> us_Role user > 0)
    \<and> (us_Role user \<notin> {1, 2} \<longrightarrow> (\<forall>r \<in> account_routes. \<forall>e2. serve_admin e1 e2 r request1 d' = (([], forbidden), d')))"
proof -
  from authenticated_row [OF assms(7)] obtain s u where u: "u \<in> set (ad_users d')" "us_ID user = ur_id u" "us_Role user = ur_role u" .
  have no_deletion: "route \<noteq> DeleteAccountRoute"
  proof
    assume "route = DeleteAccountRoute"
    then have h: "d' = snd (HandleDeleteAccount e e' request d)" using assms(5) by simp
    from HandleDeleteAccount_change [OF _ assms(3), of e e' d] h assms(6) obtain actor where "d' = snd (RepoDeleteAccount e actor ident d)"
      by metis
    from deleted_account [OF this assms(6)] show False using u assms(8) by auto
  qed
  then have h: "d' = snd (HandleChangeAccountRole e e' request d)" using assms(4,5) by auto
  from HandleChangeAccountRole_change [OF _ assms(3), of e e' d] h assms(6) obtain actor body where c:
    "decodeJSON request role_fields = Some body" "role_number (get_any body ''roleId'') > 0"
    "d' = snd (RepoUpdateAccountRole e actor ident (role_number (get_any body ''roleId'')) d)" by metis
  have "us_Role user = role_number (get_any body ''roleId'')"
    using changed_role [OF assms(1,2) c(3) assms(6) u(1)] u(2,3) assms(8) by simp
  then show ?thesis using no_deletion assms(4) c(1,2) account_route_forbidden [OF _ assms(7)] by auto
qed

definition demote_request :: http_request where
  "demote_request = admin_request\<lparr>rq_path := (\<lambda>_. ''5''), rq_body := BDoc (JObj [(''roleId'', JNum 3)])\<rparr>"

theorem account_change_immediate_witness:
  "\<exists>user. authenticatedUser aenv0 admin_request (auth_of (snd (serve_admin menv0 menv0 PostRoleChange demote_request mdb0))) = (Inr user :: admin_value sent + User)
   \<and> us_ID user = 5 \<and> us_Role user = 3
   \<and> serve_admin menv0 menv0 GetAccounts admin_request (snd (serve_admin menv0 menv0 PostRoleChange demote_request mdb0))
     = (([], forbidden), snd (serve_admin menv0 menv0 PostRoleChange demote_request mdb0))"
proof -
  let ?d = "snd (serve_admin menv0 menv0 PostRoleChange demote_request mdb0)"
  have roles: "map ur_role (ad_users ?d) = [1, 3, 3, 3]" by code_simp
  have changed: "?d \<noteq> mdb0"
  proof
    assume same: "?d = mdb0"
    show False using roles unfolding same by (simp add: mdb0_def plain_user_def)
  qed
  have p: "parsePathID (rq_path demote_request ''idUser'') = Some 5" by code_simp
  obtain user where user: "authenticatedUser (am_auth menv0) admin_request (auth_of ?d) = (Inr user :: admin_value sent + User)" "us_ID user = 5" "us_Role user = 3"
  proof -
    have "(case authenticatedUser (am_auth menv0) admin_request (auth_of ?d) :: admin_value sent + User of
       Inl _ \<Rightarrow> False | Inr user \<Rightarrow> us_ID user = 5 \<and> us_Role user = 3)" by code_simp
    then show thesis using that by (auto split: sum.splits)
  qed
  have "am_auth menv0 = aenv0" by (simp add: menv0_def)
  then show ?thesis
    using account_change_immediate [OF admin_ok_mdb0 orders_menv0 p _ refl changed user(1,2)] user by (auto simp: account_routes_def)
qed

section \<open>Two replies that mislead\<close>

text \<open>The same name sent again within one second changes no row, and the account counts as missing.\<close>

lemma repeated_name_missing:
  assumes "admin_ok d" "\<forall>label. \<not> am_fails e label" "accountTarget e actor ident d = Inr a" "canManageAccount actor (ba_Role a) (ba_IDCostumer a)"
    "u \<in> set (ad_users d)" "ur_id u = ident" "ur_name u = name" "ad_updated d ident = Some (stamp e)"
  shows "fst (RepoUpdateAccount e actor ident name [] False d) = Inl ErrMissing"
proof -
  have "\<not> changes_user e (\<lambda>u. ur_id u = ident) (\<lambda>u. u\<lparr>ur_name := name\<rparr>) d"
    using same_row [OF assms(1) _ assms(5)] assms(6-8) by (force simp: changes_user_def list_ex_iff)
  then show ?thesis using assms(2-4) by (simp add: RepoUpdateAccount_def exec_users_def requireAffected_def)
qed

text \<open>The policy has no upper bound, so that a password which bcrypt refuses is a failure of the server.\<close>

lemma long_password_fails:
  "\<exists>password. length password > 72 \<and> passwordViolations password = []
   \<and> (\<forall>e actor a d. am_hash e password = None \<longrightarrow> creation_guard e actor a ''check browser account email'' d = None
        \<longrightarrow> RepoCreateAccount e actor a password d = (Inl (AdminFailure ''bcrypt''), d))"
proof -
  have "length (''Aa1!'' @ replicate 69 (CHR ''x'')) > 72 \<and> passwordViolations (''Aa1!'' @ replicate 69 (CHR ''x'')) = []" by code_simp
  then show ?thesis by (intro exI [of _ "''Aa1!'' @ replicate 69 (CHR ''x'')"]) (simp add: RepoCreateAccount_def)
qed

end
