(* ===== verification/ArtifactLifecycle.thy ===== *)
theory ArtifactLifecycle
  imports Accounts
begin

text \<open>
  Artifact descriptors: the repository calls of internal/persistence/mysql/browser_auth.go that register,
  read and change them, and the handlers of internal/browserauth/admin.go. A change reads a descriptor under
  a lock, decides on the next state and metadata, writes both with an audit row, and commits.
\<close>

section \<open>Tables\<close>

record artifact_row =
  ar_id :: int
  ar_tenant :: int
  ar_project :: int
  ar_cycle :: int
  ar_test :: "int option"
  ar_step :: "int option"
  ar_type :: string
  ar_name :: string
  ar_contentType :: string
  ar_size :: int
  ar_checksum :: string
  ar_storageKey :: string
  ar_state :: string
  ar_retention :: "instant option"
  ar_metadata :: "json option"
  ar_created :: "instant option"
  ar_updated :: "instant option"

text \<open>\<open>af_cycles\<close> holds the performed cycles, as tenant and identifier.\<close>

record artifact_db =
  af_rows :: "artifact_row list"
  af_audits :: "audit_event list"
  af_cycles :: "(int \<times> int) list"
  af_next :: int

datatype artifact_error = ArtifactMissing | ArtifactInvalid string string | ArtifactFailure string

definition artifact_is :: "int \<Rightarrow> int \<Rightarrow> int \<Rightarrow> int \<Rightarrow> artifact_row \<Rightarrow> bool" where
  "artifact_is tenant project cycle ident r \<longleftrightarrow> ar_id r = ident \<and> ar_tenant r = tenant \<and> ar_project r = project \<and> ar_cycle r = cycle"

section \<open>Reading\<close>

text \<open>A descriptor as it is sent: its metadata redacted.\<close>

definition scanArtifactDescriptor :: "artifact_row \<Rightarrow> artifact_row" where
  "scanArtifactDescriptor r = r\<lparr>ar_metadata := map_option Redact (ar_metadata r)\<rparr>"

definition ListArtifactDescriptors :: "admin_env \<Rightarrow> User \<Rightarrow> int \<Rightarrow> int \<Rightarrow> artifact_db \<Rightarrow> artifact_error + artifact_row list" where
  "ListArtifactDescriptors e actor project cycle d =
     (if am_fails e ''list browser artifact descriptors'' then Inl (ArtifactFailure ''list browser artifact descriptors'')
      else if am_fails e ''scan browser artifact descriptor'' then Inl (ArtifactFailure ''scan browser artifact descriptor'')
      else if am_fails e ''read browser artifact descriptors'' then Inl (ArtifactFailure ''read browser artifact descriptors'')
      else Inr (map scanArtifactDescriptor (sort_key (\<lambda>r. (ar_type r, ar_name r))
             (filter (\<lambda>r. ar_tenant r = ActiveTenant actor \<and> ar_project r = project \<and> ar_cycle r = cycle) (af_rows d)))))"

definition GetArtifactDescriptor :: "admin_env \<Rightarrow> User \<Rightarrow> int \<Rightarrow> int \<Rightarrow> int \<Rightarrow> artifact_db \<Rightarrow> artifact_error + artifact_row" where
  "GetArtifactDescriptor e actor project cycle ident d =
     (if am_fails e ''scan browser artifact descriptor'' then Inl (ArtifactFailure ''scan browser artifact descriptor'')
      else case find (artifact_is (ActiveTenant actor) project cycle ident) (af_rows d) of
             None \<Rightarrow> Inl ArtifactMissing | Some r \<Rightarrow> Inr (scanArtifactDescriptor r))"

section \<open>Registration\<close>

text \<open>\<open>rg_Metadata\<close>: absent, text that is no JSON, or a document.\<close>

record ArtifactDescriptorCreate =
  rg_IDProject :: int
  rg_PerformedTestCycleID :: int
  rg_PerformedTestID :: "int option"
  rg_PerformedStepID :: "int option"
  rg_ArtifactType :: string
  rg_Name :: string
  rg_ContentType :: string
  rg_SizeBytes :: int
  rg_ChecksumSHA256 :: string
  rg_StorageKey :: string
  rg_State :: string
  rg_RetentionUntil :: "instant option"
  rg_Metadata :: "json option option"
  rg_Now :: instant

definition isHex :: "string \<Rightarrow> bool" where
  "isHex s = list_all (\<lambda>c. let b = byte_of c in (48 \<le> b \<and> b \<le> 57) \<or> (97 \<le> b \<and> b \<le> 102) \<or> (65 \<le> b \<and> b \<le> 70)) s"

definition validateArtifactDescriptorCreate :: "ArtifactDescriptorCreate \<Rightarrow> artifact_error option" where
  "validateArtifactDescriptorCreate i =
     (if rg_IDProject i \<le> 0 \<or> rg_PerformedTestCycleID i \<le> 0 \<or> TrimSpace (rg_ArtifactType i) = [] \<or> TrimSpace (rg_Name i) = []
         \<or> TrimSpace (rg_ContentType i) = [] \<or> rg_SizeBytes i = 0 \<or> TrimSpace (rg_ChecksumSHA256 i) = [] \<or> TrimSpace (rg_StorageKey i) = []
      then Some (ArtifactFailure ''artifact descriptor fields are required'')
      else if length (rg_ChecksumSHA256 i) \<noteq> 64 \<or> \<not> isHex (rg_ChecksumSHA256 i)
      then Some (ArtifactFailure ''artifact descriptor checksum must be a SHA-256 hex digest'')
      else if rg_Metadata i = Some None then Some (ArtifactFailure ''artifact descriptor metadata must be valid JSON'')
      else None)"

definition registered_row :: "admin_env \<Rightarrow> User \<Rightarrow> ArtifactDescriptorCreate \<Rightarrow> int \<Rightarrow> artifact_row" where
  "registered_row e actor i ident =
     \<lparr>ar_id = ident, ar_tenant = ActiveTenant actor, ar_project = rg_IDProject i, ar_cycle = rg_PerformedTestCycleID i,
      ar_test = rg_PerformedTestID i, ar_step = rg_PerformedStepID i, ar_type = TrimSpace (rg_ArtifactType i), ar_name = TrimSpace (rg_Name i),
      ar_contentType = TrimSpace (rg_ContentType i), ar_size = rg_SizeBytes i, ar_checksum = ToLower (TrimSpace (rg_ChecksumSHA256 i)),
      ar_storageKey = TrimSpace (rg_StorageKey i), ar_state = (if rg_State i = [] then ''available'' else TrimSpace (rg_State i)),
      ar_retention = Some (am_column_time e (case rg_RetentionUntil i of None \<Rightarrow> rg_Now i + 30 * day_ns | Some t \<Rightarrow> t)),
      ar_metadata = (case rg_Metadata i of None \<Rightarrow> None | Some v \<Rightarrow> v),
      ar_created = Some (am_column_time e (rg_Now i)), ar_updated = Some (am_column_time e (rg_Now i))\<rparr>"

definition RegisterArtifactDescriptor :: "admin_env \<Rightarrow> User \<Rightarrow> ArtifactDescriptorCreate \<Rightarrow> artifact_db \<Rightarrow> (artifact_error + artifact_row) \<times> artifact_db" where
  "RegisterArtifactDescriptor e actor i d =
     (case validateArtifactDescriptorCreate i of
        Some x \<Rightarrow> (Inl x, d)
      | None \<Rightarrow>
          if am_fails e ''load browser result export run'' then (Inl (ArtifactFailure ''load browser result export run''), d)
          else if (ActiveTenant actor, rg_PerformedTestCycleID i) \<notin> set (af_cycles d) then (Inl ArtifactMissing, d)
          else if am_fails e ''register browser artifact descriptor'' then (Inl (ArtifactFailure ''register browser artifact descriptor''), d)
          else let d' = d\<lparr>af_rows := af_rows d @ [registered_row e actor i (af_next d)], af_next := af_next d + 1\<rparr>
               in if am_fails e ''read registered browser artifact descriptor id''
                  then (Inl (ArtifactFailure ''read registered browser artifact descriptor id''), d')
                  else (GetArtifactDescriptor e actor (rg_IDProject i) (rg_PerformedTestCycleID i) (af_next d) d', d'))"

section \<open>The lifecycle\<close>

record ArtifactLifecycleUpdate =
  al_ProjectID :: int
  al_PerformedTestCycleID :: int
  al_ArtifactDescriptorID :: int
  al_Enabled :: bool
  al_Reason :: "string option"
  al_RestoreBy :: "string option"
  al_Now :: instant

text \<open>
  \<open>artifactMetadataMap\<close>: the map into which the document is decoded, which is nil for \<open>null\<close> and empty
  for a document that is no object.
\<close>

definition artifactMetadataMap :: "json option \<Rightarrow> json" where
  "artifactMetadataMap metadata = (case metadata of Some (JObj m) \<Rightarrow> JObj m | Some JNull \<Rightarrow> JNull | _ \<Rightarrow> JObj [])"

definition cloneMap :: "json \<Rightarrow> jmap" where
  "cloneMap v = map_or_nil v"

definition nullableString :: "string option \<Rightarrow> json" where
  "nullableString v = (case v of None \<Rightarrow> JNull | Some s \<Rightarrow> JStr s)"

definition artifactLegalHoldEnabled :: "json option \<Rightarrow> bool" where
  "artifactLegalHoldEnabled metadata =
     (case as_map (mget (map_or_nil (artifactMetadataMap metadata)) ''legalHold'') of
        None \<Rightarrow> False
      | Some legalHold \<Rightarrow> mget legalHold ''enabled'' = JBool True)"

text \<open>A mutation: the values before and after, for the audit row, and the next state.\<close>

type_synonym mutation = "artifact_row \<Rightarrow> artifact_error + jmap \<times> jmap \<times> string"

definition legal_hold :: "ArtifactLifecycleUpdate \<Rightarrow> mutation" where
  "legal_hold input r =
     (let metadata = artifactMetadataMap (ar_metadata r);
          reason = (if al_Enabled input then nullableString (al_Reason input) else JNull);
          updated = AList.update ''legalHold'' (JObj [(''enabled'', JBool (al_Enabled input)), (''reason'', reason),
            (''changedAt'', JStr (formatRFC3339 (al_Now input)))]) (cloneMap metadata)
      in Inr ([(''metadata'', metadata)], [(''metadata'', JObj updated)], ar_state r))"

definition mark_deleted :: mutation where
  "mark_deleted r =
     (if artifactLegalHoldEnabled (ar_metadata r) then Inl (ArtifactInvalid ''artifact'' ''Artifact is under legal hold and cannot be deleted.'')
      else Inr ([(''state'', JStr (ar_state r))], [(''state'', JStr ''deleted'')], ''deleted''))"

definition archive :: "ArtifactLifecycleUpdate \<Rightarrow> mutation" where
  "archive input r =
     (if artifactLegalHoldEnabled (ar_metadata r) then Inl (ArtifactInvalid ''artifact'' ''Artifact is under legal hold and cannot be archived.'')
      else if ar_state r = ''deleted'' then Inl (ArtifactInvalid ''state'' ''Deleted artifacts cannot be archived.'')
      else let metadata = artifactMetadataMap (ar_metadata r);
               updated = AList.update ''archive'' (JObj [(''reason'', nullableString (al_Reason input)),
                 (''archivedAt'', JStr (formatRFC3339 (al_Now input))), (''restoreBy'', nullableString (al_RestoreBy input))]) (cloneMap metadata)
           in Inr ([(''state'', JStr (ar_state r)), (''metadata'', metadata)], [(''state'', JStr ''archived''), (''metadata'', JObj updated)], ''archived''))"

text \<open>
  \<open>cloneMap\<close> copies one level: the map under \<open>archive\<close> is shared between the values before and the values
  after, so that writing \<open>restoredAt\<close> into it changes both.
\<close>

definition restore :: "ArtifactLifecycleUpdate \<Rightarrow> mutation" where
  "restore input r =
     (if ar_state r \<noteq> ''archived'' then Inl (ArtifactInvalid ''state'' ''Only archived artifacts can be restored.'')
      else let metadata = artifactMetadataMap (ar_metadata r);
               stored = as_map (mget (cloneMap metadata) ''archive'');
               written = JObj (AList.update ''restoredAt'' (JStr (formatRFC3339 (al_Now input))) (case stored of None \<Rightarrow> [] | Some m \<Rightarrow> m));
               updated = JObj (AList.update ''archive'' written (cloneMap metadata));
               shared = (case stored of None \<Rightarrow> metadata | Some _ \<Rightarrow> updated)
           in Inr ([(''state'', JStr (ar_state r)), (''metadata'', shared)], [(''state'', JStr ''available''), (''metadata'', updated)], ''available''))"

definition artifact_audit :: "admin_env \<Rightarrow> http_request \<Rightarrow> User \<Rightarrow> artifact_row \<Rightarrow> string \<Rightarrow> jmap \<Rightarrow> jmap \<Rightarrow> audit_event" where
  "artifact_audit e request actor r action before after =
     \<lparr>e_actorUser = Some (us_ID actor), e_actorTenant = us_TenantID actor, e_activeTenant = ActiveTenant actor, e_project = ar_project r,
      e_action = action, e_target = ar_id r, e_before = Some (Redact (JObj before)), e_after = Some (Redact (JObj after)), e_result = ''success'',
      e_sourceIp = rq_sourceIP request,
      e_correlation = (if rq_header request ''X-Correlation-ID'' \<noteq> [] then rq_header request ''X-Correlation-ID'' else randomUUID e)\<rparr>"

definition updateArtifactLifecycle ::
  "admin_env \<Rightarrow> http_request \<Rightarrow> User \<Rightarrow> ArtifactLifecycleUpdate \<Rightarrow> string \<Rightarrow> mutation \<Rightarrow> artifact_db \<Rightarrow> (artifact_error + artifact_row) \<times> artifact_db" where
  "updateArtifactLifecycle e request actor input action mutate d =
     (let fail = (\<lambda>label. (Inl (ArtifactFailure label), d));
          key = artifact_is (ActiveTenant actor) (al_ProjectID input) (al_PerformedTestCycleID input) (al_ArtifactDescriptorID input)
      in if am_fails e ''start browser artifact lifecycle update'' then fail ''start browser artifact lifecycle update''
         else if am_fails e ''scan browser artifact descriptor'' then fail ''scan browser artifact descriptor''
         else (case find key (af_rows d) of
           None \<Rightarrow> (Inl ArtifactMissing, d)
         | Some r \<Rightarrow> (case mutate r of
             Inl x \<Rightarrow> (Inl x, d)
           | Inr (before, after, nextState) \<Rightarrow>
               let metadata = (case as_map (mget after ''metadata'') of Some m \<Rightarrow> Some (JObj m) | None \<Rightarrow> ar_metadata r);
                   d' = d\<lparr>af_rows := upd_rows key (\<lambda>r. r\<lparr>ar_state := (if nextState = [] then ar_state r else nextState), ar_metadata := metadata,
                            ar_updated := Some (am_column_time e (al_Now input))\<rparr>) (af_rows d),
                          af_audits := af_audits d @ [artifact_audit e request actor r action before after]\<rparr>
               in if am_fails e ''update browser artifact lifecycle'' then fail ''update browser artifact lifecycle''
                  else if am_fails e ''record browser artifact lifecycle audit'' then fail ''record browser artifact lifecycle audit''
                  else if am_fails e ''commit browser artifact lifecycle update'' then fail ''commit browser artifact lifecycle update''
                  else (GetArtifactDescriptor e actor (al_ProjectID input) (al_PerformedTestCycleID input) (al_ArtifactDescriptorID input) d', d'))))"

definition RepoSetArtifactLegalHold :: "admin_env \<Rightarrow> http_request \<Rightarrow> User \<Rightarrow> ArtifactLifecycleUpdate \<Rightarrow> artifact_db \<Rightarrow> (artifact_error + artifact_row) \<times> artifact_db" where
  "RepoSetArtifactLegalHold e request actor input = updateArtifactLifecycle e request actor input ''artifact.legal_hold'' (legal_hold input)"

definition RepoMarkArtifactDeleted :: "admin_env \<Rightarrow> http_request \<Rightarrow> User \<Rightarrow> ArtifactLifecycleUpdate \<Rightarrow> artifact_db \<Rightarrow> (artifact_error + artifact_row) \<times> artifact_db" where
  "RepoMarkArtifactDeleted e request actor input = updateArtifactLifecycle e request actor input ''artifact.mark_deleted'' mark_deleted"

definition RepoArchiveArtifact :: "admin_env \<Rightarrow> http_request \<Rightarrow> User \<Rightarrow> ArtifactLifecycleUpdate \<Rightarrow> artifact_db \<Rightarrow> (artifact_error + artifact_row) \<times> artifact_db" where
  "RepoArchiveArtifact e request actor input = updateArtifactLifecycle e request actor input ''artifact.archive'' (archive input)"

definition RepoRestoreArtifact :: "admin_env \<Rightarrow> http_request \<Rightarrow> User \<Rightarrow> ArtifactLifecycleUpdate \<Rightarrow> artifact_db \<Rightarrow> (artifact_error + artifact_row) \<times> artifact_db" where
  "RepoRestoreArtifact e request actor input = updateArtifactLifecycle e request actor input ''artifact.restore'' (restore input)"

section \<open>The handlers\<close>

datatype artifact_value = ArtifactRows "artifact_row list" | ArtifactData artifact_row

definition parseProjectPerformedCyclePath :: "http_request \<Rightarrow> (int \<times> int) option" where
  "parseProjectPerformedCyclePath request =
     (case (parsePathID (rq_path request ''idProject''), parsePathID (rq_path request ''performedTestCycleId'')) of
        (Some project, Some cycle) \<Rightarrow> Some (project, cycle) | _ \<Rightarrow> None)"

definition HandleArtifactDescriptors :: "admin_env \<Rightarrow> http_request \<Rightarrow> auth_db \<Rightarrow> artifact_db \<Rightarrow> artifact_value sent" where
  "HandleArtifactDescriptors e request a d =
     (case requireCapability (am_auth e) request a ''artifacts.read'' of
        Inl s \<Rightarrow> s
      | Inr user \<Rightarrow> (case parseProjectPerformedCyclePath request of
          None \<Rightarrow> ([], notFound)
        | Some (project, cycle) \<Rightarrow> (case ListArtifactDescriptors e user project cycle d of
            Inl _ \<Rightarrow> ([], internalError)
          | Inr rows \<Rightarrow> ([], Value 200 (ArtifactRows rows)))))"

definition HandleShowArtifact :: "admin_env \<Rightarrow> http_request \<Rightarrow> auth_db \<Rightarrow> artifact_db \<Rightarrow> artifact_value sent" where
  "HandleShowArtifact e request a d =
     (case requireCapability (am_auth e) request a ''artifacts.read'' of
        Inl s \<Rightarrow> s
      | Inr user \<Rightarrow> (case parseProjectPerformedCyclePath request of
          None \<Rightarrow> ([], notFound)
        | Some (project, cycle) \<Rightarrow> (case parsePathID (rq_path request ''artifactDescriptor'') of
            None \<Rightarrow> ([], notFound)
          | Some ident \<Rightarrow> (case GetArtifactDescriptor e user project cycle ident d of
              Inl ArtifactMissing \<Rightarrow> ([], notFound)
            | Inl _ \<Rightarrow> ([], internalError)
            | Inr r \<Rightarrow> ([], Value 200 (ArtifactData r))))))"

definition artifactLifecycleInput :: "admin_env \<Rightarrow> http_request \<Rightarrow> auth_db \<Rightarrow> artifact_value sent + User \<times> ArtifactLifecycleUpdate" where
  "artifactLifecycleInput e request a =
     (case requireCapability (am_auth e) request a ''artifacts.manage'' of
        Inl s \<Rightarrow> Inl s
      | Inr user \<Rightarrow> (case parseProjectPerformedCyclePath request of
          None \<Rightarrow> Inl ([], notFound)
        | Some (project, cycle) \<Rightarrow> (case parsePathID (rq_path request ''artifactDescriptor'') of
            None \<Rightarrow> Inl ([], notFound)
          | Some ident \<Rightarrow> Inr (user, \<lparr>al_ProjectID = project, al_PerformedTestCycleID = cycle, al_ArtifactDescriptorID = ident,
              al_Enabled = False, al_Reason = None, al_RestoreBy = None, al_Now = am_now e\<rparr>))))"

definition writeArtifactLifecycleResult :: "(artifact_error + artifact_row) \<times> artifact_db \<Rightarrow> artifact_value sent \<times> artifact_db" where
  "writeArtifactLifecycleResult outcome =
     (([], case fst outcome of
         Inl ArtifactMissing \<Rightarrow> notFound
       | Inl (ArtifactInvalid field message) \<Rightarrow> validationError field message
       | Inl (ArtifactFailure _) \<Rightarrow> internalError
       | Inr r \<Rightarrow> Value 200 (ArtifactData r)), snd outcome)"

definition get_text :: "decoded \<Rightarrow> string \<Rightarrow> string option" where
  "get_text body name = (case body name of Some (JStr s) \<Rightarrow> Some (TrimSpace s) | _ \<Rightarrow> None)"

definition HandleSetLegalHold :: "admin_env \<Rightarrow> http_request \<Rightarrow> auth_db \<Rightarrow> artifact_db \<Rightarrow> artifact_value sent \<times> artifact_db" where
  "HandleSetLegalHold e request a d =
     (case artifactLifecycleInput e request a of
        Inl s \<Rightarrow> (s, d)
      | Inr (user, input) \<Rightarrow> (case decodeJSON request [(''enabled'', KBoolPtr), (''reason'', KStrPtr)] of
          None \<Rightarrow> (([], validationError ''enabled'' ''The enabled field is required.''), d)
        | Some body \<Rightarrow> (case get_boolptr body ''enabled'' of
            None \<Rightarrow> (([], validationError ''enabled'' ''The enabled field is required.''), d)
          | Some enabled \<Rightarrow> writeArtifactLifecycleResult
              (RepoSetArtifactLegalHold e request user (input\<lparr>al_Enabled := enabled, al_Reason := get_text body ''reason''\<rparr>) d))))"

definition HandleMarkDeleted :: "admin_env \<Rightarrow> http_request \<Rightarrow> auth_db \<Rightarrow> artifact_db \<Rightarrow> artifact_value sent \<times> artifact_db" where
  "HandleMarkDeleted e request a d =
     (case artifactLifecycleInput e request a of
        Inl s \<Rightarrow> (s, d)
      | Inr (user, input) \<Rightarrow> writeArtifactLifecycleResult (RepoMarkArtifactDeleted e request user input d))"

text \<open>\<open>request.ContentLength\<close>: unknown when the body is chunked, zero without a header.\<close>

definition content_length :: "http_request \<Rightarrow> int" where
  "content_length request =
     (if rq_header request ''Transfer-Encoding'' \<noteq> [] then - 1
      else case ParseInt (rq_header request ''Content-Length'') of None \<Rightarrow> 0 | Some n \<Rightarrow> n)"

definition archive_body :: "http_request \<Rightarrow> decoded option" where
  "archive_body request =
     (if content_length request = 0 then Some Map.empty else decodeJSON request [(''reason'', KStrPtr), (''restoreBy'', KStrPtr)])"

definition HandleArchive :: "admin_env \<Rightarrow> http_request \<Rightarrow> auth_db \<Rightarrow> artifact_db \<Rightarrow> artifact_value sent \<times> artifact_db" where
  "HandleArchive e request a d =
     (case artifactLifecycleInput e request a of
        Inl s \<Rightarrow> (s, d)
      | Inr (user, input) \<Rightarrow> (case archive_body request of
          None \<Rightarrow> (([], validationError ''payload'' ''The request payload is invalid.''), d)
        | Some body \<Rightarrow> writeArtifactLifecycleResult
            (RepoArchiveArtifact e request user (input\<lparr>al_Reason := get_text body ''reason'', al_RestoreBy := get_text body ''restoreBy''\<rparr>) d)))"

definition HandleRestore :: "admin_env \<Rightarrow> http_request \<Rightarrow> auth_db \<Rightarrow> artifact_db \<Rightarrow> artifact_value sent \<times> artifact_db" where
  "HandleRestore e request a d =
     (case artifactLifecycleInput e request a of
        Inl s \<Rightarrow> (s, d)
      | Inr (user, input) \<Rightarrow> writeArtifactLifecycleResult (RepoRestoreArtifact e request user input d))"

datatype artifact_route = GetArtifacts | GetArtifact | PostArchive | PostDeleteMarker | PutLegalHold | PostRestore

fun serve_artifact :: "admin_env \<Rightarrow> artifact_route \<Rightarrow> http_request \<Rightarrow> auth_db \<Rightarrow> artifact_db \<Rightarrow> artifact_value sent \<times> artifact_db" where
  "serve_artifact e GetArtifacts request a d = (HandleArtifactDescriptors e request a d, d)"
| "serve_artifact e GetArtifact request a d = (HandleShowArtifact e request a d, d)"
| "serve_artifact e PostArchive request a d = HandleArchive e request a d"
| "serve_artifact e PostDeleteMarker request a d = HandleMarkDeleted e request a d"
| "serve_artifact e PutLegalHold request a d = HandleSetLegalHold e request a d"
| "serve_artifact e PostRestore request a d = HandleRestore e request a d"

end
