(* ===== verification/ArtifactProps.thy ===== *)
theory ArtifactProps
  imports ArtifactLifecycle AccountProps
begin

text \<open>
  Properties of the artifact lifecycle over sequences of requests, as instances of the locale \<open>guarded_trace\<close>:
  a legal hold keeps an artifact from deletion and archiving until it is released, and a deleted artifact
  stays deleted.
\<close>

named_theorems lifecycle \<open>metadata and states after a mutation\<close>

section \<open>One mutation\<close>

lemma legal_hold_stored [lifecycle]:
  "artifactLegalHoldEnabled (Some (JObj (AList.update ''legalHold'' (JObj [(''enabled'', JBool b), (''reason'', x), (''changedAt'', y)]) m))) = b"
  by (simp add: artifactLegalHoldEnabled_def artifactMetadataMap_def mget_def map_of_update map_or_nil_def as_map_def)

lemma other_key_kept [lifecycle]:
  "artifactLegalHoldEnabled (Some (JObj (AList.update ''archive'' v (cloneMap (artifactMetadataMap metadata))))) = artifactLegalHoldEnabled metadata"
  by (simp add: artifactLegalHoldEnabled_def artifactMetadataMap_def mget_def map_of_update map_or_nil_def as_map_def cloneMap_def
      split: option.split json.split)

text \<open>The metadata that a mutation leads to, as the update computes it.\<close>

definition next_metadata :: "artifact_row \<Rightarrow> jmap \<Rightarrow> json option" where
  "next_metadata r after = (case as_map (mget after ''metadata'') of Some m \<Rightarrow> Some (JObj m) | None \<Rightarrow> ar_metadata r)"

lemma held_mutations:
  assumes "artifactLegalHoldEnabled (ar_metadata r)"
  shows "mark_deleted r \<noteq> Inr y" "archive input r \<noteq> Inr y"
    "legal_hold input r = Inr (before, after, s) \<Longrightarrow> s = ar_state r \<and> artifactLegalHoldEnabled (next_metadata r after) = al_Enabled input"
    "restore input r = Inr (before, after, s) \<Longrightarrow> ar_state r = ''archived'' \<and> s = ''available'' \<and> artifactLegalHoldEnabled (next_metadata r after)"
  using assms
  by (auto simp: mark_deleted_def archive_def legal_hold_def restore_def next_metadata_def Let_def lifecycle mget_def as_map_def split: if_splits)

lemma deleted_mutations:
  assumes "ar_state r = ''deleted''"
  shows "archive input r \<noteq> Inr y" "restore input r \<noteq> Inr y"
    "legal_hold input r = Inr (before, after, s) \<Longrightarrow> s = ''deleted''" "mark_deleted r = Inr (before, after, s) \<Longrightarrow> s = ''deleted''"
  using assms by (auto simp: mark_deleted_def archive_def legal_hold_def restore_def Let_def split: if_splits)

section \<open>One request\<close>

definition artifacts_ok :: "artifact_db \<Rightarrow> bool" where
  "artifacts_ok d \<longleftrightarrow> distinct (map ar_id (af_rows d))"

text \<open>What no lifecycle request changes of a descriptor.\<close>

definition artifact_core :: "artifact_row \<Rightarrow> artifact_row" where
  "artifact_core r = r\<lparr>ar_state := [], ar_metadata := None, ar_updated := None\<rparr>"

lemma lifecycle_core: "map artifact_core (af_rows (snd (updateArtifactLifecycle e request actor input action mutate d))) = map artifact_core (af_rows d)"
  by (auto simp: updateArtifactLifecycle_def Let_def upd_rows_def artifact_core_def split: option.split sum.split)

lemma core_ids: "map artifact_core rows' = map artifact_core rows \<Longrightarrow> map ar_id rows' = map ar_id rows"
proof -
  assume "map artifact_core rows' = map artifact_core rows"
  then have "map (ar_id \<circ> artifact_core) rows' = map (ar_id \<circ> artifact_core) rows" by (simp flip: map_map)
  moreover have "ar_id \<circ> artifact_core = ar_id" by (auto simp: artifact_core_def)
  ultimately show ?thesis by simp
qed

text \<open>A request leaves the tables, or writes what the mutation makes of the row it addresses.\<close>

abbreviation addressed :: "User \<Rightarrow> ArtifactLifecycleUpdate \<Rightarrow> artifact_row \<Rightarrow> bool" where
  "addressed actor input \<equiv> artifact_is (ActiveTenant actor) (al_ProjectID input) (al_PerformedTestCycleID input) (al_ArtifactDescriptorID input)"

lemma lifecycle_cases:
  "snd (updateArtifactLifecycle e request actor input action mutate d) = d
   \<or> (\<exists>q before after s. find (addressed actor input) (af_rows d) = Some q \<and> mutate q = Inr (before, after, s)
      \<and> af_rows (snd (updateArtifactLifecycle e request actor input action mutate d))
        = upd_rows (addressed actor input) (\<lambda>r. r\<lparr>ar_state := (if s = [] then ar_state r else s), ar_metadata := next_metadata q after,
            ar_updated := Some (am_column_time e (al_Now input))\<rparr>) (af_rows d))"
proof (cases "find (addressed actor input) (af_rows d)")
  case (Some q)
  show ?thesis
  proof (cases "mutate q")
    case (Inr t)
    obtain before after s where "t = (before, after, s)" by (cases t)
    then show ?thesis using Some Inr by (simp add: updateArtifactLifecycle_def Let_def next_metadata_def)
  qed (simp add: updateArtifactLifecycle_def Let_def Some)
qed (simp add: updateArtifactLifecycle_def Let_def)

text \<open>A row after a request is the row before it, or what the mutation makes of it.\<close>

lemma lifecycle_row:
  assumes "artifacts_ok d" "r \<in> set (af_rows d)"
  obtains "r \<in> set (af_rows (snd (updateArtifactLifecycle e request actor input action mutate d)))"
  | r' before after s where "r' \<in> set (af_rows (snd (updateArtifactLifecycle e request actor input action mutate d)))"
      "al_ArtifactDescriptorID input = ar_id r" "mutate r = Inr (before, after, s)" "ar_id r' = ar_id r"
      "ar_state r' = (if s = [] then ar_state r else s)" "ar_metadata r' = next_metadata r after"
proof -
  let ?d = "snd (updateArtifactLifecycle e request actor input action mutate d)"
  consider "?d = d" | q before after s where "find (addressed actor input) (af_rows d) = Some q" "mutate q = Inr (before, after, s)"
      "af_rows ?d = upd_rows (addressed actor input) (\<lambda>r. r\<lparr>ar_state := (if s = [] then ar_state r else s), ar_metadata := next_metadata q after,
         ar_updated := Some (am_column_time e (al_Now input))\<rparr>) (af_rows d)"
    using lifecycle_cases [of e request actor input action mutate d] by blast
  then show thesis
  proof cases
    case 1
    then show thesis using that(1) assms(2) by simp
  next
    case (2 q before after s)
    have q: "q \<in> set (af_rows d)" "addressed actor input q" using find_SomeD [OF 2(1)] by auto
    show thesis
    proof (cases "addressed actor input r")
      case True
      then have "q = r" using q assms by (auto simp: artifact_is_def artifacts_ok_def distinct_map inj_on_def)
      moreover have "al_ArtifactDescriptorID input = ar_id r" using True by (simp add: artifact_is_def)
      moreover let ?r = "r\<lparr>ar_state := (if s = [] then ar_state r else s), ar_metadata := next_metadata q after,
         ar_updated := Some (am_column_time e (al_Now input))\<rparr>"
      have "?r \<in> set (af_rows ?d)" using True assms(2) by (force simp: 2(3) set_upd_rows)
      ultimately show thesis using that(2) [of ?r] 2(2) by simp
    next
      case False
      then have "r \<in> set (af_rows ?d)" using assms(2) by (force simp: 2(3) set_upd_rows)
      then show thesis by (rule that(1))
    qed
  qed
qed

section \<open>Sequences of requests\<close>

type_synonym artifact_call = "admin_env \<times> artifact_route \<times> http_request \<times> auth_db"

definition artifact_step :: "artifact_call \<Rightarrow> artifact_db \<Rightarrow> artifact_db" where
  "artifact_step = (\<lambda>(e, route, request, a) d. snd (serve_artifact e route request a d))"

text \<open>The request that releases the hold of an artifact.\<close>

definition releases :: "int \<Rightarrow> artifact_call \<Rightarrow> bool" where
  "releases ident = (\<lambda>(e, route, request, a). route = PutLegalHold \<and> parsePathID (rq_path request ''artifactDescriptor'') = Some ident
     \<and> (case decodeJSON request [(''enabled'', KBoolPtr), (''reason'', KStrPtr)] of
          None \<Rightarrow> False | Some body \<Rightarrow> get_boolptr body ''enabled'' = Some False))"

text \<open>A request is nothing or one update of the repository, by one of the four mutations.\<close>

definition made_by :: "artifact_call \<Rightarrow> ArtifactLifecycleUpdate \<Rightarrow> mutation \<Rightarrow> bool" where
  "made_by c input mutate \<longleftrightarrow> mutate = mark_deleted \<or> mutate = archive input \<or> mutate = restore input
     \<or> mutate = legal_hold input \<and> (al_Enabled input \<or> releases (al_ArtifactDescriptorID input) c)"

lemma artifact_input_id: "artifactLifecycleInput e request a = Inr (user, input) \<Longrightarrow> parsePathID (rq_path request ''artifactDescriptor'') = Some (al_ArtifactDescriptorID input)"
  by (auto simp: artifactLifecycleInput_def split: sum.splits option.splits)

lemma artifact_step_cases:
  assumes "c = (e, route, request, a)"
  obtains "artifact_step c d = d"
  | user input action mutate where "artifact_step c d = snd (updateArtifactLifecycle e request user input action mutate d)"
      "made_by c input mutate"
proof -
  have hold: "al_Enabled (input\<lparr>al_Enabled := b, al_Reason := t\<rparr>) \<or> releases (al_ArtifactDescriptorID (input\<lparr>al_Enabled := b, al_Reason := t\<rparr>)) c"
    if "artifactLifecycleInput e request a = Inr (user, input)" "decodeJSON request [(''enabled'', KBoolPtr), (''reason'', KStrPtr)] = Some body"
      "get_boolptr body ''enabled'' = Some b" "route = PutLegalHold" for user input body b t
    using that artifact_input_id [OF that(1)] by (cases b) (auto simp: releases_def assms)
  show thesis
  proof (cases "artifactLifecycleInput e request a")
    case (Inl s)
    then show thesis using that(1)
      by (cases route) (auto simp: artifact_step_def assms HandleArchive_def HandleMarkDeleted_def HandleSetLegalHold_def HandleRestore_def)
  next
    case (Inr ui)
    obtain user input where ui: "artifactLifecycleInput e request a = Inr (user, input)" using Inr by (cases ui) auto
    note defs = artifact_step_def assms writeArtifactLifecycleResult_def made_by_def
    show thesis
    proof (cases route)
      case PostArchive
      then show thesis using that ui
        by (cases "archive_body request") (auto simp: defs HandleArchive_def RepoArchiveArtifact_def)
    next
      case PostDeleteMarker
      then show thesis using that(2) ui by (auto simp: defs HandleMarkDeleted_def RepoMarkArtifactDeleted_def)
    next
      case PutLegalHold
      show thesis
      proof (cases "\<exists>body b. decodeJSON request [(''enabled'', KBoolPtr), (''reason'', KStrPtr)] = Some body \<and> get_boolptr body ''enabled'' = Some b")
        case True
        then obtain body b where b: "decodeJSON request [(''enabled'', KBoolPtr), (''reason'', KStrPtr)] = Some body" "get_boolptr body ''enabled'' = Some b"
          by blast
        then show thesis using that(2) hold [OF ui b PutLegalHold] ui PutLegalHold
          by (simp add: defs HandleSetLegalHold_def RepoSetArtifactLegalHold_def)
      next
        case False
        then have "artifact_step c d = d" using ui PutLegalHold
          by (auto simp: defs HandleSetLegalHold_def split: option.split)
        then show thesis by (rule that(1))
      qed
    next
      case PostRestore
      then show thesis using that(2) ui by (auto simp: defs HandleRestore_def RepoRestoreArtifact_def)
    qed (use that(1) in \<open>auto simp: artifact_step_def assms\<close>)
  qed
qed

lemma artifact_step_core: "map artifact_core (af_rows (artifact_step c d)) = map artifact_core (af_rows d)"
proof -
  obtain e route request a where "c = (e, route, request, a)" by (cases c)
  then show ?thesis by (rule artifact_step_cases [of c e route request a d]) (simp_all add: lifecycle_core)
qed

lemma artifact_step_ok: "artifacts_ok d \<Longrightarrow> artifacts_ok (artifact_step c d)"
  using core_ids [OF artifact_step_core, of c d] by (simp add: artifacts_ok_def)

text \<open>The two invariants: an artifact under legal hold, and a deleted one.\<close>

definition held_inv :: "int \<Rightarrow> string \<Rightarrow> artifact_db \<Rightarrow> bool" where
  "held_inv ident s d \<longleftrightarrow> artifacts_ok d \<and> (\<exists>r \<in> set (af_rows d). ar_id r = ident \<and> artifactLegalHoldEnabled (ar_metadata r)
     \<and> (ar_state r = s \<or> s = ''archived'' \<and> ar_state r = ''available''))"

definition deleted_inv :: "int \<Rightarrow> artifact_db \<Rightarrow> bool" where
  "deleted_inv ident d \<longleftrightarrow> artifacts_ok d \<and> (\<exists>r \<in> set (af_rows d). ar_id r = ident \<and> ar_state r = ''deleted'')"

text \<open>A property of a row that the mutations keep is kept by a request.\<close>

lemma artifact_step_row:
  assumes "artifacts_ok d" "r \<in> set (af_rows d)" "P r"
    and kept: "\<And>input mutate before after t r'. made_by c input mutate \<Longrightarrow> al_ArtifactDescriptorID input = ar_id r \<Longrightarrow> mutate r = Inr (before, after, t) \<Longrightarrow>
      ar_state r' = (if t = [] then ar_state r else t) \<Longrightarrow> ar_metadata r' = next_metadata r after \<Longrightarrow> P r'"
  shows "\<exists>r' \<in> set (af_rows (artifact_step c d)). ar_id r' = ar_id r \<and> P r'"
proof -
  obtain e route request a where c: "c = (e, route, request, a)" by (cases c)
  show ?thesis
  proof (rule artifact_step_cases [OF c, of d])
    assume "artifact_step c d = d"
    then show ?thesis using assms(2,3) by auto
  next
    fix user input action mutate
    assume step: "artifact_step c d = snd (updateArtifactLifecycle e request user input action mutate d)" and m: "made_by c input mutate"
    show ?thesis unfolding step
    proof (rule lifecycle_row [OF assms(1,2), of e request user input action mutate])
      assume "r \<in> set (af_rows (snd (updateArtifactLifecycle e request user input action mutate d)))"
      then show "\<exists>r' \<in> set (af_rows (snd (updateArtifactLifecycle e request user input action mutate d))). ar_id r' = ar_id r \<and> P r'"
        using assms(3) by blast
    next
      fix r' before after t
      assume r': "r' \<in> set (af_rows (snd (updateArtifactLifecycle e request user input action mutate d)))"
        "al_ArtifactDescriptorID input = ar_id r" "mutate r = Inr (before, after, t)" "ar_id r' = ar_id r"
        "ar_state r' = (if t = [] then ar_state r else t)" "ar_metadata r' = next_metadata r after"
      then show "\<exists>r' \<in> set (af_rows (snd (updateArtifactLifecycle e request user input action mutate d))). ar_id r' = ar_id r \<and> P r'"
        using kept [OF m r'(2,3,5,6)] by blast
    qed
  qed
qed

lemma held_kept:
  assumes "artifactLegalHoldEnabled (ar_metadata r)" "made_by c input mutate" "\<not> releases (ar_id r) c" "al_ArtifactDescriptorID input = ar_id r"
    "mutate r = Inr (before, after, t)" "ar_state r' = (if t = [] then ar_state r else t)" "ar_metadata r' = next_metadata r after"
  shows "artifactLegalHoldEnabled (ar_metadata r') \<and> (ar_state r' = ar_state r \<or> ar_state r = ''archived'' \<and> ar_state r' = ''available'')"
  using assms held_mutations [OF assms(1)] by (auto simp: made_by_def)

lemma held_step:
  assumes "\<not> releases ident c" "held_inv ident s d"
  shows "held_inv ident s (artifact_step c d)"
proof -
  from assms(2) obtain r where r: "artifacts_ok d" "r \<in> set (af_rows d)" "ar_id r = ident" "artifactLegalHoldEnabled (ar_metadata r)"
    "ar_state r = s \<or> s = ''archived'' \<and> ar_state r = ''available''" by (auto simp: held_inv_def)
  have "\<exists>r' \<in> set (af_rows (artifact_step c d)). ar_id r' = ar_id r
      \<and> artifactLegalHoldEnabled (ar_metadata r') \<and> (ar_state r' = ar_state r \<or> ar_state r = ''archived'' \<and> ar_state r' = ''available'')"
  proof (rule artifact_step_row [OF r(1,2)])
    show "artifactLegalHoldEnabled (ar_metadata r) \<and> (ar_state r = ar_state r \<or> ar_state r = ''archived'' \<and> ar_state r = ''available'')"
      using r(4) by simp
  qed (use held_kept [OF r(4)] assms(1) r(3) in blast)
  then show ?thesis using artifact_step_ok [OF r(1)] r(3,5) by (auto simp: held_inv_def)
qed

lemma deleted_step:
  assumes "deleted_inv ident d"
  shows "deleted_inv ident (artifact_step c d)"
proof -
  from assms obtain r where r: "artifacts_ok d" "r \<in> set (af_rows d)" "ar_id r = ident" "ar_state r = ''deleted''"
    by (auto simp: deleted_inv_def)
  have "\<exists>r' \<in> set (af_rows (artifact_step c d)). ar_id r' = ar_id r \<and> ar_state r' = ''deleted''"
    by (rule artifact_step_row [OF r(1,2)]) (use r(4) deleted_mutations [OF r(4)] in \<open>auto simp: made_by_def\<close>)
  then show ?thesis using artifact_step_ok [OF r(1)] r(3) by (auto simp: deleted_inv_def)
qed

interpretation hold_trace: guarded_trace artifact_step "\<lambda>c. \<not> releases ident c" "held_inv ident s" "\<lambda>d. map artifact_core (af_rows d)" for ident s
  by unfold_locales (simp_all add: held_step artifact_step_core)

interpretation deletion_trace: guarded_trace artifact_step "\<lambda>_. True" "deleted_inv ident" "\<lambda>d. map artifact_core (af_rows d)" for ident
  by unfold_locales (simp_all add: deleted_step artifact_step_core)

text \<open>
  C15. A legal hold holds. Whatever requests of whichever users follow, as long as none of them sets the legal
  hold of that artifact to false, an artifact under legal hold stays under it and is neither deleted nor
  archived: its state is the one it had, or available when it was archived and was restored. What the descriptor
  says of the stored object is not changed by any lifecycle request.
\<close>

theorem legal_hold_protects:
  assumes "artifacts_ok d" "r \<in> set (af_rows d)" "artifactLegalHoldEnabled (ar_metadata r)" "\<forall>c \<in> set calls. \<not> releases (ar_id r) c"
    "d' = fold artifact_step calls d"
  shows "(\<exists>r' \<in> set (af_rows d'). ar_id r' = ar_id r \<and> artifactLegalHoldEnabled (ar_metadata r')
      \<and> (ar_state r' = ar_state r \<or> ar_state r = ''archived'' \<and> ar_state r' = ''available''))
    \<and> map artifact_core (af_rows d') = map artifact_core (af_rows d)"
proof -
  have "held_inv (ar_id r) (ar_state r) d" using assms(1-3) by (auto simp: held_inv_def)
  from hold_trace.trace_kept [OF assms(4) this] show ?thesis unfolding assms(5) by (auto simp: held_inv_def)
qed

definition artifact0 :: artifact_row where
  "artifact0 = \<lparr>ar_id = 6, ar_tenant = 2, ar_project = 6, ar_cycle = 6, ar_test = None, ar_step = None, ar_type = ''log'', ar_name = ''n'',
     ar_contentType = ''text/plain'', ar_size = 1, ar_checksum = [], ar_storageKey = ''k'', ar_state = ''available'', ar_retention = None,
     ar_metadata = Some (JObj [(''legalHold'', JObj [(''enabled'', JBool True)])]), ar_created = None, ar_updated = None\<rparr>"

definition fdb0 :: artifact_db where
  "fdb0 = \<lparr>af_rows = [artifact0], af_audits = [], af_cycles = [(2, 6)], af_next = 7\<rparr>"

definition delete_call :: artifact_call where
  "delete_call = (menv0, PostDeleteMarker, admin_request, auth_of mdb0)"

theorem legal_hold_protects_witness:
  "http_status (snd (fst (serve_artifact menv0 PostDeleteMarker admin_request (auth_of mdb0) fdb0))) = 422
   \<and> (\<exists>r \<in> set (af_rows (fold artifact_step [delete_call] fdb0)). ar_id r = 6 \<and> ar_state r = ''available'')"
proof -
  have "artifacts_ok fdb0" by (simp add: artifacts_ok_def fdb0_def)
  moreover have "artifact0 \<in> set (af_rows fdb0)" by (simp add: fdb0_def)
  moreover have "artifactLegalHoldEnabled (ar_metadata artifact0)" by code_simp
  moreover have "\<forall>c \<in> set [delete_call]. \<not> releases (ar_id artifact0) c" by (simp add: delete_call_def releases_def)
  ultimately have "\<exists>r \<in> set (af_rows (fold artifact_step [delete_call] fdb0)). ar_id r = 6 \<and> ar_state r = ''available''"
    using legal_hold_protects [of fdb0 artifact0 "[delete_call]", OF _ _ _ _ refl] by (auto simp: artifact0_def)
  moreover have "http_status (snd (fst (serve_artifact menv0 PostDeleteMarker admin_request (auth_of mdb0) fdb0))) = 422" by code_simp
  ultimately show ?thesis by blast
qed

text \<open>
  C28. Deletion is final. An artifact that is marked as deleted is deleted after every sequence of lifecycle
  requests: no request archives it, restores it or gives it another state.
\<close>

theorem deleted_artifact_final:
  assumes "artifacts_ok d" "r \<in> set (af_rows d)" "ar_state r = ''deleted''"
  shows "\<exists>r' \<in> set (af_rows (fold artifact_step calls d)). ar_id r' = ar_id r \<and> artifact_core r' = artifact_core r \<and> ar_state r' = ''deleted''"
proof -
  let ?d = "fold artifact_step calls d"
  have "deleted_inv (ar_id r) d" using assms by (auto simp: deleted_inv_def)
  then have k: "deleted_inv (ar_id r) ?d" "map artifact_core (af_rows ?d) = map artifact_core (af_rows d)"
    using deletion_trace.trace_kept [of calls "ar_id r" d] by auto
  from k(1) obtain r' where r': "r' \<in> set (af_rows ?d)" "ar_id r' = ar_id r" "ar_state r' = ''deleted''" by (auto simp: deleted_inv_def)
  have "artifact_core r' \<in> artifact_core ` set (af_rows d)" using r'(1) arg_cong [OF k(2), of set] by auto
  then obtain q where q: "q \<in> set (af_rows d)" "artifact_core r' = artifact_core q" by auto
  then have "ar_id q = ar_id r'" by (metis artifact_core_def artifact_row.ext_inject artifact_row.surjective artifact_row.update_convs)
  then have "q = r" using q(1) r'(2) assms(1,2) by (auto simp: artifacts_ok_def distinct_map inj_on_def)
  then show ?thesis using r' q(2) by auto
qed

definition fdb1 :: artifact_db where
  "fdb1 = fdb0\<lparr>af_rows := [artifact0\<lparr>ar_metadata := None\<rparr>]\<rparr>"

theorem deleted_artifact_final_witness:
  "map ar_state (af_rows (artifact_step delete_call fdb1)) = [''deleted'']
   \<and> (\<exists>r \<in> set (af_rows (fold artifact_step [(menv0, PostRestore, admin_request, auth_of mdb0)] (artifact_step delete_call fdb1))). ar_state r = ''deleted'')"
proof -
  have s: "map ar_state (af_rows (artifact_step delete_call fdb1)) = [''deleted'']" by code_simp
  then obtain r where r: "r \<in> set (af_rows (artifact_step delete_call fdb1))" "ar_state r = ''deleted''" by auto
  have "artifacts_ok (artifact_step delete_call fdb1)" by (rule artifact_step_ok) (simp add: artifacts_ok_def fdb1_def)
  from deleted_artifact_final [OF this r] s show ?thesis by blast
qed

section \<open>Archives\<close>

text \<open>Archiving and restoring changes nothing of the metadata but the entry of the archive.\<close>

lemma archived_metadata [lifecycle]:
  "archive input r = Inr (b, a, s) \<Longrightarrow> s = ''archived'' \<and> (\<exists>v. next_metadata r a = Some (JObj (AList.update ''archive'' v (cloneMap (artifactMetadataMap (ar_metadata r))))))"
  "restore input r = Inr (b, a, s) \<Longrightarrow> s = ''available'' \<and> (\<exists>v. next_metadata r a = Some (JObj (AList.update ''archive'' v (cloneMap (artifactMetadataMap (ar_metadata r))))))"
  by (auto simp: archive_def restore_def Let_def next_metadata_def mget_def split: if_splits)

lemma decoded_object [simp]: "cloneMap (artifactMetadataMap (Some (JObj m))) = m"
  by (simp add: cloneMap_def artifactMetadataMap_def map_or_nil_def)

lemma archive_round_trip:
  assumes "archive input r = Inr (b1, a1, s1)" "r' = r\<lparr>ar_state := s1, ar_metadata := next_metadata r a1\<rparr>"
    "restore input' r' = Inr (b2, a2, s2)" "k \<noteq> ''archive''"
  shows "s2 = ''available'' \<and> mget (cloneMap (artifactMetadataMap (next_metadata r' a2))) k = mget (cloneMap (artifactMetadataMap (ar_metadata r))) k"
  using archived_metadata(1) [OF assms(1)] archived_metadata(2) [OF assms(3)] assms(2,4) by (auto simp: mget_def map_of_update)

text \<open>
  The values before a restoration are recorded with the time of the restoration in them, since they share
  the map of the archive with the values after it.
\<close>

lemma restore_changes_before:
  assumes "ar_state r = ''archived''" "ar_metadata r = Some (JObj m)" "map_of m ''archive'' = Some (JObj stored)"
  shows "\<exists>before after. restore input r = Inr (before, after, ''available'') \<and> mget before ''metadata'' = mget after ''metadata''
    \<and> jlookup (mget before ''metadata'') [Key ''archive'', Key ''restoredAt''] = Some (JStr (formatRFC3339 (al_Now input)))"
  using assms by (simp add: restore_def Let_def artifactMetadataMap_def cloneMap_def map_or_nil_def mget_def map_of_update)

text \<open>A request changes no descriptor of a tenant other than the active one of its session.\<close>

lemma lifecycle_tenant:
  "filter (\<lambda>r. ar_tenant r \<noteq> ActiveTenant actor) (af_rows (snd (updateArtifactLifecycle e request actor input action mutate d)))
   = filter (\<lambda>r. ar_tenant r \<noteq> ActiveTenant actor) (af_rows d)"
proof -
  have "filter (\<lambda>r. ar_tenant r \<noteq> ActiveTenant actor) (upd_rows (addressed actor input) (\<lambda>r. r\<lparr>ar_state := s r, ar_metadata := m, ar_updated := t\<rparr>) (af_rows d))
      = filter (\<lambda>r. ar_tenant r \<noteq> ActiveTenant actor) (af_rows d)" for s m t
    by (rule filter_upd_rows_outside) (simp add: artifact_is_def)
  then show ?thesis using lifecycle_cases [of e request actor input action mutate d] by auto
qed

end
