(* ===== verification/Spec2Isabelle.thy ===== *)
theory Spec2Isabelle
  imports RunSafety RunLeases MetadataProps SessionProps RunHandlerProps KeyProps DeliveryProps QueueDrain DestinationProps Config
    CliResults Migrations HttpMiddleware Agents IdentityAccess AccountSessions ArtifactProps
begin

text \<open>
  A verification library of the Go control-plane API under src/.

  \<^bold>\<open>The program.\<close> The API lets the users of a customer (a tenant) manage test assets in a browser, lets
  command-line clients and runners execute them, and delivers events to webhooks. A request passes the
  common middleware (internal/httpx), is routed by internal/app/router.go, and reaches a handler of
  internal/browserauth, internal/cliapi, internal/identity, internal/serviceaccounts or
  internal/legacyapikeys, which calls a repository of internal/persistence/mysql. Browser routes authenticate a session; command-line and runner routes stand
  behind the API-key middleware of internal/auth. A worker process drains the table of deliveries
  (internal/integrations), and a migration command hands the schema over from Laravel
  (internal/migrations).

  \<^bold>\<open>How code becomes definitions.\<close> A repository call is a function from an environment, its arguments and a
  database to a result and the database after it; \<open>Inl\<close> carries an error, so that every early return is a
  branch. A handler returns the reply (or what it sends, with cookies) and the state. Loops are structural
  recursion or folds; none needs fuel. Records keep the fields of the Go structs or the columns of the
  tables, with a prefix. Definitions have the names of the Go functions where Isabelle allows it; a handler
  whose name its repository call has too is called \<open>Handle\<dots>\<close> or \<open>Browser\<dots>\<close>; a definition in lower case
  with underscores is a part of a longer Go function, and the parts are composed as that function does.

  \<^bold>\<open>Theories and what they model.\<close>

  \<^item> \<open>Prelude\<close>: Go strings as byte lists with the calls of \<open>strings\<close> and \<open>strconv\<close> that the code makes, maps
    as association lists, tables as lists of rows. \<open>GoTime\<close>: instants, \<open>time.RFC3339\<close> text and its parser.
    \<open>Json\<close>: decoded JSON values, \<open>auditlog.Redact\<close> and \<open>removeSensitiveMetadata\<close> as instances of the locale
    \<open>sanitizer\<close>. \<open>Http\<close>: requests, replies, decoding of bodies into structs, error replies.
  \<^item> \<open>RunMetadata\<close>, \<open>Store\<close>, \<open>WorkerStates\<close>, \<open>ParallelRuns\<close>: the parallel-run repository
    (browser_parallel_runs.go): schedules, worker documents and their leases, claims, heartbeats, updates,
    cancellation, run tokens and worker tokens, with the metadata and matrix routines of
    browserauth/parallel_runs.go. \<open>RunHandlers\<close> and \<open>RunRoutes\<close>: its 24 handlers and their routes.
  \<^item> \<open>Sessions\<close>: log-in, log-out, sessions, tenant switches, capabilities and the sidebar
    (browserauth/handler.go and the session calls of browser_auth.go). \<open>LegacyKeys\<close>: the API-key middleware,
    its repository, and the handlers that show and rotate a key.
  \<^item> \<open>Secrets\<close>, \<open>Destinations\<close>, \<open>Deliveries\<close>, \<open>QueueDrain\<close>: Laravel's encrypted envelopes, the addresses a
    webhook may reach, the dispatcher with its store, worker loop and lease, and the gate that counts the
    jobs Laravel has left (internal/integrations and its mysql files). The default HTTP client follows
    redirects; \<open>client_do\<close> models that, so a dispatch sends up to ten requests.
  \<^item> \<open>CliApi\<close>, \<open>CliWrites\<close>: the command-line API (internal/cliapi, mysql/cli_*.go): seven reads of the
    configuration and six writes of performed cycles, tests and steps.
  \<^item> \<open>Artifacts\<close>, \<open>Config\<close>: artifact limits and the configuration of the process. \<open>Migrations\<close>: the
    reviewed baseline, its bridge and the verifications before a cutover. \<open>HttpMiddleware\<close>: correlation
    identifiers, security headers, access log and recovery of panics, over the rules of the net/http writer
    for statuses without a body, HEAD requests and connections that fail.

  \<^item> \<open>Agents\<close>: registrations of agents (browserauth/agents.go, mysql/agents.go) over the table that a claim
    consults. \<open>RawRequests\<close>: requests with the bytes of their body. \<open>ServiceAccounts\<close>: the accounts of workloads
    (internal/serviceaccounts). \<open>IdentityStore\<close>, \<open>IdentityCrypto\<close>, \<open>Identity\<close>: internal/identity with its mysql
    files: providers, break glass, SCIM, one-time passwords, workload tokens, sign-on states, signed callbacks,
    and the assembly of the handler, in which a type assertion is a test on method sets. The assertion for
    sign-on states fails, so the handler of the program, \<open>identityHandler\<close>, has no such store; the handlers
    behind it are translated over the interface, and what is proved of sign-on states is about the repository.

  \<^item> \<open>Accounts\<close>, \<open>AccountHandlers\<close>: roles, profiles, accounts, invitations and customers (browserauth/admin.go
    and the calls of browser_auth.go behind it), with the password policy, paging and the routes.
    \<open>ArtifactLifecycle\<close>: artifact descriptors of the same two files: registration, reading, legal hold, deletion
    marker, archive and restoration.

  \<^bold>\<open>What the lemmas show.\<close>

  \<^item> \<open>ParallelRunProps\<close> characterises each repository call by its effect and makes one relation \<open>run_step\<close> of
    them; \<open>RunSafety\<close> proves over all reachable states that the counters agree with the worker documents,
    that a terminal run stays terminal, that tenants do not touch each other's rows, and that a run token is
    consumed once. \<open>RunBehaviour\<close> and \<open>RunLeases\<close> describe single calls: the concurrency limit, cancellation,
    leases, heartbeats, the life of both kinds of token, idempotent creation. \<open>MetadataProps\<close> is about
    redaction, metadata, the matrix product and the text form of instants.
  \<^item> \<open>RunHandlerProps\<close> states the contract of a handler once, in the locales \<open>tenant_handler\<close> and
    \<open>row_handler\<close>, discharges it for each handler by interpretation, and concludes for all routes that a
    served request is nothing or one repository step of the tenant that the session or the key stands for.
  \<^item> \<open>SessionProps\<close>, \<open>KeyProps\<close>, \<open>SecretProps\<close>, \<open>DestinationProps\<close>, \<open>DeliveryProps\<close> prove the properties of
    the components of the same name. \<open>live_session\<close> and \<open>carries_key_of\<close> say, in terms of the rows of the
    tables and the request, when a request has a live session or the key of a customer; the properties
    about authority rest on them. \<open>DeliveryProps\<close> shows where the first request of a dispatch may go and that
    redirects are not checked, that a worker whose open deliveries can be loaded runs out of work, and that
    one delivery that cannot be loaded stops it.
  \<^item> \<open>CliProps\<close> gives the changes that a command-line request can make and their invariants; its locale
    \<open>keyed_writer\<close> is the contract of a creation under an idempotency key. \<open>CliIsolation\<close> shows that every
    operation commutes with the restriction to one customer (locale \<open>tenant_call\<close>), and \<open>CliResults\<close> puts
    these together over sequences of requests.
  \<^item> \<open>MfaProps\<close> follows an enrolled secret through base32, encryption and the database to the codes that are
    accepted, which it compares with the one-time password of RFC 4226 (\<open>hotp_reference\<close>). \<open>IdentityProps\<close>
    states what a store of one-time states promises in the locale \<open>one_time_states\<close>, interprets it on the
    mysql calls and concludes that a state is consumed once, and that the program never wires the store in;
    \<open>IdentityAccess\<close> is about signed payloads, their nonces, and the tenant that a request can change.
    \<open>ServiceAccountProps\<close> shows that revocation is final.
  \<^item> \<open>AccountProps\<close> shows what a change of accounts can reach and, through the locale \<open>guarded_trace\<close>, that no
    sequence of requests gives anyone the first role; \<open>AccountSessions\<close> puts accounts and sessions together.
    \<open>ArtifactProps\<close> interprets the same locale twice: for artifacts under legal hold and for deleted ones.
  \<^item> \<open>RunFixtures\<close> and the definitions whose names end in 0 are concrete inputs on which the theorems with
    hypotheses are instantiated.

  \<^bold>\<open>Parameters.\<close> Code outside src/ is an argument: bcrypt, SHA-256, AES, HMAC, random bytes, the JSON encoder
  and the JSON texts inside JSON strings, URL parsing and name resolution, the transport of the HTTP client,
  \<open>time.ParseDuration\<close>, the clock, and the failure of any database statement (keyed by the label that the
  code gives to \<open>safeDatabaseFailure\<close>). What a theorem relies on of them is a hypothesis with a name
  (\<open>bcrypt_law\<close>, \<open>crypto_law\<close>, \<open>key_bcrypt_law\<close>, \<open>gcm_law\<close>, \<open>sha1_law\<close>), and its witness instantiates it.

  \<^bold>\<open>Assumptions of the model.\<close>

  \<^item> A transaction that fails, or does not commit, leaves the database as it was; a statement outside a
    transaction is atomic. Strings compare bytewise in SQL, except
    where account administration compares text columns, whose collation is a parameter. A JSON column holds the parsed document. A
    timestamp column keeps \<open>column_time\<close> of an instant. Identifiers come from counters without gaps. The unique
    keys are those of smoke/schema.sql and, for result keys, of docs/operations/cli-result-idempotency.md.
  \<^item> Identifiers and counters are unbounded integers where the code only compares and copies them; durations
    and lifetimes that the code multiplies or adds wrap at 64 bits (\<open>wrap64\<close>).
  \<^item> Bodies are given as \<open>encoding/json\<close> finds them (datatypes \<open>body\<close> and \<open>cli_body\<close>); numbers of JSON
    documents beyond \<open>2 ^ 53\<close> are carried by their text. \<open>strings.ToLower\<close> and \<open>strings.EqualFold\<close> are exact for
    what the code compares them with.
  \<^item> The optional interfaces that a handler asks its repository for are those the mysql repository has.

  \<^bold>\<open>Not modelled.\<close> The handlers and repositories of platform catalogues (internal/platforms), and of browser
  administration (browserauth/admin.go with its mysql files) the parts on assets, results,
  environments, integrations and audit events, of which only the helpers and the break-glass calls are
  translated. Signals, listeners, health probes, build identity and the \<open>main\<close> functions are input and output
  around the modelled code; the OpenAPI route table is generated.
\<close>

end
